(* ===== verification/Prelude.thy ===== *)
theory Prelude
  imports Main
begin

text \<open>
  What every component of the development shares.

  \<^item> Errors and effects. The in-browser backend of \<^verbatim>\<open>src/frontend/src/demo\<close> keeps its data in one
    mutable object and reports failures by throwing; nothing is rolled back when it throws. An
    operation is a function from the state to a result and the state that is left behind, where the
    result is an error (\<open>Inl\<close>) or a value (\<open>Inr\<close>). The state after an error is the state at the
    throw, partial writes included.
  \<^item> Triples. \<open>triple P m Q E\<close>: from a state with \<open>P\<close>, a normal return satisfies \<open>Q\<close> and a throw
    \<open>E\<close>. \<open>preserves I m\<close> is the case where both are \<open>I\<close>. The rules are syntax directed and collected
    in \<open>wp_rules\<close>, so that an invariant of a handler is proved by walking its body.
  \<^item> Collections. A JavaScript array of objects with an \<open>id\<close>, read by \<open>find\<close> and mutated through the
    reference found. The locale \<open>collection\<close> states what a state component of that kind promises,
    and its clients' lemmas are proved there once.
\<close>

section \<open>Collections of theorems\<close>

named_theorems op_simps "unfolding of the primitive operations"
named_theorems wp_rules "syntax-directed rules for triples and preservation"
named_theorems read_rules "operations that only read"
named_theorems safe_rules "operations that never throw"
named_theorems atomic_rules "operations that leave the state alone when they throw"

section \<open>Operations that may throw\<close>

datatype js_error = Error string

type_synonym ('s, 'a) op = "'s \<Rightarrow> (js_error + 'a) \<times> 's"

definition ret :: "'a \<Rightarrow> ('s, 'a) op" where
  "ret x s = (Inr x, s)"

definition throw :: "string \<Rightarrow> ('s, 'a) op" where
  "throw msg s = (Inl (Error msg), s)"

definition gets :: "('s \<Rightarrow> 'a) \<Rightarrow> ('s, 'a) op" where
  "gets f s = (Inr (f s), s)"

definition modify :: "('s \<Rightarrow> 's) \<Rightarrow> ('s, unit) op" where
  "modify f s = (Inr (), f s)"

definition bindE :: "('s, 'a) op \<Rightarrow> ('a \<Rightarrow> ('s, 'b) op) \<Rightarrow> ('s, 'b) op" where
  "bindE m k s = (case m s of (Inl e, s') \<Rightarrow> (Inl e, s') | (Inr x, s') \<Rightarrow> k x s')"

text \<open>\<open>if (c) throw new Error(msg);\<close>\<close>

definition throw_if :: "bool \<Rightarrow> string \<Rightarrow> ('s, unit) op" where
  "throw_if c msg = (if c then throw msg else ret ())"

text \<open>\<open>const x = o; if (!x) throw new Error(msg);\<close>\<close>

definition the_or_throw :: "'a option \<Rightarrow> string \<Rightarrow> ('s, 'a) op" where
  "the_or_throw x msg = (case x of None \<Rightarrow> throw msg | Some v \<Rightarrow> ret v)"

text \<open>\<open>for (const x of xs) out.push(body(x))\<close>: the first throw ends the loop.\<close>

primrec forE :: "('a \<Rightarrow> ('s, 'b) op) \<Rightarrow> 'a list \<Rightarrow> ('s, 'b list) op" where
  "forE f [] = ret []"
| "forE f (x # xs) = bindE (f x) (\<lambda>y. bindE (forE f xs) (\<lambda>ys. ret (y # ys)))"

lemma ret_apply [simp, op_simps]: "ret x s = (Inr x, s)"
  by (simp add: ret_def)

lemma throw_apply [simp, op_simps]: "throw msg s = (Inl (Error msg), s)"
  by (simp add: throw_def)

lemma gets_apply [simp, op_simps]: "gets f s = (Inr (f s), s)"
  by (simp add: gets_def)

lemma modify_apply [simp, op_simps]: "modify f s = (Inr (), f s)"
  by (simp add: modify_def)

lemma bindE_ret [simp, op_simps]: "bindE (ret x) k = k x"
  by (rule ext) (simp add: bindE_def)

lemma bindE_throw [simp, op_simps]: "bindE (throw msg) k = throw msg"
  by (rule ext) (simp add: bindE_def)

lemma bindE_Pair [simp, op_simps]:
  "bindE (Pair (Inr x)) k = k x"
  "bindE (Pair (Inl e)) k = Pair (Inl e)"
  by (rule ext, simp add: bindE_def)+

lemma bindE_gets_apply [simp, op_simps]: "bindE (gets f) k s = k (f s) s"
  by (simp add: bindE_def)

lemma bindE_modify_apply [simp, op_simps]: "bindE (modify f) k s = k () (f s)"
  by (simp add: bindE_def)

lemma bindE_assoc: "bindE (bindE m k) l = bindE m (\<lambda>x. bindE (k x) l)"
  by (rule ext) (simp add: bindE_def split: prod.splits sum.splits)

lemma throw_if_simps [simp, op_simps]:
  "throw_if True msg = throw msg"
  "throw_if False msg = ret ()"
  by (simp_all add: throw_if_def)

lemma bindE_throw_if_apply:
  "bindE (throw_if c msg) k s = (if c then (Inl (Error msg), s) else k () s)"
  by (cases c) simp_all

lemma the_or_throw_simps [simp, op_simps]:
  "the_or_throw None msg = throw msg"
  "the_or_throw (Some v) msg = ret v"
  by (simp_all add: the_or_throw_def)

lemma bindE_Inr:
  "bindE m k s = (Inr y, t) \<longleftrightarrow> (\<exists>x s'. m s = (Inr x, s') \<and> k x s' = (Inr y, t))"
  by (auto simp: bindE_def split: prod.splits sum.splits)

lemma bindE_eq_Inl:
  "m s = (Inl e, s') \<Longrightarrow> bindE m k s = (Inl e, s')"
  by (simp add: bindE_def)

lemma bindE_eq_Inr:
  "m s = (Inr x, s') \<Longrightarrow> bindE m k s = k x s'"
  by (simp add: bindE_def)

lemma throw_if_Inr: "throw_if c msg s = (Inr u, t) \<longleftrightarrow> \<not> c \<and> t = s"
  by (cases c) auto

lemma the_or_throw_Inr: "the_or_throw x msg s = (Inr v, t) \<longleftrightarrow> x = Some v \<and> t = s"
  by (cases x) auto

lemmas success_simps = bindE_Inr throw_if_Inr the_or_throw_Inr

section \<open>Triples\<close>

definition triple ::
  "('s \<Rightarrow> bool) \<Rightarrow> ('s, 'a) op \<Rightarrow> ('a \<Rightarrow> 's \<Rightarrow> bool) \<Rightarrow> ('s \<Rightarrow> bool) \<Rightarrow> bool" where
  "triple P m Q E \<longleftrightarrow>
     (\<forall>s. P s \<longrightarrow> (case m s of (Inl e, s') \<Rightarrow> E s' | (Inr x, s') \<Rightarrow> Q x s'))"

definition preserves :: "('s \<Rightarrow> bool) \<Rightarrow> ('s, 'a) op \<Rightarrow> bool" where
  "preserves I m \<longleftrightarrow> triple I m (\<lambda>_. I) I"

lemma tripleI:
  assumes "\<And>s e s'. P s \<Longrightarrow> m s = (Inl e, s') \<Longrightarrow> E s'"
    and "\<And>s x s'. P s \<Longrightarrow> m s = (Inr x, s') \<Longrightarrow> Q x s'"
  shows "triple P m Q E"
  using assms by (auto simp: triple_def split: prod.splits sum.splits)

lemma triple_Inr: "triple P m Q E \<Longrightarrow> P s \<Longrightarrow> m s = (Inr x, s') \<Longrightarrow> Q x s'"
  by (auto simp: triple_def split: prod.splits)

lemma triple_Inl: "triple P m Q E \<Longrightarrow> P s \<Longrightarrow> m s = (Inl e, s') \<Longrightarrow> E s'"
  by (auto simp: triple_def split: prod.splits)

lemma triple_bind:
  assumes "triple P m R E" and "\<And>x. triple (R x) (k x) Q E"
  shows "triple P (bindE m k) Q E"
  using assms unfolding triple_def bindE_def
  by (fastforce split: prod.splits sum.splits)

lemma triple_conseq:
  assumes "triple P' m Q' E'" and "\<And>s. P s \<Longrightarrow> P' s"
    and "\<And>x s. Q' x s \<Longrightarrow> Q x s" and "\<And>s. E' s \<Longrightarrow> E s"
  shows "triple P m Q E"
  using assms unfolding triple_def by (fastforce split: prod.splits sum.splits)

lemma preserves_iff: "preserves I m \<longleftrightarrow> (\<forall>s. I s \<longrightarrow> I (snd (m s)))"
  by (simp add: preserves_def triple_def split_beta split: sum.splits)

lemma preservesD: "preserves I m \<Longrightarrow> I s \<Longrightarrow> I (snd (m s))"
  by (simp add: preserves_iff)

lemma preservesD2: "preserves I m \<Longrightarrow> I s \<Longrightarrow> m s = (r, t) \<Longrightarrow> I t"
  using preservesD by fastforce

lemma preserves_ret [wp_rules]: "preserves I (ret x)"
  by (simp add: preserves_iff)

lemma preserves_throw [wp_rules]: "preserves I (throw msg)"
  by (simp add: preserves_iff)

lemma preserves_gets [wp_rules]: "preserves I (gets f)"
  by (simp add: preserves_iff)

lemma preserves_modify: "(\<And>s. I s \<Longrightarrow> I (f s)) \<Longrightarrow> preserves I (modify f)"
  by (simp add: preserves_iff)

lemma preserves_throw_if [wp_rules]: "preserves I (throw_if c msg)"
  by (simp add: throw_if_def preserves_iff)

lemma preserves_the_or_throw [wp_rules]: "preserves I (the_or_throw x msg)"
  by (cases x) (simp_all add: preserves_iff)

lemma preserves_bind [wp_rules]:
  "preserves I m \<Longrightarrow> (\<And>x. preserves I (k x)) \<Longrightarrow> preserves I (bindE m k)"
  unfolding preserves_def by (rule triple_bind)

lemma preserves_if [wp_rules]:
  "(c \<Longrightarrow> preserves I m) \<Longrightarrow> (\<not> c \<Longrightarrow> preserves I n) \<Longrightarrow> preserves I (if c then m else n)"
  by simp

lemma preserves_case_option [wp_rules]:
  "preserves I m \<Longrightarrow> (\<And>x. preserves I (k x)) \<Longrightarrow>
     preserves I (case c of None \<Rightarrow> m | Some x \<Rightarrow> k x)"
  by (cases c) simp_all

lemma preserves_let [wp_rules]: "(\<And>x. preserves I (k x)) \<Longrightarrow> preserves I (Let v k)"
  by simp

lemma preserves_case_prod [wp_rules]:
  "(\<And>x y. preserves I (k x y)) \<Longrightarrow> preserves I (case p of (x, y) \<Rightarrow> k x y)"
  by (cases p) simp

lemma preserves_forE [wp_rules]:
  "(\<And>x. preserves I (f x)) \<Longrightarrow> preserves I (forE f xs)"
  by (induction xs) (auto intro: wp_rules)

lemma forE_ret: "forE (\<lambda>x. ret (g x)) xs = ret (map g xs)"
  by (induction xs) simp_all

lemma forE_throw_if:
  "forE (\<lambda>x. throw_if (c x) msg) xs s =
     (if \<exists>x \<in> set xs. c x then (Inl (Error msg), s) else (Inr (map (\<lambda>_. ()) xs), s))"
  by (induction xs) (simp_all add: bindE_throw_if_apply bindE_def throw_if_def)

section \<open>Reading, not throwing, failing without a trace\<close>

text \<open>
  Most operations of the program check first and write afterwards. An operation that only reads
  leaves the state alone, one that is safe never throws, and one that is atomic leaves the state as it
  was when it throws. The rules are tried in the order of the collections.
\<close>

definition reads :: "('s, 'a) op \<Rightarrow> bool" where
  "reads m \<longleftrightarrow> (\<forall>s. snd (m s) = s)"

definition safe :: "('s, 'a) op \<Rightarrow> bool" where
  "safe m \<longleftrightarrow> (\<forall>s. \<exists>x t. m s = (Inr x, t))"

definition atomic :: "('s, 'a) op \<Rightarrow> bool" where
  "atomic m \<longleftrightarrow> (\<forall>s e t. m s = (Inl e, t) \<longrightarrow> t = s)"

lemma readsD: "reads m \<Longrightarrow> m s = (r, t) \<Longrightarrow> t = s"
  unfolding reads_def by (metis snd_conv)

lemma atomicD: "atomic m \<Longrightarrow> m s = (Inl e, t) \<Longrightarrow> t = s"
  unfolding atomic_def by blast

lemma reads_ret [read_rules]: "reads (ret x)"
  and reads_throw [read_rules]: "reads (throw msg)"
  and reads_gets [read_rules]: "reads (gets f)"
  and reads_throw_if [read_rules]: "reads (throw_if c msg)"
  by (simp_all add: reads_def throw_if_def)

lemma reads_the_or_throw [read_rules]: "reads (the_or_throw x msg)"
  by (cases x) (simp_all add: reads_def)

lemma reads_bind [read_rules]: "reads m \<Longrightarrow> (\<And>x. reads (k x)) \<Longrightarrow> reads (bindE m k)"
  unfolding reads_def bindE_def by (simp add: split_beta split: sum.split)

lemma reads_if [read_rules]: "reads m \<Longrightarrow> reads n \<Longrightarrow> reads (if c then m else n)"
  by simp

lemma reads_let [read_rules]: "(\<And>x. reads (k x)) \<Longrightarrow> reads (Let v k)"
  by simp

lemma reads_case_option [read_rules]:
  "reads m \<Longrightarrow> (\<And>x. reads (k x)) \<Longrightarrow> reads (case c of None \<Rightarrow> m | Some x \<Rightarrow> k x)"
  by (cases c) simp_all

lemma reads_forE [read_rules]: "(\<And>x. reads (f x)) \<Longrightarrow> reads (forE f xs)"
  by (induction xs) (auto intro: read_rules)

lemma safe_ret [safe_rules]: "safe (ret x)"
  and safe_gets [safe_rules]: "safe (gets f)"
  and safe_modify [safe_rules]: "safe (modify g)"
  by (simp_all add: safe_def)

lemma safe_bind [safe_rules]: "safe m \<Longrightarrow> (\<And>x. safe (k x)) \<Longrightarrow> safe (bindE m k)"
  unfolding safe_def bindE_def by (metis (mono_tags, lifting) case_prod_conv sum.case(2))

lemma safe_forE [safe_rules]: "(\<And>x. safe (f x)) \<Longrightarrow> safe (forE f xs)"
  by (induction xs) (auto intro: safe_rules)

lemma safe_let [safe_rules]: "(\<And>x. safe (k x)) \<Longrightarrow> safe (Let v k)"
  by simp

lemma atomic_reads: "reads m \<Longrightarrow> atomic m"
  unfolding atomic_def by (blast dest: readsD)

lemma atomic_safe: "safe m \<Longrightarrow> atomic m"
  unfolding safe_def atomic_def by (metis Inl_Inr_False prod.inject)

lemma atomic_read_bind: "reads m \<Longrightarrow> (\<And>x. atomic (k x)) \<Longrightarrow> atomic (bindE m k)"
  unfolding atomic_def
proof (intro allI impI)
  fix s e t
  assume m: "reads m" and k: "\<And>x. \<forall>s e t. k x s = (Inl e, t) \<longrightarrow> t = s"
    and e: "bindE m k s = (Inl e, t)"
  obtain r s' where r: "m s = (r, s')" by (cases "m s")
  with m have "s' = s" by (rule readsD)
  with e r k show "t = s"
    by (cases r) (auto simp: bindE_def)
qed

lemma atomic_bind_safe: "atomic m \<Longrightarrow> (\<And>x. safe (k x)) \<Longrightarrow> atomic (bindE m k)"
  unfolding atomic_def
proof (intro allI impI)
  fix s e t
  assume m: "\<forall>s e t. m s = (Inl e, t) \<longrightarrow> t = s" and k: "\<And>x. safe (k x)"
    and e: "bindE m k s = (Inl e, t)"
  obtain r s' where r: "m s = (r, s')" by (cases "m s")
  show "t = s"
  proof (cases r)
    case (Inl a)
    then show ?thesis using e r m by (simp add: bindE_def)
  next
    case (Inr x)
    then have "k x s' = (Inl e, t)" using e r by (simp add: bindE_def)
    then show ?thesis using k [of x] unfolding safe_def by (metis Inl_Inr_False prod.inject)
  qed
qed

lemma atomic_if: "atomic m \<Longrightarrow> atomic n \<Longrightarrow> atomic (if c then m else n)"
  by simp

lemma atomic_let: "(\<And>x. atomic (k x)) \<Longrightarrow> atomic (Let v k)"
  by simp

lemma atomic_case_option:
  "atomic m \<Longrightarrow> (\<And>x. atomic (k x)) \<Longrightarrow> atomic (case c of None \<Rightarrow> m | Some x \<Rightarrow> k x)"
  by (cases c) simp_all

section \<open>Arrays of objects with an id\<close>

text \<open>\<open>xs.find((e) => e.id === i)\<close>, and a mutation through the reference it returns.\<close>

definition find_id :: "('e \<Rightarrow> 'k) \<Rightarrow> 'k \<Rightarrow> 'e list \<Rightarrow> 'e option" where
  "find_id key i xs = List.find (\<lambda>e. key e = i) xs"

primrec upd_id :: "('e \<Rightarrow> 'k) \<Rightarrow> 'k \<Rightarrow> ('e \<Rightarrow> 'e) \<Rightarrow> 'e list \<Rightarrow> 'e list" where
  "upd_id key i f [] = []"
| "upd_id key i f (x # xs) = (if key x = i then f x # xs else x # upd_id key i f xs)"

text \<open>\<open>for (const e of xs.filter(p)) f(e)\<close>, where \<open>f\<close> mutates \<open>e\<close> only.\<close>

definition upd_where :: "('e \<Rightarrow> bool) \<Rightarrow> ('e \<Rightarrow> 'e) \<Rightarrow> 'e list \<Rightarrow> 'e list" where
  "upd_where p f xs = map (\<lambda>e. if p e then f e else e) xs"

definition keeps_key :: "('e \<Rightarrow> 'k) \<Rightarrow> ('e \<Rightarrow> 'e) \<Rightarrow> bool" where
  "keeps_key key f \<longleftrightarrow> (\<forall>e. key (f e) = key e)"

lemma keeps_keyD [simp]: "keeps_key key f \<Longrightarrow> key (f e) = key e"
  by (simp add: keeps_key_def)

lemma find_id_Nil [simp]: "find_id key i [] = None"
  by (simp add: find_id_def)

lemma find_id_Cons [simp]:
  "find_id key i (x # xs) = (if key x = i then Some x else find_id key i xs)"
  by (simp add: find_id_def)

lemma find_id_append:
  "find_id key i (xs @ ys) = (case find_id key i xs of None \<Rightarrow> find_id key i ys | Some e \<Rightarrow> Some e)"
  by (induction xs) auto

lemma find_SomeD: "List.find P xs = Some x \<Longrightarrow> x \<in> set xs \<and> P x"
  by (induction xs) (auto split: if_splits)

lemma find_id_SomeD: "find_id key i xs = Some e \<Longrightarrow> e \<in> set xs \<and> key e = i"
  by (induction xs) (auto split: if_splits)

lemma find_id_None: "find_id key i xs = None \<longleftrightarrow> i \<notin> key ` set xs"
  by (induction xs) auto

lemma find_id_distinct:
  "distinct (map key xs) \<Longrightarrow> e \<in> set xs \<Longrightarrow> find_id key (key e) xs = Some e"
  by (induction xs) (auto simp: rev_image_eqI)

lemma upd_id_keys [simp]: "keeps_key key f \<Longrightarrow> map key (upd_id key i f xs) = map key xs"
  by (induction xs) auto

lemma upd_id_key_set [simp]: "keeps_key key f \<Longrightarrow> key ` set (upd_id key i f xs) = key ` set xs"
  by (metis list.set_map upd_id_keys)

lemma upd_id_length [simp]: "length (upd_id key i f xs) = length xs"
  by (induction xs) auto

lemma find_id_upd_id:
  "keeps_key key f \<Longrightarrow>
     find_id key j (upd_id key i f xs) =
       (if j = i then map_option f (find_id key j xs) else find_id key j xs)"
  by (induction xs) auto

lemma set_upd_idD: "e \<in> set (upd_id key i f xs) \<Longrightarrow> e \<in> set xs \<or> (\<exists>x \<in> set xs. key x = i \<and> e = f x)"
  by (induction xs) (auto split: if_splits)

lemma upd_id_absent: "find_id key i xs = None \<Longrightarrow> upd_id key i f xs = xs"
  by (induction xs) (auto split: if_splits)

lemma upd_id_distinct:
  "distinct (map key xs) \<Longrightarrow> upd_id key i f xs = map (\<lambda>e. if key e = i then f e else e) xs"
proof (induction xs)
  case (Cons x xs)
  have "key x = i \<Longrightarrow> map (\<lambda>e. if key e = i then f e else e) xs = xs"
    using Cons.prems by (intro map_idI) (auto simp: rev_image_eqI)
  with Cons show ?case by simp
qed simp

text \<open>Writing back an object that was read and changed: the object with the same key is replaced.\<close>

definition put_id :: "('e \<Rightarrow> 'k) \<Rightarrow> 'e \<Rightarrow> 'e list \<Rightarrow> 'e list" where
  "put_id key x = upd_id key (key x) (\<lambda>_. x)"

lemma put_id_keys [simp]: "map key (put_id key x xs) = map key xs"
  unfolding put_id_def by (induction xs) auto

lemma put_id_key_set [simp]: "key ` set (put_id key x xs) = key ` set xs"
  by (metis list.set_map put_id_keys)

lemma find_id_put_id:
  "find_id key j (put_id key x xs) =
     (if j = key x then map_option (\<lambda>_. x) (find_id key j xs) else find_id key j xs)"
  unfolding put_id_def by (induction xs) auto

lemma set_put_idD: "e \<in> set (put_id key x xs) \<Longrightarrow> e \<in> set xs \<or> e = x"
  unfolding put_id_def by (induction xs) (auto split: if_splits)

lemma put_id_same: "find_id key (key x) xs = Some x \<Longrightarrow> put_id key x xs = xs"
  unfolding put_id_def by (induction xs) (auto split: if_splits)

lemma put_id_absent: "find_id key (key x) xs = None \<Longrightarrow> put_id key x xs = xs"
  unfolding put_id_def by (rule upd_id_absent)

lemma upd_where_keys [simp]: "keeps_key key f \<Longrightarrow> map key (upd_where p f xs) = map key xs"
  by (simp add: upd_where_def)

lemma upd_where_key_set [simp]: "keeps_key key f \<Longrightarrow> key ` set (upd_where p f xs) = key ` set xs"
  by (metis list.set_map upd_where_keys)

lemma find_id_upd_where:
  "keeps_key key f \<Longrightarrow>
     find_id key j (upd_where p f xs) = map_option (\<lambda>e. if p e then f e else e) (find_id key j xs)"
  by (induction xs) (auto simp: upd_where_def)

lemma in_set_upd_where: "e \<in> set (upd_where p f xs) \<longleftrightarrow> (\<exists>x \<in> set xs. e = (if p x then f x else x))"
  by (auto simp: upd_where_def)

lemma find_id_filter_id:
  "find_id key j (filter (\<lambda>e. key e \<noteq> i) xs) = (if j = i then None else find_id key j xs)"
  by (induction xs) auto

subsection \<open>The contract of a collection of the state\<close>

text \<open>
  A component \<open>items\<close> of a state \<open>'s\<close> that holds objects with a key, and its update. The provider
  promises that the update is the update of that component; the client gets lookup-after-update
  facts about the whole state.
\<close>

locale collection =
  fixes key :: "'e \<Rightarrow> 'k"
    and items :: "'s \<Rightarrow> 'e list"
    and put :: "('e list \<Rightarrow> 'e list) \<Rightarrow> 's \<Rightarrow> 's"
  assumes items_put: "items (put f s) = f (items s)"
    and put_put: "put f (put g s) = put (\<lambda>xs. f (g xs)) s"
begin

lemma lookup_upd:
  "keeps_key key f \<Longrightarrow>
     find_id key j (items (put (upd_id key i f) s)) =
       (if j = i then map_option f (find_id key j (items s)) else find_id key j (items s))"
  by (simp add: items_put find_id_upd_id)

lemma lookup_upd_where:
  "keeps_key key f \<Longrightarrow>
     find_id key j (items (put (upd_where p f) s)) =
       map_option (\<lambda>e. if p e then f e else e) (find_id key j (items s))"
  by (simp add: items_put find_id_upd_where)

lemma lookup_push:
  "find_id key j (items (put (\<lambda>xs. xs @ [e]) s)) =
     (case find_id key j (items s) of None \<Rightarrow> if key e = j then Some e else None | Some x \<Rightarrow> Some x)"
  by (simp add: items_put find_id_append split: option.split)

lemma lookup_remove:
  "find_id key j (items (put (filter (\<lambda>e. key e \<noteq> i)) s)) =
     (if j = i then None else find_id key j (items s))"
  by (simp add: items_put find_id_filter_id)

lemma keys_upd: "keeps_key key f \<Longrightarrow> map key (items (put (upd_id key i f) s)) = map key (items s)"
  by (simp add: items_put)

lemma keys_upd_where:
  "keeps_key key f \<Longrightarrow> map key (items (put (upd_where p f) s)) = map key (items s)"
  by (simp add: items_put)

lemma keys_push: "map key (items (put (\<lambda>xs. xs @ [e]) s)) = map key (items s) @ [key e]"
  by (simp add: items_put)

lemma distinct_push:
  "distinct (map key (items s)) \<Longrightarrow>
     distinct (map key (items (put (\<lambda>xs. xs @ [e]) s))) \<longleftrightarrow> find_id key (key e) (items s) = None"
  by (auto simp: items_put find_id_None)

end

section \<open>Normalisers\<close>

text \<open>
  Several routines bring data into a canonical form and are applied again whenever the data is
  written (\<open>normaliseTypeOptInFields\<close>, \<open>applyIncludedSupportDefaults\<close>, \<open>syncInvoiceNumbers\<close>). Their
  contract: the result is canonical, and canonical data is left alone.
\<close>

locale normaliser =
  fixes norm :: "'a \<Rightarrow> 'a"
    and canonical :: "'a \<Rightarrow> bool"
  assumes canonical_norm: "canonical (norm x)"
    and norm_canonical: "canonical x \<Longrightarrow> norm x = x"
begin

lemma idem: "norm (norm x) = norm x"
  by (simp add: canonical_norm norm_canonical)

lemma canonical_iff: "canonical x \<longleftrightarrow> norm x = x"
  by (metis canonical_norm norm_canonical)

lemma canonical_range: "Collect canonical = range norm"
  by (auto simp: canonical_norm intro: rev_image_eqI norm_canonical [symmetric])

end

text \<open>As a rewrite rule \<open>keeps_keyD\<close> matches every application; the components name their key.\<close>

declare keeps_keyD [simp del]

end
