(* ===== verification/JsString.thy ===== *)
theory JsString
  imports Prelude "HOL-Library.Char_ord" "HOL-Library.List_Lexorder"
begin

text \<open>
  What the source uses of JavaScript strings. A string is a HOL \<open>string\<close> read as UTF-8; the case
  mappings and the white space are those of ASCII, which is the text the source compares (PO
  numbers, currencies, license types, e-mail addresses). A nullable string is a \<open>string option\<close>:
  \<open>None\<close> stands for \<open>null\<close> and \<open>undefined\<close>, which the source tests with \<open>== null\<close>, \<open>??\<close> and
  truthiness only.
\<close>

section \<open>Nullable strings\<close>

type_synonym jstr = "string option"

text \<open>Truthiness of a string value: neither nullish nor empty.\<close>

definition truthy :: "jstr \<Rightarrow> bool" where
  "truthy x \<longleftrightarrow> (case x of None \<Rightarrow> False | Some s \<Rightarrow> s \<noteq> [])"

text \<open>\<open>a || b\<close> and \<open>a ?? b\<close>.\<close>

definition or_else :: "jstr \<Rightarrow> jstr \<Rightarrow> jstr" where
  "or_else a b = (if truthy a then a else b)"

definition nullish :: "'a option \<Rightarrow> 'a option \<Rightarrow> 'a option" where
  "nullish a b = (case a of None \<Rightarrow> b | Some x \<Rightarrow> Some x)"

text \<open>\<open>String(value ?? "")\<close>.\<close>

definition str :: "jstr \<Rightarrow> string" where
  "str x = (case x of None \<Rightarrow> [] | Some s \<Rightarrow> s)"

lemma truthy_simps [simp]:
  "truthy None = False" "truthy (Some s) = (s \<noteq> [])"
  by (simp_all add: truthy_def)

lemma or_else_simps [simp]:
  "or_else None b = b" "or_else (Some []) b = b" "s \<noteq> [] \<Longrightarrow> or_else (Some s) b = Some s"
  by (simp_all add: or_else_def)

lemma or_else_truthy: "truthy (or_else a b) \<longleftrightarrow> truthy a \<or> truthy b"
  by (simp add: or_else_def)

lemma nullish_simps [simp]: "nullish None b = b" "nullish (Some x) b = Some x"
  by (simp_all add: nullish_def)

lemma nullish_None_iff: "nullish a b = None \<longleftrightarrow> a = None \<and> b = None"
  by (cases a) simp_all

lemma str_simps [simp]: "str None = []" "str (Some s) = s"
  by (simp_all add: str_def)

section \<open>White space and case\<close>

definition code :: "char \<Rightarrow> int" where
  "code c = of_char c"

definition is_ws :: "char \<Rightarrow> bool" where
  "is_ws c \<longleftrightarrow> code c = 32 \<or> (9 \<le> code c \<and> code c \<le> 13)"

definition is_digit :: "char \<Rightarrow> bool" where
  "is_digit c \<longleftrightarrow> 48 \<le> code c \<and> code c \<le> 57"

definition trim :: "string \<Rightarrow> string" where
  "trim s = rev (dropWhile is_ws (rev (dropWhile is_ws s)))"

definition lower_char :: "char \<Rightarrow> char" where
  "lower_char c = (if 65 \<le> code c \<and> code c \<le> 90 then char_of (code c + 32 :: int) else c)"

definition upper_char :: "char \<Rightarrow> char" where
  "upper_char c = (if 97 \<le> code c \<and> code c \<le> 122 then char_of (code c - 32 :: int) else c)"

definition to_lower :: "string \<Rightarrow> string" where
  "to_lower s = map lower_char s"

definition to_upper :: "string \<Rightarrow> string" where
  "to_upper s = map upper_char s"

text \<open>\<open>s.replace(/\s+/g, " ")\<close>: every run of white space becomes one blank.\<close>

function collapse_ws :: "string \<Rightarrow> string" where
  "collapse_ws [] = []"
| "collapse_ws (c # cs) =
     (if is_ws c then CHR '' '' # collapse_ws (dropWhile is_ws cs) else c # collapse_ws cs)"
  by pat_completeness auto
termination
  by (relation "measure length") (auto simp: less_Suc_eq_le length_dropWhile_le)

lemma code_char_of [simp]: "0 \<le> n \<Longrightarrow> n < 256 \<Longrightarrow> code (char_of n) = n"
  by (simp add: code_def)

lemma code_nat: "code c = int (of_char c)"
  unfolding code_def by (rule of_nat_of_char [symmetric])

lemma code_less: "0 \<le> code c" "code c < 256"
  using nat_of_char_less_256 [of c] by (simp_all add: code_nat)

lemma lower_char_idem [simp]: "lower_char (lower_char c) = lower_char c"
  using code_less [of c] by (simp add: lower_char_def)

lemma upper_char_idem [simp]: "upper_char (upper_char c) = upper_char c"
  using code_less [of c] by (auto simp: upper_char_def)

lemma to_lower_idem [simp]: "to_lower (to_lower s) = to_lower s"
  by (simp add: to_lower_def)

lemma to_upper_idem [simp]: "to_upper (to_upper s) = to_upper s"
  by (simp add: to_upper_def)

lemma is_ws_lower [simp]: "is_ws (lower_char c) = is_ws c"
  using code_less [of c] by (auto simp: lower_char_def is_ws_def)

lemma is_ws_upper [simp]: "is_ws (upper_char c) = is_ws c"
  using code_less [of c] by (auto simp: upper_char_def is_ws_def)

lemma dropWhile_ws_map:
  "(\<And>c. is_ws (f c) = is_ws c) \<Longrightarrow> dropWhile is_ws (map f s) = map f (dropWhile is_ws s)"
  by (induction s) auto

lemma trim_to_lower: "trim (to_lower s) = to_lower (trim s)"
  by (simp add: trim_def to_lower_def dropWhile_ws_map rev_map)

lemma trim_to_upper: "trim (to_upper s) = to_upper (trim s)"
  by (simp add: trim_def to_upper_def dropWhile_ws_map rev_map)

lemma dropWhile_snoc_drop:
  "(s \<noteq> [] \<Longrightarrow> \<not> p (hd s)) \<Longrightarrow> dropWhile p s = s"
  by (cases s) auto

lemma hd_dropWhile_not: "dropWhile p s \<noteq> [] \<Longrightarrow> \<not> p (hd (dropWhile p s))"
  by (induction s) auto

lemma trim_hd: "trim s \<noteq> [] \<Longrightarrow> \<not> is_ws (hd (trim s))"
proof -
  assume ne: "trim s \<noteq> []"
  define a where "a = dropWhile is_ws s"
  obtain ys where a: "a = rev (dropWhile is_ws (rev a)) @ ys"
    by (metis rev_append rev_rev_ident takeWhile_dropWhile_id)
  from ne have "hd (trim s) = hd a"
    by (metis a a_def hd_append2 trim_def)
  moreover have "a \<noteq> []"
    using ne a_def trim_def by fastforce
  ultimately show ?thesis
    using hd_dropWhile_not [of is_ws s] by (simp add: a_def)
qed

lemma trim_last: "trim s \<noteq> [] \<Longrightarrow> \<not> is_ws (last (trim s))"
  unfolding trim_def using hd_dropWhile_not [of is_ws "rev (dropWhile is_ws s)"]
  by (simp add: last_rev)

lemma trim_fixed: "(s \<noteq> [] \<Longrightarrow> \<not> is_ws (hd s) \<and> \<not> is_ws (last s)) \<Longrightarrow> trim s = s"
  by (cases "s = []") (simp_all add: trim_def dropWhile_snoc_drop hd_rev)

lemma trim_idem [simp]: "trim (trim s) = trim s"
  by (rule trim_fixed) (simp add: trim_hd trim_last)

lemma trim_Nil [simp]: "trim [] = []"
  by (simp add: trim_def)

section \<open>Decimal digits\<close>

text \<open>Non-negative integers as digit strings; integers stay binary so that terms evaluate.\<close>

definition digit_char :: "int \<Rightarrow> char" where
  "digit_char d = char_of (48 + d)"

definition digit_val :: "char \<Rightarrow> int" where
  "digit_val c = code c - 48"

function show_digits :: "int \<Rightarrow> string" where
  "show_digits n = (if n < 10 then [digit_char n] else show_digits (n div 10) @ [digit_char (n mod 10)])"
  by pat_completeness auto
termination
  by (relation "measure nat") auto

declare show_digits.simps [simp del]

definition show_int :: "int \<Rightarrow> string" where
  "show_int i = (if i < 0 then CHR ''-'' # show_digits (- i) else show_digits i)"

definition digits_value :: "string \<Rightarrow> int" where
  "digits_value s = foldl (\<lambda>n c. 10 * n + digit_val c) 0 s"

text \<open>\<open>s.padStart(n, c)\<close> for a one-character filler.\<close>

definition pad_start :: "nat \<Rightarrow> char \<Rightarrow> string \<Rightarrow> string" where
  "pad_start n c s = replicate (n - length s) c @ s"

lemma digit_char_props [simp]:
  assumes "0 \<le> d" "d < 10"
  shows "is_digit (digit_char d)" "digit_val (digit_char d) = d" "code (digit_char d) = 48 + d"
  using assms by (simp_all add: is_digit_def digit_char_def digit_val_def)

lemma digit_val_bounds: "is_digit c \<Longrightarrow> 0 \<le> digit_val c \<and> digit_val c < 10"
  by (auto simp: is_digit_def digit_val_def)

lemma digit_char_val: "is_digit c \<Longrightarrow> digit_char (digit_val c) = c"
  by (simp add: is_digit_def digit_char_def digit_val_def code_def)

lemma digit_eq_iff: "is_digit c \<Longrightarrow> is_digit d \<Longrightarrow> c = d \<longleftrightarrow> digit_val c = digit_val d"
  by (metis digit_char_val)

lemma digit_less_iff: "c < d \<longleftrightarrow> digit_val c < digit_val d"
proof -
  have "c < d \<longleftrightarrow> code c < code d"
    by (simp add: less_char_def code_nat)
  then show ?thesis unfolding digit_val_def by linarith
qed

lemma digits_value_Nil [simp]: "digits_value [] = 0"
  by (simp add: digits_value_def)

lemma digits_value_snoc [simp]: "digits_value (s @ [c]) = 10 * digits_value s + digit_val c"
  by (simp add: digits_value_def)

lemma digits_value_append:
  "digits_value (s @ t) = digits_value s * 10 ^ length t + digits_value t"
proof (induction t rule: rev_induct)
  case (snoc c t)
  have "digits_value (s @ t @ [c]) = 10 * digits_value (s @ t) + digit_val c"
    by (metis append_assoc digits_value_snoc)
  with snoc show ?case by (simp add: algebra_simps)
qed simp

lemma digits_value_single [simp]: "digits_value [c] = digit_val c"
  using digits_value_snoc [of "[]" c] by simp

lemma digits_value_Cons: "digits_value (c # t) = digit_val c * 10 ^ length t + digits_value t"
  using digits_value_append [of "[c]" t] by simp

lemma digits_value_show [simp]: "0 \<le> n \<Longrightarrow> digits_value (show_digits n) = n"
proof (induction n rule: show_digits.induct)
  case (1 n)
  show ?case
    by (cases "n < 10"; subst show_digits.simps) (use 1 in \<open>simp_all add: pos_imp_zdiv_nonneg_iff\<close>)
qed

lemma show_digits_inject: "0 \<le> m \<Longrightarrow> 0 \<le> n \<Longrightarrow> show_digits m = show_digits n \<longleftrightarrow> m = n"
  by (metis digits_value_show)

lemma show_digits_digits: "0 \<le> n \<Longrightarrow> \<forall>c \<in> set (show_digits n). is_digit c"
proof (induction n rule: show_digits.induct)
  case (1 n)
  show ?case
    by (cases "n < 10"; subst show_digits.simps) (use 1 in \<open>auto simp: pos_imp_zdiv_nonneg_iff\<close>)
qed

lemma show_digits_nonempty [simp]: "show_digits n \<noteq> []"
  by (subst show_digits.simps) simp

lemma length_pad_start: "length (pad_start n c s) = max n (length s)"
  by (simp add: pad_start_def)

lemma digits_value_zeros [simp]: "digits_value (replicate k (CHR ''0'') @ s) = digits_value s"
proof -
  have "digits_value (replicate k (CHR ''0'')) = 0"
    by (induction k) (simp_all add: digits_value_Cons digit_val_def code_def)
  then show ?thesis by (simp add: digits_value_append)
qed

lemma digits_value_pad [simp]: "digits_value (pad_start n (CHR ''0'') s) = digits_value s"
  by (simp add: pad_start_def)

lemma digits_value_bounds:
  "\<forall>c \<in> set s. is_digit c \<Longrightarrow> 0 \<le> digits_value s \<and> digits_value s < 10 ^ length s"
proof (induction s rule: rev_induct)
  case (snoc c s)
  then have "0 \<le> digits_value s \<and> digits_value s < 10 ^ length s" and "0 \<le> digit_val c \<and> digit_val c < 10"
    by (simp_all add: digit_val_bounds)
  then show ?case by simp
qed simp

text \<open>Digit strings of one length are ordered as the numbers they denote.\<close>

lemma digits_less_iff:
  assumes "length s = length t" "\<forall>c \<in> set s. is_digit c" "\<forall>c \<in> set t. is_digit c"
  shows "s < t \<longleftrightarrow> digits_value s < digits_value t"
  using assms
proof (induction s t rule: list_induct2)
  case (Cons c s d t)
  let ?p = "10 ^ length t :: int"
  have bs: "0 \<le> digits_value s \<and> digits_value s < ?p" and bt: "0 \<le> digits_value t \<and> digits_value t < ?p"
    using digits_value_bounds [of s] digits_value_bounds [of t] Cons by simp_all
  have eq: "c = d \<longleftrightarrow> digit_val c = digit_val d"
    using Cons.prems by (simp add: digit_eq_iff)
  consider "digit_val c < digit_val d" | "digit_val c = digit_val d" | "digit_val d < digit_val c"
    by linarith
  then show ?case
  proof cases
    case 1
    then have "(digit_val c + 1) * ?p \<le> digit_val d * ?p" by (intro mult_right_mono) simp_all
    then have "digit_val c * ?p + ?p \<le> digit_val d * ?p" by (simp add: algebra_simps)
    then have "digits_value (c # s) < digits_value (d # t)"
      using Cons.hyps bs bt by (simp add: digits_value_Cons)
    with 1 show ?thesis by (simp add: digit_less_iff)
  next
    case 2
    with Cons eq show ?thesis by (simp add: digits_value_Cons digit_less_iff)
  next
    case 3
    then have "(digit_val d + 1) * ?p \<le> digit_val c * ?p" by (intro mult_right_mono) simp_all
    then have "digit_val d * ?p + ?p \<le> digit_val c * ?p" by (simp add: algebra_simps)
    then have "\<not> digits_value (c # s) < digits_value (d # t)"
      using Cons.hyps bs bt by (simp add: digits_value_Cons)
    with 3 eq show ?thesis by (auto simp: digit_less_iff)
  qed
qed simp

lemma show_digits_length:
  "10 ^ k \<le> n \<Longrightarrow> n < 10 ^ Suc k \<Longrightarrow> length (show_digits n) = Suc k"
proof (induction k arbitrary: n)
  case 0
  then show ?case by (subst show_digits.simps) simp
next
  case (Suc k)
  have "(1::int) \<le> 10 ^ k" by simp
  then have "10 \<le> n" using Suc.prems(1) unfolding power_Suc by linarith
  have "length (show_digits (n div 10)) = Suc k"
  proof (rule Suc.IH)
    show "10 ^ k \<le> n div 10"
      using Suc.prems(1) zdiv_mono1 [of "10 ^ Suc k" n 10] by simp
    show "n div 10 < 10 ^ Suc k"
      using Suc.prems(2) by simp
  qed
  with \<open>10 \<le> n\<close> show ?case by (subst show_digits.simps) simp
qed

lemma pad2_digits:
  assumes "0 \<le> n" "n < 100"
  shows "length (pad_start 2 (CHR ''0'') (show_digits n)) = 2"
    and "\<forall>c \<in> set (pad_start 2 (CHR ''0'') (show_digits n)). is_digit c"
proof -
  have "length (show_digits n) \<le> 2"
  proof (cases "n < 10")
    case True
    then show ?thesis by (subst show_digits.simps) simp
  next
    case False
    then show ?thesis using show_digits_length [of 1 n] assms by simp
  qed
  then show "length (pad_start 2 (CHR ''0'') (show_digits n)) = 2"
    by (simp add: length_pad_start)
  show "\<forall>c \<in> set (pad_start 2 (CHR ''0'') (show_digits n)). is_digit c"
    using show_digits_digits [OF assms(1)] by (auto simp: pad_start_def is_digit_def code_def)
qed

lemma lex_append:
  "length a = length b \<Longrightarrow> (a @ c < b @ d) = (a < b \<or> (a = b \<and> c < d))" for a b c d :: string
  by (induction a b rule: list_induct2) auto

section \<open>Splitting\<close>

text \<open>\<open>s.split(c)\<close> for a one-character separator.\<close>

fun split_on :: "char \<Rightarrow> string \<Rightarrow> string list" where
  "split_on sep [] = [[]]"
| "split_on sep (c # cs) =
     (if c = sep then [] # split_on sep cs
      else case split_on sep cs of [] \<Rightarrow> [[c]] | w # ws \<Rightarrow> (c # w) # ws)"

lemma split_on_nonempty [simp]: "split_on sep s \<noteq> []"
  by (induction s) (auto split: list.splits)

lemma split_on_word: "sep \<notin> set w \<Longrightarrow> split_on sep w = [w]"
  by (induction w) auto

lemma split_on_append: "sep \<notin> set w \<Longrightarrow> split_on sep (w @ sep # s) = w # split_on sep s"
  by (induction w) auto

text \<open>\<open>xs.join(sep)\<close>.\<close>

fun join :: "string \<Rightarrow> string list \<Rightarrow> string" where
  "join sep [] = []"
| "join sep [w] = w"
| "join sep (w # ws) = w @ sep @ join sep ws"

end
