(* ===== verification/LicenseTypes.thy ===== *)
theory LicenseTypes
  imports JsString
begin

text \<open>
  \<^verbatim>\<open>src/frontend/src/utils/licenseTypeRules.js\<close> and the constants of
  \<^verbatim>\<open>src/frontend/src/constants/licenseData.js\<close>: the license types and what each allows. The source
  passes licenses, sourcing lines and form data to these functions; the definitions take the fields
  they read. A type that is \<open>null\<close> or blank is \<open>None\<close>.
\<close>

datatype license_type =
    Freeware | Maintenance | Oem | OtherType | Perpetual | Saas | Service | Subscription

definition license_types :: "license_type list" where
  "license_types = [Freeware, Maintenance, Oem, OtherType, Perpetual, Saas, Service, Subscription]"

definition non_expiring_license_types :: "license_type list" where
  "non_expiring_license_types = [Perpetual, Oem, Freeware]"

definition renewal_opt_in_license_types :: "license_type list" where
  "renewal_opt_in_license_types = [Service, OtherType]"

definition in_types :: "license_type option \<Rightarrow> license_type list \<Rightarrow> bool" where
  "in_types t ts \<longleftrightarrow> (case t of None \<Rightarrow> False | Some x \<Rightarrow> x \<in> set ts)"

definition is_non_expiring_license_type :: "license_type option \<Rightarrow> bool" where
  "is_non_expiring_license_type t = in_types t non_expiring_license_types"

definition suppress_end_date_for_type :: "license_type option \<Rightarrow> jstr \<Rightarrow> jstr" where
  "suppress_end_date_for_type t end_date =
     (if \<not> is_non_expiring_license_type t then end_date else Some [])"

definition is_renewal_opt_in_license_type :: "license_type option \<Rightarrow> bool" where
  "is_renewal_opt_in_license_type t = in_types t renewal_opt_in_license_types"

definition is_renewable_license :: "license_type option \<Rightarrow> bool option \<Rightarrow> bool" where
  "is_renewable_license t renewable =
     (if is_renewal_opt_in_license_type t then renewable = Some True else True)"

definition type_description_missing :: "license_type option \<Rightarrow> jstr \<Rightarrow> bool" where
  "type_description_missing t description \<longleftrightarrow> t = Some OtherType \<and> trim (str description) = []"

definition renewable_label :: "license_type option \<Rightarrow> bool option \<Rightarrow> string" where
  "renewable_label t renewable =
     (if \<not> is_renewal_opt_in_license_type t then [] else if renewable = Some True then ''Yes'' else ''No'')"

text \<open>\<open>typeOptInPayload\<close>: the pair of \<open>isRenewable\<close> and \<open>typeDescription\<close>.\<close>

definition type_opt_in_payload ::
  "license_type option \<Rightarrow> bool option \<Rightarrow> jstr \<Rightarrow> bool option \<times> jstr" where
  "type_opt_in_payload t renewable description =
     (let d = trim (str description)
      in (if is_renewal_opt_in_license_type t then Some (renewable = Some True) else None,
          if t = Some OtherType \<and> d \<noteq> [] then Some d else None))"

definition never_planned_term_types :: "license_type list" where
  "never_planned_term_types = [Freeware, Perpetual]"

definition supports_planned_terms :: "license_type option \<Rightarrow> bool option \<Rightarrow> bool" where
  "supports_planned_terms t renewable =
     (if t = None \<or> in_types t never_planned_term_types then False else is_renewable_license t renewable)"

definition can_follow_in_term_chain :: "license_type option \<Rightarrow> license_type option \<Rightarrow> bool" where
  "can_follow_in_term_chain predecessor successor \<longleftrightarrow>
     (predecessor = Some Maintenance) = (successor = Some Maintenance)"

definition inline_license_type_options :: "license_type option \<Rightarrow> license_type list" where
  "inline_license_type_options current =
     (if current = Some Maintenance then license_types else filter (\<lambda>t. t \<noteq> Maintenance) license_types)"

section \<open>What the rules say of each type\<close>

lemma license_types_complete: "set license_types = UNIV"
  by (auto simp: license_types_def intro: license_type.exhaust)

lemma non_expiring_iff [simp]:
  "is_non_expiring_license_type t \<longleftrightarrow> t \<in> {Some Perpetual, Some Oem, Some Freeware}"
  by (cases t) (auto simp: is_non_expiring_license_type_def in_types_def non_expiring_license_types_def)

lemma opt_in_iff [simp]:
  "is_renewal_opt_in_license_type t \<longleftrightarrow> t \<in> {Some Service, Some OtherType}"
  by (cases t) (auto simp: is_renewal_opt_in_license_type_def in_types_def renewal_opt_in_license_types_def)

lemma opt_in_may_expire: "is_renewal_opt_in_license_type t \<Longrightarrow> \<not> is_non_expiring_license_type t"
  by auto

lemma not_renewableD: "\<not> is_renewable_license t r \<Longrightarrow> t \<in> {Some Service, Some OtherType} \<and> r \<noteq> Some True"
  by (auto simp: is_renewable_license_def split: if_splits)

text \<open>A line that can take part in a chain of terms has a type that is renewed.\<close>

lemma supports_planned_terms_renewable: "supports_planned_terms t r \<Longrightarrow> is_renewable_license t r \<and> t \<noteq> None"
  by (auto simp: supports_planned_terms_def split: if_splits)

lemma can_follow_sym: "can_follow_in_term_chain a b = can_follow_in_term_chain b a"
  by (auto simp: can_follow_in_term_chain_def)

lemma can_follow_trans:
  "can_follow_in_term_chain a b \<Longrightarrow> can_follow_in_term_chain b c \<Longrightarrow> can_follow_in_term_chain a c"
  by (simp add: can_follow_in_term_chain_def)

text \<open>The payload of the opt-in fields is stable under a second normalisation.\<close>

lemma type_opt_in_payload_idem:
  "type_opt_in_payload t r d = (r', d') \<Longrightarrow> type_opt_in_payload t r' d' = (r', d')"
  by (auto simp: type_opt_in_payload_def Let_def split: if_splits)

end
