(* ===== verification/JsNumber.thy ===== *)
theory JsNumber
  imports JsString Complex_Main
begin

text \<open>
  JavaScript numbers. A finite number is the rational it denotes, every arithmetic result is
  rounded to the nearest IEEE 754 double (53 significant bits, ties to even, overflow to an
  infinity), so the float noise that the source's money code works around is in the model. The two
  zeros are one value: no code of the source divides by a zero it could tell apart.
  \<open>Number(text)\<close>, \<open>toFixed\<close>, \<open>Math.round\<close>, the default conversion to text and the two-decimal
  \<open>toLocaleString("en-US")\<close> follow the ECMAScript definitions.
\<close>

section \<open>Rounding to a double\<close>

function bit_length :: "int \<Rightarrow> int" where
  "bit_length n = (if n \<le> 0 then 0 else 1 + bit_length (n div 2))"
  by pat_completeness auto
termination
  by (relation "measure nat") auto

declare bit_length.simps [simp del]

function pow_int :: "rat \<Rightarrow> int \<Rightarrow> rat" where
  "pow_int b k =
     (if k \<le> 0 then 1 else let h = pow_int b (k div 2) in if even k then h * h else h * h * b)"
  by pat_completeness auto
termination
  by (relation "measure (nat \<circ> snd)") auto

declare pow_int.simps [simp del]

text \<open>\<open>b\<close> to an integer power, by squaring.\<close>

definition pow :: "rat \<Rightarrow> int \<Rightarrow> rat" where
  "pow b k = (if 0 \<le> k then pow_int b k else 1 / pow_int b (- k))"

text \<open>The binary exponent of a positive rational: \<open>pow 2 k \<le> x < pow 2 (k + 1)\<close>.\<close>

definition exponent_of :: "rat \<Rightarrow> int" where
  "exponent_of x =
     (case quotient_of x of (p, q) \<Rightarrow>
        let k = bit_length p - bit_length q in if pow 2 k \<le> x then k else k - 1)"

definition round_even :: "rat \<Rightarrow> int" where
  "round_even x =
     (let f = \<lfloor>x\<rfloor>; d = x - of_int f
      in if d < 1 / 2 then f else if 1 / 2 < d then f + 1 else if even f then f else f + 1)"

definition ulp_exp :: "rat \<Rightarrow> int" where
  "ulp_exp x = max (exponent_of \<bar>x\<bar> - 52) (- 1074)"

definition round_double :: "rat \<Rightarrow> rat" where
  "round_double x =
     (if x = 0 then 0 else of_int (round_even (x / pow 2 (ulp_exp x))) * pow 2 (ulp_exp x))"

datatype jsnum = NaN | PosInf | NegInf | Fin rat

definition to_double :: "rat \<Rightarrow> jsnum" where
  "to_double x =
     (let r = round_double x
      in if pow 2 1024 \<le> r then PosInf else if r \<le> - pow 2 1024 then NegInf else Fin r)"

section \<open>Arithmetic and comparison\<close>

fun js_neg :: "jsnum \<Rightarrow> jsnum" where
  "js_neg NaN = NaN"
| "js_neg PosInf = NegInf"
| "js_neg NegInf = PosInf"
| "js_neg (Fin x) = Fin (- x)"

fun js_add :: "jsnum \<Rightarrow> jsnum \<Rightarrow> jsnum" where
  "js_add (Fin x) (Fin y) = to_double (x + y)"
| "js_add NaN _ = NaN"
| "js_add _ NaN = NaN"
| "js_add PosInf NegInf = NaN"
| "js_add NegInf PosInf = NaN"
| "js_add PosInf _ = PosInf"
| "js_add _ PosInf = PosInf"
| "js_add NegInf _ = NegInf"
| "js_add _ NegInf = NegInf"

definition js_sub :: "jsnum \<Rightarrow> jsnum \<Rightarrow> jsnum" where
  "js_sub a b = js_add a (js_neg b)"

definition sign_inf :: "rat \<Rightarrow> jsnum" where
  "sign_inf x = (if x = 0 then NaN else if 0 < x then PosInf else NegInf)"

fun js_mul :: "jsnum \<Rightarrow> jsnum \<Rightarrow> jsnum" where
  "js_mul (Fin x) (Fin y) = to_double (x * y)"
| "js_mul NaN _ = NaN"
| "js_mul _ NaN = NaN"
| "js_mul (Fin x) PosInf = sign_inf x"
| "js_mul (Fin x) NegInf = sign_inf (- x)"
| "js_mul PosInf (Fin x) = sign_inf x"
| "js_mul NegInf (Fin x) = sign_inf (- x)"
| "js_mul PosInf PosInf = PosInf"
| "js_mul NegInf NegInf = PosInf"
| "js_mul _ _ = NegInf"

fun js_div :: "jsnum \<Rightarrow> jsnum \<Rightarrow> jsnum" where
  "js_div (Fin x) (Fin y) = (if y = 0 then sign_inf x else to_double (x / y))"
| "js_div NaN _ = NaN"
| "js_div _ NaN = NaN"
| "js_div (Fin x) _ = Fin 0"
| "js_div PosInf (Fin y) = (if y < 0 then NegInf else PosInf)"
| "js_div NegInf (Fin y) = (if y < 0 then PosInf else NegInf)"
| "js_div _ _ = NaN"

fun js_less :: "jsnum \<Rightarrow> jsnum \<Rightarrow> bool" where
  "js_less (Fin x) (Fin y) = (x < y)"
| "js_less NegInf (Fin y) = True"
| "js_less NegInf PosInf = True"
| "js_less (Fin x) PosInf = True"
| "js_less _ _ = False"

definition js_eq :: "jsnum \<Rightarrow> jsnum \<Rightarrow> bool" where
  "js_eq a b \<longleftrightarrow> a = b \<and> a \<noteq> NaN"

definition js_le :: "jsnum \<Rightarrow> jsnum \<Rightarrow> bool" where
  "js_le a b \<longleftrightarrow> js_less a b \<or> js_eq a b"

definition is_finite :: "jsnum \<Rightarrow> bool" where
  "is_finite a \<longleftrightarrow> (case a of Fin _ \<Rightarrow> True | _ \<Rightarrow> False)"

fun js_abs :: "jsnum \<Rightarrow> jsnum" where
  "js_abs (Fin x) = Fin \<bar>x\<bar>"
| "js_abs NaN = NaN"
| "js_abs _ = PosInf"

text \<open>\<open>Math.round\<close>: the closest integer, ties upwards.\<close>

fun js_round :: "jsnum \<Rightarrow> jsnum" where
  "js_round (Fin x) = Fin (of_int \<lfloor>x + 1 / 2\<rfloor>)"
| "js_round a = a"

text \<open>\<open>a || 0\<close> on a number: \<open>NaN\<close> becomes zero.\<close>

definition or_zero :: "jsnum \<Rightarrow> jsnum" where
  "or_zero a = (if a = NaN then Fin 0 else a)"

section \<open>\<open>Number(text)\<close>\<close>

definition digits_only :: "string \<Rightarrow> bool" where
  "digits_only s \<longleftrightarrow> s \<noteq> [] \<and> list_all is_digit s"

text \<open>The exponent part of a decimal literal; the empty text is the exponent 0.\<close>

definition parse_exponent :: "string \<Rightarrow> int option" where
  "parse_exponent s =
     (case s of
        [] \<Rightarrow> Some 0
      | c # r \<Rightarrow>
          if c \<noteq> CHR ''e'' \<and> c \<noteq> CHR ''E'' then None
          else case r of
            [] \<Rightarrow> None
          | g # r' \<Rightarrow>
              if g = CHR ''-'' then (if digits_only r' then Some (- digits_value r') else None)
              else if g = CHR ''+'' then (if digits_only r' then Some (digits_value r') else None)
              else if digits_only r then Some (digits_value r) else None)"

text \<open>An unsigned decimal literal: digits, an optional fraction, an optional exponent.\<close>

definition parse_unsigned :: "string \<Rightarrow> rat option" where
  "parse_unsigned s =
     (let ip = takeWhile is_digit s; r = dropWhile is_digit s;
          (fp, r') = (case r of
              [] \<Rightarrow> ([], [])
            | c # u \<Rightarrow> if c = CHR ''.'' then (takeWhile is_digit u, dropWhile is_digit u) else ([], r))
      in if ip @ fp = [] then None
         else map_option (\<lambda>e. of_int (digits_value (ip @ fp)) * pow 10 (e - int (length fp)))
                (parse_exponent r'))"

definition based_digit :: "char \<Rightarrow> int" where
  "based_digit c =
     (if is_digit c then digit_val c
      else if 97 \<le> code c \<and> code c \<le> 122 then code c - 87
      else if 65 \<le> code c \<and> code c \<le> 90 then code c - 55 else 99)"

definition parse_based :: "int \<Rightarrow> string \<Rightarrow> jsnum" where
  "parse_based b s =
     (if s \<noteq> [] \<and> list_all (\<lambda>c. based_digit c < b) s
      then to_double (of_int (foldl (\<lambda>n c. b * n + based_digit c) 0 s)) else NaN)"

definition parse_signed :: "string \<Rightarrow> jsnum" where
  "parse_signed s =
     (if s = ''Infinity'' then PosInf
      else case parse_unsigned s of None \<Rightarrow> NaN | Some x \<Rightarrow> to_double x)"

definition js_Number :: "string \<Rightarrow> jsnum" where
  "js_Number s =
     (case trim s of
        [] \<Rightarrow> Fin 0
      | [c] \<Rightarrow> parse_signed [c]
      | c # d # r \<Rightarrow>
          if c = CHR ''0'' \<and> d \<in> {CHR ''x'', CHR ''X''} then parse_based 16 r
          else if c = CHR ''0'' \<and> d \<in> {CHR ''o'', CHR ''O''} then parse_based 8 r
          else if c = CHR ''0'' \<and> d \<in> {CHR ''b'', CHR ''B''} then parse_based 2 r
          else if c = CHR ''-'' then js_neg (parse_signed (d # r))
          else if c = CHR ''+'' then parse_signed (d # r)
          else parse_signed (c # d # r))"

section \<open>Numbers as text\<close>

text \<open>The digits of \<open>x * 10 ^ f\<close> rounded half up, with the decimal point put back.\<close>

definition fixed_digits :: "nat \<Rightarrow> rat \<Rightarrow> string" where
  "fixed_digits f x =
     (let n = \<lfloor>x * pow 10 (int f) + 1 / 2\<rfloor>; ds = pad_start (f + 1) (CHR ''0'') (show_digits n);
          k = length ds - f
      in if f = 0 then ds else take k ds @ ''.'' @ drop k ds)"

text \<open>
  The default conversion: the shortest digits that read back as the number. \<open>scale_of\<close> is the
  exponent \<open>n\<close> with \<open>10 ^ (n - 1) \<le> x < 10 ^ n\<close>.
\<close>

definition scale_of :: "rat \<Rightarrow> int" where
  "scale_of x =
     (case quotient_of x of (p, q) \<Rightarrow>
        let k = int (length (show_digits p)) - int (length (show_digits q))
        in if pow 10 k \<le> x then k + 1 else k)"

definition shortest_digits :: "rat \<Rightarrow> int \<times> nat \<times> int" where
  "shortest_digits x =
     (let n = scale_of x;
          cand = (\<lambda>k. round_even (x / pow 10 (n - int k)));
          good = (\<lambda>k. round_double (of_int (cand k) * pow 10 (n - int k)) = x);
          k = (case List.find good [1..<17] of Some k \<Rightarrow> k | None \<Rightarrow> 17)
      in if of_int (cand k) = pow 10 (int k) then (n + 1, 1, 1) else (n, k, cand k))"

definition show_pos :: "rat \<Rightarrow> string" where
  "show_pos x =
     (let (n, k, s) = shortest_digits x; ds = show_digits s; e = n - 1;
          tail = (if length ds \<le> 1 then [] else ''.'' @ tl ds)
      in if int k \<le> n \<and> n \<le> 21 then ds @ replicate (nat n - k) (CHR ''0'')
         else if 0 < n \<and> n \<le> 21 then take (nat n) ds @ ''.'' @ drop (nat n) ds
         else if - 6 < n \<and> n \<le> 0 then ''0.'' @ replicate (nat (- n)) (CHR ''0'') @ ds
         else take 1 ds @ tail @ ''e'' @ (if e < 0 then ''-'' else ''+'') @ show_digits \<bar>e\<bar>)"

fun js_String :: "jsnum \<Rightarrow> string" where
  "js_String NaN = ''NaN''"
| "js_String PosInf = ''Infinity''"
| "js_String NegInf = ''-Infinity''"
| "js_String (Fin x) =
     (if x = 0 then ''0'' else if x < 0 then CHR ''-'' # show_pos (- x) else show_pos x)"

fun to_fixed :: "nat \<Rightarrow> jsnum \<Rightarrow> string" where
  "to_fixed f (Fin x) =
     (if pow 10 21 \<le> \<bar>x\<bar> then js_String (Fin x)
      else if x < 0 then CHR ''-'' # fixed_digits f (- x) else fixed_digits f x)"
| "to_fixed f a = js_String a"

text \<open>\<open>toLocaleString("en-US", \{minimumFractionDigits: 2, maximumFractionDigits: 2\})\<close>.\<close>

fun group3 :: "string \<Rightarrow> string" where
  "group3 (a # b # c # d # r) = a # b # c # CHR '','' # group3 (d # r)"
| "group3 s = s"

definition locale_digits :: "rat \<Rightarrow> string" where
  "locale_digits x =
     (let ds = fixed_digits 2 x; k = length ds - 3
      in rev (group3 (rev (take k ds))) @ drop k ds)"

fun to_locale2 :: "jsnum \<Rightarrow> string" where
  "to_locale2 (Fin x) = (if x < 0 then CHR ''-'' # locale_digits (- x) else locale_digits x)"
| "to_locale2 NaN = ''NaN''"
| "to_locale2 PosInf = [char_of (226::nat), char_of (136::nat), char_of (158::nat)]"
| "to_locale2 NegInf = CHR ''-'' # [char_of (226::nat), char_of (136::nat), char_of (158::nat)]"

section \<open>What rounding guarantees\<close>

lemma pow_int_power: "pow_int b k = b ^ nat k"
proof (induction b k rule: pow_int.induct)
  case (1 b k)
  show ?case
  proof (cases "k \<le> 0")
    case True
    then show ?thesis by (simp add: pow_int.simps)
  next
    case False
    then have IH: "pow_int b (k div 2) = b ^ nat (k div 2)"
      using 1 by simp
    have "nat k = (if even k then nat (k div 2) + nat (k div 2) else Suc (nat (k div 2) + nat (k div 2)))"
      using False by (auto elim!: evenE oddE)
    with False IH show ?thesis
      by (simp add: pow_int.simps [of b k] Let_def power_add ac_simps split: if_splits)
  qed
qed

lemma pow_powi: "pow b k = b powi k"
  by (simp add: pow_def pow_int_power power_int_def divide_inverse power_inverse)

lemma pow2_pos [simp]: "0 < pow 2 k"
  by (simp add: pow_powi)

lemma pow2_add: "pow 2 (j + k) = pow 2 j * pow 2 k"
  by (simp add: pow_powi power_int_add)

lemma pow2_less_iff [simp]: "pow 2 j < pow 2 k \<longleftrightarrow> j < k"
  unfolding pow_powi
  by (metis linorder_neqE_linordered_idom not_less_iff_gr_or_eq one_less_numeral_iff
      power_int_strict_increasing semiring_norm(76))

lemma abs_pow2 [simp]: "\<bar>pow 2 k\<bar> = pow 2 k"
  by (simp add: less_imp_le)

lemma pow2_nonneg_int: "0 \<le> k \<Longrightarrow> pow 2 k = of_int (2 ^ nat k)"
  by (simp add: pow_def pow_int_power)

lemma bit_length_bounds:
  "0 < n \<Longrightarrow> 0 < bit_length n \<and> 2 ^ nat (bit_length n - 1) \<le> n \<and> n < 2 ^ nat (bit_length n)"
proof (induction n rule: bit_length.induct)
  case (1 n)
  show ?case
  proof (cases "n = 1")
    case True
    then show ?thesis by (simp add: bit_length.simps)
  next
    case False
    with 1 have IH: "0 < bit_length (n div 2)" "2 ^ nat (bit_length (n div 2) - 1) \<le> n div 2"
        "n div 2 < 2 ^ nat (bit_length (n div 2))"
      by simp_all
    let ?k = "bit_length (n div 2)"
    have bl: "bit_length n = 1 + ?k"
      using 1 by (simp add: bit_length.simps [of n])
    have k: "nat (1 + ?k) = Suc (nat ?k)" "nat ?k = Suc (nat (?k - 1))"
      using IH(1) by simp_all
    have "2 ^ nat ?k \<le> n"
      using IH(2) unfolding k(2) power_Suc by linarith
    moreover have "n < 2 ^ nat (1 + ?k)"
      using IH(3) unfolding k(1) power_Suc by linarith
    ultimately show ?thesis
      using IH(1) by (simp add: bl)
  qed
qed

lemma bit_length_pow:
  assumes "0 < n"
  shows "pow 2 (bit_length n - 1) \<le> of_int n" "of_int n < pow 2 (bit_length n)"
  using bit_length_bounds [OF assms] by (simp_all add: pow2_nonneg_int del: of_int_power)

text \<open>The exponent of a positive rational is the one of its leading bit.\<close>

lemma exponent_of_bounds:
  assumes "0 < x"
  shows "pow 2 (exponent_of x) \<le> x \<and> x < pow 2 (exponent_of x + 1)"
proof -
  obtain p q where pq: "quotient_of x = (p, q)" by fastforce
  then have q: "0 < q" and x: "x = of_int p / of_int q"
    by (simp_all add: quotient_of_denom_pos quotient_of_div)
  with assms have p: "0 < p" by (simp add: zero_less_divide_iff)
  let ?a = "bit_length p" and ?b = "bit_length q"
  have "x < pow 2 ?a / pow 2 (?b - 1)"
    unfolding x using bit_length_pow [OF p] bit_length_pow [OF q] p q
    by (intro frac_less) simp_all
  then have hi: "x < pow 2 (?a - ?b + 1)"
    by (simp add: pow_powi power_int_diff power_int_add field_simps)
  have "pow 2 (?a - 1) / pow 2 ?b \<le> x"
    unfolding x using bit_length_pow [OF p] bit_length_pow [OF q] p q
    by (intro frac_le) simp_all
  then have lo: "pow 2 (?a - ?b - 1) \<le> x"
    by (simp add: pow_powi power_int_diff power_int_add field_simps)
  show ?thesis
    using hi lo by (auto simp: exponent_of_def pq Let_def)
qed

text \<open>Overflow is decided by the exponent, which is cheaper to evaluate than \<open>2^1024\<close>.\<close>

lemma exponent_less_iff: "0 < x \<Longrightarrow> exponent_of x < k \<longleftrightarrow> x < pow 2 k"
proof
  assume x: "0 < x" and "exponent_of x < k"
  then have "pow 2 (exponent_of x + 1) \<le> pow 2 k"
    by (cases "exponent_of x + 1 = k") (simp_all add: less_imp_le)
  then show "x < pow 2 k" using exponent_of_bounds [OF x] by simp
next
  assume x: "0 < x" and "x < pow 2 k"
  then have "pow 2 (exponent_of x) < pow 2 k"
    using exponent_of_bounds [OF x] by (meson le_less_trans)
  then show "exponent_of x < k" by (simp only: pow2_less_iff)
qed

lemma to_double_code [code]:
  "to_double x =
     (let r = round_double x
      in if r = 0 \<or> exponent_of \<bar>r\<bar> < 1024 then Fin r else if 0 < r then PosInf else NegInf)"
proof -
  have "r = 0 \<or> exponent_of \<bar>r\<bar> < 1024 \<longleftrightarrow> r < pow 2 1024 \<and> - pow 2 1024 < r" for r
    using exponent_less_iff [of "\<bar>r\<bar>" 1024] pow2_pos [of 1024] by (cases "r = 0") (simp, linarith)
  moreover have "pow 2 1024 \<le> r \<Longrightarrow> 0 < r" "r \<le> - pow 2 1024 \<Longrightarrow> \<not> 0 < r" for r
    using pow2_pos [of 1024] by (linarith)+
  ultimately show ?thesis
    by (auto simp: to_double_def Let_def not_less not_le)
qed

lemma round_even_of_int [simp]: "round_even (of_int n) = n"
  by (simp add: round_even_def)

lemma round_even_nonneg: "0 \<le> x \<Longrightarrow> 0 \<le> round_even x"
  by (auto simp: round_even_def Let_def intro: add_nonneg_nonneg)

text \<open>A dyadic number of at most 53 significant bits is a double: rounding returns it unchanged.\<close>

lemma round_double_exact:
  assumes x: "x = of_int m * pow 2 e" and m: "\<bar>m\<bar> < 2 ^ 53" and e: "- 1074 \<le> e"
  shows "round_double x = x"
proof (cases "m = 0")
  case True
  then show ?thesis by (simp add: x round_double_def)
next
  case False
  let ?u = "ulp_exp x"
  have nz: "x \<noteq> 0" using False by (simp add: x less_imp_neq [OF pow2_pos, symmetric])
  have "\<bar>x\<bar> = of_int \<bar>m\<bar> * pow 2 e"
    by (simp add: x abs_mult)
  also have "\<dots> < pow 2 53 * pow 2 e"
    using m by (intro mult_strict_right_mono) (simp_all add: pow2_nonneg_int del: of_int_power of_int_abs)
  finally have "\<bar>x\<bar> < pow 2 (53 + e)" by (simp add: pow2_add)
  moreover have "pow 2 (exponent_of \<bar>x\<bar>) \<le> \<bar>x\<bar>"
    using exponent_of_bounds [of "\<bar>x\<bar>"] nz by simp
  ultimately have "exponent_of \<bar>x\<bar> < 53 + e"
    by (metis le_less_trans pow2_less_iff)
  with e have u: "0 \<le> e - ?u" by (simp add: ulp_exp_def)
  have "x / pow 2 ?u = of_int m * pow 2 (e - ?u)"
    by (simp add: x pow_powi power_int_diff)
  also have "\<dots> = of_int (m * 2 ^ nat (e - ?u))"
    using u by (simp add: pow2_nonneg_int)
  finally have "x / pow 2 ?u = of_int (m * 2 ^ nat (e - ?u))" .
  then have "of_int (round_even (x / pow 2 ?u)) = x / pow 2 ?u"
    by (metis round_even_of_int)
  then show ?thesis using nz by (simp add: round_double_def less_imp_neq [OF pow2_pos, symmetric])
qed

lemma round_double_of_int: "\<bar>m\<bar> < 2 ^ 53 \<Longrightarrow> round_double (of_int m) = of_int m"
  by (rule round_double_exact [where e = 0]) (simp_all add: pow_powi)

lemma round_double_nonneg: "0 \<le> x \<Longrightarrow> 0 \<le> round_double x"
  by (simp add: round_double_def round_even_nonneg less_imp_le zero_le_divide_iff)

lemma to_double_of_int: "\<bar>m\<bar> < 2 ^ 53 \<Longrightarrow> to_double (of_int m) = Fin (of_int m)"
proof -
  assume m: "\<bar>m\<bar> < 2 ^ 53"
  have "\<bar>of_int m\<bar> < (of_int (2 ^ 53) :: rat)"
    using m by (metis of_int_abs of_int_less_iff)
  also have "\<dots> = pow 2 53" by (simp add: pow2_nonneg_int)
  also have "\<dots> < pow 2 1024" by (simp only: pow2_less_iff)
  finally have "\<not> pow 2 1024 \<le> of_int m" "\<not> of_int m \<le> - pow 2 1024"
    by linarith+
  then show ?thesis
    unfolding to_double_def round_double_of_int [OF m] Let_def by simp
qed

text \<open>Sums and products of integers are exact while they stay below \<open>2 ^ 53\<close>.\<close>

lemma js_mul_ints: "\<bar>a * b\<bar> < 2 ^ 53 \<Longrightarrow> js_mul (Fin (of_int a)) (Fin (of_int b)) = Fin (of_int (a * b))"
  using to_double_of_int [of "a * b"] by simp

lemma js_add_ints: "\<bar>a + b\<bar> < 2 ^ 53 \<Longrightarrow> js_add (Fin (of_int a)) (Fin (of_int b)) = Fin (of_int (a + b))"
  using to_double_of_int [of "a + b"] by simp

lemma js_mul_commute: "js_mul a b = js_mul b a"
  by (cases a; cases b) (simp_all add: mult.commute)

lemma js_add_commute: "js_add a b = js_add b a"
  by (cases a; cases b) (simp_all add: add.commute)

text \<open>The text of an integer reads back as that integer.\<close>

lemma digit_not_ws: "is_digit c \<Longrightarrow> \<not> is_ws c"
  by (auto simp: is_digit_def is_ws_def)

lemma digits_trim: "\<forall>c \<in> set s. is_digit c \<Longrightarrow> trim s = s"
  by (rule trim_fixed) (auto simp: digit_not_ws)

lemma parse_unsigned_digits:
  assumes "s \<noteq> []" "\<forall>c \<in> set s. is_digit c"
  shows "parse_unsigned s = Some (of_int (digits_value s))"
proof -
  have tw: "takeWhile is_digit s = s" and dw: "dropWhile is_digit s = []"
    using assms(2) by (simp_all add: takeWhile_eq_all_conv)
  show ?thesis
    unfolding parse_unsigned_def tw dw Let_def
    using assms(1) by (simp add: parse_exponent_def pow_powi)
qed

lemma js_Number_digits:
  assumes "s \<noteq> []" "\<forall>c \<in> set s. is_digit c" "digits_value s < 2 ^ 53"
  shows "js_Number s = Fin (of_int (digits_value s))"
proof -
  have nonneg: "0 \<le> digits_value s" using digits_value_bounds [OF assms(2)] by simp
  have "s \<noteq> ''Infinity''" using assms(2) by (auto simp: is_digit_def code_def)
  then have signed: "parse_signed s = Fin (of_int (digits_value s))"
    using assms nonneg by (simp add: parse_signed_def parse_unsigned_digits to_double_of_int)
  show ?thesis
  proof (cases s)
    case Nil
    with assms(1) show ?thesis by simp
  next
    case (Cons c r)
    show ?thesis
    proof (cases r)
      case Nil
      with Cons signed show ?thesis
        unfolding js_Number_def digits_trim [OF assms(2)] by simp
    next
      case (Cons d r')
      have "is_digit c" "is_digit d" using assms(2) \<open>s = c # r\<close> Cons by simp_all
      then have "c \<noteq> CHR ''-''" "c \<noteq> CHR ''+''" "d \<notin> {CHR ''x'', CHR ''X''}"
        "d \<notin> {CHR ''o'', CHR ''O''}" "d \<notin> {CHR ''b'', CHR ''B''}"
        by (auto simp: is_digit_def code_def)
      then show ?thesis
        using signed \<open>s = c # r\<close> Cons
        unfolding js_Number_def digits_trim [OF assms(2)] by (simp del: insert_iff)
    qed
  qed
qed

end
