(* ===== verification/DemoTime.thy ===== *)
theory DemoTime
  imports JsNumber
begin

text \<open>
  \<^verbatim>\<open>src/frontend/src/demo/time.js\<close>: calendar dates as \<open>"YYYY-MM-DD"\<close> text. A local \<open>Date\<close> of the
  source is at local midnight and only its calendar day is read, so it is modelled by its day number
  (days since 1970-01-01); \<open>None\<close> is an invalid date. The day, year and month functions are those of
  ECMAScript (\<open>DayFromYear\<close>, \<open>YearFromTime\<close>, \<open>MonthFromTime\<close>, \<open>MakeDay\<close>), dates beyond the
  range of a \<open>Date\<close> (the year 275760) are not cut off, and a text that is not a valid
  \<open>YYYY-MM-DD\<close> parses to an invalid date as the ECMAScript format demands. The current day is a
  parameter.
\<close>

section \<open>The calendar of ECMAScript\<close>

definition is_leap :: "int \<Rightarrow> bool" where
  "is_leap y \<longleftrightarrow> (y mod 4 = 0 \<and> y mod 100 \<noteq> 0) \<or> y mod 400 = 0"

definition day_from_year :: "int \<Rightarrow> int" where
  "day_from_year y =
     365 * (y - 1970) + (y - 1969) div 4 - (y - 1901) div 100 + (y - 1601) div 400"

text \<open>The year of a day: an estimate that is off by at most one year.\<close>

definition year_of_day :: "int \<Rightarrow> int" where
  "year_of_day z =
     (let y = 1970 + (400 * z) div 146097
      in if z < day_from_year y then y - 1 else if day_from_year (y + 1) \<le> z then y + 1 else y)"

text \<open>Days of the year before month \<open>m\<close>, which counts from 0 as in JavaScript.\<close>

definition month_start :: "bool \<Rightarrow> int \<Rightarrow> int" where
  "month_start leap m =
     (if m \<le> 0 then 0 else if m = 1 then 31
      else (if leap then 1 else 0) +
        (if m = 2 then 59 else if m = 3 then 90 else if m = 4 then 120 else if m = 5 then 151
         else if m = 6 then 181 else if m = 7 then 212 else if m = 8 then 243 else if m = 9 then 273
         else if m = 10 then 304 else if m = 11 then 334 else 365))"

definition month_of :: "bool \<Rightarrow> int \<Rightarrow> int" where
  "month_of leap k =
     (if k < month_start leap 1 then 0 else if k < month_start leap 2 then 1
      else if k < month_start leap 3 then 2 else if k < month_start leap 4 then 3
      else if k < month_start leap 5 then 4 else if k < month_start leap 6 then 5
      else if k < month_start leap 7 then 6 else if k < month_start leap 8 then 7
      else if k < month_start leap 9 then 8 else if k < month_start leap 10 then 9
      else if k < month_start leap 11 then 10 else 11)"

definition days_in_month :: "int \<Rightarrow> int \<Rightarrow> int" where
  "days_in_month y m = month_start (is_leap y) (m + 1) - month_start (is_leap y) m"

text \<open>\<open>MakeDay\<close>: months and days outside their range carry over.\<close>

definition make_day :: "int \<Rightarrow> int \<Rightarrow> int \<Rightarrow> int" where
  "make_day y m d =
     (let ym = y + m div 12 in day_from_year ym + month_start (is_leap ym) (m mod 12) + d - 1)"

definition civil_of_day :: "int \<Rightarrow> int \<times> int \<times> int" where
  "civil_of_day z =
     (let y = year_of_day z; k = z - day_from_year y; m = month_of (is_leap y) k
      in (y, m, k - month_start (is_leap y) m + 1))"

definition valid_civil :: "int \<Rightarrow> int \<Rightarrow> int \<Rightarrow> bool" where
  "valid_civil y m d \<longleftrightarrow> 0 \<le> m \<and> m \<le> 11 \<and> 1 \<le> d \<and> d \<le> days_in_month y m"

section \<open>Dates as text\<close>

type_synonym local_date = "int option"

definition to_local_iso :: "local_date \<Rightarrow> string" where
  "to_local_iso d =
     (case d of
        None \<Rightarrow> ''NaN-NaN-NaN''
      | Some z \<Rightarrow>
          (case civil_of_day z of (y, m, k) \<Rightarrow>
             show_int y @ ''-'' @ pad_start 2 (CHR ''0'') (show_int (m + 1))
               @ ''-'' @ pad_start 2 (CHR ''0'') (show_int k)))"

definition js_trunc :: "rat \<Rightarrow> int" where
  "js_trunc x = (if x < 0 then - \<lfloor>- x\<rfloor> else \<lfloor>x\<rfloor>)"

text \<open>\<open>new Date(year, month - 1, day)\<close>: a year from 0 to 99 means 1900 and that year.\<close>

definition parse_iso_date :: "string \<Rightarrow> local_date" where
  "parse_iso_date s =
     (case map js_Number (split_on (CHR ''-'') s) of
        Fin y # Fin m # Fin d # _ \<Rightarrow>
          (let yi = js_trunc y; yr = (if 0 \<le> yi \<and> yi \<le> 99 then 1900 + yi else yi)
           in Some (make_day yr (js_trunc (m - 1)) (js_trunc d)))
      | _ \<Rightarrow> None)"

definition days_from_now :: "int \<Rightarrow> int \<Rightarrow> string" where
  "days_from_now today n = to_local_iso (Some (today + n))"

definition add_days_iso :: "string \<Rightarrow> int \<Rightarrow> string" where
  "add_days_iso s n = to_local_iso (map_option (\<lambda>z. z + n) (parse_iso_date s))"

text \<open>\<open>setFullYear\<close> keeps month and day; 29 February becomes 1 March in a common year.\<close>

definition set_full_year :: "int \<Rightarrow> int \<Rightarrow> int" where
  "set_full_year y z = (case civil_of_day z of (_, m, d) \<Rightarrow> make_day y m d)"

definition add_years :: "int \<Rightarrow> int \<Rightarrow> int" where
  "add_years n z = set_full_year (fst (civil_of_day z) + n) z"

definition term_end :: "string \<Rightarrow> int \<Rightarrow> string" where
  "term_end s years = to_local_iso (map_option (\<lambda>z. add_years years z - 1) (parse_iso_date s))"

definition term_start :: "string \<Rightarrow> int \<Rightarrow> string" where
  "term_start s years = to_local_iso (map_option (\<lambda>z. add_years (- years) (z + 1)) (parse_iso_date s))"

section \<open>Day counts\<close>

text \<open>
  The day of a \<open>YYYY-MM-DD\<close> text, as \<open>Date.parse\<close> of that text with a time of midnight reads it.
\<close>

definition parse_day :: "string \<Rightarrow> local_date" where
  "parse_day s =
     (case split_on (CHR ''-'') s of
        [ys, ms, ds] \<Rightarrow>
          (let y = digits_value ys; m = digits_value ms - 1; d = digits_value ds
           in if length ys = 4 \<and> length ms = 2 \<and> length ds = 2
                \<and> list_all is_digit (ys @ ms @ ds) \<and> valid_civil y m d
              then Some (make_day y m d) else None)
      | _ \<Rightarrow> None)"

text \<open>
  A day count of the source is \<open>null\<close>, \<open>NaN\<close> or an integer. A comparison reads \<open>null\<close> as 0 and is
  false on \<open>NaN\<close>.
\<close>

datatype day_count = NullDays | NanDays | Days int

definition count_num :: "day_count \<Rightarrow> int option" where
  "count_num c = (case c of NullDays \<Rightarrow> Some 0 | NanDays \<Rightarrow> None | Days n \<Rightarrow> Some n)"

definition count_less :: "day_count \<Rightarrow> int \<Rightarrow> bool" where
  "count_less c n \<longleftrightarrow> (case count_num c of None \<Rightarrow> False | Some k \<Rightarrow> k < n)"

definition count_le :: "day_count \<Rightarrow> int \<Rightarrow> bool" where
  "count_le c n \<longleftrightarrow> (case count_num c of None \<Rightarrow> False | Some k \<Rightarrow> k \<le> n)"

definition count_greater :: "day_count \<Rightarrow> int \<Rightarrow> bool" where
  "count_greater c n \<longleftrightarrow> (case count_num c of None \<Rightarrow> False | Some k \<Rightarrow> n < k)"

definition count_ge :: "day_count \<Rightarrow> int \<Rightarrow> bool" where
  "count_ge c n \<longleftrightarrow> (case count_num c of None \<Rightarrow> False | Some k \<Rightarrow> n \<le> k)"

definition days_until :: "int \<Rightarrow> jstr \<Rightarrow> day_count" where
  "days_until today date =
     (if \<not> truthy date then NullDays
      else case parse_day (str date) of None \<Rightarrow> NanDays | Some z \<Rightarrow> Days (z - today))"

definition inclusive_term_days :: "jstr \<Rightarrow> jstr \<Rightarrow> day_count" where
  "inclusive_term_days a b =
     (if \<not> truthy a \<or> \<not> truthy b then NullDays
      else case (parse_day (str a), parse_day (str b)) of
        (Some x, Some y) \<Rightarrow> Days (y - x + 1) | _ \<Rightarrow> NanDays)"

lemma count_simps [simp]:
  "count_less (Days k) n = (k < n)" "count_less NanDays n = False" "count_less NullDays n = (0 < n)"
  "count_le (Days k) n = (k \<le> n)" "count_le NanDays n = False" "count_le NullDays n = (0 \<le> n)"
  "count_greater (Days k) n = (n < k)" "count_greater NanDays n = False" "count_greater NullDays n = (n < 0)"
  "count_ge (Days k) n = (n \<le> k)" "count_ge NanDays n = False" "count_ge NullDays n = (n \<le> 0)"
  by (simp_all add: count_less_def count_le_def count_greater_def count_ge_def count_num_def)

lemma days_until_simps [simp]: "days_until t None = NullDays" "days_until t (Some []) = NullDays"
  by (simp_all add: days_until_def)

section \<open>The calendar is a bijection\<close>

lemma div_bounds: "0 < n \<Longrightarrow> n * (a div n) \<le> a \<and> a < n * (a div n) + n" for a n :: int
  using mult_div_mod_eq [of n a] pos_mod_bound [of n a] pos_mod_sign [of n a] by linarith

lemma div_succ: "0 < n \<Longrightarrow> (a + 1) div n = a div n + (if (a + 1) mod n = 0 then 1 else 0)" for a n :: int
proof -
  assume n: "0 < n"
  let ?q = "a div n" and ?r = "a mod n"
  have a: "a = n * ?q + ?r" by simp
  have r: "0 \<le> ?r" "?r < n" using n by simp_all
  show ?thesis
  proof (cases "?r + 1 < n")
    case True
    then have "(a + 1) div n = ?q" "(a + 1) mod n = ?r + 1"
      using a r by (auto intro: int_div_pos_eq [where r = "?r + 1"] int_mod_pos_eq [where q = ?q])
    with r show ?thesis by simp
  next
    case False
    moreover have "n * (?q + 1) = n * ?q + n" by (simp add: distrib_left)
    ultimately have "a + 1 = n * (?q + 1) + 0" using a r by linarith
    then have "(a + 1) div n = ?q + 1" "(a + 1) mod n = 0"
      using n by (auto intro: int_div_pos_eq [where r = 0] int_mod_pos_eq [where q = "?q + 1"])
    then show ?thesis by simp
  qed
qed

lemma mod_shift: "(y - n * c) mod n = y mod n" for y n c :: int
  by (metis add_uminus_conv_diff mod_mult_self2 mult_minus_right)

lemma div_step:
  fixes a y n c :: int
  assumes "0 < n" "b = a + 1" "b = y - n * c"
  shows "b div n = a div n + (if y mod n = 0 then 1 else 0)"
  using div_succ [of n a] mod_shift [of y n c] assms by (metis add.right_neutral)

lemma day_from_year_step: "day_from_year (y + 1) = day_from_year y + (if is_leap y then 366 else 365)"
proof -
  define a b c where "a = (y - 1969) div 4" and "b = (y - 1901) div 100" and "c = (y - 1601) div 400"
  define A B C where "A \<longleftrightarrow> y mod 4 = 0" and "B \<longleftrightarrow> y mod 100 = 0" and "C \<longleftrightarrow> y mod 400 = 0"
  have a': "(y + 1 - 1969) div 4 = a + (if A then 1 else 0)"
    unfolding a_def A_def by (rule div_step [where c = 492]) simp_all
  have b': "(y + 1 - 1901) div 100 = b + (if B then 1 else 0)"
    unfolding b_def B_def by (rule div_step [where c = 19]) simp_all
  have c': "(y + 1 - 1601) div 400 = c + (if C then 1 else 0)"
    unfolding c_def C_def by (rule div_step [where c = 4]) simp_all
  have "C \<Longrightarrow> B" "B \<Longrightarrow> A"
    unfolding A_def B_def C_def mod_eq_0_iff_dvd by (erule dvd_trans [rotated], simp)+
  then show ?thesis
    unfolding day_from_year_def is_leap_def a' b' c'
      a_def [symmetric] b_def [symmetric] c_def [symmetric]
      A_def [symmetric] B_def [symmetric] C_def [symmetric]
    by (cases A; cases B; cases C) simp_all
qed

text \<open>A mean year has 365.2425 days.\<close>

lemma day_from_year_approx:
  "146097 * (y - 1970) - 600 \<le> 400 * day_from_year y \<and>
   400 * day_from_year y \<le> 146097 * (y - 1970) + 600"
proof -
  define a b c where "a = (y - 1969) div 4" and "b = (y - 1901) div 100" and "c = (y - 1601) div 400"
  have "4 * a \<le> y - 1969 \<and> y - 1969 < 4 * a + 4" "100 * b \<le> y - 1901 \<and> y - 1901 < 100 * b + 100"
    "400 * c \<le> y - 1601 \<and> y - 1601 < 400 * c + 400"
    unfolding a_def b_def c_def by (rule div_bounds, simp)+
  then show ?thesis
    unfolding day_from_year_def a_def [symmetric] b_def [symmetric] c_def [symmetric] by auto
qed

lemma day_from_year_mono: "y \<le> y' \<Longrightarrow> day_from_year y \<le> day_from_year y'"
  by (induction rule: int_ge_induct) (auto simp: day_from_year_step)

lemma year_of_day_bounds: "day_from_year (year_of_day z) \<le> z \<and> z < day_from_year (year_of_day z + 1)"
proof -
  define q where "q = (400 * z) div 146097"
  have q: "146097 * q \<le> 400 * z \<and> 400 * z < 146097 * q + 146097"
    unfolding q_def by (rule div_bounds) simp
  have "day_from_year (1970 + q - 1) \<le> z" "z < day_from_year (1970 + q + 2)"
    using q day_from_year_approx [of "1970 + q - 1"] day_from_year_approx [of "1970 + q + 2"]
    by auto
  then show ?thesis
    unfolding year_of_day_def Let_def q_def [symmetric] by (auto simp: add.commute)
qed

lemma year_of_day_unique: "day_from_year y \<le> z \<Longrightarrow> z < day_from_year (y + 1) \<Longrightarrow> year_of_day z = y"
  using year_of_day_bounds [of z] day_from_year_mono [of "y + 1" "year_of_day z"]
    day_from_year_mono [of "year_of_day z + 1" y]
  by linarith

lemma month_cases:
  "0 \<le> m \<Longrightarrow> m \<le> (11::int) \<Longrightarrow> m = 0 \<or> m = 1 \<or> m = 2 \<or> m = 3 \<or> m = 4 \<or> m = 5 \<or> m = 6 \<or> m = 7
     \<or> m = 8 \<or> m = 9 \<or> m = 10 \<or> m = 11"
  by presburger

lemma month_start_nonneg: "0 \<le> month_start l m"
  by (simp add: month_start_def)

lemma month_of_month_start:
  assumes "0 \<le> m" "m \<le> 11" "month_start l m \<le> k" "k < month_start l (m + 1)"
  shows "month_of l k = m"
  using month_cases [OF assms(1,2)] assms(3,4)
  by (elim disjE; cases l) (simp_all add: month_of_def month_start_def)

lemma month_of_bounds:
  assumes "0 \<le> k" "k < month_start l 12"
  shows "0 \<le> month_of l k \<and> month_of l k \<le> 11 \<and> month_start l (month_of l k) \<le> k
    \<and> k < month_start l (month_of l k + 1)"
proof -
  have "\<exists>m. 0 \<le> m \<and> m \<le> 11 \<and> month_start l m \<le> k \<and> k < month_start l (m + 1)"
  proof (rule ccontr)
    assume none: "\<not> ?thesis"
    have "n \<le> 12 \<longrightarrow> month_start l n \<le> k" if "0 \<le> n" for n
      using that
    proof (induction rule: int_ge_induct)
      case base
      then show ?case using assms(1) by (simp add: month_start_def)
    next
      case (step n)
      then show ?case using none by force
    qed
    from this [of 12] assms(2) show False by simp
  qed
  then show ?thesis using month_of_month_start by metis
qed

lemma year_length: "day_from_year (y + 1) - day_from_year y = month_start (is_leap y) 12"
  by (simp add: day_from_year_step month_start_def)

lemma make_day_in_range: "0 \<le> m \<Longrightarrow> m \<le> 11 \<Longrightarrow>
    make_day y m d = day_from_year y + month_start (is_leap y) m + d - 1"
proof -
  assume "0 \<le> m" "m \<le> 11"
  then have "m div 12 = 0" "m mod 12 = m" by simp_all
  then show ?thesis by (simp only: make_day_def Let_def add_0_right)
qed

lemma month_start_le_year: "0 \<le> m \<Longrightarrow> m \<le> 11 \<Longrightarrow> month_start l (m + 1) \<le> month_start l 12"
  by (frule (1) month_cases) (elim disjE; cases l; simp add: month_start_def)

lemma civil_of_make_day:
  assumes "valid_civil y m d"
  shows "civil_of_day (make_day y m d) = (y, m, d)"
proof -
  let ?l = "is_leap y" and ?z = "make_day y m d"
  from assms have m: "0 \<le> m" "m \<le> 11" and d: "1 \<le> d" "d \<le> month_start ?l (m + 1) - month_start ?l m"
    by (simp_all add: valid_civil_def days_in_month_def)
  have z: "?z = day_from_year y + month_start ?l m + d - 1"
    using m by (rule make_day_in_range)
  have "?z < day_from_year (y + 1)"
    using z d year_length [of y] month_start_le_year [OF m, of ?l] by linarith
  moreover have "day_from_year y \<le> ?z"
    using z d month_start_nonneg [of ?l m] by linarith
  ultimately have y: "year_of_day ?z = y" by (intro year_of_day_unique)
  have "month_of ?l (?z - day_from_year y) = m"
    using z d by (intro month_of_month_start m) simp_all
  with y z show ?thesis by (simp add: civil_of_day_def Let_def)
qed

lemma civil_of_day_valid:
  assumes "civil_of_day z = (y, m, d)"
  shows "valid_civil y m d \<and> make_day y m d = z"
proof -
  define k where "k = z - day_from_year (year_of_day z)"
  have y: "y = year_of_day z" and m: "m = month_of (is_leap y) k"
    and d: "d = k - month_start (is_leap y) m + 1"
    using assms by (auto simp: civil_of_day_def Let_def k_def)
  have "0 \<le> k" "k < month_start (is_leap y) 12"
    using year_of_day_bounds [of z] year_length [of y] by (simp_all add: k_def y)
  from month_of_bounds [OF this] show ?thesis
    by (simp add: valid_civil_def days_in_month_def make_day_in_range d m k_def y)
qed

lemma make_day_carry: "make_day y m (d + n) = make_day y m d + n"
  by (simp add: make_day_def Let_def)

section \<open>Dates in text\<close>

text \<open>The days whose year has four digits: those a date of the source can spell.\<close>

definition four_digit_day :: "int \<Rightarrow> bool" where
  "four_digit_day z \<longleftrightarrow> day_from_year 1000 \<le> z \<and> z < day_from_year 10000"

abbreviation iso_of :: "int \<Rightarrow> string" where
  "iso_of z \<equiv> to_local_iso (Some z)"

lemma four_digit_year:
  assumes "four_digit_day z" "civil_of_day z = (y, m, d)"
  shows "1000 \<le> y \<and> y < 10000"
proof -
  have "y = year_of_day z" using assms(2) by (auto simp: civil_of_day_def Let_def)
  then have b: "day_from_year y < day_from_year 10000" "day_from_year 1000 < day_from_year (y + 1)"
    using assms(1) year_of_day_bounds [of z] by (auto simp: four_digit_day_def)
  show ?thesis
    using b day_from_year_mono [of 10000 y] day_from_year_mono [of "y + 1" 1000]
    by (auto simp: not_less [symmetric] dest: leD)
qed

lemma month_length: "0 \<le> m \<Longrightarrow> m \<le> 11 \<Longrightarrow> days_in_month y m \<le> 31"
  unfolding days_in_month_def
  by (frule (1) month_cases) (elim disjE; cases "is_leap y"; simp add: month_start_def)

lemma valid_civil_ranges: "valid_civil y m d \<Longrightarrow> 0 \<le> m \<and> m \<le> 11 \<and> 1 \<le> d \<and> d \<le> 31"
  using month_length [of m y] by (auto simp: valid_civil_def)

lemma iso_parts:
  assumes "four_digit_day z" "civil_of_day z = (y, m, d)"
  defines "ys \<equiv> show_digits y"
    and "ms \<equiv> pad_start 2 (CHR ''0'') (show_digits (m + 1))"
    and "ds \<equiv> pad_start 2 (CHR ''0'') (show_digits d)"
  shows "iso_of z = ys @ CHR ''-'' # ms @ CHR ''-'' # ds"
    and "length ys = 4" "length ms = 2" "length ds = 2"
    and "\<forall>c \<in> set ys. is_digit c" "\<forall>c \<in> set ms. is_digit c" "\<forall>c \<in> set ds. is_digit c"
    and "digits_value ys = y" "digits_value ms = m + 1" "digits_value ds = d"
proof -
  have y: "1000 \<le> y" "y < 10000" using four_digit_year [OF assms(1,2)] by simp_all
  have md: "0 \<le> m" "m \<le> 11" "1 \<le> d" "d \<le> 31"
    using valid_civil_ranges civil_of_day_valid [OF assms(2)] by auto
  show "iso_of z = ys @ CHR ''-'' # ms @ CHR ''-'' # ds"
    using y md by (simp add: to_local_iso_def assms(2) show_int_def ys_def ms_def ds_def)
  show "length ys = 4"
    using show_digits_length [of 3 y] y by (simp add: ys_def)
  show "length ms = 2" "length ds = 2" "\<forall>c \<in> set ms. is_digit c" "\<forall>c \<in> set ds. is_digit c"
    unfolding ms_def ds_def by (rule pad2_digits; use md in simp)+
  show "\<forall>c \<in> set ys. is_digit c"
    unfolding ys_def using y by (intro show_digits_digits) simp
  show "digits_value ys = y" "digits_value ms = m + 1" "digits_value ds = d"
    using y md by (simp_all add: ys_def ms_def ds_def)
qed

lemma dash_not_digit: "\<forall>c \<in> set s. is_digit c \<Longrightarrow> CHR ''-'' \<notin> set s"
  by (auto simp: is_digit_def code_def)

lemma iso_split:
  assumes "four_digit_day z" "civil_of_day z = (y, m, d)"
  shows "split_on (CHR ''-'') (iso_of z) =
    [show_digits y, pad_start 2 (CHR ''0'') (show_digits (m + 1)), pad_start 2 (CHR ''0'') (show_digits d)]"
  using iso_parts [OF assms] by (simp add: split_on_append split_on_word dash_not_digit)

lemma iso_of_nonempty [simp]: "iso_of z \<noteq> []"
  by (simp add: to_local_iso_def split: prod.split)

lemma parse_day_iso: "four_digit_day z \<Longrightarrow> parse_day (iso_of z) = Some z"
proof -
  assume z: "four_digit_day z"
  obtain y m d where c: "civil_of_day z = (y, m, d)" by (metis prod_cases3)
  have "valid_civil y m d" "make_day y m d = z" using civil_of_day_valid [OF c] by simp_all
  then show ?thesis
    using iso_parts [OF z c] unfolding parse_day_def iso_split [OF z c] Let_def
    by (simp add: list_all_iff ball_Un)
qed

lemma parse_iso_date_iso: "four_digit_day z \<Longrightarrow> parse_iso_date (iso_of z) = Some z"
proof -
  assume z: "four_digit_day z"
  obtain y m d where c: "civil_of_day z = (y, m, d)" by (metis prod_cases3)
  note parts = iso_parts [OF z c]
  have yr: "1000 \<le> y" "y < 10000" using four_digit_year [OF z c] by simp_all
  have md: "0 \<le> m" "m \<le> 11" "1 \<le> d" "d \<le> 31"
    using valid_civil_ranges civil_of_day_valid [OF c] by auto
  have num: "js_Number s = Fin (of_int n)"
    if "0 < length s" "\<forall>c \<in> set s. is_digit c" "digits_value s = n" "n < 2 ^ 53" for s n
    using js_Number_digits [of s] that by simp
  have "js_Number (show_digits y) = Fin (of_int y)"
    "js_Number (pad_start 2 (CHR ''0'') (show_digits (m + 1))) = Fin (of_int (m + 1))"
    "js_Number (pad_start 2 (CHR ''0'') (show_digits d)) = Fin (of_int d)"
    by (rule num; use parts yr md in simp)+
  moreover have "js_trunc (of_int k) = k" for k by (simp add: js_trunc_def)
  moreover have "js_trunc (of_int (m + 1) - 1) = m" by (simp add: js_trunc_def)
  ultimately show ?thesis
    using yr civil_of_day_valid [OF c]
    unfolding parse_iso_date_def iso_split [OF z c] by (simp add: Let_def)
qed

text \<open>The order of dates as text is the order of the days.\<close>

lemma make_day_less:
  assumes "valid_civil y m d" "valid_civil y' m' d'"
    and "y < y' \<or> (y = y' \<and> (m < m' \<or> (m = m' \<and> d < d')))"
  shows "make_day y m d < make_day y' m' d'"
proof -
  let ?l = "is_leap y"
  have r: "0 \<le> m" "m \<le> 11" "d \<le> month_start ?l (m + 1) - month_start ?l m"
    "0 \<le> m'" "m' \<le> 11" "1 \<le> d'"
    using assms(1,2) by (simp_all add: valid_civil_def days_in_month_def)
  note day = make_day_in_range [OF r(1,2), of y d] make_day_in_range [OF r(4,5), of y' d']
  from assms(3) consider "y < y'" | "y = y'" "m < m'" | "y = y'" "m = m'" "d < d'" by blast
  then show ?thesis
  proof cases
    case 1
    then have "day_from_year (y + 1) \<le> day_from_year y'" by (intro day_from_year_mono) simp
    then show ?thesis
      using day r year_length [of y] month_start_le_year [OF r(1,2), of ?l]
        month_start_nonneg [of "is_leap y'" m'] by linarith
  next
    case 2
    have "month_start ?l (m + 1) \<le> month_start ?l m'"
      using month_cases [OF r(1,2)] month_cases [OF r(4,5)] 2(2)
      by (elim disjE) (simp_all add: month_start_def)
    with 2 day r show ?thesis by simp
  next
    case 3
    with day show ?thesis by simp
  qed
qed

lemma iso_less_iff:
  assumes z: "four_digit_day z" and z': "four_digit_day z'"
  shows "iso_of z < iso_of z' \<longleftrightarrow> z < z'"
proof -
  obtain y m d where c: "civil_of_day z = (y, m, d)" by (metis prod_cases3)
  obtain y' m' d' where c': "civil_of_day z' = (y', m', d')" by (metis prod_cases3)
  note p = iso_parts [OF z c] and p' = iso_parts [OF z' c']
  have eq: "s = t \<longleftrightarrow> digits_value s = digits_value t"
    if "length s = length t" "\<forall>c \<in> set s. is_digit c" "\<forall>c \<in> set t. is_digit c" for s t
    using digits_less_iff [of s t] digits_less_iff [of t s] that by auto
  have str: "iso_of z < iso_of z' \<longleftrightarrow> y < y' \<or> (y = y' \<and> (m < m' \<or> (m = m' \<and> d < d')))"
    unfolding p(1) p'(1) using p(2-) p'(2-) by (simp add: lex_append digits_less_iff eq add1_zle_eq)
  have v: "valid_civil y m d" "make_day y m d = z" "valid_civil y' m' d'" "make_day y' m' d' = z'"
    using civil_of_day_valid [OF c] civil_of_day_valid [OF c'] by simp_all
  show ?thesis
  proof
    assume "iso_of z < iso_of z'"
    with str make_day_less [OF v(1,3)] v show "z < z'" by simp
  next
    assume less: "z < z'"
    show "iso_of z < iso_of z'"
    proof (rule ccontr)
      assume "\<not> ?thesis"
      then consider "(y', m', d') = (y, m, d)" | "y' < y \<or> (y' = y \<and> (m' < m \<or> (m' = m \<and> d' < d)))"
        unfolding str by fastforce
      then show False
        using less make_day_less [OF v(3,1)] v by cases auto
    qed
  qed
qed

section \<open>Terms of years\<close>

lemma add_years_make_day:
  assumes "valid_civil y m d"
  shows "add_years n (make_day y m d) = make_day (y + n) m d"
  by (simp add: add_years_def set_full_year_def civil_of_make_day [OF assms])

lemma month_start_leap: "month_start l m = month_start False m + (if l \<and> 2 \<le> m then 1 else 0)"
  by (cases l; cases "m \<le> 0"; cases "m = 1") (simp_all add: month_start_def)

lemma days_in_month_leap:
  "0 \<le> m \<Longrightarrow> days_in_month y m =
     month_start False (m + 1) - month_start False m + (if is_leap y \<and> m = 1 then 1 else 0)"
  unfolding days_in_month_def month_start_leap [of "is_leap y"] by auto

lemma add_years_back:
  assumes "civil_of_day z = (y, m, d)" "\<not> (m = 1 \<and> d = 29) \<or> is_leap (y + n)"
  shows "add_years (- n) (add_years n z) = z"
proof -
  have v: "valid_civil y m d" and z: "make_day y m d = z"
    using civil_of_day_valid [OF assms(1)] by simp_all
  have m: "0 \<le> m" using v by (simp add: valid_civil_def)
  have feb: "month_start False 2 - month_start False 1 = 28" by (simp add: month_start_def)
  have "d \<le> days_in_month (y + n) m"
  proof (cases "m = 1")
    case True
    then show ?thesis
      using v assms(2) feb by (auto simp: valid_civil_def days_in_month_leap split: if_splits)
  next
    case False
    then show ?thesis
      using v m by (simp add: valid_civil_def days_in_month_leap)
  qed
  then have "valid_civil (y + n) m d"
    using v by (simp add: valid_civil_def)
  then show ?thesis
    using v by (simp add: z [symmetric] add_years_make_day)
qed

lemma add_one_year: "add_years 1 z - z = 365 \<or> add_years 1 z - z = 366"
proof -
  obtain y m d where c: "civil_of_day z = (y, m, d)" by (metis prod_cases3)
  have v: "valid_civil y m d" and z: "make_day y m d = z"
    using civil_of_day_valid [OF c] by simp_all
  have m: "0 \<le> m" "m \<le> 11" using v by (simp_all add: valid_civil_def)
  have "add_years 1 z - z = day_from_year (y + 1) + month_start (is_leap (y + 1)) m
      - day_from_year y - month_start (is_leap y) m"
    using m unfolding z [symmetric] add_years_make_day [OF v] by (simp add: make_day_in_range)
  then show ?thesis
    unfolding day_from_year_step month_start_leap [of "is_leap y"] month_start_leap [of "is_leap (y + 1)"]
    by auto
qed

section \<open>Properties of the date helpers\<close>

lemma term_end_iso: "four_digit_day z \<Longrightarrow> term_end (iso_of z) n = iso_of (add_years n z - 1)"
  by (simp add: term_end_def parse_iso_date_iso)

lemma term_start_iso: "four_digit_day z \<Longrightarrow> term_start (iso_of z) n = iso_of (add_years (- n) (z + 1))"
  by (simp add: term_start_def parse_iso_date_iso)

definition leap_day :: "int \<Rightarrow> bool" where
  "leap_day z \<longleftrightarrow> snd (civil_of_day z) = (1, 29)"

text \<open>C30: \<open>termStart\<close> undoes \<open>termEnd\<close>: a term of \<open>n\<close> years that starts on any day but 29 February,
  and whose end the four-digit years can spell, is found again from its end.\<close>
theorem term_start_inverts_term_end:
  assumes "four_digit_day z" "four_digit_day (add_years n z - 1)" "\<not> leap_day z"
  shows "term_start (term_end (iso_of z) n) n = iso_of z"
proof -
  obtain y m d where c: "civil_of_day z = (y, m, d)" by (metis prod_cases3)
  then have "add_years (- n) (add_years n z) = z"
    using add_years_back [OF c] assms(3) by (auto simp: leap_day_def)
  then show ?thesis using assms(1,2) by (simp add: term_end_iso term_start_iso)
qed

theorem term_start_inverts_term_end_witness:
  "iso_of 19858 = ''2024-05-15'' \<and> term_start (term_end (iso_of 19858) 3) 3 = iso_of 19858"
proof -
  have "iso_of 19858 = ''2024-05-15''" by code_simp
  moreover have "four_digit_day 19858" "four_digit_day (add_years 3 19858 - 1)" "\<not> leap_day 19858"
    by code_simp+
  ultimately show ?thesis using term_start_inverts_term_end [of 19858 3] by blast
qed

text \<open>A term of one year, dated by \<open>termEnd\<close>, counts 365 or 366 inclusive days, so the annual
  cost of such a term is never rescaled.\<close>
theorem one_year_term_days:
  assumes "four_digit_day z" "four_digit_day (add_years 1 z - 1)"
  shows "inclusive_term_days (Some (iso_of z)) (Some (term_end (iso_of z) 1)) \<in> {Days 365, Days 366}"
  using add_one_year [of z] assms
  by (auto simp: inclusive_term_days_def term_end_iso parse_day_iso)

theorem one_year_term_days_witness:
  "inclusive_term_days (Some (iso_of 19782)) (Some (term_end (iso_of 19782) 1)) \<in> {Days 365, Days 366}"
proof -
  have "four_digit_day 19782" "four_digit_day (add_years 1 19782 - 1)" by code_simp+
  then show ?thesis by (rule one_year_term_days)
qed

text \<open>C31: The text of a date is faithful to its day: it parses back, its order as text is the order of
  days, and \<open>daysUntil\<close> of \<open>daysFromNow(n)\<close> is \<open>n\<close>.\<close>
theorem dates_faithful:
  assumes "four_digit_day z" "four_digit_day z'"
  shows "parse_iso_date (iso_of z) = Some z \<and> (iso_of z < iso_of z' \<longleftrightarrow> z < z')
    \<and> days_until t (Some (iso_of z)) = Days (z - t)
    \<and> days_until z (Some (days_from_now z (z' - z))) = Days (z' - z)"
  using assms by (simp add: parse_iso_date_iso iso_less_iff days_until_def parse_day_iso days_from_now_def)

theorem dates_faithful_witness:
  "parse_iso_date (iso_of 19782) = Some 19782 \<and> (iso_of 19782 < iso_of 20000 \<longleftrightarrow> (19782::int) < 20000)
    \<and> days_until 5 (Some (iso_of 19782)) = Days (19782 - 5)
    \<and> days_until 19782 (Some (days_from_now 19782 (20000 - 19782))) = Days (20000 - 19782)"
proof -
  have "four_digit_day 19782" "four_digit_day 20000" by code_simp+
  then show ?thesis by (rule dates_faithful)
qed

text \<open>On 29 February \<open>termStart\<close> is not the inverse its comment announces.\<close>

lemma term_start_leap_day:
  "iso_of 19782 = ''2024-02-29'' \<and> term_start (term_end (iso_of 19782) 1) 1 = ''2024-03-01''"
proof -
  have "four_digit_day 19782" "four_digit_day (add_years 1 19782 - 1)" by code_simp+
  then have "term_start (term_end (iso_of 19782) 1) 1 = iso_of (add_years (- 1) (add_years 1 19782))"
    by (simp add: term_end_iso term_start_iso)
  also have "\<dots> = ''2024-03-01''" by code_simp
  finally have "term_start (term_end (iso_of 19782) 1) 1 = ''2024-03-01''" .
  moreover have "iso_of 19782 = ''2024-02-29''" by code_simp
  ultimately show ?thesis by (rule conjI [rotated])
qed

end
