(* ===== verification/Store.thy ===== *)
theory Store
  imports LicenseTypes DemoTime
begin

text \<open>
  The data of the demo backend (\<^verbatim>\<open>src/frontend/src/demo/store.js\<close>, \<^verbatim>\<open>fixtures.js\<close>): one record per
  kind of object, one record for the module-level \<open>store\<close>. The fields are the source's, with a
  prefix for the kind of object; the seven fields of included maintenance, which licenses and
  sourcing lines share, are one nested record \<open>support\<close>. Identifiers are integers, an absent
  identifier is \<open>None\<close>. Pure display fields that nothing computes with (custom fields, creator)
  are left out.

  The objects of an array are addressed by their \<open>id\<close>: a mutation through a reference updates the
  first object with that id. The invariant \<open>ids_ok\<close> (ids distinct and below \<open>_nextId\<close>) makes that
  the object the source holds.
\<close>

section \<open>Enumerations\<close>

datatype coverage = UnknownCoverage | NotApplicable | Included | SeparatelyTracked
datatype pricing_basis = Flat | PerUnit | FreeBasis
datatype lifecycle = PendingRenewal | Renewed | Legacy
datatype procurement_status = Sourcing | Converted | Cancelled
datatype order_status = OrderPending | InvoiceReceived | OrderConverted | OrderCancelled
datatype expiration_status =
    StRetired | StLegacy | StUpcoming | StPerpetual | StRenewed | StExpired | StExpiring | StActive
datatype support_status = SupportActive | SupportExpiring | SupportExpired

section \<open>Objects\<close>

record support =
  maintenanceCoverage :: "coverage option"
  maintenanceStartDate :: jstr
  maintenanceEndDate :: jstr
  maintenancePricingBasis :: "pricing_basis option"
  maintenanceQuantity :: jstr
  maintenanceUnitPrice :: jstr
  maintenanceCost :: jstr

definition no_support :: support where
  "no_support = \<lparr>maintenanceCoverage = None, maintenanceStartDate = None, maintenanceEndDate = None,
     maintenancePricingBasis = None, maintenanceQuantity = None, maintenanceUnitPrice = None,
     maintenanceCost = None\<rparr>"

record license =
  l_id :: int
  l_publisherName :: jstr
  l_softwareDescription :: jstr
  l_licenseType :: "license_type option"
  l_licenseMetric :: jstr
  l_quantity :: jstr
  l_quantityPerUnit :: jstr
  l_skuCode :: jstr
  l_unitPrice :: jstr
  l_totalPoPrice :: jstr
  l_currency :: jstr
  l_startDate :: jstr
  l_endDate :: jstr
  l_noticeDate :: jstr
  l_noticeHandledAt :: jstr
  l_noticeHandledByUserId :: "int option"
  l_contractNumber :: jstr
  l_poNumber :: jstr
  l_poLineId :: "int option"
  l_poLineNumber :: "int option"
  l_poTotalOverride :: jstr
  l_procurementBundleId :: jstr
  l_invoiceNumber :: jstr
  l_invoiceNumbers :: "string list"
  l_pendingOrderId :: "int option"
  l_sourceSourcingItemId :: "int option"
  l_contactEmail :: jstr
  l_supplier :: jstr
  l_costCentre :: jstr
  l_budgetOwnerEmail :: jstr
  l_secondaryContacts :: "string list"
  l_portalUrl :: jstr
  l_isRenewable :: "bool option"
  l_typeDescription :: jstr
  l_notes :: jstr
  l_hasMaintenance :: bool
  l_support :: support
  l_parentLicenseId :: "int option"
  l_maintenanceParentIds :: "int list"
  l_linkedMaintenanceIds :: "int list"
  l_activeMaintenanceId :: "int option"
  l_licenseRef :: jstr
  l_externalRef :: jstr
  l_isRetired :: bool
  l_retirementScheduled :: bool
  l_isCompletenessExempt :: bool
  l_lifecycleStatus :: "lifecycle option"
  l_renewedFromId :: "int option"
  l_renewedToId :: "int option"
  l_predecessorId :: "int option"
  l_cotermFromIds :: "int list option"
  l_requestDate :: jstr
  l_purchaseDate :: jstr
  l_createdAt :: string
  l_updatedAt :: string
  l_documentCount :: int
  l_documentCategories :: "string list"
  l_conversionType :: jstr
  l_daysUntilExpiry :: day_count
  l_expirationStatus :: expiration_status
  l_supportDaysRemaining :: day_count
  l_supportStatus :: "support_status option"

record sourcing_item =
  i_id :: int
  i_sourcingRequestId :: "int option"
  i_publisherName :: jstr
  i_softwareDescription :: jstr
  i_licenseType :: "license_type option"
  i_licenseMetric :: jstr
  i_portalUrl :: jstr
  i_isRenewable :: "bool option"
  i_typeDescription :: jstr
  i_maintenanceParentLicenseId :: "int option"
  i_support :: support
  i_parentSourcingItemId :: "int option"
  i_successorSourcingItemId :: "int option"
  i_quantity :: jstr
  i_quantityPerUnit :: jstr
  i_skuCode :: jstr
  i_estimatedUnitPrice :: jstr
  i_estimatedTotalPrice :: jstr
  i_currency :: jstr
  i_startDate :: jstr
  i_endDate :: jstr
  i_noticeDate :: jstr
  i_purchaseDate :: jstr
  i_contractNumber :: jstr
  i_invoiceNumber :: jstr
  i_externalRef :: jstr
  i_supplier :: jstr
  i_contactEmail :: jstr
  i_costCentre :: jstr
  i_budgetOwnerEmail :: jstr
  i_secondaryContacts :: "string list option"
  i_notes :: jstr
  i_status :: procurement_status
  i_pendingOrderId :: "int option"
  i_renewalForLicenseId :: "int option"
  i_cotermPredecessorIds :: "int list option"
  i_isRenewal :: bool
  i_poLineId :: "int option"
  i_poLineNumber :: "int option"
  i_createdAt :: string
  i_updatedAt :: string

text \<open>The line as an order response carries it (\<open>toSourcingItemSummary\<close>).\<close>

record item_summary =
  sm_id :: int
  sm_sourcingRequestId :: "int option"
  sm_publisherName :: jstr
  sm_softwareDescription :: jstr
  sm_licenseType :: "license_type option"
  sm_licenseMetric :: jstr
  sm_isRenewable :: "bool option"
  sm_typeDescription :: jstr
  sm_maintenanceParentLicenseId :: "int option"
  sm_support :: support
  sm_parentSourcingItemId :: "int option"
  sm_quantity :: jstr
  sm_estimatedUnitPrice :: jstr
  sm_estimatedTotalPrice :: jstr
  sm_currency :: jstr
  sm_startDate :: jstr
  sm_endDate :: jstr
  sm_supplier :: jstr
  sm_contactEmail :: jstr
  sm_notes :: jstr
  sm_status :: procurement_status
  sm_renewalForLicenseId :: "int option"
  sm_successorSourcingItemId :: "int option"
  sm_cotermPredecessorIds :: "int list option"
  sm_poLineNumber :: "int option"
  sm_isRenewal :: bool

record sourcing_request =
  r_id :: int
  r_supplier :: jstr
  r_contactEmail :: jstr
  r_notes :: jstr
  r_status :: procurement_status
  r_createdAt :: string
  r_updatedAt :: string

record pending_order =
  o_id :: int
  o_poNumber :: jstr
  o_supplier :: jstr
  o_notes :: jstr
  o_status :: order_status
  o_poTotalOverride :: jstr
  o_items :: "item_summary list"
  o_totalPoValue :: jstr
  o_createdAt :: string
  o_updatedAt :: string

record po_line =
  row_id :: int
  row_poKey :: string
  row_poNumber :: string
  row_lineNumber :: int

record folder =
  f_id :: int
  f_name :: string
  f_createdAt :: string
  f_documentCount :: int

record contract =
  c_id :: int
  c_contractNumber :: jstr
  c_publisherName :: jstr
  c_notes :: jstr
  c_createdAt :: string
  c_folders :: "folder list"

record contract_document =
  d_id :: int
  d_contractId :: int
  d_folderId :: "int option"
  d_filename :: string
  d_originalFilename :: string
  d_fileSize :: "int option"
  d_createdAt :: string
  d_fileAvailability :: jstr

text \<open>
  A reference name (an organisation or a cost centre) and its aliases; a cost centre has no roles,
  its two role flags stay \<open>False\<close>.
\<close>

record name_alias =
  a_id :: int
  a_name :: string
  a_normalizedName :: string
  a_createdAt :: string

record reference =
  ref_id :: int
  ref_name :: string
  ref_normalizedName :: string
  ref_isPublisher :: bool
  ref_isSupplier :: bool
  ref_isActive :: bool
  ref_aliases :: "name_alias list"
  ref_createdAt :: string
  ref_updatedAt :: string

record global_settings =
  mandatory_fields :: "(string \<times> bool) list"
  notification_days :: "int option"
  notice_notification_days :: "int option"
  renewal_action_days :: "int option"
  high_value_thresholds :: "(string \<times> jstr) list"

text \<open>The module-level object \<open>store\<close>; the user's display settings are left out.\<close>

record store =
  licenses :: "license list"
  sourcingItems :: "sourcing_item list"
  sourcingRequests :: "sourcing_request list"
  pendingOrders :: "pending_order list"
  poLineRegister :: "po_line list"
  contracts :: "contract list"
  contractDocuments :: "contract_document list"
  organizations :: "reference list"
  costCentres :: "reference list"
  userDepartments :: "(int \<times> string list) list"
  globalSettings :: global_settings
  seeded :: bool
  next_id :: int

text \<open>The clock: the current calendar day and \<open>new Date().toISOString()\<close>.\<close>

record clock =
  today :: int
  now :: string

type_synonym 'a demo_op = "(store, 'a) op"

section \<open>Base objects\<close>

text \<open>
  The object \<open>base\<close> of \<open>buildLicense\<close> (\<^verbatim>\<open>fixtures.js\<close>), every field at its default; the two times are
  filled in by \<open>build_license\<close>, the derived fields by the last lines of that function.
\<close>

definition base_license :: license where
  "base_license = \<lparr>
     l_id = 0, l_publisherName = Some [], l_softwareDescription = Some [],
     l_licenseType = Some Subscription, l_licenseMetric = Some ''per_user'', l_quantity = Some [],
     l_quantityPerUnit = None, l_skuCode = Some [], l_unitPrice = Some [], l_totalPoPrice = Some [],
     l_currency = Some ''EUR'', l_startDate = None, l_endDate = None, l_noticeDate = None,
     l_noticeHandledAt = None, l_noticeHandledByUserId = None, l_contractNumber = Some [],
     l_poNumber = Some [], l_poLineId = None, l_poLineNumber = None, l_poTotalOverride = None,
     l_procurementBundleId = None, l_invoiceNumber = Some [], l_invoiceNumbers = [],
     l_pendingOrderId = None, l_sourceSourcingItemId = None, l_contactEmail = Some [],
     l_supplier = Some [], l_costCentre = Some [], l_budgetOwnerEmail = Some [],
     l_secondaryContacts = [], l_portalUrl = None, l_isRenewable = None, l_typeDescription = None,
     l_notes = None, l_hasMaintenance = False, l_support = no_support, l_parentLicenseId = None,
     l_maintenanceParentIds = [], l_linkedMaintenanceIds = [], l_activeMaintenanceId = None,
     l_licenseRef = None, l_externalRef = None, l_isRetired = False, l_retirementScheduled = False,
     l_isCompletenessExempt = False, l_lifecycleStatus = None, l_renewedFromId = None,
     l_renewedToId = None, l_predecessorId = None, l_cotermFromIds = None, l_requestDate = None,
     l_purchaseDate = None, l_createdAt = [], l_updatedAt = [], l_documentCount = 0,
     l_documentCategories = [], l_conversionType = None, l_daysUntilExpiry = NullDays,
     l_expirationStatus = StActive, l_supportDaysRemaining = NullDays, l_supportStatus = None\<rparr>"

text \<open>A sourcing line with no data: every field as \<open>buildSourcingItem\<close> leaves it for an empty payload.\<close>

definition blank_item :: sourcing_item where
  "blank_item = \<lparr>
     i_id = 0, i_sourcingRequestId = None, i_publisherName = None, i_softwareDescription = None,
     i_licenseType = None, i_licenseMetric = None, i_portalUrl = None, i_isRenewable = None,
     i_typeDescription = None, i_maintenanceParentLicenseId = None, i_support = no_support,
     i_parentSourcingItemId = None, i_successorSourcingItemId = None, i_quantity = None,
     i_quantityPerUnit = None, i_skuCode = None, i_estimatedUnitPrice = None,
     i_estimatedTotalPrice = None, i_currency = Some ''EUR'', i_startDate = None, i_endDate = None,
     i_noticeDate = None, i_purchaseDate = None, i_contractNumber = None, i_invoiceNumber = None,
     i_externalRef = None, i_supplier = None, i_contactEmail = None, i_costCentre = None,
     i_budgetOwnerEmail = None, i_secondaryContacts = None, i_notes = None, i_status = Sourcing,
     i_pendingOrderId = None, i_renewalForLicenseId = None, i_cotermPredecessorIds = None,
     i_isRenewal = False, i_poLineId = None, i_poLineNumber = None, i_createdAt = [], i_updatedAt = []\<rparr>"

definition blank_order :: pending_order where
  "blank_order = \<lparr>o_id = 0, o_poNumber = None, o_supplier = None, o_notes = None, o_status = OrderPending,
     o_poTotalOverride = None, o_items = [], o_totalPoValue = None, o_createdAt = [], o_updatedAt = []\<rparr>"

text \<open>The store of a fresh page, with the default settings that the modelled code reads.\<close>

definition default_settings :: global_settings where
  "default_settings = \<lparr>
     mandatory_fields = [(''invoice'', False), (''eula'', False), (''entitlement'', False),
       (''purchaseOrder'', False), (''quote'', False), (''startDate'', False), (''endDate'', False),
       (''noticeDate'', False), (''contractNumber'', False), (''poNumber'', True),
       (''invoiceNumber'', True), (''contactEmail'', False), (''costCentre'', False),
       (''budgetOwnerEmail'', True)],
     notification_days = Some 30, notice_notification_days = None, renewal_action_days = None,
     high_value_thresholds = [(''EUR'', Some ''50000'')]\<rparr>"

definition fresh_store :: store where
  "fresh_store = \<lparr>licenses = [], sourcingItems = [], sourcingRequests = [], pendingOrders = [],
     poLineRegister = [], contracts = [], contractDocuments = [], organizations = [], costCentres = [],
     userDepartments = [], globalSettings = default_settings, seeded = False, next_id = 1000\<rparr>"

section \<open>Reading and writing the collections\<close>

definition get_license :: "store \<Rightarrow> int \<Rightarrow> license option" where
  "get_license s i = find_id l_id i (licenses s)"

definition get_item :: "store \<Rightarrow> int \<Rightarrow> sourcing_item option" where
  "get_item s i = find_id i_id i (sourcingItems s)"

definition get_request :: "store \<Rightarrow> int \<Rightarrow> sourcing_request option" where
  "get_request s i = find_id r_id i (sourcingRequests s)"

definition get_order :: "store \<Rightarrow> int \<Rightarrow> pending_order option" where
  "get_order s i = find_id o_id i (pendingOrders s)"

definition upd_license :: "int \<Rightarrow> (license \<Rightarrow> license) \<Rightarrow> store \<Rightarrow> store" where
  "upd_license i f = licenses_update (upd_id l_id i f)"

definition upd_item :: "int \<Rightarrow> (sourcing_item \<Rightarrow> sourcing_item) \<Rightarrow> store \<Rightarrow> store" where
  "upd_item i f = sourcingItems_update (upd_id i_id i f)"

definition upd_request :: "int \<Rightarrow> (sourcing_request \<Rightarrow> sourcing_request) \<Rightarrow> store \<Rightarrow> store" where
  "upd_request i f = sourcingRequests_update (upd_id r_id i f)"

definition upd_order :: "int \<Rightarrow> (pending_order \<Rightarrow> pending_order) \<Rightarrow> store \<Rightarrow> store" where
  "upd_order i f = pendingOrders_update (upd_id o_id i f)"

definition put_license :: "license \<Rightarrow> store \<Rightarrow> store" where
  "put_license l = licenses_update (put_id l_id l)"

definition put_item :: "sourcing_item \<Rightarrow> store \<Rightarrow> store" where
  "put_item i = sourcingItems_update (put_id i_id i)"

definition put_request :: "sourcing_request \<Rightarrow> store \<Rightarrow> store" where
  "put_request r = sourcingRequests_update (put_id r_id r)"

definition put_order :: "pending_order \<Rightarrow> store \<Rightarrow> store" where
  "put_order x = pendingOrders_update (put_id o_id x)"

definition push_license :: "license \<Rightarrow> store \<Rightarrow> store" where
  "push_license l = licenses_update (\<lambda>xs. xs @ [l])"

definition push_item :: "sourcing_item \<Rightarrow> store \<Rightarrow> store" where
  "push_item i = sourcingItems_update (\<lambda>xs. xs @ [i])"

definition push_request :: "sourcing_request \<Rightarrow> store \<Rightarrow> store" where
  "push_request r = sourcingRequests_update (\<lambda>xs. xs @ [r])"

definition push_order :: "pending_order \<Rightarrow> store \<Rightarrow> store" where
  "push_order x = pendingOrders_update (\<lambda>xs. xs @ [x])"

text \<open>A lookup in an optional identifier: \<open>find((e) => e.id === i)\<close> with \<open>i\<close> nullish finds nothing.\<close>

definition opt_get :: "(store \<Rightarrow> int \<Rightarrow> 'a option) \<Rightarrow> store \<Rightarrow> int option \<Rightarrow> 'a option" where
  "opt_get g s i = (case i of None \<Rightarrow> None | Some k \<Rightarrow> g s k)"

text \<open>\<open>nextId()\<close>.\<close>

definition fresh_id :: "int demo_op" where
  "fresh_id s = (Inr (next_id s), s\<lparr>next_id := next_id s + 1\<rparr>)"

text \<open>The items of an order and of a request (\<open>store.sourcingItems.filter(...)\<close>).\<close>

definition order_items :: "store \<Rightarrow> int \<Rightarrow> sourcing_item list" where
  "order_items s oid = filter (\<lambda>i. i_pendingOrderId i = Some oid) (sourcingItems s)"

definition request_items :: "store \<Rightarrow> int \<Rightarrow> sourcing_item list" where
  "request_items s rid = filter (\<lambda>i. i_sourcingRequestId i = Some rid) (sourcingItems s)"

section \<open>The collections keep the contract of \<open>collection\<close>\<close>

interpretation lics: collection l_id licenses licenses_update
  by unfold_locales simp_all

interpretation items: collection i_id sourcingItems sourcingItems_update
  by unfold_locales simp_all

interpretation reqs: collection r_id sourcingRequests sourcingRequests_update
  by unfold_locales simp_all

interpretation ords: collection o_id pendingOrders pendingOrders_update
  by unfold_locales simp_all

lemmas store_keys [simp] =
  keeps_keyD [of l_id] keeps_keyD [of i_id] keeps_keyD [of r_id] keeps_keyD [of o_id]
  keeps_keyD [of c_id] keeps_keyD [of f_id] keeps_keyD [of ref_id]

named_theorems store_simps "lookups after updates of the store"

lemma get_license_upd [store_simps]:
  "keeps_key l_id f \<Longrightarrow> get_license (upd_license i f s) j =
     (if j = i then map_option f (get_license s j) else get_license s j)"
  unfolding get_license_def upd_license_def by (rule lics.lookup_upd)

lemma get_item_upd [store_simps]:
  "keeps_key i_id f \<Longrightarrow> get_item (upd_item i f s) j =
     (if j = i then map_option f (get_item s j) else get_item s j)"
  unfolding get_item_def upd_item_def by (rule items.lookup_upd)

lemma get_request_upd [store_simps]:
  "keeps_key r_id f \<Longrightarrow> get_request (upd_request i f s) j =
     (if j = i then map_option f (get_request s j) else get_request s j)"
  unfolding get_request_def upd_request_def by (rule reqs.lookup_upd)

lemma get_order_upd [store_simps]:
  "keeps_key o_id f \<Longrightarrow> get_order (upd_order i f s) j =
     (if j = i then map_option f (get_order s j) else get_order s j)"
  unfolding get_order_def upd_order_def by (rule ords.lookup_upd)

lemma get_license_put [store_simps]:
  "get_license (put_license l s) j =
     (if j = l_id l then map_option (\<lambda>_. l) (get_license s j) else get_license s j)"
  by (simp add: get_license_def put_license_def find_id_put_id)

lemma get_item_put [store_simps]:
  "get_item (put_item x s) j = (if j = i_id x then map_option (\<lambda>_. x) (get_item s j) else get_item s j)"
  by (simp add: get_item_def put_item_def find_id_put_id)

lemma get_request_put [store_simps]:
  "get_request (put_request x s) j =
     (if j = r_id x then map_option (\<lambda>_. x) (get_request s j) else get_request s j)"
  by (simp add: get_request_def put_request_def find_id_put_id)

lemma get_order_put [store_simps]:
  "get_order (put_order x s) j =
     (if j = o_id x then map_option (\<lambda>_. x) (get_order s j) else get_order s j)"
  by (simp add: get_order_def put_order_def find_id_put_id)

lemma put_frames [simp]:
  "sourcingItems (put_license l s) = sourcingItems s"
  "sourcingRequests (put_license l s) = sourcingRequests s"
  "pendingOrders (put_license l s) = pendingOrders s"
  "poLineRegister (put_license l s) = poLineRegister s"
  "globalSettings (put_license l s) = globalSettings s"
  "next_id (put_license l s) = next_id s"
  "map l_id (licenses (put_license l s)) = map l_id (licenses s)"
  "licenses (put_item i s) = licenses s"
  "sourcingRequests (put_item i s) = sourcingRequests s"
  "pendingOrders (put_item i s) = pendingOrders s"
  "poLineRegister (put_item i s) = poLineRegister s"
  "globalSettings (put_item i s) = globalSettings s"
  "next_id (put_item i s) = next_id s"
  "map i_id (sourcingItems (put_item i s)) = map i_id (sourcingItems s)"
  "licenses (put_request r s) = licenses s"
  "sourcingItems (put_request r s) = sourcingItems s"
  "pendingOrders (put_request r s) = pendingOrders s"
  "poLineRegister (put_request r s) = poLineRegister s"
  "globalSettings (put_request r s) = globalSettings s"
  "next_id (put_request r s) = next_id s"
  "map r_id (sourcingRequests (put_request r s)) = map r_id (sourcingRequests s)"
  "licenses (put_order x s) = licenses s"
  "sourcingItems (put_order x s) = sourcingItems s"
  "sourcingRequests (put_order x s) = sourcingRequests s"
  "poLineRegister (put_order x s) = poLineRegister s"
  "globalSettings (put_order x s) = globalSettings s"
  "next_id (put_order x s) = next_id s"
  "map o_id (pendingOrders (put_order x s)) = map o_id (pendingOrders s)"
  by (simp_all add: put_license_def put_item_def put_request_def put_order_def)

lemma get_license_push [store_simps]:
  "get_license (push_license l s) j =
     (case get_license s j of None \<Rightarrow> if l_id l = j then Some l else None | Some x \<Rightarrow> Some x)"
  unfolding get_license_def push_license_def by (rule lics.lookup_push)

lemma get_item_push [store_simps]:
  "get_item (push_item x s) j =
     (case get_item s j of None \<Rightarrow> if i_id x = j then Some x else None | Some y \<Rightarrow> Some y)"
  unfolding get_item_def push_item_def by (rule items.lookup_push)

lemma get_request_push [store_simps]:
  "get_request (push_request x s) j =
     (case get_request s j of None \<Rightarrow> if r_id x = j then Some x else None | Some y \<Rightarrow> Some y)"
  unfolding get_request_def push_request_def by (rule reqs.lookup_push)

lemma get_order_push [store_simps]:
  "get_order (push_order x s) j =
     (case get_order s j of None \<Rightarrow> if o_id x = j then Some x else None | Some y \<Rightarrow> Some y)"
  unfolding get_order_def push_order_def by (rule ords.lookup_push)

text \<open>Each writer touches one component of the store.\<close>

lemma store_frames [simp]:
  "sourcingItems (upd_license i f s) = sourcingItems s"
  "sourcingRequests (upd_license i f s) = sourcingRequests s"
  "pendingOrders (upd_license i f s) = pendingOrders s"
  "poLineRegister (upd_license i f s) = poLineRegister s"
  "contracts (upd_license i f s) = contracts s"
  "globalSettings (upd_license i f s) = globalSettings s"
  "next_id (upd_license i f s) = next_id s"
  "licenses (upd_item i g s) = licenses s"
  "sourcingRequests (upd_item i g s) = sourcingRequests s"
  "pendingOrders (upd_item i g s) = pendingOrders s"
  "poLineRegister (upd_item i g s) = poLineRegister s"
  "contracts (upd_item i g s) = contracts s"
  "globalSettings (upd_item i g s) = globalSettings s"
  "next_id (upd_item i g s) = next_id s"
  "licenses (upd_request i h s) = licenses s"
  "sourcingItems (upd_request i h s) = sourcingItems s"
  "pendingOrders (upd_request i h s) = pendingOrders s"
  "poLineRegister (upd_request i h s) = poLineRegister s"
  "contracts (upd_request i h s) = contracts s"
  "globalSettings (upd_request i h s) = globalSettings s"
  "next_id (upd_request i h s) = next_id s"
  "licenses (upd_order i k s) = licenses s"
  "sourcingItems (upd_order i k s) = sourcingItems s"
  "sourcingRequests (upd_order i k s) = sourcingRequests s"
  "poLineRegister (upd_order i k s) = poLineRegister s"
  "contracts (upd_order i k s) = contracts s"
  "globalSettings (upd_order i k s) = globalSettings s"
  "next_id (upd_order i k s) = next_id s"
  by (simp_all add: upd_license_def upd_item_def upd_request_def upd_order_def)

lemma push_frames [simp]:
  "sourcingItems (push_license l s) = sourcingItems s"
  "sourcingRequests (push_license l s) = sourcingRequests s"
  "pendingOrders (push_license l s) = pendingOrders s"
  "poLineRegister (push_license l s) = poLineRegister s"
  "globalSettings (push_license l s) = globalSettings s"
  "next_id (push_license l s) = next_id s"
  "licenses (push_item i s) = licenses s"
  "sourcingRequests (push_item i s) = sourcingRequests s"
  "pendingOrders (push_item i s) = pendingOrders s"
  "poLineRegister (push_item i s) = poLineRegister s"
  "globalSettings (push_item i s) = globalSettings s"
  "next_id (push_item i s) = next_id s"
  "licenses (push_request r s) = licenses s"
  "sourcingItems (push_request r s) = sourcingItems s"
  "pendingOrders (push_request r s) = pendingOrders s"
  "poLineRegister (push_request r s) = poLineRegister s"
  "globalSettings (push_request r s) = globalSettings s"
  "next_id (push_request r s) = next_id s"
  "licenses (push_order x s) = licenses s"
  "sourcingItems (push_order x s) = sourcingItems s"
  "sourcingRequests (push_order x s) = sourcingRequests s"
  "poLineRegister (push_order x s) = poLineRegister s"
  "globalSettings (push_order x s) = globalSettings s"
  "next_id (push_order x s) = next_id s"
  by (simp_all add: push_license_def push_item_def push_request_def push_order_def)

lemma directory_frames [simp]:
  "contracts (put_license l s) = contracts s"
  "contractDocuments (put_license l s) = contractDocuments s"
  "organizations (put_license l s) = organizations s"
  "costCentres (put_license l s) = costCentres s"
  "userDepartments (put_license l s) = userDepartments s"
  "seeded (put_license l s) = seeded s"
  "contracts (put_item i s) = contracts s"
  "contractDocuments (put_item i s) = contractDocuments s"
  "organizations (put_item i s) = organizations s"
  "costCentres (put_item i s) = costCentres s"
  "userDepartments (put_item i s) = userDepartments s"
  "seeded (put_item i s) = seeded s"
  "contracts (put_request r s) = contracts s"
  "contractDocuments (put_request r s) = contractDocuments s"
  "organizations (put_request r s) = organizations s"
  "costCentres (put_request r s) = costCentres s"
  "userDepartments (put_request r s) = userDepartments s"
  "seeded (put_request r s) = seeded s"
  "contracts (put_order x s) = contracts s"
  "contractDocuments (put_order x s) = contractDocuments s"
  "organizations (put_order x s) = organizations s"
  "costCentres (put_order x s) = costCentres s"
  "userDepartments (put_order x s) = userDepartments s"
  "seeded (put_order x s) = seeded s"
  "contracts (push_license l s) = contracts s"
  "contractDocuments (push_license l s) = contractDocuments s"
  "organizations (push_license l s) = organizations s"
  "costCentres (push_license l s) = costCentres s"
  "userDepartments (push_license l s) = userDepartments s"
  "seeded (push_license l s) = seeded s"
  "contracts (push_item i s) = contracts s"
  "contractDocuments (push_item i s) = contractDocuments s"
  "organizations (push_item i s) = organizations s"
  "costCentres (push_item i s) = costCentres s"
  "userDepartments (push_item i s) = userDepartments s"
  "seeded (push_item i s) = seeded s"
  "contracts (push_request r s) = contracts s"
  "contractDocuments (push_request r s) = contractDocuments s"
  "organizations (push_request r s) = organizations s"
  "costCentres (push_request r s) = costCentres s"
  "userDepartments (push_request r s) = userDepartments s"
  "seeded (push_request r s) = seeded s"
  "contracts (push_order x s) = contracts s"
  "contractDocuments (push_order x s) = contractDocuments s"
  "organizations (push_order x s) = organizations s"
  "costCentres (push_order x s) = costCentres s"
  "userDepartments (push_order x s) = userDepartments s"
  "seeded (push_order x s) = seeded s"
  "contractDocuments (upd_license n f s) = contractDocuments s"
  "organizations (upd_license n f s) = organizations s"
  "costCentres (upd_license n f s) = costCentres s"
  "userDepartments (upd_license n f s) = userDepartments s"
  "seeded (upd_license n f s) = seeded s"
  "contractDocuments (upd_item n g s) = contractDocuments s"
  "organizations (upd_item n g s) = organizations s"
  "costCentres (upd_item n g s) = costCentres s"
  "userDepartments (upd_item n g s) = userDepartments s"
  "seeded (upd_item n g s) = seeded s"
  "contractDocuments (upd_request n h s) = contractDocuments s"
  "organizations (upd_request n h s) = organizations s"
  "costCentres (upd_request n h s) = costCentres s"
  "userDepartments (upd_request n h s) = userDepartments s"
  "seeded (upd_request n h s) = seeded s"
  "contractDocuments (upd_order n k s) = contractDocuments s"
  "organizations (upd_order n k s) = organizations s"
  "costCentres (upd_order n k s) = costCentres s"
  "userDepartments (upd_order n k s) = userDepartments s"
  "seeded (upd_order n k s) = seeded s"
  by (simp_all add: put_license_def put_item_def put_request_def put_order_def push_license_def
    push_item_def push_request_def push_order_def upd_license_def upd_item_def upd_request_def upd_order_def)

section \<open>The well-formedness of identifiers\<close>

definition ids_below :: "int \<Rightarrow> ('e \<Rightarrow> int) \<Rightarrow> 'e list \<Rightarrow> bool" where
  "ids_below n key xs \<longleftrightarrow> distinct (map key xs) \<and> (\<forall>x \<in> set xs. key x < n)"

definition ids_ok :: "store \<Rightarrow> bool" where
  "ids_ok s \<longleftrightarrow> ids_below (next_id s) l_id (licenses s) \<and> ids_below (next_id s) i_id (sourcingItems s)
     \<and> ids_below (next_id s) r_id (sourcingRequests s) \<and> ids_below (next_id s) o_id (pendingOrders s)"

lemma ids_below_mono: "ids_below n key xs \<Longrightarrow> n \<le> m \<Longrightarrow> ids_below m key xs"
  by (force simp: ids_below_def)

lemma ids_below_alt:
  "ids_below n key xs \<longleftrightarrow> distinct (map key xs) \<and> (\<forall>k \<in> key ` set xs. k < n)"
  by (simp add: ids_below_def)

lemma ids_below_upd [simp]: "keeps_key key f \<Longrightarrow> ids_below n key (upd_id key i f xs) = ids_below n key xs"
  unfolding ids_below_alt by (simp only: upd_id_keys upd_id_key_set)

lemma ids_below_upd_where [simp]:
  "keeps_key key f \<Longrightarrow> ids_below n key (upd_where p f xs) = ids_below n key xs"
  unfolding ids_below_alt by (simp only: upd_where_keys upd_where_key_set)

lemma ids_below_put [simp]: "ids_below n key (put_id key x xs) = ids_below n key xs"
  unfolding ids_below_alt by (simp only: put_id_keys put_id_key_set)

lemma ids_below_push:
  "ids_below n key xs \<Longrightarrow> key x = n \<Longrightarrow> ids_below (n + 1) key (xs @ [x])"
  by (force simp: ids_below_def)

lemma ids_below_filter: "ids_below n key xs \<Longrightarrow> ids_below n key (filter p xs)"
  by (auto simp: ids_below_def distinct_map_filter)

lemma ids_ok_fresh: "ids_ok s \<Longrightarrow> get_license s (next_id s) = None \<and> get_item s (next_id s) = None
    \<and> get_request s (next_id s) = None \<and> get_order s (next_id s) = None"
  unfolding ids_ok_def ids_below_def get_license_def get_item_def get_request_def get_order_def find_id_None
  by fastforce

lemma ids_ok_upd [simp]:
  "keeps_key l_id f \<Longrightarrow> ids_ok (upd_license i f s) = ids_ok s"
  "keeps_key i_id g \<Longrightarrow> ids_ok (upd_item i g s) = ids_ok s"
  "keeps_key r_id h \<Longrightarrow> ids_ok (upd_request i h s) = ids_ok s"
  "keeps_key o_id k \<Longrightarrow> ids_ok (upd_order i k s) = ids_ok s"
  by (simp_all add: ids_ok_def) (simp_all add: upd_license_def upd_item_def upd_request_def upd_order_def)

lemma ids_ok_put [simp]:
  "ids_ok (put_license l s) = ids_ok s"
  "ids_ok (put_item i s) = ids_ok s"
  "ids_ok (put_request r s) = ids_ok s"
  "ids_ok (put_order x s) = ids_ok s"
  by (simp_all add: ids_ok_def) (simp_all add: put_license_def put_item_def put_request_def put_order_def)

lemma ids_ok_distinct:
  "ids_ok s \<Longrightarrow> distinct (map l_id (licenses s))"
  "ids_ok s \<Longrightarrow> distinct (map i_id (sourcingItems s))"
  "ids_ok s \<Longrightarrow> distinct (map r_id (sourcingRequests s))"
  "ids_ok s \<Longrightarrow> distinct (map o_id (pendingOrders s))"
  by (simp_all add: ids_ok_def ids_below_def)

lemma get_cong:
  "licenses t = licenses s \<Longrightarrow> get_license t i = get_license s i"
  "sourcingItems t = sourcingItems s \<Longrightarrow> get_item t j = get_item s j"
  "sourcingRequests t = sourcingRequests s \<Longrightarrow> get_request t k = get_request s k"
  "pendingOrders t = pendingOrders s \<Longrightarrow> get_order t m = get_order s m"
  by (simp_all add: get_license_def get_item_def get_request_def get_order_def)

end
