(* ===== verification/TermRelationship.thy ===== *)
theory TermRelationship
  imports Store
begin

text \<open>
  \<^verbatim>\<open>src/frontend/src/utils/termRelationship.js\<close>: the rule that decides whether one sourcing line may
  roll into another as its next term, and the label of the gap between two terms. \<open>leads_to\<close> is the
  \<open>while\<close> loop along the next-term links, which stops at the first repeated line; it is proved to be
  reachability along those links, so that a link the rule admits never closes a loop.
\<close>

section \<open>Continuity of two terms\<close>

datatype tone = Warning | Ok

definition term_date_relationship :: "jstr \<Rightarrow> jstr \<Rightarrow> (tone \<times> string) option" where
  "term_date_relationship earlier_end later_start =
     (if \<not> truthy earlier_end \<or> \<not> truthy later_start then None
      else case (parse_day (str earlier_end), parse_day (str later_start)) of
          (Some e, Some l) \<Rightarrow>
            (let delta = (l - e) - 1
             in if delta > 0 then Some (Warning, show_int delta @ ''-day gap between terms'')
                else if delta < 0 then Some (Warning, show_int \<bar>delta\<bar> @ ''-day overlap between terms'')
                else Some (Ok, ''Terms are contiguous''))
        | _ \<Rightarrow> None)"

lemma contiguous_iff:
  assumes "four_digit_day e" "four_digit_day l"
  shows "term_date_relationship (Some (iso_of e)) (Some (iso_of l)) = Some (Ok, ''Terms are contiguous'')
    \<longleftrightarrow> l = e + 1"
  using assms by (auto simp: term_date_relationship_def parse_day_iso Let_def)

section \<open>Next-term links\<close>

text \<open>\<open>new Map(items.map((item) => [item.id, item]))\<close>: the last item with an id wins.\<close>

definition by_id :: "sourcing_item list \<Rightarrow> int \<Rightarrow> sourcing_item option" where
  "by_id items i = find_id i_id i (rev items)"

definition next_term :: "sourcing_item list \<Rightarrow> sourcing_item \<Rightarrow> sourcing_item option" where
  "next_term items c = (case i_successorSourcingItemId c of None \<Rightarrow> None | Some n \<Rightarrow> by_id items n)"

lemma next_term_in: "next_term items c = Some n \<Longrightarrow> n \<in> set items \<and> i_successorSourcingItemId c = Some (i_id n)"
  by (auto simp: next_term_def by_id_def split: option.splits dest: find_id_SomeD)

definition leads_measure :: "sourcing_item list \<Rightarrow> int list \<Rightarrow> sourcing_item option \<Rightarrow> nat" where
  "leads_measure items seen current =
     2 * card (i_id ` set items - set seen) +
     (case current of None \<Rightarrow> 0 | Some c \<Rightarrow> if i_id c \<in> i_id ` set items then 1 else 2)"

lemma leads_measure_decreases:
  assumes "i_id c \<notin> set seen"
  shows "leads_measure items (i_id c # seen) (next_term items c) < leads_measure items seen (Some c)"
proof -
  let ?K = "i_id ` set items"
  have n: "(case next_term items c of None \<Rightarrow> 0 | Some c \<Rightarrow> if i_id c \<in> ?K then 1 else 2) \<le> (1 :: nat)"
    by (auto split: option.split dest: next_term_in)
  show ?thesis
  proof (cases "i_id c \<in> ?K")
    case True
    then have "card (?K - set (i_id c # seen)) < card (?K - set seen)"
      using assms by (intro psubset_card_mono) auto
    with n True show ?thesis by (simp add: leads_measure_def)
  next
    case False
    then have "?K - set (i_id c # seen) = ?K - set seen" by auto
    with n False show ?thesis by (simp add: leads_measure_def)
  qed
qed

function leads_to_from :: "sourcing_item list \<Rightarrow> int \<Rightarrow> int list \<Rightarrow> sourcing_item option \<Rightarrow> bool" where
  "leads_to_from items target seen current =
     (case current of
        None \<Rightarrow> False
      | Some c \<Rightarrow>
          if i_id c \<in> set seen then False
          else if i_id c = target then True
          else leads_to_from items target (i_id c # seen) (next_term items c))"
  by pat_completeness auto
termination
  by (relation "measure (\<lambda>(items, target, seen, current). leads_measure items seen current)")
    (auto intro: leads_measure_decreases)

declare leads_to_from.simps [simp del]

definition leads_to :: "sourcing_item \<Rightarrow> int \<Rightarrow> sourcing_item list \<Rightarrow> bool" where
  "leads_to start target items = leads_to_from items target [] (Some start)"

text \<open>One link of the chain, and the lines a chain reaches.\<close>

inductive reaches :: "sourcing_item list \<Rightarrow> sourcing_item \<Rightarrow> int \<Rightarrow> bool" for items where
  here: "reaches items c (i_id c)"
| step: "next_term items c = Some d \<Longrightarrow> reaches items d t \<Longrightarrow> reaches items c t"

inductive_cases reachesE: "reaches items c t"

lemma reaches_fixed_by_id:
  assumes "i_id c = i_id d" "next_term items c = next_term items d"
  shows "reaches items c t \<longleftrightarrow> reaches items d t"
  using assms by (metis reaches.simps)

lemma leads_to_from_sound: "leads_to_from items t seen (Some c) \<Longrightarrow> reaches items c t"
proof (induction items t seen "Some c" arbitrary: c rule: leads_to_from.induct)
  case (1 items target seen c)
  from "1.prems" show ?case
    by (subst (asm) leads_to_from.simps)
      (cases "next_term items c"; auto simp: leads_to_from.simps [of _ _ _ None]
        split: if_splits intro: reaches.intros "1.hyps")
qed

text \<open>
  The loop keeps only ids in \<open>seen\<close>. While the start is one of the items (the one its id names), a
  line once left and its successor chain are covered: what is reachable from the current line without
  passing a seen line is found.
\<close>

fun chain :: "sourcing_item list \<Rightarrow> sourcing_item \<Rightarrow> nat \<Rightarrow> sourcing_item option" where
  "chain items c 0 = Some c"
| "chain items c (Suc n) = (case next_term items c of None \<Rightarrow> None | Some d \<Rightarrow> chain items d n)"

lemma reaches_chain: "reaches items c t \<longleftrightarrow> (\<exists>n d. chain items c n = Some d \<and> i_id d = t)"
proof
  show "reaches items c t \<Longrightarrow> \<exists>n d. chain items c n = Some d \<and> i_id d = t"
  proof (induction rule: reaches.induct)
    case (here c)
    have "chain items c 0 = Some c" by simp
    then show ?case by blast
  next
    case (step c d t)
    then obtain n e where "chain items d n = Some e" "i_id e = t" by blast
    then have "chain items c (Suc n) = Some e" using step.hyps by simp
    with \<open>i_id e = t\<close> show ?case by blast
  qed
next
  have "chain items c n = Some d \<Longrightarrow> reaches items c (i_id d)" for n d
    by (induction n arbitrary: c) (auto intro: reaches.intros split: option.splits)
  then show "\<exists>n d. chain items c n = Some d \<and> i_id d = t \<Longrightarrow> reaches items c t" by blast
qed

lemma leads_to_from_complete:
  assumes "chain items c n = Some d" "i_id d = t" "\<forall>k < n. \<forall>e. chain items c k = Some e \<longrightarrow> i_id e \<noteq> t"
    and "\<forall>k \<le> n. \<forall>e. chain items c k = Some e \<longrightarrow> i_id e \<notin> set seen"
    and "\<forall>j k e f. j < k \<and> k \<le> n \<and> chain items c j = Some e \<and> chain items c k = Some f \<longrightarrow> i_id e \<noteq> i_id f"
  shows "leads_to_from items t seen (Some c)"
  using assms
proof (induction n arbitrary: c seen)
  case 0
  then show ?case by (subst leads_to_from.simps) simp
next
  case (Suc n)
  from Suc.prems(1) obtain c' where c': "next_term items c = Some c'" "chain items c' n = Some d"
    by (auto split: option.splits)
  have up: "chain items c (Suc k) = chain items c' k" for k using c' by simp
  have c0: "chain items c 0 = Some c" by simp
  have "i_id c \<noteq> t" "i_id c \<notin> set seen"
    using Suc.prems(3)[rule_format, of 0] Suc.prems(4)[rule_format, of 0] by simp_all
  moreover have "leads_to_from items t (i_id c # seen) (Some c')"
  proof (rule Suc.IH [OF c'(2) Suc.prems(2)])
    show "\<forall>k<n. \<forall>e. chain items c' k = Some e \<longrightarrow> i_id e \<noteq> t"
      using Suc.prems(3) up by (metis Suc_mono)
    show "\<forall>k\<le>n. \<forall>e. chain items c' k = Some e \<longrightarrow> i_id e \<notin> set (i_id c # seen)"
    proof (intro allI impI)
      fix k e assume k: "k \<le> n" "chain items c' k = Some e"
      then have "i_id e \<notin> set seen" using Suc.prems(4) up by (metis Suc_le_mono)
      moreover have "i_id c \<noteq> i_id e"
        using Suc.prems(5)[rule_format, of 0 "Suc k" c e] k up c0 by simp
      ultimately show "i_id e \<notin> set (i_id c # seen)" by simp
    qed
    show "\<forall>j k e f. j < k \<and> k \<le> n \<and> chain items c' j = Some e \<and> chain items c' k = Some f \<longrightarrow> i_id e \<noteq> i_id f"
      using Suc.prems(5) up by (metis Suc_mono Suc_le_mono)
  qed
  ultimately show ?case using c'(1) by (subst leads_to_from.simps) simp
qed

lemma chain_add: "chain items c (m + n) = (case chain items c m of None \<Rightarrow> None | Some d \<Rightarrow> chain items d n)"
  by (induction m arbitrary: c) (auto split: option.splits)

text \<open>A line of the list: looking up its id gives it back.\<close>

definition registered :: "sourcing_item list \<Rightarrow> sourcing_item \<Rightarrow> bool" where
  "registered items c \<longleftrightarrow> by_id items (i_id c) = Some c"

lemma next_term_registered: "next_term items c = Some d \<Longrightarrow> registered items d"
  by (auto simp: next_term_def registered_def by_id_def split: option.splits dest: find_id_SomeD)

lemma chain_registered: "registered items c \<Longrightarrow> chain items c n = Some d \<Longrightarrow> registered items d"
proof (induction n arbitrary: c)
  case (Suc n)
  then show ?case using next_term_registered by (auto split: option.splits)
qed simp

lemma registered_inject: "registered items c \<Longrightarrow> registered items d \<Longrightarrow> i_id c = i_id d \<Longrightarrow> c = d"
  by (simp add: registered_def)

lemma leads_to_iff_reaches:
  assumes c: "registered items c"
  shows "leads_to c t items \<longleftrightarrow> reaches items c t"
proof
  show "leads_to c t items \<Longrightarrow> reaches items c t"
    unfolding leads_to_def by (rule leads_to_from_sound)
next
  define P where "P n \<longleftrightarrow> (\<exists>d. chain items c n = Some d \<and> i_id d = t)" for n
  assume "reaches items c t"
  then have ex: "\<exists>n. P n" by (simp add: reaches_chain P_def)
  define n where "n = (LEAST n. P n)"
  have "P n" unfolding n_def using ex by (rule LeastI_ex)
  then obtain d where d: "chain items c n = Some d" "i_id d = t" unfolding P_def by blast
  have least: "\<not> P k" if "k < n" for k using not_less_Least [of k P] that unfolding n_def by blast
  have "i_id e \<noteq> i_id f"
    if jk: "j < k" "k \<le> n" and e: "chain items c j = Some e" and f: "chain items c k = Some f" for j k e f
  proof
    assume "i_id e = i_id f"
    then have "e = f" using registered_inject chain_registered [OF c] e f by blast
    have "chain items c (k + (n - k)) = Some d" using d(1) jk by simp
    then have "chain items e (n - k) = Some d" using f \<open>e = f\<close> chain_add by simp
    then have "chain items c (j + (n - k)) = Some d" using e chain_add by simp
    then have "P (j + (n - k))" using d(2) unfolding P_def by blast
    moreover have "j + (n - k) < n" using jk by simp
    ultimately show False using least by blast
  qed
  then show "leads_to c t items"
    unfolding leads_to_def using d least unfolding P_def
    by (intro leads_to_from_complete [OF d]) auto
qed

section \<open>The rule of the dialogs\<close>

datatype link_block = BlockSelf | BlockType | BlockFollowsLicense | BlockLinked | BlockLoop | BlockOrder

definition coterm_nonempty :: "sourcing_item \<Rightarrow> bool" where
  "coterm_nonempty i \<longleftrightarrow> (case i_cotermPredecessorIds i of None \<Rightarrow> False | Some ids \<Rightarrow> ids \<noteq> [])"

definition term_link_block ::
  "sourcing_item \<Rightarrow> sourcing_item \<Rightarrow> sourcing_item list \<Rightarrow> link_block option" where
  "term_link_block predecessor successor items =
     (if i_id predecessor = i_id successor then Some BlockSelf
      else if \<not> can_follow_in_term_chain (i_licenseType predecessor) (i_licenseType successor) then Some BlockType
      else if i_renewalForLicenseId successor \<noteq> None \<or> coterm_nonempty successor then Some BlockFollowsLicense
      else if i_successorSourcingItemId predecessor \<noteq> None
          \<and> i_successorSourcingItemId predecessor \<noteq> Some (i_id successor) then Some BlockLinked
      else if leads_to successor (i_id predecessor) items then Some BlockLoop
      else if truthy (i_startDate predecessor) \<and> truthy (i_startDate successor)
          \<and> \<not> str (i_startDate predecessor) < str (i_startDate successor) then Some BlockOrder
      else None)"

lemma if_Some_None: "(if a then Some x else y) = None \<longleftrightarrow> \<not> a \<and> y = None"
  by simp

lemma term_link_block_None:
  "term_link_block p s items = None \<longleftrightarrow>
     i_id p \<noteq> i_id s \<and> can_follow_in_term_chain (i_licenseType p) (i_licenseType s)
     \<and> i_renewalForLicenseId s = None \<and> \<not> coterm_nonempty s
     \<and> (i_successorSourcingItemId p = None \<or> i_successorSourcingItemId p = Some (i_id s))
     \<and> \<not> leads_to s (i_id p) items
     \<and> (truthy (i_startDate p) \<and> truthy (i_startDate s) \<longrightarrow> str (i_startDate p) < str (i_startDate s))"
  unfolding term_link_block_def if_Some_None
  by (simp only: de_Morgan_disj de_Morgan_conj not_not simp_thms imp_conv_disj disj_assoc conj_assoc)

section \<open>The links as a relation on ids\<close>

text \<open>The links between the lines of a list, as pairs of ids; an acyclic relation has no loop of terms.\<close>

definition links :: "sourcing_item list \<Rightarrow> (int \<times> int) set" where
  "links items = {(i_id c, n) | c n. c \<in> set items \<and> i_successorSourcingItemId c = Some n \<and> n \<in> i_id ` set items}"

lemma by_id_distinct: "distinct (map i_id items) \<Longrightarrow> c \<in> set items \<Longrightarrow> by_id items (i_id c) = Some c"
  unfolding by_id_def by (rule find_id_distinct) (simp_all flip: rev_map)

lemma registered_all: "distinct (map i_id items) \<Longrightarrow> c \<in> set items \<Longrightarrow> registered items c"
  unfolding registered_def by (rule by_id_distinct)

lemma links_iff:
  assumes "distinct (map i_id items)" "c \<in> set items"
  shows "(i_id c, n) \<in> links items \<longleftrightarrow> (\<exists>d. next_term items c = Some d \<and> i_id d = n)"
proof
  assume "(i_id c, n) \<in> links items"
  then obtain c' d where c': "c' \<in> set items" "i_id c' = i_id c" "i_successorSourcingItemId c' = Some n"
      and d: "d \<in> set items" "i_id d = n" unfolding links_def by auto
  have "c' = c" using by_id_distinct [OF assms(1)] c'(1,2) assms(2) by (metis option.inject)
  then show "\<exists>d. next_term items c = Some d \<and> i_id d = n"
    using c'(3) d by_id_distinct [OF assms(1) d(1)] by (auto simp: next_term_def)
next
  assume "\<exists>d. next_term items c = Some d \<and> i_id d = n"
  then show "(i_id c, n) \<in> links items"
    using assms(2) unfolding links_def by (auto dest: next_term_in)
qed

lemma reaches_links:
  assumes "distinct (map i_id items)" "c \<in> set items"
  shows "reaches items c t \<longleftrightarrow> (i_id c, t) \<in> (links items)\<^sup>*"
proof
  assume "reaches items c t"
  then show "(i_id c, t) \<in> (links items)\<^sup>*" using assms(2)
  proof (induction rule: reaches.induct)
    case (step c d t)
    then have "(i_id c, i_id d) \<in> links items" using links_iff [OF assms(1)] by blast
    moreover have "d \<in> set items" using step.hyps(1) next_term_in by blast
    ultimately show ?case using step.IH by (meson converse_rtrancl_into_rtrancl)
  qed simp
next
  have "(m, t) \<in> (links items)\<^sup>* \<Longrightarrow> c \<in> set items \<Longrightarrow> i_id c = m \<Longrightarrow> reaches items c t" for m c
  proof (induction arbitrary: c rule: converse_rtrancl_induct)
    case base
    then show ?case using here [of items c] by simp
  next
    case (step m n)
    then obtain d where "next_term items c = Some d" "i_id d = n" using links_iff [OF assms(1)] by metis
    then show ?case using step.IH next_term_in reaches.step by blast
  qed
  then show "(i_id c, t) \<in> (links items)\<^sup>* \<Longrightarrow> reaches items c t" using assms(2) by blast
qed

text \<open>Setting the link the rule admits keeps the chains free of loops.\<close>

definition link_line :: "int \<Rightarrow> int \<Rightarrow> sourcing_item list \<Rightarrow> sourcing_item list" where
  "link_line p n = upd_id i_id p (\<lambda>i. i\<lparr>i_successorSourcingItemId := Some n\<rparr>)"

lemma keeps_successor [simp]: "keeps_key i_id (\<lambda>i. i\<lparr>i_successorSourcingItemId := x\<rparr>)"
  by (simp add: keeps_key_def)

lemma links_link_line: "links (link_line p n items) \<subseteq> insert (p, n) (links items)"
proof
  fix x assume "x \<in> links (link_line p n items)"
  then obtain c k where x: "x = (i_id c, k)" and c: "c \<in> set (link_line p n items)"
      and k: "i_successorSourcingItemId c = Some k" "k \<in> i_id ` set items"
    unfolding links_def by (auto simp: link_line_def)
  from set_upd_idD [OF c [unfolded link_line_def]] k show "x \<in> insert (p, n) (links items)"
    unfolding x links_def by auto
qed

lemma link_line_acyclic:
  assumes "distinct (map i_id items)" "successor \<in> set items" "acyclic (links items)"
    and "term_link_block predecessor successor items = None"
  shows "acyclic (links (link_line (i_id predecessor) (i_id successor) items))"
proof -
  have "\<not> leads_to successor (i_id predecessor) items"
    using assms(4) by (simp add: term_link_block_None)
  then have "(i_id successor, i_id predecessor) \<notin> (links items)\<^sup>*"
    using leads_to_iff_reaches [OF registered_all [OF assms(1,2)]] reaches_links [OF assms(1,2)] by simp
  then have "acyclic (insert (i_id predecessor, i_id successor) (links items))"
    using assms(3) by simp
  then show ?thesis using links_link_line by (rule acyclic_subset)
qed

section \<open>Properties\<close>

text \<open>C27: The loop of \<open>leadsTo\<close> ends on every list of lines, cyclic ones included, and answers whether the
  target is reached by following next-term links.\<close>
theorem leads_to_is_reachability:
  assumes "distinct (map i_id items)" "c \<in> set items"
  shows "leads_to c t items \<longleftrightarrow> (i_id c, t) \<in> (links items)\<^sup>*"
  using leads_to_iff_reaches [OF registered_all [OF assms]] reaches_links [OF assms] by simp

definition example_lines :: "sourcing_item list" where
  "example_lines =
     [blank_item\<lparr>i_id := 1, i_successorSourcingItemId := Some 2\<rparr>,
      blank_item\<lparr>i_id := 2\<rparr>, blank_item\<lparr>i_id := 3\<rparr>]"

theorem leads_to_is_reachability_witness:
  "leads_to (hd example_lines) 2 example_lines \<longleftrightarrow> (1, 2) \<in> (links example_lines)\<^sup>*"
  using leads_to_is_reachability [of example_lines "hd example_lines" 2]
  by (simp add: example_lines_def)

text \<open>C11: A link that \<open>termLinkBlock\<close> admits never closes a loop: if the chains of terms were acyclic
  they stay acyclic.\<close>
theorem admitted_link_keeps_acyclic:
  assumes "distinct (map i_id items)" "successor \<in> set items" "acyclic (links items)"
    and "term_link_block predecessor successor items = None"
  shows "acyclic (links (link_line (i_id predecessor) (i_id successor) items))"
  by (rule link_line_acyclic [OF assms])

theorem admitted_link_keeps_acyclic_witness:
  "acyclic (links (link_line 2 3 example_lines))"
proof -
  let ?p = "blank_item\<lparr>i_id := 2\<rparr>" and ?s = "blank_item\<lparr>i_id := 3\<rparr>"
  have "distinct (map i_id example_lines)" "?s \<in> set example_lines" by (simp_all add: example_lines_def)
  note d = this
  have "links example_lines \<subseteq> {(1, 2)}"
    by (auto simp: links_def example_lines_def blank_item_def)
  moreover have "acyclic {(1 :: int, 2 :: int)}"
    by (subst acyclic_insert) (simp add: acyclic_def)
  ultimately have "acyclic (links example_lines)" by (metis acyclic_subset)
  note a = this
  have "term_link_block ?p ?s example_lines = None" by code_simp
  from admitted_link_keeps_acyclic [OF d a this] show ?thesis by simp
qed

end
