(* ===== verification/Quantity.thy ===== *)
theory Quantity
  imports JsNumber
begin

text \<open>
  \<^verbatim>\<open>src/frontend/src/utils/quantity.js\<close>: canonical decimal quantities as text and their exact sum
  (the source adds them as \<open>BigInt\<close>). The reference is \<open>quantity_value\<close>, the rational a canonical
  text denotes. The locale-dependent display functions of the file are not modelled.
\<close>

section \<open>Canonical quantities\<close>

text \<open>The match of \<open>/^(-?)(\d+)(?:\.(\d+))?$/\<close>: sign, integer digits, fraction digits.\<close>

definition split_sign :: "string \<Rightarrow> bool \<times> string" where
  "split_sign s =
     (case s of [] \<Rightarrow> (False, []) | c # r \<Rightarrow> if c = CHR ''-'' then (True, r) else (False, s))"

definition match_unsigned :: "string \<Rightarrow> (string \<times> string) option" where
  "match_unsigned u =
     (if takeWhile is_digit u = [] then None
      else case dropWhile is_digit u of
        [] \<Rightarrow> Some (takeWhile is_digit u, [])
      | c # fp \<Rightarrow>
          if c = CHR ''.'' \<and> digits_only fp then Some (takeWhile is_digit u, fp) else None)"

definition match_quantity :: "string \<Rightarrow> (bool \<times> string \<times> string) option" where
  "match_quantity s =
     (case split_sign s of (neg, u) \<Rightarrow> map_option (\<lambda>(ip, fp). (neg, ip, fp)) (match_unsigned u))"

definition is_zero_char :: "char \<Rightarrow> bool" where
  "is_zero_char c \<longleftrightarrow> c = CHR ''0''"

definition strip_leading_zeros :: "string \<Rightarrow> string" where
  "strip_leading_zeros ip = (case dropWhile is_zero_char ip of [] \<Rightarrow> ''0'' | c # r \<Rightarrow> c # r)"

definition strip_trailing_zeros :: "string \<Rightarrow> string" where
  "strip_trailing_zeros fp = rev (dropWhile is_zero_char (rev fp))"

definition join_quantity :: "string \<Rightarrow> string \<Rightarrow> string" where
  "join_quantity integer fraction = integer @ (if fraction = [] then [] else CHR ''.'' # fraction)"

definition normalize_canonical_quantity :: "jstr \<Rightarrow> string option" where
  "normalize_canonical_quantity value =
     (case value of
        None \<Rightarrow> None
      | Some v \<Rightarrow>
          (case match_quantity (trim v) of
             None \<Rightarrow> None
           | Some (neg, raw_integer, raw_fraction) \<Rightarrow>
               (let integer = strip_leading_zeros raw_integer;
                    fraction = strip_trailing_zeros raw_fraction;
                    is_zero = (integer = ''0'' \<and> fraction = [])
                in Some ((if neg \<and> \<not> is_zero then ''-'' else []) @ join_quantity integer fraction))))"

definition positive_canonical_quantity :: "jstr \<Rightarrow> string option" where
  "positive_canonical_quantity value =
     (case normalize_canonical_quantity value of
        None \<Rightarrow> None
      | Some c \<Rightarrow> if c = ''0'' \<or> take 1 c = ''-'' then None else Some c)"

definition split_quantity :: "string \<Rightarrow> string \<times> string" where
  "split_quantity v = (case split_on (CHR ''.'') v of [] \<Rightarrow> ([], []) | [i] \<Rightarrow> (i, []) | i # f # _ \<Rightarrow> (i, f))"

definition pad_end :: "nat \<Rightarrow> char \<Rightarrow> string \<Rightarrow> string" where
  "pad_end n c s = s @ replicate (n - length s) c"

definition sum_canonical_quantities :: "jstr list \<Rightarrow> string option" where
  "sum_canonical_quantities vals =
     (let quantities = map normalize_canonical_quantity vals
      in if \<exists>q \<in> set quantities. case q of None \<Rightarrow> True | Some v \<Rightarrow> v = ''0'' \<or> take 1 v = ''-'' then None
         else
           (let qs = map the quantities;
                scale = foldl (\<lambda>m v. max m (length (snd (split_quantity v)))) 0 qs;
                total = foldl (\<lambda>sum v. let (i, f) = split_quantity v
                                 in sum + digits_value (i @ pad_end scale (CHR ''0'') f)) 0 qs
            in if scale = 0 then Some (show_digits total)
               else (let digits = pad_start (scale + 1) (CHR ''0'') (show_digits total);
                         k = length digits - scale
                     in normalize_canonical_quantity (Some (take k digits @ ''.'' @ drop k digits)))))"

section \<open>The number a quantity denotes\<close>

definition decimal_value :: "bool \<Rightarrow> string \<Rightarrow> string \<Rightarrow> rat" where
  "decimal_value neg ip fp =
     (if neg then - 1 else 1) * of_int (digits_value (ip @ fp)) / 10 ^ length fp"

definition quantity_value :: "string \<Rightarrow> rat option" where
  "quantity_value s = map_option (\<lambda>(neg, ip, fp). decimal_value neg ip fp) (match_quantity (trim s))"

lemma minus_not_digit [simp]: "\<not> is_digit (CHR ''-'')" "\<not> is_digit (CHR ''.'')"
  by (simp_all add: is_digit_def code_def)

lemma match_unsignedD:
  assumes "match_unsigned u = Some (ip, fp)"
  shows "ip \<noteq> [] \<and> (\<forall>c \<in> set ip. is_digit c) \<and> (\<forall>c \<in> set fp. is_digit c) \<and> u = join_quantity ip fp"
proof -
  have u: "takeWhile is_digit u @ dropWhile is_digit u = u" by simp
  show ?thesis
  proof (cases "dropWhile is_digit u")
    case Nil
    then have ip: "ip = takeWhile is_digit u" and fp: "fp = []" and "ip \<noteq> []"
      using assms unfolding match_unsigned_def Nil by (simp_all split: if_splits)
    moreover have "ip = u" using u unfolding Nil ip by simp
    moreover have "\<forall>c \<in> set ip. is_digit c" unfolding ip by (auto dest: set_takeWhileD)
    ultimately show ?thesis by (simp add: join_quantity_def)
  next
    case (Cons c r)
    then have "c = CHR ''.''" "fp = r" "digits_only r" "ip = takeWhile is_digit u" "ip \<noteq> []"
      using assms by (auto simp: match_unsigned_def split: if_splits)
    then show ?thesis
      using u Cons by (auto simp: join_quantity_def digits_only_def list_all_iff dest: set_takeWhileD)
  qed
qed

lemma match_unsigned_join:
  assumes "ip \<noteq> []" "\<forall>c \<in> set ip. is_digit c" "\<forall>c \<in> set fp. is_digit c"
  shows "match_unsigned (join_quantity ip fp) = Some (ip, fp)"
proof -
  let ?r = "if fp = [] then [] else CHR ''.'' # fp"
  have "takeWhile is_digit (ip @ ?r) = ip" "dropWhile is_digit (ip @ ?r) = ?r"
    using assms by (simp_all add: takeWhile_append2 dropWhile_append2)
  then show ?thesis
    unfolding match_unsigned_def join_quantity_def using assms
    by (simp add: digits_only_def list_all_iff)
qed

lemma split_sign_join:
  assumes "ip \<noteq> []" "\<forall>c \<in> set ip. is_digit c"
  shows "split_sign ((if neg then ''-'' else []) @ join_quantity ip fp) = (neg, join_quantity ip fp)"
proof -
  obtain c r where ip: "ip = c # r" using assms(1) by (cases ip) auto
  then have "c \<noteq> CHR ''-''" using assms(2) by auto
  then show ?thesis by (simp add: split_sign_def join_quantity_def ip)
qed

lemma match_quantityD:
  assumes "match_quantity s = Some (neg, ip, fp)"
  shows "ip \<noteq> []" "\<forall>c \<in> set ip. is_digit c" "\<forall>c \<in> set fp. is_digit c"
  using assms match_unsignedD by (auto simp: match_quantity_def split: prod.splits)

lemma match_join:
  assumes "ip \<noteq> []" "\<forall>c \<in> set ip. is_digit c" "\<forall>c \<in> set fp. is_digit c"
  shows "match_quantity ((if neg then ''-'' else []) @ join_quantity ip fp) = Some (neg, ip, fp)"
  unfolding match_quantity_def split_sign_join [OF assms(1,2)] by (simp add: match_unsigned_join assms)

lemma join_trim:
  assumes "ip \<noteq> []" "\<forall>c \<in> set ip. is_digit c" "\<forall>c \<in> set fp. is_digit c"
  shows "trim ((if neg then ''-'' else []) @ join_quantity ip fp) = (if neg then ''-'' else []) @ join_quantity ip fp"
proof (rule trim_fixed)
  have nw: "\<not> is_ws (CHR ''-'')" by (simp add: is_ws_def code_def)
  have "hd ip \<in> set ip" "last ip \<in> set ip" using assms(1) by simp_all
  moreover have "fp \<noteq> [] \<Longrightarrow> last fp \<in> set fp" by simp
  ultimately show "\<not> is_ws (hd ((if neg then ''-'' else []) @ join_quantity ip fp)) \<and>
      \<not> is_ws (last ((if neg then ''-'' else []) @ join_quantity ip fp))"
    using assms nw digit_not_ws by (cases fp) (auto simp: join_quantity_def)
qed

lemma quantity_value_join:
  assumes "ip \<noteq> []" "\<forall>c \<in> set ip. is_digit c" "\<forall>c \<in> set fp. is_digit c"
  shows "quantity_value ((if neg then ''-'' else []) @ join_quantity ip fp) = Some (decimal_value neg ip fp)"
  unfolding quantity_value_def join_trim [OF assms] match_join [OF assms] by simp

subsection \<open>Stripping zeros keeps the value\<close>

lemma zero_digit [simp]: "digit_val (CHR ''0'') = 0" "is_digit (CHR ''0'')" "is_zero_char (CHR ''0'')"
  by (simp_all add: digit_val_def is_digit_def code_def is_zero_char_def)

lemma zero_char_val: "is_zero_char c \<Longrightarrow> digit_val c = 0"
  by (simp add: is_zero_char_def)

lemma strip_leading:
  "digits_value (strip_leading_zeros ip @ fp) = digits_value (ip @ fp)"
proof -
  have "digits_value (dropWhile is_zero_char ip @ fp) = digits_value (ip @ fp)"
    by (induction ip) (simp_all add: digits_value_Cons zero_char_val)
  then show ?thesis
    by (cases "dropWhile is_zero_char ip")
      (simp_all add: strip_leading_zeros_def digits_value_Cons del: dropWhile_eq_Nil_conv)
qed

lemma strip_leading_props:
  assumes "\<forall>c \<in> set ip. is_digit c"
  shows "strip_leading_zeros ip \<noteq> []" "\<forall>c \<in> set (strip_leading_zeros ip). is_digit c"
proof -
  show "strip_leading_zeros ip \<noteq> []" by (simp add: strip_leading_zeros_def split: list.split)
  have "\<forall>c \<in> set (dropWhile is_zero_char ip). is_digit c"
    using assms set_dropWhileD by fast
  then show "\<forall>c \<in> set (strip_leading_zeros ip). is_digit c"
    by (cases "dropWhile is_zero_char ip") (simp_all add: strip_leading_zeros_def del: dropWhile_eq_Nil_conv)
qed

lemma strip_leading_idem: "strip_leading_zeros (strip_leading_zeros ip) = strip_leading_zeros ip"
proof (cases "dropWhile is_zero_char ip")
  case Nil
  then show ?thesis by (simp add: strip_leading_zeros_def del: dropWhile_eq_Nil_conv)
next
  case (Cons c r)
  then have "\<not> is_zero_char c" using hd_dropWhile_not [of is_zero_char ip] by simp
  with Cons show ?thesis by (simp add: strip_leading_zeros_def)
qed

lemma strip_trailing_snoc:
  "strip_trailing_zeros (fp @ [c]) = (if is_zero_char c then strip_trailing_zeros fp else fp @ [c])"
  by (simp add: strip_trailing_zeros_def)

lemma strip_trailing_Nil [simp]: "strip_trailing_zeros [] = []"
  by (simp add: strip_trailing_zeros_def)

lemma strip_trailing_digits:
  "\<forall>c \<in> set fp. is_digit c \<Longrightarrow> \<forall>c \<in> set (strip_trailing_zeros fp). is_digit c"
  by (auto simp: strip_trailing_zeros_def dest: set_dropWhileD)

lemma strip_trailing_last: "strip_trailing_zeros fp \<noteq> [] \<Longrightarrow> \<not> is_zero_char (last (strip_trailing_zeros fp))"
  by (induction fp rule: rev_induct) (auto simp: strip_trailing_snoc)

lemma strip_trailing_idem: "strip_trailing_zeros (strip_trailing_zeros fp) = strip_trailing_zeros fp"
  by (induction fp rule: rev_induct) (auto simp: strip_trailing_snoc)

lemma strip_trailing_value:
  "(of_int (digits_value (ip @ strip_trailing_zeros fp)) / 10 ^ length (strip_trailing_zeros fp) :: rat) =
     of_int (digits_value (ip @ fp)) / 10 ^ length fp"
proof (induction fp rule: rev_induct)
  case (snoc c fp)
  show ?case
  proof (cases "is_zero_char c")
    case True
    have "digits_value (ip @ fp @ [c]) = 10 * digits_value (ip @ fp)"
      using digits_value_snoc [of "ip @ fp" c] True by (simp add: zero_char_val)
    with True snoc show ?thesis by (simp add: strip_trailing_snoc)
  qed (simp add: strip_trailing_snoc)
qed simp

lemma normalize_value_eq:
  "decimal_value neg (strip_leading_zeros ip) (strip_trailing_zeros fp) = decimal_value neg ip fp"
  using strip_trailing_value [of "strip_leading_zeros ip" fp]
  by (simp add: decimal_value_def strip_leading)

lemma decimal_value_zero: "decimal_value b ''0'' [] = 0"
  by (simp add: decimal_value_def)

text \<open>Normalising succeeds on exactly the texts that denote a number, and keeps the number.\<close>

definition keeps_sign :: "bool \<Rightarrow> string \<Rightarrow> string \<Rightarrow> bool" where
  "keeps_sign neg i f \<longleftrightarrow> neg \<and> \<not> (i = ''0'' \<and> f = [])"

lemma keeps_sign_value: "decimal_value (keeps_sign neg i f) i f = decimal_value neg i f"
  by (cases "i = ''0'' \<and> f = []") (auto simp: keeps_sign_def decimal_value_zero)

lemma normalize_cases:
  assumes "match_quantity (trim v) = Some (neg, ip, fp)"
  defines "i \<equiv> strip_leading_zeros ip" and "f \<equiv> strip_trailing_zeros fp"
  shows "normalize_canonical_quantity (Some v) =
      Some ((if keeps_sign neg i f then ''-'' else []) @ join_quantity i f)"
    and "i \<noteq> []" "\<forall>c \<in> set i. is_digit c" "\<forall>c \<in> set f. is_digit c"
    and "decimal_value (keeps_sign neg i f) i f = decimal_value neg ip fp"
proof -
  note d = match_quantityD [OF assms(1)]
  show "normalize_canonical_quantity (Some v) =
      Some ((if keeps_sign neg i f then ''-'' else []) @ join_quantity i f)"
    unfolding normalize_canonical_quantity_def option.case assms(1) prod.case Let_def i_def f_def
      keeps_sign_def by (rule refl)
  show "i \<noteq> []" "\<forall>c \<in> set i. is_digit c" "\<forall>c \<in> set f. is_digit c"
    unfolding i_def f_def
    by (rule strip_leading_props [OF d(2)] strip_trailing_digits [OF d(3)])+
  show "decimal_value (keeps_sign neg i f) i f = decimal_value neg ip fp"
    unfolding keeps_sign_value i_def f_def by (rule normalize_value_eq)
qed

lemma some_through:
  "a = Some x \<Longrightarrow> b = Some t \<Longrightarrow> f t = Some x \<Longrightarrow> a = Some y \<longleftrightarrow> (\<exists>s. b = Some s \<and> f s = Some y)"
  by simp

lemma normalize_sound:
  "quantity_value v = Some x \<longleftrightarrow>
     (\<exists>s. normalize_canonical_quantity (Some v) = Some s \<and> quantity_value s = Some x)"
proof (cases "match_quantity (trim v)")
  case None
  then show ?thesis by (simp add: quantity_value_def normalize_canonical_quantity_def)
next
  case (Some m)
  obtain neg ip fp where m: "m = (neg, ip, fp)" by (cases m) auto
  note n = normalize_cases [OF Some [unfolded m]]
  have v: "quantity_value v = Some (decimal_value neg ip fp)"
    by (simp add: quantity_value_def Some m)
  have s: "quantity_value ((if keeps_sign neg (strip_leading_zeros ip) (strip_trailing_zeros fp) then ''-'' else [])
      @ join_quantity (strip_leading_zeros ip) (strip_trailing_zeros fp)) = Some (decimal_value neg ip fp)"
    unfolding quantity_value_join [OF n(2-4)] n(5) ..
  show ?thesis by (rule some_through [where f = quantity_value, OF v n(1) s])
qed

section \<open>The sum is exact\<close>

text \<open>The shape of a positive canonical quantity, and its value scaled to \<open>k\<close> decimals.\<close>

definition quantity_shape :: "string \<Rightarrow> string \<Rightarrow> string \<Rightarrow> bool" where
  "quantity_shape v i f \<longleftrightarrow>
     v = join_quantity i f \<and> i \<noteq> [] \<and> (\<forall>c \<in> set i. is_digit c) \<and> (\<forall>c \<in> set f. is_digit c)"

definition scaled_quantity :: "nat \<Rightarrow> string \<Rightarrow> int" where
  "scaled_quantity k v = (let (i, f) = split_quantity v in digits_value (i @ pad_end k (CHR ''0'') f))"

lemma split_quantity_join:
  assumes "quantity_shape v i f"
  shows "split_quantity v = (i, f)"
proof -
  have "CHR ''.'' \<notin> set i" "CHR ''.'' \<notin> set f" using assms by (auto simp: quantity_shape_def)
  then show ?thesis
    using assms
    by (auto simp: quantity_shape_def join_quantity_def split_quantity_def split_on_word split_on_append)
qed

lemma shape_value:
  assumes "quantity_shape v i f"
  shows "quantity_value v = Some (of_int (digits_value (i @ f)) / 10 ^ length f)"
  using quantity_value_join [of i f False] assms by (simp add: quantity_shape_def decimal_value_def)

lemma digits_value_zeros_end: "digits_value (s @ replicate k (CHR ''0'')) = digits_value s * 10 ^ k"
  using digits_value_zeros [of k "[]"] by (simp add: digits_value_append)

lemma scaled_value:
  assumes "quantity_shape v i f" "length f \<le> k" "quantity_value v = Some x"
  shows "of_int (scaled_quantity k v) = x * 10 ^ k"
proof -
  have x: "x = of_int (digits_value (i @ f)) / 10 ^ length f"
    using shape_value [OF assms(1)] assms(3) by simp
  have "scaled_quantity k v = digits_value (i @ f) * 10 ^ (k - length f)"
    using digits_value_zeros_end [of "i @ f" "k - length f"]
    by (simp add: scaled_quantity_def split_quantity_join [OF assms(1)] pad_end_def)
  moreover have "(10::rat) ^ k = 10 ^ length f * 10 ^ (k - length f)"
    using assms(2) by (simp flip: power_add)
  ultimately show ?thesis unfolding x by simp
qed

lemma positive_shape:
  assumes "normalize_canonical_quantity w = Some v" "take 1 v \<noteq> ''-''"
  shows "\<exists>i f. quantity_shape v i f"
proof -
  obtain u where w: "w = Some u" using assms by (cases w) (auto simp: normalize_canonical_quantity_def)
  obtain neg ip fp where m: "match_quantity (trim u) = Some (neg, ip, fp)"
    using assms w by (auto simp: normalize_canonical_quantity_def split: option.splits)
  note n = normalize_cases [OF m]
  have "\<not> keeps_sign neg (strip_leading_zeros ip) (strip_trailing_zeros fp)"
  proof
    assume "keeps_sign neg (strip_leading_zeros ip) (strip_trailing_zeros fp)"
    then have "v = ''-'' @ join_quantity (strip_leading_zeros ip) (strip_trailing_zeros fp)"
      using n(1) assms(1) w by simp
    with assms(2) show False by simp
  qed
  then have "v = join_quantity (strip_leading_zeros ip) (strip_trailing_zeros fp)"
    using n(1) assms(1) w by simp
  then show ?thesis using n(2-4) unfolding quantity_shape_def by blast
qed

lemma foldl_plus: "foldl (\<lambda>a v. a + g v) (a :: int) qs = a + sum_list (map g qs)"
  by (induction qs arbitrary: a) simp_all

lemma foldl_max_ge: "(a :: nat) \<le> foldl (\<lambda>m v. max m (g v)) a qs"
proof (induction qs arbitrary: a)
  case (Cons x qs)
  have "a \<le> max a (g x)" by simp
  also have "\<dots> \<le> foldl (\<lambda>m v. max m (g v)) (max a (g x)) qs" by (rule Cons.IH)
  finally show ?case by simp
qed simp

lemma foldl_max_member: "v \<in> set qs \<Longrightarrow> (g v :: nat) \<le> foldl (\<lambda>m v. max m (g v)) a qs"
proof (induction qs arbitrary: a)
  case (Cons x qs)
  then show ?case using foldl_max_ge [of "max a (g x)" g qs] by auto
qed simp

definition quantity_scale :: "string list \<Rightarrow> nat" where
  "quantity_scale qs = foldl (\<lambda>m v. max m (length (snd (split_quantity v)))) 0 qs"

definition positive_quantity :: "jstr \<Rightarrow> bool" where
  "positive_quantity q \<longleftrightarrow>
     (case normalize_canonical_quantity q of None \<Rightarrow> False | Some v \<Rightarrow> v \<noteq> ''0'' \<and> take 1 v \<noteq> ''-'')"

lemma sum_canonical_unfold:
  assumes "\<forall>q \<in> set vs. positive_quantity q"
  defines "qs \<equiv> map (\<lambda>q. the (normalize_canonical_quantity q)) vs"
  defines "tot \<equiv> sum_list (map (scaled_quantity (quantity_scale qs)) qs)"
  shows "sum_canonical_quantities vs =
    (if quantity_scale qs = 0 then Some (show_digits tot)
     else (let digits = pad_start (quantity_scale qs + 1) (CHR ''0'') (show_digits tot);
               k = length digits - quantity_scale qs
           in normalize_canonical_quantity (Some (take k digits @ ''.'' @ drop k digits))))"
proof -
  have "\<not> (\<exists>q \<in> set (map normalize_canonical_quantity vs).
      case q of None \<Rightarrow> True | Some v \<Rightarrow> v = ''0'' \<or> take 1 v = ''-'')"
    using assms(1) unfolding positive_quantity_def by (auto split: option.splits)
  moreover have "map the (map normalize_canonical_quantity vs) = qs" by (simp add: qs_def)
  moreover have "foldl (\<lambda>sum v. case split_quantity v of (i, f) \<Rightarrow>
      sum + digits_value (i @ pad_end k (CHR ''0'') f)) 0 qs = sum_list (map (scaled_quantity k) qs)" for k
    using foldl_plus [of "scaled_quantity k" 0 qs] by (simp add: scaled_quantity_def Let_def split_beta)
  ultimately show ?thesis
    unfolding sum_canonical_quantities_def Let_def
    by (simp only: quantity_scale_def [symmetric] tot_def if_False)
qed

lemma positive_quantity_parts:
  assumes "positive_quantity q"
  shows "\<exists>v i f. normalize_canonical_quantity q = Some v \<and> quantity_shape v i f \<and>
      quantity_value v = quantity_value (str q)"
proof -
  obtain v where v: "normalize_canonical_quantity q = Some v" "take 1 v \<noteq> ''-''"
    using assms by (auto simp: positive_quantity_def split: option.splits)
  obtain u where q: "q = Some u" using v by (cases q) (auto simp: normalize_canonical_quantity_def)
  obtain i f where shape: "quantity_shape v i f" using positive_shape [OF v] by blast
  have "quantity_value u = quantity_value v"
    using normalize_sound [of u] shape_value [OF shape] v(1) q by auto
  with v shape q show ?thesis by auto
qed

lemma scaled_quantity_value:
  assumes "positive_quantity q" "length (snd (split_quantity (the (normalize_canonical_quantity q)))) \<le> k"
  shows "of_int (scaled_quantity k (the (normalize_canonical_quantity q))) =
      the (quantity_value (str q)) * 10 ^ k" (is "_ = ?v * _")
    and "0 \<le> scaled_quantity k (the (normalize_canonical_quantity q))"
proof -
  obtain v i f where v: "normalize_canonical_quantity q = Some v" "quantity_shape v i f"
      "quantity_value v = quantity_value (str q)"
    using positive_quantity_parts [OF assms(1)] by blast
  have f: "length f \<le> k" using assms(2) v(1) split_quantity_join [OF v(2)] by simp
  have "quantity_value v = Some ?v" using shape_value [OF v(2)] v(3) by auto
  then show eq: "of_int (scaled_quantity k (the (normalize_canonical_quantity q))) = ?v * 10 ^ k"
    using scaled_value [OF v(2) f] v(1) by simp
  have "\<forall>c \<in> set (i @ f). is_digit c" using v(2) by (auto simp: quantity_shape_def)
  then have "0 \<le> digits_value (i @ f)" by (rule digits_value_bounds [THEN conjunct1])
  then have "0 \<le> digits_value (i @ f) * 10 ^ (k - length f)" by simp
  then show "0 \<le> scaled_quantity k (the (normalize_canonical_quantity q))"
    using digits_value_zeros_end [of "i @ f" "k - length f"] v(1)
    by (simp add: scaled_quantity_def split_quantity_join [OF v(2)] pad_end_def)
qed

text \<open>The digits of the scaled total, cut at the decimal point, denote the total.\<close>

lemma cut_digits:
  assumes "0 \<le> n" "0 < k"
  defines "d \<equiv> pad_start (k + 1) (CHR ''0'') (show_digits n)"
  shows "quantity_value (take (length d - k) d @ ''.'' @ drop (length d - k) d) = Some (of_int n / 10 ^ k)"
proof -
  let ?i = "take (length d - k) d" and ?f = "drop (length d - k) d"
  have len: "k < length d" by (simp add: d_def length_pad_start)
  have "\<forall>c \<in> set d. is_digit c" using show_digits_digits [OF assms(1)] by (auto simp: d_def pad_start_def)
  then have "\<forall>c \<in> set ?i. is_digit c" "\<forall>c \<in> set ?f. is_digit c"
    by (auto dest: in_set_takeD in_set_dropD)
  moreover have "?i \<noteq> []" "?f \<noteq> []" "length ?f = k" using len assms(2) by auto
  ultimately have "quantity_shape (?i @ ''.'' @ ?f) ?i ?f"
    by (simp add: quantity_shape_def join_quantity_def)
  from shape_value [OF this] show ?thesis
    using \<open>length ?f = k\<close> assms(1) by (simp add: d_def)
qed

lemma sum_of_scaled:
  assumes "\<forall>q \<in> set vs. positive_quantity q \<and>
      length (snd (split_quantity (the (normalize_canonical_quantity q)))) \<le> k"
  defines "t \<equiv> sum_list (map (scaled_quantity k) (map (\<lambda>q. the (normalize_canonical_quantity q)) vs))"
  shows "of_int t = sum_list (map (\<lambda>q. the (quantity_value (str q))) vs) * 10 ^ k \<and> 0 \<le> t"
  unfolding t_def using assms(1)
proof (induction vs)
  case (Cons q vs)
  then show ?case using scaled_quantity_value [of q k] by (simp add: distrib_right)
qed simp

lemma sum_exact:
  assumes "\<forall>q \<in> set vs. positive_quantity q"
  shows "\<exists>s. sum_canonical_quantities vs = Some s \<and>
      quantity_value s = Some (sum_list (map (\<lambda>q. the (quantity_value (str q))) vs))"
proof -
  let ?qs = "map (\<lambda>q. the (normalize_canonical_quantity q)) vs"
  let ?k = "quantity_scale ?qs" and ?x = "sum_list (map (\<lambda>q. the (quantity_value (str q))) vs)"
  define t where "t = sum_list (map (scaled_quantity ?k) ?qs)"
  have "length (snd (split_quantity (the (normalize_canonical_quantity q)))) \<le> ?k" if "q \<in> set vs" for q
    unfolding quantity_scale_def
    using foldl_max_member [of "the (normalize_canonical_quantity q)" ?qs "\<lambda>v. length (snd (split_quantity v))" 0]
      that by simp
  then have t: "of_int t = ?x * 10 ^ ?k" "0 \<le> t"
    using sum_of_scaled [of vs ?k] assms unfolding t_def by blast+
  note u = sum_canonical_unfold [OF assms, folded t_def]
  show ?thesis
  proof (cases "?k = 0")
    case True
    have "quantity_shape (show_digits t) (show_digits t) []"
      using show_digits_digits [OF t(2)] by (simp add: quantity_shape_def join_quantity_def)
    from shape_value [OF this] have "quantity_value (show_digits t) = Some ?x" using t True by simp
    then show ?thesis using u True by simp
  next
    case False
    define d where "d = pad_start (?k + 1) (CHR ''0'') (show_digits t)"
    define w where "w = take (length d - ?k) d @ ''.'' @ drop (length d - ?k) d"
    have "quantity_value w = Some (of_int t / 10 ^ ?k)"
      unfolding w_def d_def using cut_digits [OF t(2)] False by blast
    then have "quantity_value w = Some ?x" using t(1) by simp
    then obtain s where s: "normalize_canonical_quantity (Some w) = Some s" "quantity_value s = Some ?x"
      using normalize_sound by blast
    have "sum_canonical_quantities vs = normalize_canonical_quantity (Some w)"
      unfolding u Let_def w_def d_def using False by simp
    with s show ?thesis by simp
  qed
qed

section \<open>Properties\<close>

text \<open>The canonical texts: no blanks, no leading or trailing zeros, no signed zero.\<close>

definition canonical_quantity :: "string option \<Rightarrow> bool" where
  "canonical_quantity v \<longleftrightarrow>
     (case v of
        None \<Rightarrow> True
      | Some s \<Rightarrow>
          trim s = s \<and>
          (case match_quantity s of
             None \<Rightarrow> False
           | Some (neg, ip, fp) \<Rightarrow>
               strip_leading_zeros ip = ip \<and> strip_trailing_zeros fp = fp \<and> keeps_sign neg ip fp = neg))"

lemma match_quantity_text:
  assumes "match_quantity s = Some (neg, ip, fp)"
  shows "s = (if neg then ''-'' else []) @ join_quantity ip fp"
proof -
  obtain n u where su: "split_sign s = (n, u)" by (cases "split_sign s") auto
  then have "n = neg" "match_unsigned u = Some (ip, fp)"
    using assms by (auto simp: match_quantity_def)
  moreover have "s = (if n then ''-'' else []) @ u"
    using su by (auto simp: split_sign_def split: list.splits if_splits)
  ultimately show ?thesis using match_unsignedD by simp
qed

lemma canonical_normalize: "canonical_quantity (normalize_canonical_quantity v)"
proof (cases "normalize_canonical_quantity v")
  case None
  then show ?thesis by (simp add: canonical_quantity_def)
next
  case (Some s)
  obtain u where v: "v = Some u" using Some by (cases v) (auto simp: normalize_canonical_quantity_def)
  obtain neg ip fp where m: "match_quantity (trim u) = Some (neg, ip, fp)"
    using Some v by (auto simp: normalize_canonical_quantity_def split: option.splits)
  note n = normalize_cases [OF m]
  let ?i = "strip_leading_zeros ip" and ?f = "strip_trailing_zeros fp"
  have s: "s = (if keeps_sign neg ?i ?f then ''-'' else []) @ join_quantity ?i ?f" using n(1) Some v by simp
  have "trim s = s" "match_quantity s = Some (keeps_sign neg ?i ?f, ?i, ?f)"
    unfolding s by (rule join_trim [OF n(2-4)], rule match_join [OF n(2-4)])
  then show ?thesis
    by (simp add: Some canonical_quantity_def strip_leading_idem strip_trailing_idem keeps_sign_def)
qed

lemma normalize_canonical_fixed: "canonical_quantity v \<Longrightarrow> normalize_canonical_quantity v = v"
proof -
  assume c: "canonical_quantity v"
  show ?thesis
  proof (cases v)
    case None
    then show ?thesis by (simp add: normalize_canonical_quantity_def)
  next
    case (Some s)
    obtain neg ip fp where m: "match_quantity (trim s) = Some (neg, ip, fp)" and t: "trim s = s"
        and k: "strip_leading_zeros ip = ip" "strip_trailing_zeros fp = fp" "keeps_sign neg ip fp = neg"
      using c Some by (auto simp: canonical_quantity_def split: option.splits)
    have "s = (if neg then ''-'' else []) @ join_quantity ip fp"
      using match_quantity_text m t by simp
    with normalize_cases(1) [OF m] show ?thesis unfolding Some k by simp
  qed
qed

interpretation cq: normaliser normalize_canonical_quantity canonical_quantity
  by unfold_locales (rule canonical_normalize, rule normalize_canonical_fixed)


text \<open>C25: \<open>sumCanonicalQuantities\<close> of positive quantities returns a text that denotes exactly their sum,
  whatever the number of decimals of each.\<close>
theorem sum_quantities_exact:
  assumes "\<forall>q \<in> set vs. positive_quantity q"
  shows "\<exists>s. sum_canonical_quantities vs = Some s \<and>
      quantity_value s = Some (sum_list (map (\<lambda>q. the (quantity_value (str q))) vs))"
  by (rule sum_exact [OF assms])

theorem sum_quantities_exact_witness:
  "sum_canonical_quantities [Some ''1.25'', Some ''007.5''] = Some ''8.75'' \<and>
   (\<exists>s. sum_canonical_quantities [Some ''1.25'', Some ''007.5''] = Some s \<and>
      quantity_value s = Some (sum_list (map (\<lambda>q. the (quantity_value (str q))) [Some ''1.25'', Some ''007.5''])))"
proof -
  have "\<forall>q \<in> set [Some ''1.25'', Some ''007.5'']. positive_quantity q"
    "sum_canonical_quantities [Some ''1.25'', Some ''007.5''] = Some ''8.75''" by code_simp+
  with sum_quantities_exact [of "[Some ''1.25'', Some ''007.5'']"] show ?thesis by blast
qed

end
