(* ===== verification/LineAmount.thy ===== *)
theory LineAmount
  imports Quantity Store
begin

text \<open>
  \<^verbatim>\<open>src/frontend/src/utils/lineAmount.js\<close>: the amount of a license line, quantity times unit price.
  The source computes with doubles; \<open>line_amount_exact\<close> gives the range where that is exact.
\<close>

definition canonical_number :: "jstr \<Rightarrow> jsnum option" where
  "canonical_number v =
     (case v of
        None \<Rightarrow> None
      | Some t \<Rightarrow> (case match_quantity (trim t) of None \<Rightarrow> None | Some _ \<Rightarrow> Some (js_Number (trim t))))"

definition get_line_amount :: "jstr \<Rightarrow> jstr \<Rightarrow> jsnum option" where
  "get_line_amount quantity unit_price =
     (case (canonical_number quantity, canonical_number unit_price) of
        (Some q, Some p) \<Rightarrow> Some (js_mul q p) | _ \<Rightarrow> None)"

definition get_line_amount_text :: "jstr \<Rightarrow> jstr \<Rightarrow> string" where
  "get_line_amount_text quantity unit_price =
     (case get_line_amount quantity unit_price of None \<Rightarrow> [] | Some a \<Rightarrow> to_fixed 2 a)"

definition strip_point :: "string \<Rightarrow> string" where
  "strip_point s = (if s \<noteq> [] \<and> last s = CHR ''.'' then butlast s else s)"

definition trimmed_decimal :: "jsnum \<Rightarrow> string" where
  "trimmed_decimal v = strip_point (strip_trailing_zeros (to_fixed 6 v))"

definition format_line_amount :: "jstr \<Rightarrow> jstr \<Rightarrow> string" where
  "format_line_amount quantity unit_price =
     (case get_line_amount quantity unit_price of None \<Rightarrow> [] | Some a \<Rightarrow> trimmed_decimal a)"

definition unit_price_from_total :: "jstr \<Rightarrow> jstr \<Rightarrow> string option" where
  "unit_price_from_total t quantity =
     (case (canonical_number t, canonical_number quantity) of
        (Some pt, Some pq) \<Rightarrow> if pq = Fin 0 then None else Some (trimmed_decimal (js_div pt pq))
      | _ \<Rightarrow> None)"

section \<open>Whole numbers\<close>

lemma match_digits:
  assumes "s \<noteq> []" "\<forall>c \<in> set s. is_digit c"
  shows "match_quantity s = Some (False, s, [])"
  using match_join [of s "[]" False] assms by (simp add: join_quantity_def)

lemma canonical_number_digits:
  assumes "0 \<le> n" "n < 2 ^ 53"
  shows "canonical_number (Some (show_digits n)) = Some (Fin (of_int n))"
proof -
  have d: "\<forall>c \<in> set (show_digits n). is_digit c" using show_digits_digits [OF assms(1)] .
  have "js_Number (show_digits n) = Fin (of_int n)"
    using js_Number_digits [OF show_digits_nonempty d] assms by simp
  then show ?thesis
    using d by (simp add: canonical_number_def digits_trim match_digits)
qed

lemma show_digits_shift:
  assumes "0 < n"
  shows "show_digits (n * 10 ^ k) = show_digits n @ replicate k (CHR ''0'')"
proof (induction k)
  case (Suc k)
  have "0 < n * 10 ^ k" using assms by simp
  then have "show_digits (n * 10 ^ Suc k) = show_digits (n * 10 ^ k) @ [digit_char 0]"
    by (subst show_digits.simps) (simp add: mult.assoc mult.left_commute)
  moreover have "digit_char 0 = CHR ''0''" by code_simp
  ultimately show ?case using Suc by (simp add: replicate_append_same)
qed simp

lemma strip_zeros_replicate: "strip_trailing_zeros (s @ replicate k (CHR ''0'')) = strip_trailing_zeros s"
proof (induction k)
  case (Suc k)
  then show ?case
    using strip_trailing_snoc [of "s @ replicate k (CHR ''0'')" "CHR ''0''"]
    by (simp add: replicate_append_same [symmetric])
qed simp

lemma to_fixed_whole:
  assumes "0 \<le> n" "n < 2 ^ 53"
  shows "to_fixed 6 (Fin (of_int n)) = show_digits n @ CHR ''.'' # replicate 6 (CHR ''0'')"
proof -
  have p6: "pow 10 (int 6) = 1000000" by (simp add: pow_powi)
  have fl: "\<lfloor>of_int n * pow 10 (int 6) + 1 / 2\<rfloor> = n * 10 ^ 6"
    unfolding p6 by (rule floor_unique) simp_all
  have "of_int n < (of_int (2 ^ 53) :: rat)" using assms(2) by (simp only: of_int_less_iff)
  also have "\<dots> \<le> pow 10 21" by (simp add: pow_powi)
  finally have small: "\<not> pow 10 21 \<le> \<bar>of_int n\<bar>" using assms(1) by simp
  have ds: "pad_start 7 (CHR ''0'') (show_digits (n * 10 ^ 6)) = show_digits n @ replicate 6 (CHR ''0'')"
  proof (cases "n = 0")
    case True
    have "pad_start 7 (CHR ''0'') (show_digits 0) = show_digits 0 @ replicate 6 (CHR ''0'')" by code_simp
    with True show ?thesis by simp
  next
    case False
    have "7 \<le> length (show_digits n @ replicate 6 (CHR ''0''))"
      using show_digits_nonempty [of n] by (cases "show_digits n") auto
    then show ?thesis using show_digits_shift [of n 6] False assms(1) by (simp add: pad_start_def)
  qed
  have "fixed_digits 6 (of_int n) = show_digits n @ CHR ''.'' # replicate 6 (CHR ''0'')"
  proof -
    have "6 + (1 :: nat) = 7" by simp
    then show ?thesis
      unfolding fixed_digits_def Let_def fl by (simp only: ds) simp
  qed
  then show ?thesis using small assms(1) by simp
qed

lemma trimmed_whole:
  assumes "0 \<le> n" "n < 2 ^ 53"
  shows "trimmed_decimal (Fin (of_int n)) = show_digits n"
proof -
  have "strip_trailing_zeros ((show_digits n @ ''.'') @ replicate 6 (CHR ''0'')) = show_digits n @ ''.''"
    unfolding strip_zeros_replicate strip_trailing_snoc by (simp add: is_zero_char_def)
  then show ?thesis
    unfolding trimmed_decimal_def to_fixed_whole [OF assms] by (simp add: strip_point_def)
qed

lemma line_amount_exact:
  assumes "0 \<le> q" "0 \<le> p" "q < 2 ^ 53" "p < 2 ^ 53" "q * p < 2 ^ 53"
  shows "get_line_amount (Some (show_digits q)) (Some (show_digits p)) = Some (Fin (of_int (q * p)))"
  using canonical_number_digits [OF assms(1,3)] canonical_number_digits [OF assms(2,4)]
    js_mul_ints [of q p] assms by (simp add: get_line_amount_def)

section \<open>Properties\<close>

text \<open>C29: For whole quantities and prices whose product stays below \<open>2^53\<close> the amount of a line is exact
  and its export text is the product in decimal, with no float noise.\<close>
theorem line_amount_text_exact:
  assumes "0 \<le> q" "0 \<le> p" "q < 2 ^ 53" "p < 2 ^ 53" "q * p < 2 ^ 53"
  shows "get_line_amount (Some (show_digits q)) (Some (show_digits p)) = Some (Fin (of_int (q * p)))
    \<and> format_line_amount (Some (show_digits q)) (Some (show_digits p)) = show_digits (q * p)"
  using line_amount_exact [OF assms] trimmed_whole [of "q * p"] assms by (simp add: format_line_amount_def)

theorem line_amount_text_exact_witness:
  "get_line_amount (Some (show_digits 250)) (Some (show_digits 40)) = Some (Fin (of_int (250 * 40)))
    \<and> format_line_amount (Some (show_digits 250)) (Some (show_digits 40)) = show_digits (250 * 40)
    \<and> show_digits (250 * 40) = ''10000''"
proof (intro conjI)
  have "(0::int) \<le> 250" "(0::int) \<le> 40" "(250::int) < 2 ^ 53" "(40::int) < 2 ^ 53" "250 * 40 < (2::int) ^ 53" by simp_all
  note t = line_amount_text_exact [OF this]
  show "get_line_amount (Some (show_digits 250)) (Some (show_digits 40)) = Some (Fin (of_int (250 * 40)))"
    using t by (rule conjunct1)
  show "format_line_amount (Some (show_digits 250)) (Some (show_digits 40)) = show_digits (250 * 40)"
    using t by (rule conjunct2)
  show "show_digits (250 * 40) = ''10000''" by code_simp
qed

end
