(* ===== verification/ProcurementIdentity.thy ===== *)
theory ProcurementIdentity
  imports LineAmount
begin

text \<open>
  \<^verbatim>\<open>src/frontend/src/utils/procurementIdentity.js\<close>: which licenses belong to one purchase, and the
  figures of a purchase. The identity is the pair of a tagged key and a currency. The source reads
  the figures either by scanning all licenses or from an index built once; both are modelled, and
  proved equal for licenses whose currency holds no NUL character (the separator of the index keys).
  The field \<open>retired\<close> of the screens' licenses is the field \<open>isRetired\<close> of the stored ones.
\<close>

definition normalize_procurement_po_number :: "jstr \<Rightarrow> string" where
  "normalize_procurement_po_number v = to_lower (collapse_ws (trim (str v)))"

definition normalize_procurement_currency :: "jstr \<Rightarrow> string" where
  "normalize_procurement_currency v = to_upper (trim (str v))"

definition procurement_identity_key :: "license \<Rightarrow> (string \<times> string) option" where
  "procurement_identity_key l =
     (let cur = normalize_procurement_currency (l_currency l);
          po = normalize_procurement_po_number (l_poNumber l)
      in if cur = [] then None
         else case l_pendingOrderId l of
             Some o' \<Rightarrow> Some (''pending-order:'' @ show_int o', cur)
           | None \<Rightarrow>
               if truthy (l_procurementBundleId l)
               then Some (''procurement-bundle:'' @ str (l_procurementBundleId l), cur)
               else if po \<noteq> [] then Some (''po:'' @ po, cur)
               else Some (''unkeyed:'' @ show_int (l_id l), cur))"

definition has_same_procurement_identity :: "license \<Rightarrow> license \<Rightarrow> bool" where
  "has_same_procurement_identity l selected \<longleftrightarrow>
     (case (procurement_identity_key l, procurement_identity_key selected) of
        (Some i, Some j) \<Rightarrow> fst i = fst j \<and> snd i = snd j | _ \<Rightarrow> False)"

record breakdown =
  lineSum :: jsnum
  override :: "jsnum option"
  breakdownTotal :: jsnum

definition breakdown_of_lines :: "license list \<Rightarrow> breakdown" where
  "breakdown_of_lines lines =
     (let matching = filter (\<lambda>l. \<not> l_isRetired l) lines;
          override_line = List.find (\<lambda>l. l_poTotalOverride l \<noteq> None \<and> l_poTotalOverride l \<noteq> Some []) matching;
          line_sum = foldl (\<lambda>acc l. js_add acc
              (case get_line_amount (l_quantity l) (l_unitPrice l) of None \<Rightarrow> Fin 0 | Some a \<Rightarrow> a)) (Fin 0) matching;
          ovr = map_option (\<lambda>l. or_zero (js_Number (str (l_poTotalOverride l)))) override_line
      in \<lparr>lineSum = line_sum, override = ovr,
          breakdownTotal = (case ovr of None \<Rightarrow> line_sum | Some x \<Rightarrow> x)\<rparr>)"

definition empty_breakdown :: breakdown where
  "empty_breakdown = \<lparr>lineSum = Fin 0, override = None, breakdownTotal = Fin 0\<rparr>"

definition get_procurement_breakdown :: "license \<Rightarrow> license list \<Rightarrow> breakdown" where
  "get_procurement_breakdown selected all =
     (if procurement_identity_key selected = None then empty_breakdown
      else breakdown_of_lines (filter (\<lambda>l. has_same_procurement_identity l selected) all))"

definition identity_map_key :: "string \<times> string \<Rightarrow> string" where
  "identity_map_key i = fst i @ char_of (0 :: nat) # snd i"

text \<open>The \<open>Map\<close> of the index: its entries in insertion order.\<close>

primrec push_line :: "string \<Rightarrow> license \<Rightarrow> (string \<times> license list) list \<Rightarrow> (string \<times> license list) list" where
  "push_line k l [] = [(k, [l])]"
| "push_line k l (e # es) = (if fst e = k then (k, snd e @ [l]) # es else e # push_line k l es)"

definition index_procurement_lines :: "license list \<Rightarrow> (string \<times> license list) list" where
  "index_procurement_lines all =
     foldl (\<lambda>index l. case procurement_identity_key l of
          None \<Rightarrow> index | Some i \<Rightarrow> push_line (identity_map_key i) l index) [] all"

definition get_indexed_procurement_breakdown :: "license \<Rightarrow> (string \<times> license list) list \<Rightarrow> breakdown" where
  "get_indexed_procurement_breakdown selected index =
     (case procurement_identity_key selected of
        None \<Rightarrow> empty_breakdown
      | Some i \<Rightarrow> breakdown_of_lines (case map_of index (identity_map_key i) of None \<Rightarrow> [] | Some ls \<Rightarrow> ls))"

definition get_procurement_total :: "license \<Rightarrow> license list \<Rightarrow> jsnum" where
  "get_procurement_total selected all = breakdownTotal (get_procurement_breakdown selected all)"

section \<open>Identities\<close>

lemma has_same_iff:
  "has_same_procurement_identity l m \<longleftrightarrow>
     procurement_identity_key l \<noteq> None \<and> procurement_identity_key l = procurement_identity_key m"
  by (auto simp: has_same_procurement_identity_def split: option.splits)

lemma identity_key_None:
  "procurement_identity_key l = None \<longleftrightarrow> normalize_procurement_currency (l_currency l) = []"
  by (simp add: procurement_identity_key_def Let_def split: option.split)

lemma identity_key_currency:
  "procurement_identity_key l = Some i \<Longrightarrow> snd i = normalize_procurement_currency (l_currency l)"
  by (auto simp: procurement_identity_key_def Let_def split: option.splits if_splits)

text \<open>The tags keep the four kinds of key apart.\<close>

lemma order_identity:
  assumes "l_pendingOrderId l = Some a" "procurement_identity_key l = procurement_identity_key m"
    and "procurement_identity_key l \<noteq> None"
  shows "\<exists>b. l_pendingOrderId m = Some b \<and> show_int a = show_int b"
  using assms
  by (auto simp: procurement_identity_key_def Let_def split: option.splits if_splits)

section \<open>The index agrees with the scan\<close>

definition nul_free :: "string \<Rightarrow> bool" where
  "nul_free s \<longleftrightarrow> char_of (0 :: nat) \<notin> set s"

lemma last_separator:
  assumes "z \<notin> set s" "z \<notin> set t" "x @ z # s = y @ z # t"
  shows "x = y \<and> s = t"
proof -
  have "rev s @ z # rev x = rev t @ z # rev y" using arg_cong [OF assms(3), of rev] by simp
  moreover have "takeWhile (\<lambda>c. c \<noteq> z) (rev w @ z # v) = rev w" if "z \<notin> set w" for w v
    using that by (subst takeWhile_append2) auto
  note this [OF assms(1)] this [OF assms(2)]
  ultimately have "rev s = rev t" by metis
  then show ?thesis using assms(3) by simp
qed

lemma identity_map_key_inject:
  "nul_free (snd i) \<Longrightarrow> nul_free (snd j) \<Longrightarrow> identity_map_key i = identity_map_key j \<longleftrightarrow> i = j"
  using last_separator [of "char_of (0::nat)" "snd i" "snd j" "fst i" "fst j"]
  by (auto simp: identity_map_key_def nul_free_def prod_eq_iff)

lemma map_of_push_line:
  "map_of (push_line k l es) j =
     (if j = k then Some ((case map_of es k of None \<Rightarrow> [] | Some ls \<Rightarrow> ls) @ [l]) else map_of es j)"
  by (induction es) auto

definition nul_free_currency :: "license \<Rightarrow> bool" where
  "nul_free_currency l \<longleftrightarrow> nul_free (normalize_procurement_currency (l_currency l))"

lemma index_lookup:
  assumes "\<forall>l \<in> set all. nul_free_currency l" "nul_free (snd i)"
  shows "(case map_of (index_procurement_lines all) (identity_map_key i) of None \<Rightarrow> [] | Some ls \<Rightarrow> ls) =
      filter (\<lambda>l. procurement_identity_key l = Some i) all"
  using assms(1)
proof (induction all rule: rev_induct)
  case (snoc l all)
  show ?case
  proof (cases "procurement_identity_key l")
    case None
    then show ?thesis using snoc by (simp add: index_procurement_lines_def)
  next
    case (Some j)
    have "nul_free (snd j)"
      using snoc.prems identity_key_currency [OF Some] by (simp add: nul_free_currency_def)
    then have "identity_map_key i = identity_map_key j \<longleftrightarrow> i = j"
      using assms(2) by (rule identity_map_key_inject [rotated])
    then show ?thesis
      using snoc Some by (auto simp: index_procurement_lines_def map_of_push_line)
  qed
qed (simp add: index_procurement_lines_def)

lemma indexed_breakdown:
  assumes "\<forall>l \<in> set all. nul_free_currency l" "nul_free_currency selected"
  shows "get_indexed_procurement_breakdown selected (index_procurement_lines all) =
      get_procurement_breakdown selected all"
proof (cases "procurement_identity_key selected")
  case None
  then show ?thesis by (simp add: get_indexed_procurement_breakdown_def get_procurement_breakdown_def)
next
  case (Some i)
  then have "nul_free (snd i)"
    using assms(2) identity_key_currency [OF Some] by (simp add: nul_free_currency_def)
  note look = index_lookup [OF assms(1) this]
  have "filter (\<lambda>l. has_same_procurement_identity l selected) all =
      filter (\<lambda>l. procurement_identity_key l = Some i) all"
    by (rule filter_cong) (auto simp: has_same_iff Some)
  with look Some show ?thesis
    by (simp add: get_indexed_procurement_breakdown_def get_procurement_breakdown_def)
qed

section \<open>Properties\<close>

text \<open>C28: Reading a purchase's figures from the index built once gives the same figures as scanning all
  licenses, as long as no currency holds the separator character of the index keys.\<close>
theorem indexed_breakdown_agrees:
  assumes "\<forall>l \<in> set all. nul_free_currency l" "nul_free_currency selected"
  shows "get_indexed_procurement_breakdown selected (index_procurement_lines all) =
      get_procurement_breakdown selected all"
  by (rule indexed_breakdown [OF assms])

theorem indexed_breakdown_agrees_witness:
  "let a = base_license\<lparr>l_id := 1, l_poNumber := Some ''PO 7'', l_quantity := Some ''2'', l_unitPrice := Some ''5''\<rparr>;
       b = base_license\<lparr>l_id := 2, l_poNumber := Some ''po  7 '', l_quantity := Some ''3'', l_unitPrice := Some ''5''\<rparr>
   in get_indexed_procurement_breakdown a (index_procurement_lines [a, b]) = get_procurement_breakdown a [a, b]"
  unfolding Let_def by (rule indexed_breakdown_agrees) code_simp+

end
