(* ===== verification/PoLines.thy ===== *)
theory PoLines
  imports ProcurementIdentity
begin

text \<open>
  \<^verbatim>\<open>src/frontend/src/demo/poLines.js\<close>: line numbers on purchase orders. A register that only grows
  holds the rows issued; licenses and sourcing lines refer to a row by its id. The interface of the
  register is the locale \<open>line_register\<close>: an allocation appends one row, on the key asked for, with a
  number never used on that key. \<open>allocate_line\<close> provides it, the synchronisation functions use it.
\<close>

section \<open>The register\<close>

definition po_key :: "jstr \<Rightarrow> string" where
  "po_key v = normalize_procurement_po_number v"

definition row_for :: "int option \<Rightarrow> po_line list \<Rightarrow> po_line option" where
  "row_for line_id reg = (case line_id of None \<Rightarrow> None | Some i \<Rightarrow> find_id row_id i reg)"

definition requested_number :: "int option \<Rightarrow> int option \<Rightarrow> int option" where
  "requested_number line_id line_number =
     (case (line_id, line_number) of (None, Some n) \<Rightarrow> if n > 0 then Some n else None | _ \<Rightarrow> None)"

definition is_free :: "string \<Rightarrow> int \<Rightarrow> po_line list \<Rightarrow> bool" where
  "is_free key number reg \<longleftrightarrow> \<not> list_ex (\<lambda>row. row_poKey row = key \<and> row_lineNumber row = number) reg"

definition next_free :: "string \<Rightarrow> po_line list \<Rightarrow> int" where
  "next_free key reg =
     foldl (\<lambda>highest row. if row_poKey row = key then max highest (row_lineNumber row) else highest) 0 reg + 1"

definition allocate_line :: "jstr \<Rightarrow> int option \<Rightarrow> po_line list \<Rightarrow> po_line \<times> po_line list" where
  "allocate_line po_number requested reg =
     (let key = po_key po_number;
          number = (case requested of
              Some n \<Rightarrow> if n > 0 \<and> is_free key n reg then n else next_free key reg
            | None \<Rightarrow> next_free key reg);
          row = \<lparr>row_id = int (length reg) + 1, row_poKey = key,
                 row_poNumber = trim (str po_number), row_lineNumber = number\<rparr>
      in (row, reg @ [row]))"

subsection \<open>The interface\<close>

definition slot :: "po_line \<Rightarrow> string \<times> int" where
  "slot row = (row_poKey row, row_lineNumber row)"

locale line_register =
  fixes alloc :: "jstr \<Rightarrow> int option \<Rightarrow> po_line list \<Rightarrow> po_line \<times> po_line list"
  assumes appends: "alloc p r reg = (row, reg') \<Longrightarrow> reg' = reg @ [row]"
    and on_key: "alloc p r reg = (row, reg') \<Longrightarrow> row_poKey row = po_key p"
    and numbered: "alloc p r reg = (row, reg') \<Longrightarrow> row_id row = int (length reg) + 1"
    and unused: "alloc p r reg = (row, reg') \<Longrightarrow> slot row \<notin> slot ` set reg"
    and positive: "alloc p r reg = (row, reg') \<Longrightarrow> 0 < row_lineNumber row"
begin

definition ok :: "po_line list \<Rightarrow> bool" where
  "ok reg \<longleftrightarrow> map row_id reg = map (\<lambda>k. int k + 1) [0..<length reg] \<and> distinct (map slot reg)
     \<and> (\<forall>row \<in> set reg. 0 < row_lineNumber row)"

lemma ok_Nil: "ok []"
  by (simp add: ok_def)

lemma ok_distinct: "ok reg \<Longrightarrow> distinct (map row_id reg)"
  by (simp add: ok_def distinct_map inj_on_def)

lemma ok_alloc: "ok reg \<Longrightarrow> alloc p r reg = (row, reg') \<Longrightarrow> ok reg'"
  using appends [of p r reg row reg'] numbered [of p r reg row reg'] unused [of p r reg row reg']
    positive [of p r reg row reg']
  by (auto simp: ok_def)

lemma fresh_row: "ok reg \<Longrightarrow> alloc p r reg = (row, reg') \<Longrightarrow> row_for (Some (row_id row)) reg' = Some row"
proof -
  assume reg: "ok reg" and a: "alloc p r reg = (row, reg')"
  have "row \<in> set reg'" using appends [OF a] by simp
  then show ?thesis
    using ok_distinct [OF ok_alloc [OF reg a]] by (simp add: row_for_def find_id_distinct)
qed

text \<open>Rows are never taken back: a row once issued is found in every later register.\<close>

lemma row_kept: "alloc p r reg = (row, reg') \<Longrightarrow> row_for i reg = Some x \<Longrightarrow> row_for i reg' = Some x"
  using appends [of p r reg row reg']
  by (auto simp: row_for_def find_id_append split: option.splits)

end

lemma is_free_iff: "is_free key n reg \<longleftrightarrow> (key, n) \<notin> slot ` set reg"
  by (auto simp: is_free_def slot_def list_ex_iff)

lemma next_free_above:
  "row \<in> set reg \<Longrightarrow> row_poKey row = key \<Longrightarrow> row_lineNumber row < next_free key reg"
  and next_free_pos: "0 < next_free key reg"
proof -
  define g where "g = (\<lambda>highest (row :: po_line). if row_poKey row = key then max highest (row_lineNumber row) else highest)"
  have ge: "a \<le> foldl g a xs" for a and xs :: "po_line list"
  proof (induction xs arbitrary: a)
    case (Cons x xs)
    have "a \<le> g a x" by (simp add: g_def)
    also have "g a x \<le> foldl g (g a x) xs" by (rule Cons.IH)
    finally show ?case by simp
  qed simp
  show "0 < next_free key reg" using ge [of 0 reg] unfolding next_free_def g_def [symmetric] by simp
  have "row \<in> set xs \<Longrightarrow> row_poKey row = key \<Longrightarrow> row_lineNumber row \<le> foldl g a xs" for a xs
  proof (induction xs arbitrary: a)
    case (Cons x xs)
    then show ?case using ge [of "g a x" xs] by (auto simp: g_def)
  qed simp
  then show "row \<in> set reg \<Longrightarrow> row_poKey row = key \<Longrightarrow> row_lineNumber row < next_free key reg"
    unfolding next_free_def g_def [symmetric] by fastforce
qed

lemma next_free_is_free: "is_free key (next_free key reg) reg"
  unfolding is_free_iff slot_def using next_free_above [of _ reg key] by fastforce

interpretation pol: line_register allocate_line
proof unfold_locales
  fix p r reg row reg'
  assume a: "allocate_line p r reg = (row, reg')"
  let ?key = "po_key p"
  have n: "row_lineNumber row = next_free ?key reg \<or>
      (\<exists>n. r = Some n \<and> row_lineNumber row = n \<and> 0 < n \<and> is_free ?key n reg)"
    using a by (auto simp: allocate_line_def Let_def split: option.splits if_splits)
  show "reg' = reg @ [row]" "row_poKey row = ?key" "row_id row = int (length reg) + 1"
    using a by (auto simp: allocate_line_def Let_def)
  then show "slot row \<notin> slot ` set reg"
    using n next_free_is_free [of ?key reg] unfolding is_free_iff slot_def by auto
  show "0 < row_lineNumber row" using n next_free_pos by auto
qed

text \<open>A free number that is asked for is granted.\<close>

lemma allocate_requested:
  "0 < n \<Longrightarrow> is_free (po_key p) n reg \<Longrightarrow> row_lineNumber (fst (allocate_line p (Some n) reg)) = n"
  by (simp add: allocate_line_def Let_def)

section \<open>Synchronising\<close>

definition assign_license :: "po_line option \<Rightarrow> license \<Rightarrow> license" where
  "assign_license row l = l\<lparr>l_poLineId := map_option row_id row, l_poLineNumber := map_option row_lineNumber row\<rparr>"

definition assign_item :: "po_line option \<Rightarrow> sourcing_item \<Rightarrow> sourcing_item" where
  "assign_item row i = i\<lparr>i_poLineId := map_option row_id row, i_poLineNumber := map_option row_lineNumber row\<rparr>"

definition row_on :: "string \<Rightarrow> po_line option \<Rightarrow> bool" where
  "row_on key r \<longleftrightarrow> (case r of None \<Rightarrow> False | Some row \<Rightarrow> row_poKey row = key)"

lemma row_on_simps [simp]: "row_on key None = False" "row_on key (Some row) = (row_poKey row = key)"
  by (simp_all add: row_on_def)

lemma row_onE: "row_on key r \<Longrightarrow> (\<And>row. r = Some row \<Longrightarrow> row_poKey row = key \<Longrightarrow> P) \<Longrightarrow> P"
  by (cases r) auto

definition sync_license_po_line :: "license \<Rightarrow> store \<Rightarrow> license \<times> store" where
  "sync_license_po_line l s =
     (let key = po_key (l_poNumber l); reg = poLineRegister s
      in if key = [] then (assign_license None l, s)
         else
           (let current = row_for (l_poLineId l) reg
            in if row_on key current then (l, s)
               else
                 (let source_row = (case opt_get get_item s (l_sourceSourcingItemId l) of
                        None \<Rightarrow> None | Some i \<Rightarrow> row_for (i_poLineId i) reg)
                  in if row_on key source_row then (assign_license source_row l, s)
                     else
                       (let (row, reg') = allocate_line (l_poNumber l)
                              (case current of
                                 None \<Rightarrow> requested_number (l_poLineId l) (l_poLineNumber l)
                               | Some c \<Rightarrow> Some (row_lineNumber c)) reg
                        in (assign_license (Some row) l, s\<lparr>poLineRegister := reg'\<rparr>)))))"

text \<open>The lines of an order, by the number they hold or ask for, then by id; no number comes last.\<close>

definition line_rank :: "po_line list \<Rightarrow> sourcing_item \<Rightarrow> int list" where
  "line_rank reg i =
     (case row_for (i_poLineId i) reg of
        Some row \<Rightarrow> [0, row_lineNumber row, i_id i]
      | None \<Rightarrow> (case requested_number (i_poLineId i) (i_poLineNumber i) of
            Some n \<Rightarrow> [0, n, i_id i] | None \<Rightarrow> [1, 0, i_id i]))"

definition order_lines :: "int \<Rightarrow> store \<Rightarrow> sourcing_item list" where
  "order_lines oid s =
     sort_key (line_rank (poLineRegister s)) (filter (\<lambda>i. i_status i \<noteq> Cancelled) (order_items s oid))"

definition issue_line :: "jstr \<Rightarrow> int option \<Rightarrow> int \<Rightarrow> store \<Rightarrow> store" where
  "issue_line po_number requested i s =
     (let (row, reg') = allocate_line po_number requested (poLineRegister s)
      in upd_item i (assign_item (Some row)) (s\<lparr>poLineRegister := reg'\<rparr>))"

definition move_line :: "jstr \<Rightarrow> bool \<Rightarrow> sourcing_item \<Rightarrow> store \<Rightarrow> store" where
  "move_line po_number all_free i s =
     issue_line po_number
       (if all_free then map_option row_lineNumber (row_for (i_poLineId i) (poLineRegister s)) else None)
       (i_id i) s"

definition number_line :: "jstr \<Rightarrow> int \<Rightarrow> store \<Rightarrow> store" where
  "number_line po_number i s =
     (case get_item s i of
        None \<Rightarrow> s
      | Some x \<Rightarrow>
          if row_for (i_poLineId x) (poLineRegister s) \<noteq> None then s
          else issue_line po_number (requested_number (i_poLineId x) (i_poLineNumber x)) i s)"

definition copy_line_numbers :: "store \<Rightarrow> pending_order \<Rightarrow> pending_order" where
  "copy_line_numbers s x =
     x\<lparr>o_items := map (\<lambda>sm. case get_item s (sm_id sm) of
          None \<Rightarrow> sm | Some i \<Rightarrow> sm\<lparr>sm_poLineNumber := i_poLineNumber i\<rparr>) (o_items x)\<rparr>"

definition sync_order_items :: "pending_order \<Rightarrow> store \<Rightarrow> store" where
  "sync_order_items x s =
     (let key = po_key (o_poNumber x); reg = poLineRegister s; lines = order_lines (o_id x) s
      in if key = [] then fold (\<lambda>i. upd_item (i_id i) (assign_item None)) lines s
         else
           (let on_other = (\<lambda>i. case row_for (i_poLineId i) reg of None \<Rightarrow> False | Some row \<Rightarrow> row_poKey row \<noteq> key);
                moving = filter on_other lines;
                all_free = list_all (\<lambda>i. case row_for (i_poLineId i) reg of
                    None \<Rightarrow> True | Some row \<Rightarrow> is_free key (row_lineNumber row) reg) moving;
                s1 = fold (move_line (o_poNumber x) all_free) moving s
            in fold (\<lambda>i. number_line (o_poNumber x) (i_id i)) lines s1))"

definition sync_order_po_lines :: "pending_order \<Rightarrow> store \<Rightarrow> pending_order \<times> store" where
  "sync_order_po_lines x s = (let s' = sync_order_items x s in (copy_line_numbers s' x, s'))"

definition sync_stored_order :: "int \<Rightarrow> store \<Rightarrow> store" where
  "sync_stored_order oid s =
     (case get_order s oid of
        None \<Rightarrow> s
      | Some x \<Rightarrow> (let (x', s') = sync_order_po_lines x s in put_order x' s'))"

definition sync_stored_license :: "int \<Rightarrow> store \<Rightarrow> store" where
  "sync_stored_license i s =
     (case get_license s i of
        None \<Rightarrow> s
      | Some l \<Rightarrow> (let (l', s') = sync_license_po_line l s in put_license l' s'))"

definition sync_all_po_lines :: "store \<Rightarrow> store" where
  "sync_all_po_lines s =
     (let s1 = fold sync_stored_order (map o_id (pendingOrders s)) s
      in fold sync_stored_license (map l_id (licenses s1)) s1)"

section \<open>Holding a line\<close>

text \<open>A reference to the register is absent, or names a row and carries its number.\<close>

definition ref_ok :: "po_line list \<Rightarrow> int option \<Rightarrow> int option \<Rightarrow> bool" where
  "ref_ok reg pid num \<longleftrightarrow>
     pid = None \<or> (\<exists>row. row_for pid reg = Some row \<and> num = Some (row_lineNumber row))"

text \<open>What a record with PO number \<open>po\<close> must hold.\<close>

definition holds_line :: "po_line list \<Rightarrow> int option \<Rightarrow> int option \<Rightarrow> jstr \<Rightarrow> bool" where
  "holds_line reg pid num po \<longleftrightarrow>
     (if po_key po = [] then pid = None \<and> num = None
      else \<exists>row. row_for pid reg = Some row \<and> row_poKey row = po_key po \<and> num = Some (row_lineNumber row))"

definition item_ref_ok :: "po_line list \<Rightarrow> sourcing_item \<Rightarrow> bool" where
  "item_ref_ok reg i \<longleftrightarrow> ref_ok reg (i_poLineId i) (i_poLineNumber i)"

definition license_ref_ok :: "po_line list \<Rightarrow> license \<Rightarrow> bool" where
  "license_ref_ok reg l \<longleftrightarrow> ref_ok reg (l_poLineId l) (l_poLineNumber l)"

definition item_holds :: "po_line list \<Rightarrow> jstr \<Rightarrow> sourcing_item \<Rightarrow> bool" where
  "item_holds reg po i \<longleftrightarrow> holds_line reg (i_poLineId i) (i_poLineNumber i) po"

definition license_holds :: "po_line list \<Rightarrow> license \<Rightarrow> bool" where
  "license_holds reg l \<longleftrightarrow> holds_line reg (l_poLineId l) (l_poLineNumber l) (l_poNumber l)"

definition lines_ok :: "store \<Rightarrow> bool" where
  "lines_ok s \<longleftrightarrow> pol.ok (poLineRegister s)
     \<and> (\<forall>i \<in> set (sourcingItems s). item_ref_ok (poLineRegister s) i)
     \<and> (\<forall>l \<in> set (licenses s). license_ref_ok (poLineRegister s) l)"

text \<open>The register only grows.\<close>

definition grows :: "po_line list \<Rightarrow> po_line list \<Rightarrow> bool" where
  "grows reg reg' \<longleftrightarrow> (\<exists>rows. reg' = reg @ rows)"

lemma grows_refl [simp]: "grows reg reg"
  by (simp add: grows_def)

lemma grows_trans [trans]: "grows a b \<Longrightarrow> grows b c \<Longrightarrow> grows a c"
  by (auto simp: grows_def)

lemma grows_row: "grows reg reg' \<Longrightarrow> row_for i reg = Some row \<Longrightarrow> row_for i reg' = Some row"
  by (auto simp: grows_def row_for_def find_id_append split: option.splits)

lemma grows_ref: "grows reg reg' \<Longrightarrow> ref_ok reg p n \<Longrightarrow> ref_ok reg' p n"
  unfolding ref_ok_def using grows_row by blast

lemma grows_holds: "grows reg reg' \<Longrightarrow> holds_line reg p n po \<Longrightarrow> holds_line reg' p n po"
  unfolding holds_line_def using grows_row by (metis (no_types))

lemma alloc_grows: "allocate_line p r reg = (row, reg') \<Longrightarrow> grows reg reg'"
  unfolding grows_def using pol.appends by blast

lemma alloc_holds:
  assumes "pol.ok reg" "allocate_line po r reg = (row, reg')" "po_key po \<noteq> []"
  shows "holds_line reg' (Some (row_id row)) (Some (row_lineNumber row)) po"
  using pol.fresh_row [OF assms(1,2)] pol.on_key [OF assms(2)] assms(3) by (simp add: holds_line_def)

lemma holds_ref: "holds_line reg p n po \<Longrightarrow> ref_ok reg p n"
  by (auto simp: holds_line_def ref_ok_def split: if_splits)

subsection \<open>One license\<close>

lemma row_for_None [simp]: "row_for None reg = None"
  by (simp add: row_for_def)

lemma find_id_mem: "find_id key i xs = Some e \<Longrightarrow> e \<in> set xs"
  using find_id_SomeD by fast

lemma get_item_mem: "get_item s i = Some x \<Longrightarrow> x \<in> set (sourcingItems s) \<and> i_id x = i"
  unfolding get_item_def by (rule find_id_SomeD)

lemma get_license_mem: "get_license s i = Some l \<Longrightarrow> l \<in> set (licenses s) \<and> l_id l = i"
  unfolding get_license_def by (rule find_id_SomeD)

lemma get_order_mem: "get_order s i = Some x \<Longrightarrow> x \<in> set (pendingOrders s) \<and> o_id x = i"
  unfolding get_order_def by (rule find_id_SomeD)

lemma assign_license_fields [simp]:
  "l_id (assign_license r l) = l_id l"
  "l_poNumber (assign_license r l) = l_poNumber l"
  "l_poLineId (assign_license r l) = map_option row_id r"
  "l_poLineNumber (assign_license r l) = map_option row_lineNumber r"
  by (simp_all add: assign_license_def)

lemma assign_item_fields [simp]:
  "i_id (assign_item r i) = i_id i"
  "i_status (assign_item r i) = i_status i"
  "i_pendingOrderId (assign_item r i) = i_pendingOrderId i"
  "i_poLineId (assign_item r i) = map_option row_id r"
  "i_poLineNumber (assign_item r i) = map_option row_lineNumber r"
  by (simp_all add: assign_item_def)

text \<open>The register after \<open>syncLicensePoLine\<close>, and the only thing it changes in the store.\<close>

lemma sync_license_cases:
  assumes "sync_license_po_line l s = (l', s')"
  obtains (blank) "po_key (l_poNumber l) = []" "l' = assign_license None l" "s' = s"
  | (kept) row where "po_key (l_poNumber l) \<noteq> []" "row_for (l_poLineId l) (poLineRegister s) = Some row"
      "row_poKey row = po_key (l_poNumber l)" "l' = l" "s' = s"
  | (shared) i row where "po_key (l_poNumber l) \<noteq> []" "opt_get get_item s (l_sourceSourcingItemId l) = Some i"
      "row_for (i_poLineId i) (poLineRegister s) = Some row" "row_poKey row = po_key (l_poNumber l)"
      "l' = assign_license (Some row) l" "s' = s"
  | (issued) r row reg' where "po_key (l_poNumber l) \<noteq> []"
      "allocate_line (l_poNumber l) r (poLineRegister s) = (row, reg')"
      "l' = assign_license (Some row) l" "s' = s\<lparr>poLineRegister := reg'\<rparr>"
proof (cases "po_key (l_poNumber l) = []")
  case True
  then show thesis using assms blank by (simp add: sync_license_po_line_def)
next
  case key: False
  show thesis
  proof (cases "row_on (po_key (l_poNumber l)) (row_for (l_poLineId l) (poLineRegister s))")
    case True
    then show thesis using assms key by (auto simp: sync_license_po_line_def elim!: row_onE intro: kept)
  next
    case cur: False
    define src where "src = (case opt_get get_item s (l_sourceSourcingItemId l) of
        None \<Rightarrow> None | Some i \<Rightarrow> row_for (i_poLineId i) (poLineRegister s))"
    show thesis
    proof (cases "row_on (po_key (l_poNumber l)) src")
      case True
      then obtain row where row: "src = Some row" "row_poKey row = po_key (l_poNumber l)"
        by (rule row_onE)
      then obtain i where "opt_get get_item s (l_sourceSourcingItemId l) = Some i"
          "row_for (i_poLineId i) (poLineRegister s) = Some row"
        unfolding src_def by (auto split: option.splits)
      moreover have "(l', s') = (assign_license (Some row) l, s)"
        using assms key cur row
        by (simp add: sync_license_po_line_def Let_def src_def [symmetric])
      ultimately show thesis using shared key row(2) by simp
    next
      case False
      define r where "r = (case row_for (l_poLineId l) (poLineRegister s) of
          None \<Rightarrow> requested_number (l_poLineId l) (l_poLineNumber l) | Some c \<Rightarrow> Some (row_lineNumber c))"
      obtain row reg' where a: "allocate_line (l_poNumber l) r (poLineRegister s) = (row, reg')" by fastforce
      have "(l', s') = (assign_license (Some row) l, s\<lparr>poLineRegister := reg'\<rparr>)"
        using assms key cur False a
        by (simp add: sync_license_po_line_def Let_def src_def [symmetric] r_def [symmetric])
      then show thesis using issued key a by simp
    qed
  qed
qed

lemma row_for_id: "row_for p reg = Some row \<Longrightarrow> p = Some (row_id row)"
  by (auto simp: row_for_def split: option.splits dest: find_id_SomeD)

lemma sync_license_post:
  assumes ok: "pol.ok (poLineRegister s)" and ref: "ref_ok (poLineRegister s) (l_poLineId l) (l_poLineNumber l)"
    and sync: "sync_license_po_line l s = (l', s')"
  shows "license_holds (poLineRegister s') l' \<and> pol.ok (poLineRegister s')
    \<and> grows (poLineRegister s) (poLineRegister s') \<and> s' = s\<lparr>poLineRegister := poLineRegister s'\<rparr>
    \<and> (l' = l \<or> (\<exists>r. l' = assign_license r l))"
  using sync
proof (cases rule: sync_license_cases)
  case blank
  then show ?thesis using ok by (auto simp: license_holds_def holds_line_def)
next
  case (kept row)
  then have "l_poLineNumber l = Some (row_lineNumber row)" using ref by (auto simp: ref_ok_def)
  with kept show ?thesis using ok by (auto simp: license_holds_def holds_line_def)
next
  case (shared i row)
  from row_for_id [OF shared(3)] shared show ?thesis
    using ok by (auto simp: license_holds_def holds_line_def)
next
  case (issued r row reg')
  show ?thesis
    using issued alloc_holds [OF ok issued(2,1)] alloc_grows [OF issued(2)] pol.ok_alloc [OF ok issued(2)]
    by (auto simp: license_holds_def)
qed

lemmas sync_license_holds = sync_license_post [THEN conjunct1]

text \<open>A license that holds its line is left alone.\<close>

lemma assign_none_same: "l_poLineId l = None \<Longrightarrow> l_poLineNumber l = None \<Longrightarrow> assign_license None l = l"
  by (cases l) (simp add: assign_license_def)

lemma sync_license_fixed: "license_holds (poLineRegister s) l \<Longrightarrow> sync_license_po_line l s = (l, s)"
  by (auto simp: license_holds_def holds_line_def sync_license_po_line_def Let_def assign_none_same split: if_splits)

subsection \<open>The lines of an order\<close>

lemma keeps_assign [simp]: "keeps_key i_id (assign_item r)"
  by (simp add: keeps_key_def)

lemma register_frames [simp]:
  "get_item (s\<lparr>poLineRegister := r\<rparr>) i = get_item s i"
  "get_license (s\<lparr>poLineRegister := r\<rparr>) i = get_license s i"
  "get_order (s\<lparr>poLineRegister := r\<rparr>) i = get_order s i"
  "upd_item i f (s\<lparr>poLineRegister := r\<rparr>) = (upd_item i f s)\<lparr>poLineRegister := r\<rparr>"
  "poLineRegister (upd_item i f s) = poLineRegister s"
  by (simp_all add: get_item_def get_license_def get_order_def upd_item_def)

lemma issue_line_eq:
  "issue_line po r i s = (let (row, reg') = allocate_line po r (poLineRegister s)
     in (upd_item i (assign_item (Some row)) s)\<lparr>poLineRegister := reg'\<rparr>)"
  by (simp add: issue_line_def split: prod.split)

text \<open>What a step on one line may do: change that line's reference, let the register grow.\<close>

definition same_rest :: "store \<Rightarrow> store \<Rightarrow> bool" where
  "same_rest s t \<longleftrightarrow> licenses t = licenses s \<and> sourcingRequests t = sourcingRequests s
     \<and> pendingOrders t = pendingOrders s \<and> contracts t = contracts s
     \<and> globalSettings t = globalSettings s \<and> next_id t = next_id s"

definition same_line :: "sourcing_item option \<Rightarrow> sourcing_item option \<Rightarrow> bool" where
  "same_line a b \<longleftrightarrow> b = a \<or> (\<exists>r x. a = Some x \<and> b = Some (assign_item r x))"

definition line_step :: "int set \<Rightarrow> store \<Rightarrow> store \<Rightarrow> bool" where
  "line_step I s t \<longleftrightarrow> grows (poLineRegister s) (poLineRegister t) \<and> same_rest s t
     \<and> map i_id (sourcingItems t) = map i_id (sourcingItems s)
     \<and> (\<forall>j. j \<notin> I \<longrightarrow> get_item t j = get_item s j)
     \<and> (\<forall>j. same_line (get_item s j) (get_item t j))"

lemma same_rest_refl [simp]: "same_rest s s"
  by (simp add: same_rest_def)

lemma same_rest_trans [trans]: "same_rest s t \<Longrightarrow> same_rest t u \<Longrightarrow> same_rest s u"
  by (simp add: same_rest_def)

lemma assign_assign [simp]: "assign_item r (assign_item q x) = assign_item r x"
  by (simp add: assign_item_def)

lemma same_line_refl [simp]: "same_line a a"
  by (simp add: same_line_def)

lemma same_line_trans: "same_line a b \<Longrightarrow> same_line b c \<Longrightarrow> same_line a c"
  unfolding same_line_def by (elim disjE exE conjE) auto

lemma line_step_refl [simp]: "line_step I s s"
  by (simp add: line_step_def)

lemma line_step_trans: "line_step I s t \<Longrightarrow> line_step J t u \<Longrightarrow> line_step (I \<union> J) s u"
  unfolding line_step_def
  by (intro conjI allI impI)
    (blast intro: grows_trans same_rest_trans same_line_trans | simp)+

text \<open>A fact about the line with id \<open>i\<close> that survives growth of the register survives steps on other lines.\<close>

definition line_at :: "store \<Rightarrow> int \<Rightarrow> (po_line list \<Rightarrow> sourcing_item \<Rightarrow> bool) \<Rightarrow> bool" where
  "line_at s i Q \<longleftrightarrow> (\<exists>y. get_item s i = Some y \<and> Q (poLineRegister s) y)"

definition stable :: "(po_line list \<Rightarrow> sourcing_item \<Rightarrow> bool) \<Rightarrow> bool" where
  "stable Q \<longleftrightarrow> (\<forall>reg reg' y. grows reg reg' \<longrightarrow> Q reg y \<longrightarrow> Q reg' y)"

lemma line_at_stable: "stable Q \<Longrightarrow> line_step J s t \<Longrightarrow> i \<notin> J \<Longrightarrow> line_at s i Q \<Longrightarrow> line_at t i Q"
  unfolding line_at_def stable_def line_step_def by metis

lemma line_at_weaken: "line_at s i Q \<Longrightarrow> (\<And>reg y. Q reg y \<Longrightarrow> R reg y) \<Longrightarrow> line_at s i R"
  by (auto simp: line_at_def)

lemma stable_holds: "stable (\<lambda>reg. item_holds reg po)"
  unfolding stable_def item_holds_def using grows_holds by blast

lemma fold_lines:
  assumes step: "\<And>x s. x \<in> set xs \<Longrightarrow> lines_ok s \<Longrightarrow> line_at s (k x) P \<Longrightarrow>
      line_step {k x} s (f x s) \<and> lines_ok (f x s) \<and> line_at (f x s) (k x) Q"
    and "stable P" "stable Q" "distinct (map k xs)" "lines_ok s" "\<forall>x \<in> set xs. line_at s (k x) P"
  shows "line_step (k ` set xs) s (fold f xs s) \<and> lines_ok (fold f xs s)
    \<and> (\<forall>x \<in> set xs. line_at (fold f xs s) (k x) Q)"
  using assms(1,4-)
proof (induction xs arbitrary: s)
  case (Cons x xs)
  let ?t = "f x s"
  have x: "line_step {k x} s ?t" "lines_ok ?t" "line_at ?t (k x) Q"
    using Cons.prems(1) [of x s] Cons.prems(3,4) by auto
  have "\<forall>y \<in> set xs. line_at ?t (k y) P"
    using line_at_stable [OF assms(2) x(1)] Cons.prems(2,4) by (auto simp: image_iff)
  then have rest: "line_step (k ` set xs) ?t (fold f xs ?t) \<and> lines_ok (fold f xs ?t)
      \<and> (\<forall>y \<in> set xs. line_at (fold f xs ?t) (k y) Q)"
    using Cons.prems(1,2) x(2) by (intro Cons.IH) auto
  then have "line_at (fold f xs ?t) (k x) Q"
    using line_at_stable [OF assms(3) _ _ x(3)] Cons.prems(2) by (auto simp: image_iff)
  moreover have "line_step (k ` set (x # xs)) s (fold f xs ?t)"
    using line_step_trans [OF x(1)] rest by fastforce
  ultimately show ?case using rest by simp
qed simp

lemma get_item_upd_assign:
  "get_item (upd_item i (assign_item r) s) j =
     (if j = i then map_option (assign_item r) (get_item s j) else get_item s j)"
  by (rule get_item_upd) simp

lemma upd_item_step: "line_step {i} s (upd_item i (assign_item r) s)"
  unfolding line_step_def same_rest_def same_line_def
  by (cases "get_item s i") (auto simp: get_item_upd_assign, simp_all add: upd_item_def)

lemma lines_ok_upd_item:
  assumes "lines_ok s" "ref_ok (poLineRegister s) (map_option row_id r) (map_option row_lineNumber r)"
  shows "lines_ok (upd_item i (assign_item r) s)"
proof -
  have "item_ref_ok (poLineRegister s) y" if "y \<in> set (sourcingItems (upd_item i (assign_item r) s))" for y
    using set_upd_idD [of y i_id i "assign_item r" "sourcingItems s"] that assms
    by (auto simp: upd_item_def lines_ok_def item_ref_ok_def)
  then show ?thesis using assms(1) by (simp add: lines_ok_def)
qed

lemma lines_ok_grow:
  assumes "lines_ok s" "allocate_line po r (poLineRegister s) = (row, reg')"
  shows "lines_ok (s\<lparr>poLineRegister := reg'\<rparr>)"
  using assms grows_ref [OF alloc_grows [OF assms(2)]] pol.ok_alloc [of "poLineRegister s"]
  by (auto simp: lines_ok_def item_ref_ok_def license_ref_ok_def)

lemma grow_step: "grows (poLineRegister s) reg' \<Longrightarrow> line_step {} s (s\<lparr>poLineRegister := reg'\<rparr>)"
  by (simp add: line_step_def same_rest_def)

lemma issue_line_step:
  assumes ok: "lines_ok s" and key: "po_key po \<noteq> []" and y: "line_at s i P"
  shows "line_step {i} s (issue_line po r i s) \<and> lines_ok (issue_line po r i s)
    \<and> line_at (issue_line po r i s) i (\<lambda>reg. item_holds reg po)"
proof -
  obtain row reg' where a: "allocate_line po r (poLineRegister s) = (row, reg')" by fastforce
  let ?g = "s\<lparr>poLineRegister := reg'\<rparr>"
  have t: "issue_line po r i s = upd_item i (assign_item (Some row)) ?g"
    by (simp add: issue_line_def a)
  have h: "holds_line reg' (Some (row_id row)) (Some (row_lineNumber row)) po"
    using ok alloc_holds [OF _ a key] by (simp add: lines_ok_def)
  have "line_step ({} \<union> {i}) s (upd_item i (assign_item (Some row)) ?g)"
    using line_step_trans [OF grow_step [OF alloc_grows [OF a]] upd_item_step] .
  moreover have "lines_ok (upd_item i (assign_item (Some row)) ?g)"
    using lines_ok_upd_item [OF lines_ok_grow [OF ok a]] holds_ref [OF h] by simp
  moreover have "line_at (upd_item i (assign_item (Some row)) ?g) i (\<lambda>reg. item_holds reg po)"
    using y h by (auto simp: line_at_def get_item_upd_assign item_holds_def simp del: register_frames(4))
  ultimately show ?thesis unfolding t by simp
qed

text \<open>The numbering pass expects lines that hold no row of another order.\<close>

definition unmoved :: "jstr \<Rightarrow> po_line list \<Rightarrow> sourcing_item \<Rightarrow> bool" where
  "unmoved po reg i \<longleftrightarrow> i_poLineId i = None \<or> item_holds reg po i"

lemma stable_unmoved: "stable (unmoved po)"
  using stable_holds unfolding stable_def unmoved_def by blast

lemma number_line_step:
  assumes ok: "lines_ok s" and key: "po_key po \<noteq> []" and y: "line_at s i (unmoved po)"
  shows "line_step {i} s (number_line po i s) \<and> lines_ok (number_line po i s)
    \<and> line_at (number_line po i s) i (\<lambda>reg. item_holds reg po)"
proof -
  obtain x where x: "get_item s i = Some x" "unmoved po (poLineRegister s) x"
    using y by (auto simp: line_at_def)
  show ?thesis
  proof (cases "row_for (i_poLineId x) (poLineRegister s)")
    case None
    then show ?thesis using issue_line_step [OF ok key y] x(1) by (simp add: number_line_def)
  next
    case (Some row)
    then have "item_holds (poLineRegister s) po x" using x(2) by (auto simp: unmoved_def)
    then show ?thesis using Some x(1) ok by (simp add: number_line_def line_at_def)
  qed
qed

lemma clear_line_step:
  assumes "lines_ok s" "po_key po = []" "line_at s i P"
  shows "line_step {i} s (upd_item i (assign_item None) s) \<and> lines_ok (upd_item i (assign_item None) s)
    \<and> line_at (upd_item i (assign_item None) s) i (\<lambda>reg. item_holds reg po)"
  using upd_item_step lines_ok_upd_item [of s None i] assms
  by (auto simp: ref_ok_def line_at_def get_item_upd_assign item_holds_def holds_line_def)

lemma get_item_self: "distinct (map i_id (sourcingItems s)) \<Longrightarrow> x \<in> set (sourcingItems s) \<Longrightarrow> get_item s (i_id x) = Some x"
  unfolding get_item_def by (rule find_id_distinct)

lemma order_lines_mem:
  "x \<in> set (order_lines oid s) \<longleftrightarrow>
     x \<in> set (sourcingItems s) \<and> i_pendingOrderId x = Some oid \<and> i_status x \<noteq> Cancelled"
  by (auto simp: order_lines_def order_items_def)

lemma order_lines_distinct:
  "distinct (map i_id (sourcingItems s)) \<Longrightarrow> distinct (map i_id (order_lines oid s))"
  by (auto simp: order_lines_def order_items_def distinct_map inj_on_def)

lemma ok_item_ref: "lines_ok s \<Longrightarrow> x \<in> set (sourcingItems s) \<Longrightarrow> item_ref_ok (poLineRegister s) x"
  by (simp add: lines_ok_def)

lemma move_line_step:
  assumes "lines_ok s" "po_key po \<noteq> []" "line_at s (i_id x) P"
  shows "line_step {i_id x} s (move_line po b x s) \<and> lines_ok (move_line po b x s)
    \<and> line_at (move_line po b x s) (i_id x) (\<lambda>reg. item_holds reg po)"
  unfolding move_line_def by (rule issue_line_step [OF assms])

lemma stable_True: "stable (\<lambda>_ _. True)"
  by (simp add: stable_def)

text \<open>What \<open>syncOrderPoLines\<close> guarantees of the lines of the order.\<close>

lemma sync_order_items_post:
  fixes x :: pending_order
  assumes ok: "lines_ok s" and ids: "distinct (map i_id (sourcingItems s))"
  defines "lines \<equiv> order_lines (o_id x) s" and "t \<equiv> sync_order_items x s"
  shows "line_step (i_id ` set lines) s t \<and> lines_ok t
    \<and> (\<forall>i \<in> set lines. line_at t (i_id i) (\<lambda>reg. item_holds reg (o_poNumber x)))"
proof -
  let ?po = "o_poNumber x" and ?reg = "poLineRegister s"
  have dist: "distinct (map i_id lines)" unfolding lines_def by (rule order_lines_distinct [OF ids])
  have here: "line_at s (i_id i) (\<lambda>reg y. y = i)" if "i \<in> set lines" for i
    using that get_item_self [OF ids] by (simp add: lines_def order_lines_mem line_at_def)
  then have any: "\<forall>i \<in> set lines. line_at s (i_id i) (\<lambda>_ _. True)" using line_at_weaken by fast
  show ?thesis
  proof (cases "po_key ?po = []")
    case True
    then have t: "t = fold (\<lambda>i. upd_item (i_id i) (assign_item None)) lines s"
      by (simp add: t_def sync_order_items_def lines_def)
    show ?thesis unfolding t
      by (rule fold_lines [OF _ stable_True stable_holds dist ok any]) (rule clear_line_step [OF _ True])
  next
    case key: False
    define moving where "moving = filter (\<lambda>i. case row_for (i_poLineId i) ?reg of
        None \<Rightarrow> False | Some row \<Rightarrow> row_poKey row \<noteq> po_key ?po) lines"
    obtain b where t: "t = fold (\<lambda>i. number_line ?po (i_id i)) lines (fold (move_line ?po b) moving s)"
      unfolding t_def sync_order_items_def Let_def if_not_P [OF key] moving_def lines_def by blast
    let ?u = "fold (move_line ?po b) moving s"
    have sub: "set moving \<subseteq> set lines" and mdist: "distinct (map i_id moving)"
      using dist by (auto simp: moving_def distinct_map_filter)
    have u: "line_step (i_id ` set moving) s ?u \<and> lines_ok ?u
        \<and> (\<forall>i \<in> set moving. line_at ?u (i_id i) (\<lambda>reg. item_holds reg ?po))"
    proof (rule fold_lines [OF _ stable_True stable_holds mdist ok])
      show "\<forall>i \<in> set moving. line_at s (i_id i) (\<lambda>_ _. True)" using sub any by blast
    qed (rule move_line_step [OF _ key])
    have unm: "\<forall>i \<in> set lines. line_at ?u (i_id i) (unmoved ?po)"
    proof
      fix i assume i: "i \<in> set lines"
      show "line_at ?u (i_id i) (unmoved ?po)"
      proof (cases "i \<in> set moving")
        case True
        with u have "line_at ?u (i_id i) (\<lambda>reg. item_holds reg ?po)" by blast
        then show ?thesis by (rule line_at_weaken) (simp add: unmoved_def)
      next
        case False
        have "item_ref_ok ?reg i" using ok_item_ref [OF ok] i by (simp add: lines_def order_lines_mem)
        then have "unmoved ?po ?reg i"
          using False i key
          by (auto simp: moving_def unmoved_def item_ref_ok_def ref_ok_def item_holds_def holds_line_def)
        moreover have "i_id i \<notin> i_id ` set moving"
          using False i sub dist by (auto simp: distinct_map inj_on_def)
        moreover have "line_at s (i_id i) (unmoved ?po)"
          using here [OF i] calculation(1) by (auto simp: line_at_def)
        ultimately show ?thesis using line_at_stable [OF stable_unmoved] u by blast
      qed
    qed
    have "line_step (i_id ` set lines) ?u t \<and> lines_ok t
        \<and> (\<forall>i \<in> set lines. line_at t (i_id i) (\<lambda>reg. item_holds reg ?po))"
      unfolding t
    proof (rule fold_lines [OF _ stable_unmoved stable_holds dist _ unm])
      show "lines_ok ?u" using u by blast
    qed (rule number_line_step [OF _ key])
    moreover have "i_id ` set moving \<union> i_id ` set lines = i_id ` set lines" using sub by auto
    ultimately show ?thesis using line_step_trans [of "i_id ` set moving" s ?u "i_id ` set lines" t] u by simp
  qed
qed

text \<open>The same, for every line of the order as it stands afterwards.\<close>

definition order_numbered :: "pending_order \<Rightarrow> store \<Rightarrow> bool" where
  "order_numbered x s \<longleftrightarrow>
     (\<forall>i \<in> set (order_lines (o_id x) s). item_holds (poLineRegister s) (o_poNumber x) i)"

lemma line_step_ids: "line_step I s t \<Longrightarrow> map i_id (sourcingItems t) = map i_id (sourcingItems s)"
  by (simp add: line_step_def)

lemma line_step_order_line:
  assumes "line_step I s t" "distinct (map i_id (sourcingItems s))" "y \<in> set (order_lines oid t)"
  obtains x where "x \<in> set (order_lines oid s)" "i_id x = i_id y" "get_item t (i_id y) = Some y"
proof -
  have dt: "distinct (map i_id (sourcingItems t))" using assms(1,2) by (simp add: line_step_ids)
  have y: "get_item t (i_id y) = Some y" "i_pendingOrderId y = Some oid" "i_status y \<noteq> Cancelled"
    using get_item_self [OF dt] assms(3) by (simp_all add: order_lines_mem)
  have "same_line (get_item s (i_id y)) (get_item t (i_id y))" using assms(1) by (simp add: line_step_def)
  then obtain x where x: "get_item s (i_id y) = Some x" "i_pendingOrderId x = Some oid" "i_status x \<noteq> Cancelled"
    using y unfolding same_line_def by (elim disjE exE conjE) auto
  then show ?thesis using that [of x] y(1) get_item_mem [OF x(1)] by (simp add: order_lines_mem)
qed

lemma sync_order_numbered:
  assumes "lines_ok s" "distinct (map i_id (sourcingItems s))"
  shows "order_numbered x (sync_order_items x s)"
  unfolding order_numbered_def
proof
  let ?t = "sync_order_items x s"
  note post = sync_order_items_post [OF assms, of x]
  fix y assume "y \<in> set (order_lines (o_id x) ?t)"
  then obtain z where z: "z \<in> set (order_lines (o_id x) s)" "i_id z = i_id y" "get_item ?t (i_id y) = Some y"
    using line_step_order_line [of _ s ?t y "o_id x"] post assms(2) by blast
  then have "line_at ?t (i_id y) (\<lambda>reg. item_holds reg (o_poNumber x))" using post by metis
  with z(3) show "item_holds (poLineRegister ?t) (o_poNumber x) y" by (simp add: line_at_def)
qed

lemma fold_fixed: "(\<And>x. x \<in> set xs \<Longrightarrow> f x s = s) \<Longrightarrow> fold f xs s = s"
  by (induction xs) auto

lemma upd_id_same: "(\<And>e. e \<in> set xs \<Longrightarrow> key e = i \<Longrightarrow> f e = e) \<Longrightarrow> upd_id key i f xs = xs"
  by (induction xs) auto

lemma sync_order_fixed:
  assumes ids: "distinct (map i_id (sourcingItems s))" and num: "order_numbered x s"
  shows "sync_order_items x s = s"
proof -
  let ?L = "order_lines (o_id x) s" and ?reg = "poLineRegister s"
  have L: "get_item s (i_id i) = Some i" "item_holds ?reg (o_poNumber x) i" if "i \<in> set ?L" for i
    using that get_item_self [OF ids] num by (simp_all add: order_lines_mem order_numbered_def)
  show ?thesis
  proof (cases "po_key (o_poNumber x) = []")
    case True
    have "upd_item (i_id i) (assign_item None) s = s" if i: "i \<in> set ?L" for i
    proof -
      have none: "i_poLineId i = None" "i_poLineNumber i = None"
        using L(2) [OF i] True by (simp_all add: item_holds_def holds_line_def)
      have "upd_id i_id (i_id i) (assign_item None) (sourcingItems s) = sourcingItems s"
      proof (rule upd_id_same)
        fix e assume "e \<in> set (sourcingItems s)" "i_id e = i_id i"
        then have "e = i" using get_item_self [OF ids] L(1) [OF i] by fastforce
        then show "assign_item None e = e" using none by (cases i) (simp add: assign_item_def)
      qed
      then show ?thesis by (simp add: upd_item_def)
    qed
    then show ?thesis using True by (simp add: sync_order_items_def fold_fixed)
  next
    case key: False
    have row: "\<exists>row. row_for (i_poLineId i) ?reg = Some row \<and> row_poKey row = po_key (o_poNumber x)"
      if "i \<in> set ?L" for i
      using L(2) [OF that] key by (auto simp: item_holds_def holds_line_def)
    have "filter (\<lambda>i. case row_for (i_poLineId i) ?reg of
        None \<Rightarrow> False | Some row \<Rightarrow> row_poKey row \<noteq> po_key (o_poNumber x)) ?L = []"
      using row by (fastforce simp: filter_empty_conv split: option.splits)
    moreover have "number_line (o_poNumber x) (i_id i) s = s" if "i \<in> set ?L" for i
      using L(1) [OF that] row [OF that] by (auto simp: number_line_def)
    ultimately show ?thesis using key by (simp add: sync_order_items_def Let_def fold_fixed)
  qed
qed

lemma sync_order_idem:
  assumes "lines_ok s" "distinct (map i_id (sourcingItems s))"
  shows "sync_order_items x (sync_order_items x s) = sync_order_items x s"
proof (rule sync_order_fixed)
  show "order_numbered x (sync_order_items x s)" using assms by (rule sync_order_numbered)
  show "distinct (map i_id (sourcingItems (sync_order_items x s)))"
    using sync_order_items_post [OF assms, of x] assms(2) by (auto simp: line_step_ids)
qed

subsection \<open>All records\<close>

text \<open>Numbering one order leaves the lines of every other order as they are.\<close>

lemma order_numbered_step:
  assumes "line_step I s t" "distinct (map i_id (sourcingItems s))" "order_numbered y s"
    and "\<And>i. i \<in> set (order_lines (o_id y) s) \<Longrightarrow> i_id i \<notin> I"
  shows "order_numbered y t"
  unfolding order_numbered_def
proof
  fix j assume "j \<in> set (order_lines (o_id y) t)"
  then obtain i where i: "i \<in> set (order_lines (o_id y) s)" "i_id i = i_id j" "get_item t (i_id j) = Some j"
    using line_step_order_line [OF assms(1,2)] by metis
  then have "line_at s (i_id i) (\<lambda>reg. item_holds reg (o_poNumber y))"
    using assms(3) get_item_self [OF assms(2), of i]
    by (auto simp: line_at_def order_numbered_def order_lines_mem)
  then have "line_at t (i_id i) (\<lambda>reg. item_holds reg (o_poNumber y))"
    using line_at_stable [OF stable_holds assms(1)] assms(4) i(1) by blast
  then show "item_holds (poLineRegister t) (o_poNumber y) j" using i by (simp add: line_at_def)
qed

lemma sync_order_keeps_other:
  assumes "lines_ok s" "distinct (map i_id (sourcingItems s))" "order_numbered y s" "o_id y \<noteq> o_id x"
  shows "order_numbered y (sync_order_items x s)"
proof (rule order_numbered_step)
  show "line_step (i_id ` set (order_lines (o_id x) s)) s (sync_order_items x s)"
    using sync_order_items_post [OF assms(1,2), of x] by blast
  fix i assume "i \<in> set (order_lines (o_id y) s)"
  then show "i_id i \<notin> i_id ` set (order_lines (o_id x) s)"
    using get_item_self [OF assms(2)] assms(4) unfolding order_lines_mem
    by (metis imageE option.inject order_lines_mem)
qed (use assms in auto)

lemma order_numbered_cong:
  "sourcingItems t = sourcingItems u \<Longrightarrow> poLineRegister t = poLineRegister u \<Longrightarrow> o_id y = o_id x \<Longrightarrow>
     o_poNumber y = o_poNumber x \<Longrightarrow> order_numbered y t = order_numbered x u"
  by (simp add: order_numbered_def order_lines_def order_items_def)

lemma lines_ok_cong:
  "sourcingItems t = sourcingItems u \<Longrightarrow> poLineRegister t = poLineRegister u \<Longrightarrow> licenses t = licenses u \<Longrightarrow>
     lines_ok t = lines_ok u"
  by (simp add: lines_ok_def)

text \<open>The state of the numbering pass over the orders: those in \<open>D\<close> are done.\<close>

definition numbering :: "int set \<Rightarrow> store \<Rightarrow> bool" where
  "numbering D s \<longleftrightarrow> lines_ok s \<and> distinct (map i_id (sourcingItems s)) \<and> distinct (map o_id (pendingOrders s))
     \<and> (\<forall>x \<in> set (pendingOrders s). o_id x \<in> D \<longrightarrow> order_numbered x s)"

lemma sync_stored_order_numbering:
  assumes "numbering D s"
  shows "numbering (insert oid D) (sync_stored_order oid s) \<and>
    map l_id (licenses (sync_stored_order oid s)) = map l_id (licenses s) \<and>
    map o_id (pendingOrders (sync_stored_order oid s)) = map o_id (pendingOrders s)"
proof (cases "get_order s oid")
  case None
  then have "oid \<notin> o_id ` set (pendingOrders s)" by (simp add: get_order_def find_id_None)
  with None assms show ?thesis by (auto simp: sync_stored_order_def numbering_def)
next
  case (Some x)
  let ?u = "sync_order_items x s" and ?x = "copy_line_numbers (sync_order_items x s) x"
  have s: "lines_ok s" "distinct (map i_id (sourcingItems s))" "distinct (map o_id (pendingOrders s))"
    using assms by (simp_all add: numbering_def)
  have x: "x \<in> set (pendingOrders s)" "o_id x = oid" using get_order_mem [OF Some] by simp_all
  have x': "o_id ?x = oid" "o_poNumber ?x = o_poNumber x" using x by (simp_all add: copy_line_numbers_def)
  note post = sync_order_items_post [OF s(1,2), of x]
  then have u: "same_rest s ?u" "map i_id (sourcingItems ?u) = map i_id (sourcingItems s)" "lines_ok ?u"
    by (simp_all add: line_step_def)
  have t: "sync_stored_order oid s = put_order ?x ?u"
    using Some by (simp add: sync_stored_order_def sync_order_po_lines_def Let_def)
  have ords: "pendingOrders ?u = pendingOrders s" using u(1) by (simp add: same_rest_def)
  have "order_numbered y (put_order ?x ?u)"
    if y: "y \<in> set (pendingOrders (put_order ?x ?u))" "o_id y \<in> insert oid D" for y
  proof (cases "o_id y = oid")
    case True
    have "distinct (map o_id (pendingOrders (put_order ?x ?u)))" using s(3) ords by simp
    then have "get_order (put_order ?x ?u) oid = Some y"
      using find_id_distinct [of o_id _ y] y(1) True by (metis get_order_def)
    then have "y = ?x" using Some x' get_cong(4) [OF ords, of oid] by (simp add: get_order_put)
    moreover have "order_numbered x ?u" using sync_order_numbered [OF s(1,2)] .
    ultimately show ?thesis
      using order_numbered_cong [of "put_order ?x ?u" ?u y x] x x' by simp
  next
    case False
    then have "y \<in> set (pendingOrders s)"
      using y(1) x' ords set_put_idD [of y o_id ?x] by (auto simp: put_order_def)
    then have "order_numbered y s" using y(2) False assms by (auto simp: numbering_def)
    then have "order_numbered y ?u"
      using sync_order_keeps_other [OF s(1,2)] False x(2) by blast
    then show ?thesis using order_numbered_cong [of "put_order ?x ?u" ?u y y] by simp
  qed
  then show ?thesis
    unfolding t numbering_def using u s ords lines_ok_cong [of "put_order ?x ?u" ?u]
    by (simp add: same_rest_def)
qed

lemma fold_sync_orders:
  "numbering D s \<Longrightarrow> numbering (D \<union> set oids) (fold sync_stored_order oids s) \<and>
     map l_id (licenses (fold sync_stored_order oids s)) = map l_id (licenses s) \<and>
     map o_id (pendingOrders (fold sync_stored_order oids s)) = map o_id (pendingOrders s)"
proof (induction oids arbitrary: D s)
  case (Cons oid oids)
  then show ?case
    using sync_stored_order_numbering [OF Cons.prems, of oid] Cons.IH [of "insert oid D" "sync_stored_order oid s"]
    by simp
qed simp

lemma sync_stored_license_post:
  fixes i :: int
  assumes "lines_ok s" "distinct (map l_id (licenses s))" "\<forall>j \<in> D. \<forall>l. get_license s j = Some l \<longrightarrow> license_holds (poLineRegister s) l"
  defines "t \<equiv> sync_stored_license i s"
  shows "lines_ok t \<and> map l_id (licenses t) = map l_id (licenses s) \<and> sourcingItems t = sourcingItems s
    \<and> pendingOrders t = pendingOrders s \<and> grows (poLineRegister s) (poLineRegister t)
    \<and> (\<forall>j \<in> insert i D. \<forall>l. get_license t j = Some l \<longrightarrow> license_holds (poLineRegister t) l)"
proof (cases "get_license s i")
  case None
  then show ?thesis using assms(1,3) by (auto simp: t_def sync_stored_license_def)
next
  case (Some l)
  obtain l' s' where sync: "sync_license_po_line l s = (l', s')" by fastforce
  have mem: "l \<in> set (licenses s)" "l_id l = i" using get_license_mem [OF Some] by simp_all
  have "ref_ok (poLineRegister s) (l_poLineId l) (l_poLineNumber l)"
    using assms(1) mem by (simp add: lines_ok_def license_ref_ok_def)
  note post = sync_license_post [OF _ this sync]
  have ok: "pol.ok (poLineRegister s)" using assms(1) by (simp add: lines_ok_def)
  have p: "license_holds (poLineRegister s') l'" "pol.ok (poLineRegister s')"
      "grows (poLineRegister s) (poLineRegister s')" "l_id l' = i"
    and s': "s' = s\<lparr>poLineRegister := poLineRegister s'\<rparr>"
    using post [OF ok] mem by auto
  have t: "t = put_license l' s'" using Some sync by (simp add: t_def sync_stored_license_def)
  have fr: "licenses s' = licenses s" "sourcingItems s' = sourcingItems s" "pendingOrders s' = pendingOrders s"
    by (subst s', simp)+
  have "license_ref_ok (poLineRegister s') m" if "m \<in> set (licenses t)" for m
    using set_put_idD [of m l_id l' "licenses s'"] that p(1,3) holds_ref assms(1) grows_ref fr
    by (fastforce simp: t put_license_def lines_ok_def license_ref_ok_def license_holds_def)
  then have "lines_ok t"
    using assms(1) p(2,3) grows_ref fr by (fastforce simp: t lines_ok_def item_ref_ok_def)
  moreover have "license_holds (poLineRegister t) m" if "j \<in> insert i D" "get_license t j = Some m" for j m
  proof (cases "j = i")
    case True
    then show ?thesis using that(2) p(1,4) by (auto simp: t get_license_put split: option.splits)
  next
    case False
    then have "get_license s j = Some m" using that(2) p(4) get_cong(1) [OF fr(1), of j] by (simp add: t get_license_put)
    then show ?thesis
      using assms(3) that(1) False grows_holds [OF p(3)] by (auto simp: t license_holds_def)
  qed
  ultimately show ?thesis using fr p(3) by (auto simp: t)
qed

lemma fold_sync_licenses:
  fixes ids :: "int list"
  assumes "lines_ok s" "distinct (map l_id (licenses s))" "\<forall>j \<in> D. \<forall>l. get_license s j = Some l \<longrightarrow> license_holds (poLineRegister s) l"
  defines "t \<equiv> fold sync_stored_license ids s"
  shows "lines_ok t \<and> map l_id (licenses t) = map l_id (licenses s) \<and> sourcingItems t = sourcingItems s
    \<and> pendingOrders t = pendingOrders s \<and> grows (poLineRegister s) (poLineRegister t)
    \<and> (\<forall>j \<in> D \<union> set ids. \<forall>l. get_license t j = Some l \<longrightarrow> license_holds (poLineRegister t) l)"
  unfolding t_def using assms(1-3)
proof (induction ids arbitrary: s D)
  case (Cons i ids)
  note one = sync_stored_license_post [OF Cons.prems, of i]
  then have "distinct (map l_id (licenses (sync_stored_license i s)))" using Cons.prems(2) by simp
  note rest = Cons.IH [of "sync_stored_license i s" "insert i D", OF _ this]
  show ?case using one rest by (simp add: grows_trans) (meson grows_trans)
qed simp

definition all_numbered :: "store \<Rightarrow> bool" where
  "all_numbered s \<longleftrightarrow> (\<forall>x \<in> set (pendingOrders s). order_numbered x s)
     \<and> (\<forall>l \<in> set (licenses s). license_holds (poLineRegister s) l)"

lemma sync_all_post:
  assumes "lines_ok s" "ids_ok s"
  shows "lines_ok (sync_all_po_lines s) \<and> all_numbered (sync_all_po_lines s)"
proof -
  let ?u = "fold sync_stored_order (map o_id (pendingOrders s)) s"
  have "numbering {} s" using assms ids_ok_distinct by (simp add: numbering_def)
  from fold_sync_orders [OF this, of "map o_id (pendingOrders s)"]
  have u: "numbering (o_id ` set (pendingOrders s)) ?u" "map l_id (licenses ?u) = map l_id (licenses s)"
      "map o_id (pendingOrders ?u) = map o_id (pendingOrders s)" by simp_all
  then have lic: "lines_ok ?u" "distinct (map l_id (licenses ?u))"
    using ids_ok_distinct(1) [OF assms(2)] by (simp_all add: numbering_def)
  define t where "t = fold sync_stored_license (map l_id (licenses ?u)) ?u"
  have t: "lines_ok t" "map l_id (licenses t) = map l_id (licenses ?u)" "sourcingItems t = sourcingItems ?u"
      "pendingOrders t = pendingOrders ?u" "grows (poLineRegister ?u) (poLineRegister t)"
      "\<forall>j \<in> l_id ` set (licenses ?u). \<forall>l. get_license t j = Some l \<longrightarrow> license_holds (poLineRegister t) l"
    using fold_sync_licenses [OF lic, of "{}" "map l_id (licenses ?u)"] by (simp_all add: t_def)
  have "order_numbered x t" if x: "x \<in> set (pendingOrders t)" for x
  proof -
    have "o_id x \<in> o_id ` set (pendingOrders s)"
      using x t(4) u(3) by (metis imageI list.set_map)
    then have "order_numbered x ?u" using u(1) x t(4) by (simp add: numbering_def)
    then show ?thesis
      using grows_holds [OF t(5)] t(3)
      by (simp add: order_numbered_def item_holds_def order_lines_def order_items_def)
  qed
  moreover have "license_holds (poLineRegister t) l" if l: "l \<in> set (licenses t)" for l
  proof -
    have "get_license t (l_id l) = Some l"
      unfolding get_license_def using l lic(2) t(2) by (intro find_id_distinct) simp_all
    moreover have "l_id l \<in> l_id ` set (licenses ?u)" using l t(2) by (metis imageI list.set_map)
    ultimately show ?thesis using t(6) by blast
  qed
  moreover have "sync_all_po_lines s = t" by (simp add: sync_all_po_lines_def Let_def t_def)
  ultimately show ?thesis using t(1) by (simp add: all_numbered_def)
qed

section \<open>Properties\<close>

text \<open>C5: Issuing a line appends one row to the register, on the normalised PO number, with a positive
  number that was never used on that PO, and grants the number asked for when it is free; the register
  stays well formed (row ids 1, 2, ..., no number twice on one PO).\<close>
theorem allocate_line_unique:
  assumes "pol.ok reg" "allocate_line p r reg = (row, reg')"
  shows "pol.ok reg' \<and> reg' = reg @ [row] \<and> row_poKey row = po_key p \<and> 0 < row_lineNumber row
    \<and> slot row \<notin> slot ` set reg
    \<and> (\<forall>n. r = Some n \<and> 0 < n \<and> is_free (po_key p) n reg \<longrightarrow> row_lineNumber row = n)"
proof -
  have "row_lineNumber row = n" if "r = Some n" "0 < n" "is_free (po_key p) n reg" for n
    using allocate_requested [OF that(2,3)] assms(2) that(1) by simp
  then show ?thesis
    using pol.ok_alloc [OF assms] pol.appends [OF assms(2)] pol.on_key [OF assms(2)]
      pol.positive [OF assms(2)] pol.unused [OF assms(2)] by blast
qed

theorem allocate_line_unique_witness:
  "let reg = [\<lparr>row_id = 1, row_poKey = ''po 1'', row_poNumber = ''PO 1'', row_lineNumber = 3\<rparr>];
       (row, reg') = allocate_line (Some '' PO  1'') (Some 3) reg
   in pol.ok reg' \<and> reg' = reg @ [row] \<and> row_lineNumber row = 4"
proof -
  let ?reg = "[\<lparr>row_id = 1, row_poKey = ''po 1'', row_poNumber = ''PO 1'', row_lineNumber = 3\<rparr>]"
  let ?row = "\<lparr>row_id = 2, row_poKey = ''po 1'', row_poNumber = ''PO  1'', row_lineNumber = 4\<rparr>"
  have "pol.ok ?reg" by (simp add: pol.ok_def slot_def)
  moreover have a: "allocate_line (Some '' PO  1'') (Some 3) ?reg = (?row, ?reg @ [?row])" by code_simp
  ultimately have "pol.ok (?reg @ [?row])" using allocate_line_unique by blast
  then show ?thesis using a by simp
qed

text \<open>C19: After \<open>syncAllPoLines\<close> every live line of every order and every license with a PO number holds a
  row of the register on its own PO, with the number of that row, and records without a PO number hold
  none; references stay valid throughout.\<close>
theorem sync_all_numbers_everything:
  assumes "lines_ok s" "ids_ok s"
  shows "lines_ok (sync_all_po_lines s) \<and> all_numbered (sync_all_po_lines s)"
  by (rule sync_all_post [OF assms])

definition example_store :: store where
  "example_store = fresh_store\<lparr>
     licenses := [base_license\<lparr>l_id := 1, l_poNumber := Some ''PO-1'', l_sourceSourcingItemId := Some 3\<rparr>,
       base_license\<lparr>l_id := 2, l_poNumber := Some ''po-1 '', l_poLineNumber := Some 7\<rparr>],
     sourcingItems := [blank_item\<lparr>i_id := 3, i_pendingOrderId := Some 4\<rparr>,
       blank_item\<lparr>i_id := 5, i_pendingOrderId := Some 4, i_poLineNumber := Some 2\<rparr>],
     pendingOrders := [blank_order\<lparr>o_id := 4, o_poNumber := Some ''PO-1''\<rparr>]\<rparr>"

lemma example_store_ok: "lines_ok example_store" "ids_ok example_store"
  by (simp_all add: example_store_def fresh_store_def base_license_def blank_item_def blank_order_def
      lines_ok_def pol.ok_def item_ref_ok_def license_ref_ok_def ref_ok_def ids_ok_def ids_below_def)

theorem sync_all_numbers_everything_witness:
  "lines_ok (sync_all_po_lines example_store) \<and> all_numbered (sync_all_po_lines example_store)"
  by (rule sync_all_numbers_everything [OF example_store_ok])

lemma example_store_numbers:
  "map l_poLineNumber (licenses (sync_all_po_lines example_store)) = [Some 3, Some 7]
   \<and> map i_poLineNumber (sourcingItems (sync_all_po_lines example_store)) = [Some 3, Some 2]"
  by code_simp



end
