(* ===== verification/SupportDefaults.thy ===== *)
theory SupportDefaults
  imports Store
begin

text \<open>
  \<^verbatim>\<open>src/frontend/src/demo/supportDefaults.js\<close>: the fields of included maintenance that are derived
  from the line itself. The source receives a license or a sourcing line; the definitions take the
  fields of the line they read (record \<open>acquisition\<close>) and the nested record \<open>support\<close>. The main
  fact is that \<open>applyIncludedSupportDefaults\<close> is a normaliser with an explicit canonical form.
\<close>

record acquisition =
  a_licenseType :: "license_type option"
  a_startDate :: jstr
  a_endDate :: jstr
  a_quantity :: jstr
  a_unitPrice :: jstr
  a_estimatedUnitPrice :: jstr
  a_estimatedTotalPrice :: jstr

definition license_acquisition :: "license \<Rightarrow> acquisition" where
  "license_acquisition l = \<lparr>a_licenseType = l_licenseType l, a_startDate = l_startDate l,
     a_endDate = l_endDate l, a_quantity = l_quantity l, a_unitPrice = l_unitPrice l,
     a_estimatedUnitPrice = None, a_estimatedTotalPrice = None\<rparr>"

definition item_acquisition :: "sourcing_item \<Rightarrow> acquisition" where
  "item_acquisition i = \<lparr>a_licenseType = i_licenseType i, a_startDate = i_startDate i,
     a_endDate = i_endDate i, a_quantity = i_quantity i, a_unitPrice = None,
     a_estimatedUnitPrice = i_estimatedUnitPrice i, a_estimatedTotalPrice = i_estimatedTotalPrice i\<rparr>"

section \<open>Numbers\<close>

definition has_value :: "jstr \<Rightarrow> bool" where
  "has_value v \<longleftrightarrow> v \<noteq> None \<and> v \<noteq> Some []"

text \<open>\<open>text.replace(",", ".")\<close> replaces the first comma only.\<close>

primrec comma_to_point :: "string \<Rightarrow> string" where
  "comma_to_point [] = []"
| "comma_to_point (c # r) = (if c = CHR '','' then CHR ''.'' # r else c # comma_to_point r)"

definition parse_number :: "jstr \<Rightarrow> jsnum option" where
  "parse_number v =
     (if \<not> has_value v then None
      else (let parsed = js_Number (comma_to_point (str v)) in if is_finite parsed then Some parsed else None))"

definition number_epsilon :: jsnum where
  "number_epsilon = Fin (1 / 2 ^ 52)"

definition format_money :: "jsnum \<Rightarrow> string" where
  "format_money v = to_fixed 2 (js_div (js_round (js_mul (js_add v number_epsilon) (Fin 100))) (Fin 100))"

section \<open>Defaults\<close>

definition default_maintenance_coverage :: "license_type option \<Rightarrow> coverage" where
  "default_maintenance_coverage t =
     (if t = Some Subscription \<or> t = Some Saas then Included
      else if t = Some Maintenance \<or> t = Some Service \<or> t = Some OtherType then NotApplicable
      else UnknownCoverage)"

definition is_bundled_included_support :: "license_type option \<Rightarrow> coverage option \<Rightarrow> bool" where
  "is_bundled_included_support t c \<longleftrightarrow> (t = Some Subscription \<or> t = Some Saas) \<and> c = Some Included"

definition calculate_acquisition_total :: "acquisition \<Rightarrow> string option" where
  "calculate_acquisition_total a =
     (case parse_number (a_estimatedTotalPrice a) of
        Some x \<Rightarrow> Some (format_money x)
      | None \<Rightarrow>
          (case (parse_number (a_quantity a),
                 parse_number (nullish (a_unitPrice a) (a_estimatedUnitPrice a))) of
             (Some q, Some p) \<Rightarrow> Some (format_money (js_mul q p))
           | _ \<Rightarrow> None))"

definition apply_bundled_included_support_defaults :: "acquisition \<Rightarrow> support \<Rightarrow> support" where
  "apply_bundled_included_support_defaults a s =
     (if \<not> is_bundled_included_support (a_licenseType a) (maintenanceCoverage s) then s
      else (let s1 = s\<lparr>maintenanceStartDate := a_startDate a, maintenanceEndDate := a_endDate a,
                  maintenancePricingBasis := Some Flat, maintenanceQuantity := None,
                  maintenanceUnitPrice := None\<rparr>
            in case calculate_acquisition_total a of
                 None \<Rightarrow> s1
               | Some t \<Rightarrow> s1\<lparr>maintenanceCost := Some t\<rparr>))"

definition per_unit_cost :: "support \<Rightarrow> jstr" where
  "per_unit_cost s =
     (case (parse_number (maintenanceQuantity s), parse_number (maintenanceUnitPrice s)) of
        (Some q, Some p) \<Rightarrow> Some (format_money (js_mul q p))
      | _ \<Rightarrow> None)"

definition apply_included_support_defaults :: "acquisition \<Rightarrow> support \<Rightarrow> support" where
  "apply_included_support_defaults a s =
     (let s1 = (if maintenanceCoverage s = Some Included \<and> maintenancePricingBasis s = Some PerUnit
                then s\<lparr>maintenanceCost := per_unit_cost s\<rparr> else s);
          s2 = (if maintenanceCoverage s1 = Some Included \<and> maintenancePricingBasis s1 = Some FreeBasis
                then s1\<lparr>maintenanceQuantity := None, maintenanceUnitPrice := None,
                       maintenanceCost := Some ''0''\<rparr> else s1)
      in apply_bundled_included_support_defaults a s2)"

definition with_default_maintenance_coverage :: "acquisition \<Rightarrow> support \<Rightarrow> support" where
  "with_default_maintenance_coverage a s =
     apply_included_support_defaults a
       (s\<lparr>maintenanceCoverage :=
            (case maintenanceCoverage s of
               None \<Rightarrow> Some (default_maintenance_coverage (a_licenseType a)) | Some c \<Rightarrow> Some c)\<rparr>)"

section \<open>The canonical form\<close>

definition canonical_support :: "acquisition \<Rightarrow> support \<Rightarrow> bool" where
  "canonical_support a s \<longleftrightarrow>
     (maintenanceCoverage s = Some Included \<longrightarrow>
        (if is_bundled_included_support (a_licenseType a) (maintenanceCoverage s) then
           maintenanceStartDate s = a_startDate a \<and> maintenanceEndDate s = a_endDate a \<and>
           maintenancePricingBasis s = Some Flat \<and> maintenanceQuantity s = None \<and>
           maintenanceUnitPrice s = None \<and>
           (\<forall>t. calculate_acquisition_total a = Some t \<longrightarrow> maintenanceCost s = Some t)
         else
           (maintenancePricingBasis s = Some PerUnit \<longrightarrow> maintenanceCost s = per_unit_cost s) \<and>
           (maintenancePricingBasis s = Some FreeBasis \<longrightarrow>
              maintenanceQuantity s = None \<and> maintenanceUnitPrice s = None \<and> maintenanceCost s = Some ''0'')))"

lemma per_unit_cost_cong [simp]: "per_unit_cost (s\<lparr>maintenanceCost := c\<rparr>) = per_unit_cost s"
  by (simp add: per_unit_cost_def)

lemma support_eqI:
  fixes s t :: support
  assumes "maintenanceCoverage s = maintenanceCoverage t"
    and "maintenanceStartDate s = maintenanceStartDate t" "maintenanceEndDate s = maintenanceEndDate t"
    and "maintenancePricingBasis s = maintenancePricingBasis t"
    and "maintenanceQuantity s = maintenanceQuantity t" "maintenanceUnitPrice s = maintenanceUnitPrice t"
    and "maintenanceCost s = maintenanceCost t"
  shows "s = t"
  using assms by (cases s, cases t) simp

lemma apply_bundled_simps:
  "\<not> is_bundled_included_support (a_licenseType a) (maintenanceCoverage s) \<Longrightarrow>
     apply_bundled_included_support_defaults a s = s"
  "is_bundled_included_support (a_licenseType a) (maintenanceCoverage s) \<Longrightarrow>
     apply_bundled_included_support_defaults a s =
       \<lparr>maintenanceCoverage = maintenanceCoverage s, maintenanceStartDate = a_startDate a,
        maintenanceEndDate = a_endDate a, maintenancePricingBasis = Some Flat,
        maintenanceQuantity = None, maintenanceUnitPrice = None,
        maintenanceCost = (case calculate_acquisition_total a of
            None \<Rightarrow> maintenanceCost s | Some t \<Rightarrow> Some t)\<rparr>"
  by (simp add: apply_bundled_included_support_defaults_def)
    (cases s, simp add: apply_bundled_included_support_defaults_def Let_def split: option.split)

lemma bundled_included: "is_bundled_included_support t c \<Longrightarrow> c = Some Included"
  by (simp add: is_bundled_included_support_def)

text \<open>The support before the bundled step; the bundled step then looks at its coverage and cost only.\<close>

definition priced_support :: "support \<Rightarrow> support" where
  "priced_support s =
     (if maintenanceCoverage s \<noteq> Some Included then s
      else if maintenancePricingBasis s = Some PerUnit then s\<lparr>maintenanceCost := per_unit_cost s\<rparr>
      else if maintenancePricingBasis s = Some FreeBasis
      then s\<lparr>maintenanceQuantity := None, maintenanceUnitPrice := None, maintenanceCost := Some ''0''\<rparr>
      else s)"

lemma apply_included_priced:
  "apply_included_support_defaults a s = apply_bundled_included_support_defaults a (priced_support s)"
  by (simp add: apply_included_support_defaults_def priced_support_def)

lemma priced_coverage [simp]: "maintenanceCoverage (priced_support s) = maintenanceCoverage s"
  by (simp add: priced_support_def)

lemma coverage_kept [simp]:
  "maintenanceCoverage (apply_included_support_defaults a s) = maintenanceCoverage s"
  by (cases "is_bundled_included_support (a_licenseType a) (maintenanceCoverage s)")
    (simp_all add: apply_included_priced apply_bundled_simps)

lemma support_defaults_canonical: "canonical_support a (apply_included_support_defaults a s)"
proof (cases "is_bundled_included_support (a_licenseType a) (maintenanceCoverage s)")
  case True
  note r = apply_bundled_simps(2) [of a "priced_support s", unfolded priced_coverage, OF True]
  show ?thesis
    unfolding canonical_support_def apply_included_priced r using True by simp
next
  case False
  note r = apply_bundled_simps(1) [of a "priced_support s", unfolded priced_coverage, OF False]
  have "maintenanceCoverage s = Some Included \<Longrightarrow>
      (maintenancePricingBasis (priced_support s) = Some PerUnit \<longrightarrow>
         maintenanceCost (priced_support s) = per_unit_cost (priced_support s)) \<and>
      (maintenancePricingBasis (priced_support s) = Some FreeBasis \<longrightarrow>
         maintenanceQuantity (priced_support s) = None \<and> maintenanceUnitPrice (priced_support s) = None
         \<and> maintenanceCost (priced_support s) = Some ''0'')"
    by (simp add: priced_support_def)
  then show ?thesis
    unfolding canonical_support_def apply_included_priced r priced_coverage if_not_P [OF False] by blast
qed

lemma canonical_support_fixed: "canonical_support a s \<Longrightarrow> apply_included_support_defaults a s = s"
proof (cases "is_bundled_included_support (a_licenseType a) (maintenanceCoverage s)")
  case True
  moreover assume "canonical_support a s"
  ultimately have f: "maintenanceStartDate s = a_startDate a" "maintenanceEndDate s = a_endDate a"
      "maintenancePricingBasis s = Some Flat" "maintenanceQuantity s = None" "maintenanceUnitPrice s = None"
      "\<forall>t. calculate_acquisition_total a = Some t \<longrightarrow> maintenanceCost s = Some t"
    using bundled_included [OF True] by (simp_all add: canonical_support_def)
  have "priced_support s = s" by (simp add: priced_support_def f)
  then show ?thesis
    unfolding apply_included_priced
    by (intro support_eqI) (simp_all add: apply_bundled_simps True f split: option.split)
next
  case False
  moreover assume "canonical_support a s"
  ultimately have "maintenanceCoverage s = Some Included \<longrightarrow>
      (maintenancePricingBasis s = Some PerUnit \<longrightarrow> maintenanceCost s = per_unit_cost s) \<and>
      (maintenancePricingBasis s = Some FreeBasis \<longrightarrow>
         maintenanceQuantity s = None \<and> maintenanceUnitPrice s = None \<and> maintenanceCost s = Some ''0'')"
    by (auto simp only: canonical_support_def if_False)
  then have "priced_support s = s"
    by (intro support_eqI) (auto simp: priced_support_def)
  with False show ?thesis by (simp add: apply_included_priced apply_bundled_simps)
qed

interpretation sd: normaliser "apply_included_support_defaults a" "canonical_support a" for a
  by unfold_locales (rule support_defaults_canonical, rule canonical_support_fixed)

definition covered_support :: "acquisition \<Rightarrow> support \<Rightarrow> bool" where
  "covered_support a s \<longleftrightarrow> maintenanceCoverage s \<noteq> None \<and> canonical_support a s"

interpretation wd: normaliser "with_default_maintenance_coverage a" "covered_support a" for a
proof unfold_locales
  fix s
  show "covered_support a (with_default_maintenance_coverage a s)"
    unfolding covered_support_def with_default_maintenance_coverage_def
    by (simp add: support_defaults_canonical split: option.split)
  show "covered_support a s \<Longrightarrow> with_default_maintenance_coverage a s = s"
    by (cases s) (auto simp: covered_support_def with_default_maintenance_coverage_def canonical_support_fixed)
qed

text \<open>A line with no coverage and a type that is neither bundled nor known stays as it is.\<close>

lemma support_defaults_outside:
  "maintenanceCoverage s \<noteq> Some Included \<Longrightarrow> apply_included_support_defaults a s = s"
  by (rule canonical_support_fixed) (simp add: canonical_support_def)

lemma bundled_coverage_default:
  "maintenanceCoverage s = None \<Longrightarrow> t = Some Subscription \<or> t = Some Saas \<Longrightarrow> a_licenseType a = t \<Longrightarrow>
     maintenanceCoverage (with_default_maintenance_coverage a s) = Some Included"
  by (auto simp: with_default_maintenance_coverage_def default_maintenance_coverage_def)

section \<open>Properties\<close>

text \<open>C26: \<open>applyIncludedSupportDefaults\<close> and \<open>withDefaultMaintenanceCoverage\<close> bring the maintenance fields
  of a line into their canonical form (per-unit cost derived, free cost zero, bundled support dated and
  priced like the line), in one pass: applying them again changes nothing, and the fields are fixed
  points exactly when they are canonical.\<close>
theorem support_defaults_normalise:
  "canonical_support a (apply_included_support_defaults a s) \<and>
   (canonical_support a s \<longleftrightarrow> apply_included_support_defaults a s = s) \<and>
   covered_support a (with_default_maintenance_coverage a s) \<and>
   with_default_maintenance_coverage a (with_default_maintenance_coverage a s) =
     with_default_maintenance_coverage a s"
  using sd.canonical_norm sd.canonical_iff wd.canonical_norm wd.idem by blast

end
