(* ===== verification/LicenseRecords.thy ===== *)
theory LicenseRecords
  imports PoLines SupportDefaults
begin

text \<open>
  The license record and its derived fields: \<open>computeExpirationStatus\<close>, \<open>computeSupportStatus\<close> and
  \<open>buildLicense\<close> of \<^verbatim>\<open>fixtures.js\<close>, \<open>decorateLicense\<close> and the license type rules of \<^verbatim>\<open>store.js\<close>.

  A partial object handed to a normaliser (a request body) is the list of the keys it has together with
  a record that holds their values; \<open>"x" in data\<close> is membership in that list.
\<close>

section \<open>Expiration\<close>

definition NOTIFICATION_DAYS :: int where
  "NOTIFICATION_DAYS = 30"

definition compute_expiration_status ::
  "clock \<Rightarrow> bool \<Rightarrow> lifecycle option \<Rightarrow> license_type option \<Rightarrow> int option \<Rightarrow> jstr \<Rightarrow> jstr \<Rightarrow> jstr
     \<Rightarrow> expiration_status" where
  "compute_expiration_status clk retired status type renewed_to successor_start start_date end_date =
     (if retired then StRetired
      else if status = Some Legacy then StLegacy
      else if start_date \<noteq> None \<and> count_greater (days_until (today clk) start_date) 0 then StUpcoming
      else if end_date = None then (if is_non_expiring_license_type type then StPerpetual else StActive)
      else
        (let days = days_until (today clk) end_date;
             has_successor = (renewed_to \<noteq> None \<and> renewed_to \<noteq> Some 0)
         in if count_less days 0 then
              (if has_successor \<and> (\<not> truthy successor_start \<or> count_le (days_until (today clk) successor_start) 0)
               then StRenewed
               else if \<not> has_successor \<and> status = Some Renewed then StRenewed
               else StExpired)
            else if count_le days NOTIFICATION_DAYS then StExpiring
            else StActive))"

definition included_support_parent_types :: "license_type list" where
  "included_support_parent_types = [Perpetual, Oem, Freeware]"

definition compute_support_days_remaining :: "clock \<Rightarrow> license \<Rightarrow> day_count" where
  "compute_support_days_remaining clk l =
     (if \<not> in_types (l_licenseType l) included_support_parent_types then NullDays
      else if maintenanceCoverage (l_support l) \<noteq> Some Included \<or> \<not> truthy (maintenanceEndDate (l_support l)) then NullDays
      else if l_isRetired l \<or> l_lifecycleStatus l = Some Legacy then NullDays
      else days_until (today clk) (maintenanceEndDate (l_support l)))"

definition support_status_of :: "int \<Rightarrow> day_count \<Rightarrow> support_status option" where
  "support_status_of window days =
     (if days = NullDays then None
      else if count_less days 0 then Some SupportExpired
      else if count_le days window then Some SupportExpiring
      else Some SupportActive)"

definition compute_support_status :: "clock \<Rightarrow> license \<Rightarrow> support_status option" where
  "compute_support_status clk l = support_status_of NOTIFICATION_DAYS (compute_support_days_remaining clk l)"

text \<open>\<open>buildLicense\<close>: the overrides are a license that starts from \<open>base_license\<close>.\<close>

definition normalise_support :: "license \<Rightarrow> license" where
  "normalise_support l = l\<lparr>l_support := with_default_maintenance_coverage (license_acquisition l) (l_support l)\<rparr>"

definition build_license :: "clock \<Rightarrow> license \<Rightarrow> license" where
  "build_license clk overrides =
     (let merged = normalise_support overrides;
          merged = (if l_invoiceNumbers merged = [] \<and> truthy (l_invoiceNumber merged)
                    then merged\<lparr>l_invoiceNumbers := [str (l_invoiceNumber merged)]\<rparr> else merged)
      in merged\<lparr>
           l_daysUntilExpiry := days_until (today clk) (l_endDate merged),
           l_expirationStatus := compute_expiration_status clk (l_isRetired merged)
             (l_lifecycleStatus merged) (l_licenseType merged) (l_renewedToId merged) None
             (l_startDate merged) (l_endDate merged),
           l_supportDaysRemaining := compute_support_days_remaining clk merged,
           l_supportStatus := compute_support_status clk merged\<rparr>)"

section \<open>Decorating\<close>

definition successor_start :: "store \<Rightarrow> license \<Rightarrow> jstr" where
  "successor_start s l =
     (case opt_get get_license s (l_renewedToId l) of None \<Rightarrow> None | Some m \<Rightarrow> l_startDate m)"

definition derive_status :: "clock \<Rightarrow> store \<Rightarrow> license \<Rightarrow> license" where
  "derive_status clk s l = l\<lparr>
     l_daysUntilExpiry := days_until (today clk) (l_endDate l),
     l_expirationStatus := compute_expiration_status clk (l_isRetired l) (l_lifecycleStatus l)
       (l_licenseType l) (l_renewedToId l) (successor_start s l) (l_startDate l) (l_endDate l),
     l_supportDaysRemaining := compute_support_days_remaining clk l,
     l_supportStatus := compute_support_status clk l,
     l_updatedAt := now clk\<rparr>"

text \<open>
  \<open>decorateLicense\<close> on a license that need not be stored, and on the stored license with an id. The
  function writes into the object before it looks up the successor, which can be the object itself
  only when a license renews itself; its start date is not among the fields written before.
\<close>

definition decorate_license :: "clock \<Rightarrow> license \<Rightarrow> store \<Rightarrow> license \<times> store" where
  "decorate_license clk l s =
     (let (l1, s1) = sync_license_po_line (normalise_support l) s in (derive_status clk s1 l1, s1))"

definition decorate_stored :: "clock \<Rightarrow> int \<Rightarrow> store \<Rightarrow> store" where
  "decorate_stored clk i s =
     (case get_license s i of
        None \<Rightarrow> s
      | Some l \<Rightarrow> (let (l', s') = decorate_license clk l s in put_license l' s'))"

section \<open>License type rules\<close>

record type_fields =
  tf_licenseType :: "license_type option"
  tf_isRenewable :: "bool option"
  tf_typeDescription :: jstr
  tf_maintenanceParentLicenseId :: "int option"
  tf_unitPrice :: jstr
  tf_totalPoPrice :: jstr
  tf_endDate :: jstr

text \<open>The three flags say which of the keys the object has.\<close>

definition normalise_present :: "bool \<Rightarrow> bool \<Rightarrow> bool \<Rightarrow> type_fields \<Rightarrow> type_fields" where
  "normalise_present renewable description parent d = d\<lparr>
     tf_isRenewable :=
       (if renewable \<and> \<not> is_renewal_opt_in_license_type (tf_licenseType d) then None else tf_isRenewable d),
     tf_typeDescription :=
       (if description
        then (let text = trim (str (tf_typeDescription d))
              in if tf_licenseType d = Some OtherType \<and> text \<noteq> [] then Some text else None)
        else tf_typeDescription d),
     tf_maintenanceParentLicenseId :=
       (if parent \<and> tf_licenseType d \<noteq> Some Maintenance then None else tf_maintenanceParentLicenseId d)\<rparr>"

definition normalise_type_opt_in_fields :: "string list \<Rightarrow> type_fields \<Rightarrow> type_fields" where
  "normalise_type_opt_in_fields keys =
     normalise_present (''isRenewable'' \<in> set keys) (''typeDescription'' \<in> set keys)
       (''maintenanceParentLicenseId'' \<in> set keys)"

definition normalise_license_type_fields :: "string list \<Rightarrow> type_fields \<Rightarrow> type_fields" where
  "normalise_license_type_fields keys d =
     normalise_type_opt_in_fields keys (d\<lparr>
       tf_unitPrice := (if tf_licenseType d = Some Freeware then Some [] else tf_unitPrice d),
       tf_totalPoPrice := (if tf_licenseType d = Some Freeware then Some [] else tf_totalPoPrice d),
       tf_endDate := (if is_non_expiring_license_type (tf_licenseType d) then None else tf_endDate d)\<rparr>)"

definition type_fields_of_license :: "license \<Rightarrow> type_fields" where
  "type_fields_of_license l = \<lparr>tf_licenseType = l_licenseType l, tf_isRenewable = l_isRenewable l,
     tf_typeDescription = l_typeDescription l, tf_maintenanceParentLicenseId = None,
     tf_unitPrice = l_unitPrice l, tf_totalPoPrice = l_totalPoPrice l, tf_endDate = l_endDate l\<rparr>"

definition set_type_fields :: "type_fields \<Rightarrow> license \<Rightarrow> license" where
  "set_type_fields d l = l\<lparr>l_licenseType := tf_licenseType d, l_isRenewable := tf_isRenewable d,
     l_typeDescription := tf_typeDescription d, l_unitPrice := tf_unitPrice d,
     l_totalPoPrice := tf_totalPoPrice d, l_endDate := tf_endDate d\<rparr>"

definition normalise_license_types :: "string list \<Rightarrow> license \<Rightarrow> license" where
  "normalise_license_types keys l =
     set_type_fields (normalise_license_type_fields keys (type_fields_of_license l)) l"

definition normalise_item_opt_in :: "string list \<Rightarrow> sourcing_item \<Rightarrow> sourcing_item" where
  "normalise_item_opt_in keys i =
     (let d = normalise_type_opt_in_fields keys \<lparr>tf_licenseType = i_licenseType i,
            tf_isRenewable = i_isRenewable i, tf_typeDescription = i_typeDescription i,
            tf_maintenanceParentLicenseId = i_maintenanceParentLicenseId i, tf_unitPrice = None,
            tf_totalPoPrice = None, tf_endDate = None\<rparr>
      in i\<lparr>i_isRenewable := tf_isRenewable d, i_typeDescription := tf_typeDescription d,
           i_maintenanceParentLicenseId := tf_maintenanceParentLicenseId d\<rparr>)"

definition TYPE_DESCRIPTION_REQUIRED_DETAIL :: string where
  "TYPE_DESCRIPTION_REQUIRED_DETAIL = ''Add a type description for an Other license''"

definition validate_type_description :: "license_type option \<Rightarrow> jstr \<Rightarrow> unit demo_op" where
  "validate_type_description t d = throw_if (type_description_missing t d) TYPE_DESCRIPTION_REQUIRED_DETAIL"

text \<open>The pair is \<open>invoiceNumbers\<close> and \<open>invoiceNumber\<close>.\<close>

definition sync_invoice_numbers :: "string list \<Rightarrow> string list \<times> jstr \<Rightarrow> string list \<times> jstr" where
  "sync_invoice_numbers keys d =
     (if ''invoiceNumbers'' \<in> set keys then
        (let numbers = filter (\<lambda>v. v \<noteq> []) (map trim (fst d))
         in case numbers of
              n # _ \<Rightarrow> (numbers, Some n)
            | [] \<Rightarrow> if truthy (snd d) then ([str (snd d)], snd d) else ([], Some []))
      else if ''invoiceNumber'' \<in> set keys then
        (let primary = str (snd d) in (if primary \<noteq> [] then [primary] else [], Some primary))
      else d)"

section \<open>Amounts\<close>

definition is_recurring_license :: "license_type option \<Rightarrow> bool option \<Rightarrow> bool" where
  "is_recurring_license t renewable \<longleftrightarrow>
     in_types t [Subscription, Saas, Maintenance]
     \<or> (is_renewal_opt_in_license_type t \<and> is_renewable_license t renewable)"

definition MAX_ONE_YEAR_TERM_DAYS :: int where
  "MAX_ONE_YEAR_TERM_DAYS = 366"

definition annualize_term_cost :: "jsnum \<Rightarrow> jstr \<Rightarrow> jstr \<Rightarrow> jsnum" where
  "annualize_term_cost amount a b =
     (case inclusive_term_days a b of
        NullDays \<Rightarrow> amount
      | NanDays \<Rightarrow> NaN
      | Days n \<Rightarrow> if n \<le> MAX_ONE_YEAR_TERM_DAYS then amount
                  else js_div (js_mul amount (Fin 365)) (Fin (of_int n)))"

definition parse_decimal :: "jstr \<Rightarrow> jsnum" where
  "parse_decimal v =
     (if trim (str v) = [] then Fin 0
      else (let parsed = js_Number (filter (\<lambda>c. c \<noteq> CHR '','') (trim (str v)))
            in if is_finite parsed then parsed else Fin 0))"

definition line_total :: "license \<Rightarrow> jsnum" where
  "line_total l = js_mul (parse_decimal (l_quantity l)) (parse_decimal (l_unitPrice l))"

text \<open>The \<open>Map\<close> of line sums by procurement identity, as an association list.\<close>

primrec add_to :: "'k \<Rightarrow> jsnum \<Rightarrow> ('k \<times> jsnum) list \<Rightarrow> ('k \<times> jsnum) list" where
  "add_to k x [] = [(k, js_add (Fin 0) x)]"
| "add_to k x (e # es) = (if fst e = k then (k, js_add (snd e) x) # es else e # add_to k x es)"

definition identity_string :: "license \<Rightarrow> string option" where
  "identity_string l = map_option (\<lambda>i. fst i @ ''|'' @ snd i) (procurement_identity_key l)"

definition line_sums :: "license list \<Rightarrow> (string \<times> jsnum) list" where
  "line_sums all =
     foldl (\<lambda>acc l. case identity_string l of None \<Rightarrow> acc | Some k \<Rightarrow> add_to k (line_total l) acc) [] all"

definition po_override_differs :: "(string \<times> jsnum) list \<Rightarrow> license \<Rightarrow> string option" where
  "po_override_differs acc l =
     (case identity_string l of
        None \<Rightarrow> None
      | Some k \<Rightarrow>
          if \<not> truthy (l_poTotalOverride l) then None
          else (let ovr = js_Number (str (l_poTotalOverride l));
                    line_sum = (case map_of acc k of None \<Rightarrow> Fin 0 | Some x \<Rightarrow> x)
                in if is_finite ovr \<and> js_less (js_Number ''0.000001'') (js_abs (js_sub ovr line_sum))
                   then Some k else None))"

definition count_po_overrides_not_in_annual :: "license list \<Rightarrow> license list \<Rightarrow> int" where
  "count_po_overrides_not_in_annual included all =
     int (length (remdups (List.map_filter (po_override_differs (line_sums all)) included)))"

section \<open>Aging\<close>

fun age_rank :: "expiration_status \<Rightarrow> nat" where
  "age_rank StUpcoming = 0"
| "age_rank StActive = 1"
| "age_rank StPerpetual = 1"
| "age_rank StExpiring = 2"
| "age_rank StExpired = 3"
| "age_rank StRenewed = 4"
| "age_rank StRetired = 5"
| "age_rank StLegacy = 5"

text \<open>As days pass a count of days falls, or stays what it is when there is no valid date.\<close>

lemma days_until_later:
  assumes "t \<le> t'"
  shows "count_less (days_until t d) n \<Longrightarrow> count_less (days_until t' d) n"
    and "count_le (days_until t d) n \<Longrightarrow> count_le (days_until t' d) n"
    and "count_greater (days_until t' d) n \<Longrightarrow> count_greater (days_until t d) n"
  using assms by (auto simp: days_until_def split: option.splits if_splits)

lemma expiration_later:
  assumes "t \<le> t'"
  shows "age_rank (compute_expiration_status \<lparr>today = t, now = w\<rparr> r st ty rt ss sd ed) \<le>
    age_rank (compute_expiration_status \<lparr>today = t', now = w'\<rparr> r st ty rt ss sd ed)"
proof -
  define U where "U x \<longleftrightarrow> sd \<noteq> None \<and> count_greater (days_until x sd) 0" for x
  define L where "L x \<longleftrightarrow> count_less (days_until x ed) 0" for x
  define S where "S x \<longleftrightarrow> \<not> truthy ss \<or> count_le (days_until x ss) 0" for x
  define E where "E x \<longleftrightarrow> count_le (days_until x ed) NOTIFICATION_DAYS" for x
  have m: "U t' \<Longrightarrow> U t" "L t \<Longrightarrow> L t'" "S t \<Longrightarrow> S t'" "E t \<Longrightarrow> E t'"
    unfolding U_def L_def S_def E_def using days_until_later [OF assms] by blast+
  define H where "H \<longleftrightarrow> rt \<noteq> None \<and> rt \<noteq> Some 0"
  define R where "R \<longleftrightarrow> st = Some Renewed"
  define P where "P = (if is_non_expiring_license_type ty then StPerpetual else StActive)"
  have P: "age_rank P = 1" by (simp add: P_def del: non_expiring_iff)
  have eq: "compute_expiration_status \<lparr>today = x, now = v\<rparr> r st ty rt ss sd ed =
      (if r then StRetired else if st = Some Legacy then StLegacy else if U x then StUpcoming
       else if ed = None then P
       else if L x then (if H \<and> S x then StRenewed else if \<not> H \<and> R then StRenewed else StExpired)
       else if E x then StExpiring else StActive)" for x v
    by (simp only: compute_expiration_status_def Let_def U_def L_def S_def E_def H_def R_def P_def clock.simps)
  show ?thesis
  proof (cases "r \<or> st = Some Legacy")
    case True
    then show ?thesis unfolding eq by (cases r) simp_all
  next
    case False
    then have eq': "compute_expiration_status \<lparr>today = x, now = v\<rparr> r st ty rt ss sd ed =
        (if U x then StUpcoming else if ed = None then P
         else if L x then (if H \<and> S x then StRenewed else if \<not> H \<and> R then StRenewed else StExpired)
         else if E x then StExpiring else StActive)" for x v
      unfolding eq by simp
    show ?thesis
    proof (cases "U t \<or> ed = None")
      case True
      then show ?thesis unfolding eq' using m(1) P by (cases "U t"; cases "U t'") simp_all
    next
      case False
      then obtain y where ed: "ed = Some y" by blast
      from False have "\<not> U t'" "\<not> U t" using m(1) by blast+
      with m(2-4) show ?thesis
        unfolding eq' by (cases "L t"; cases "L t'"; cases "S t"; cases "E t") (simp_all add: ed)
    qed
  qed
qed

section \<open>Derived fields\<close>

lemma sync_license_keeps_support:
  assumes "sync_license_po_line l s = (l', s')"
  shows "\<exists>r. l' = l \<or> l' = assign_license r l"
  using assms by (cases rule: sync_license_cases) auto

lemma license_acquisition_frames [simp]:
  "license_acquisition (assign_license r l) = license_acquisition l"
  "license_acquisition (l\<lparr>l_support := p\<rparr>) = license_acquisition l"
  "license_acquisition (derive_status clk s l) = license_acquisition l"
  by (simp_all add: license_acquisition_def assign_license_def derive_status_def)

lemma normalise_support_fixed:
  "covered_support (license_acquisition l) (l_support l) \<Longrightarrow> normalise_support l = l"
  by (simp add: normalise_support_def wd.norm_canonical)

lemma normalise_support_covered: "covered_support (license_acquisition (normalise_support l)) (l_support (normalise_support l))"
  by (simp add: normalise_support_def wd.canonical_norm)

lemma derive_status_frames [simp]:
  "l_id (derive_status clk s l) = l_id l"
  "l_support (derive_status clk s l) = l_support l"
  "l_poNumber (derive_status clk s l) = l_poNumber l"
  "l_poLineId (derive_status clk s l) = l_poLineId l"
  "l_poLineNumber (derive_status clk s l) = l_poLineNumber l"
  "l_renewedToId (derive_status clk s l) = l_renewedToId l"
  "l_lifecycleStatus (derive_status clk s l) = l_lifecycleStatus l"
  "l_isRetired (derive_status clk s l) = l_isRetired l"
  "l_licenseType (derive_status clk s l) = l_licenseType l"
  "l_startDate (derive_status clk s l) = l_startDate l"
  "l_endDate (derive_status clk s l) = l_endDate l"
  by (simp_all add: derive_status_def)

lemma derive_status_values:
  "l_daysUntilExpiry (derive_status clk s l) = days_until (today clk) (l_endDate l)"
  "l_expirationStatus (derive_status clk s l) =
     compute_expiration_status clk (l_isRetired l) (l_lifecycleStatus l) (l_licenseType l) (l_renewedToId l)
       (successor_start s l) (l_startDate l) (l_endDate l)"
  "l_supportDaysRemaining (derive_status clk s l) = compute_support_days_remaining clk l"
  "l_supportStatus (derive_status clk s l) = compute_support_status clk l"
  "l_updatedAt (derive_status clk s l) = now clk"
  by (simp_all add: derive_status_def)

lemma support_days_derived [simp]:
  "compute_support_days_remaining clk (derive_status clk' s l) = compute_support_days_remaining clk l"
  "compute_support_status clk (derive_status clk' s l) = compute_support_status clk l"
  "successor_start s' (derive_status clk' s l) = successor_start s' l"
  by (simp_all add: compute_support_days_remaining_def compute_support_status_def successor_start_def)

lemma derive_status_idem: "derive_status clk s (derive_status clk s l) = derive_status clk s l"
proof -
  have keep: "derive_status clk s m = m"
    if "l_daysUntilExpiry m = days_until (today clk) (l_endDate m)"
      "l_expirationStatus m = compute_expiration_status clk (l_isRetired m) (l_lifecycleStatus m)
         (l_licenseType m) (l_renewedToId m) (successor_start s m) (l_startDate m) (l_endDate m)"
      "l_supportDaysRemaining m = compute_support_days_remaining clk m"
      "l_supportStatus m = compute_support_status clk m" "l_updatedAt m = now clk" for m
    unfolding derive_status_def by (simp add: that [symmetric])
  show ?thesis by (rule keep) (simp_all add: derive_status_values)
qed

lemma normalise_support_frames [simp]:
  "l_id (normalise_support l) = l_id l"
  "l_poNumber (normalise_support l) = l_poNumber l"
  "l_poLineId (normalise_support l) = l_poLineId l"
  "l_poLineNumber (normalise_support l) = l_poLineNumber l"
  by (simp_all add: normalise_support_def)

lemma assign_license_support [simp]: "l_support (assign_license r l) = l_support l"
  by (simp add: assign_license_def)

text \<open>The derived fields of a license agree with its data.\<close>

definition decorated :: "clock \<Rightarrow> store \<Rightarrow> license \<Rightarrow> bool" where
  "decorated clk s l \<longleftrightarrow> covered_support (license_acquisition l) (l_support l)
     \<and> license_holds (poLineRegister s) l \<and> derive_status clk s l = l"

lemma decorate_result:
  assumes "pol.ok (poLineRegister s)" "license_ref_ok (poLineRegister s) l"
    and "decorate_license clk l s = (l', s')"
  shows "decorated clk s' l' \<and> l_id l' = l_id l \<and> s' = s\<lparr>poLineRegister := poLineRegister s'\<rparr>
    \<and> pol.ok (poLineRegister s') \<and> grows (poLineRegister s) (poLineRegister s')"
proof -
  let ?n = "normalise_support l"
  obtain m t where sync: "sync_license_po_line ?n s = (m, t)" by fastforce
  then have r: "l' = derive_status clk t m" "s' = t"
    using assms(3) by (auto simp: decorate_license_def)
  have "ref_ok (poLineRegister s) (l_poLineId ?n) (l_poLineNumber ?n)"
    using assms(2) by (simp add: license_ref_ok_def)
  note post = sync_license_post [OF assms(1) this sync]
  obtain q where m: "m = ?n \<or> m = assign_license q ?n" using sync_license_keeps_support [OF sync] by blast
  then have "covered_support (license_acquisition m) (l_support m)" "l_id m = l_id l"
    using normalise_support_covered by auto
  then show ?thesis
    using post unfolding r decorated_def by (simp add: license_holds_def derive_status_idem)
qed

lemma decorated_fixed: "decorated clk s l \<Longrightarrow> decorate_license clk l s = (l, s)"
  by (simp add: decorated_def decorate_license_def normalise_support_fixed sync_license_fixed)

section \<open>Normalised type fields\<close>

definition canonical_type_fields :: "string list \<Rightarrow> type_fields \<Rightarrow> bool" where
  "canonical_type_fields keys d \<longleftrightarrow>
     (tf_licenseType d = Some Freeware \<longrightarrow> tf_unitPrice d = Some [] \<and> tf_totalPoPrice d = Some [])
     \<and> (is_non_expiring_license_type (tf_licenseType d) \<longrightarrow> tf_endDate d = None)
     \<and> (''isRenewable'' \<in> set keys \<and> \<not> is_renewal_opt_in_license_type (tf_licenseType d) \<longrightarrow> tf_isRenewable d = None)
     \<and> (''typeDescription'' \<in> set keys \<longrightarrow>
          (case tf_typeDescription d of None \<Rightarrow> True
           | Some v \<Rightarrow> tf_licenseType d = Some OtherType \<and> v \<noteq> [] \<and> trim v = v))
     \<and> (''maintenanceParentLicenseId'' \<in> set keys \<and> tf_licenseType d \<noteq> Some Maintenance \<longrightarrow>
          tf_maintenanceParentLicenseId d = None)"

lemma type_fields_eqI:
  fixes a b :: type_fields
  assumes "tf_licenseType a = tf_licenseType b" "tf_isRenewable a = tf_isRenewable b"
    and "tf_typeDescription a = tf_typeDescription b"
    and "tf_maintenanceParentLicenseId a = tf_maintenanceParentLicenseId b"
    and "tf_unitPrice a = tf_unitPrice b" "tf_totalPoPrice a = tf_totalPoPrice b" "tf_endDate a = tf_endDate b"
  shows "a = b"
  using assms by (cases a, cases b) simp

text \<open>The routine field by field.\<close>

lemma normalise_present_fields [simp]:
  "tf_licenseType (normalise_present a b c d) = tf_licenseType d"
  "tf_unitPrice (normalise_present a b c d) = tf_unitPrice d"
  "tf_totalPoPrice (normalise_present a b c d) = tf_totalPoPrice d"
  "tf_endDate (normalise_present a b c d) = tf_endDate d"
  "tf_isRenewable (normalise_present a b c d) =
     (if a \<and> \<not> is_renewal_opt_in_license_type (tf_licenseType d) then None else tf_isRenewable d)"
  "tf_maintenanceParentLicenseId (normalise_present a b c d) =
     (if c \<and> tf_licenseType d \<noteq> Some Maintenance then None else tf_maintenanceParentLicenseId d)"
  "tf_typeDescription (normalise_present a b c d) =
     (if b then (if tf_licenseType d = Some OtherType \<and> trim (str (tf_typeDescription d)) \<noteq> []
            then Some (trim (str (tf_typeDescription d))) else None) else tf_typeDescription d)"
  by (simp_all add: normalise_present_def Let_def del: opt_in_iff)

definition canonical_present :: "bool \<Rightarrow> bool \<Rightarrow> bool \<Rightarrow> type_fields \<Rightarrow> bool" where
  "canonical_present a b c d \<longleftrightarrow>
     (tf_licenseType d = Some Freeware \<longrightarrow> tf_unitPrice d = Some [] \<and> tf_totalPoPrice d = Some [])
     \<and> (is_non_expiring_license_type (tf_licenseType d) \<longrightarrow> tf_endDate d = None)
     \<and> (a \<and> \<not> is_renewal_opt_in_license_type (tf_licenseType d) \<longrightarrow> tf_isRenewable d = None)
     \<and> (b \<longrightarrow>
          (case tf_typeDescription d of None \<Rightarrow> True
           | Some v \<Rightarrow> tf_licenseType d = Some OtherType \<and> v \<noteq> [] \<and> trim v = v))
     \<and> (c \<and> tf_licenseType d \<noteq> Some Maintenance \<longrightarrow> tf_maintenanceParentLicenseId d = None)"

definition priced_fields :: "type_fields \<Rightarrow> type_fields" where
  "priced_fields d = d\<lparr>
     tf_unitPrice := (if tf_licenseType d = Some Freeware then Some [] else tf_unitPrice d),
     tf_totalPoPrice := (if tf_licenseType d = Some Freeware then Some [] else tf_totalPoPrice d),
     tf_endDate := (if is_non_expiring_license_type (tf_licenseType d) then None else tf_endDate d)\<rparr>"

lemma priced_fields_fields [simp]:
  "tf_licenseType (priced_fields d) = tf_licenseType d"
  "tf_isRenewable (priced_fields d) = tf_isRenewable d"
  "tf_typeDescription (priced_fields d) = tf_typeDescription d"
  "tf_maintenanceParentLicenseId (priced_fields d) = tf_maintenanceParentLicenseId d"
  "tf_unitPrice (priced_fields d) = (if tf_licenseType d = Some Freeware then Some [] else tf_unitPrice d)"
  "tf_totalPoPrice (priced_fields d) = (if tf_licenseType d = Some Freeware then Some [] else tf_totalPoPrice d)"
  "tf_endDate (priced_fields d) = (if is_non_expiring_license_type (tf_licenseType d) then None else tf_endDate d)"
  by (simp_all add: priced_fields_def)

lemma present_canonical: "canonical_present a b c (normalise_present a b c (priced_fields d))"
  by (simp add: canonical_present_def del: opt_in_iff non_expiring_iff)

lemma present_fixed:
  assumes "canonical_present a b c d"
  shows "normalise_present a b c (priced_fields d) = d"
proof (rule type_fields_eqI)
  note c = assms [unfolded canonical_present_def]
  show "tf_typeDescription (normalise_present a b c (priced_fields d)) = tf_typeDescription d"
    using c by (cases "tf_typeDescription d") auto
qed (use assms in \<open>simp_all add: canonical_present_def\<close>)

lemma normalise_as_present:
  "normalise_license_type_fields keys d =
     normalise_present (''isRenewable'' \<in> set keys) (''typeDescription'' \<in> set keys)
       (''maintenanceParentLicenseId'' \<in> set keys) (priced_fields d)"
  by (simp only: normalise_license_type_fields_def normalise_type_opt_in_fields_def priced_fields_def)

lemma canonical_as_present:
  "canonical_type_fields keys d =
     canonical_present (''isRenewable'' \<in> set keys) (''typeDescription'' \<in> set keys)
       (''maintenanceParentLicenseId'' \<in> set keys) d"
  by (simp only: canonical_type_fields_def canonical_present_def)

interpretation tn: normaliser "normalise_license_type_fields keys" "canonical_type_fields keys" for keys
  unfolding normalise_as_present canonical_as_present
  by unfold_locales (rule present_canonical, rule present_fixed)

lemma normalise_keeps_type: "tf_licenseType (normalise_license_type_fields keys d) = tf_licenseType d"
  unfolding normalise_as_present by simp

section \<open>Properties\<close>

text \<open>C22: \<open>computeExpirationStatus\<close> only moves forward in time: for a fixed record, upcoming becomes active
  (or perpetual), then expiring, then expired, then renewed, and never back, whatever its dates are.\<close>
theorem expiration_status_ages:
  assumes "t \<le> t'"
  shows "age_rank (compute_expiration_status \<lparr>today = t, now = w\<rparr> r st ty rt ss sd ed) \<le>
    age_rank (compute_expiration_status \<lparr>today = t', now = w'\<rparr> r st ty rt ss sd ed)"
  by (rule expiration_later [OF assms])

theorem expiration_status_ages_witness:
  "compute_expiration_status \<lparr>today = 19700, now = []\<rparr> False None (Some Saas) None None
     (Some ''2024-01-01'') (Some ''2024-12-31'') = StUpcoming \<and>
   age_rank (compute_expiration_status \<lparr>today = 19700, now = []\<rparr> False None (Some Saas) None None
     (Some ''2024-01-01'') (Some ''2024-12-31'')) \<le>
   age_rank (compute_expiration_status \<lparr>today = 20090, now = []\<rparr> False None (Some Saas) None None
     (Some ''2024-01-01'') (Some ''2024-12-31''))"
proof (rule conjI)
  show "compute_expiration_status \<lparr>today = 19700, now = []\<rparr> False None (Some Saas) None None
     (Some ''2024-01-01'') (Some ''2024-12-31'') = StUpcoming" by code_simp
  have "(19700 :: int) \<le> 20090" by simp
  then show "age_rank (compute_expiration_status \<lparr>today = 19700, now = []\<rparr> False None (Some Saas) None None
     (Some ''2024-01-01'') (Some ''2024-12-31'')) \<le>
   age_rank (compute_expiration_status \<lparr>today = 20090, now = []\<rparr> False None (Some Saas) None None
     (Some ''2024-01-01'') (Some ''2024-12-31''))" by (rule expiration_status_ages)
qed




text \<open>After \<open>syncInvoiceNumbers\<close> the primary invoice number is the first of the list, or empty when the
  list is empty, whichever of the two fields was submitted.\<close>
theorem invoice_numbers_mirrored:
  assumes "''invoiceNumbers'' \<in> set keys \<or> ''invoiceNumber'' \<in> set keys"
    and "sync_invoice_numbers keys d = (numbers, primary)"
  shows "primary = Some (case numbers of [] \<Rightarrow> [] | n # _ \<Rightarrow> n) \<and> [] \<notin> set numbers"
proof (cases "''invoiceNumbers'' \<in> set keys")
  case True
  define N where "N = filter (\<lambda>v. v \<noteq> []) (map trim (fst d))"
  have "[] \<notin> set N" by (auto simp: N_def)
  moreover have "sync_invoice_numbers keys d = (case N of n # _ \<Rightarrow> (N, Some n)
      | [] \<Rightarrow> if truthy (snd d) then ([str (snd d)], snd d) else ([], Some []))"
    using True by (simp only: sync_invoice_numbers_def Let_def N_def if_True)
  ultimately show ?thesis
    using assms(2) by (cases N; cases "snd d") (auto simp: truthy_def split: if_splits)
next
  case False
  with assms show ?thesis by (auto simp: sync_invoice_numbers_def Let_def split: if_splits)
qed

theorem invoice_numbers_mirrored_witness:
  "sync_invoice_numbers [''invoiceNumbers''] ([''  '', '' A1 '', ''B2''], Some ''old'') = ([''A1'', ''B2''], Some ''A1'') \<and>
   Some ''A1'' = Some (case [''A1'', ''B2''] of [] \<Rightarrow> [] | n # _ \<Rightarrow> n) \<and> [] \<notin> set [''A1'', ''B2'']"
proof -
  have s: "sync_invoice_numbers [''invoiceNumbers''] ([''  '', '' A1 '', ''B2''], Some ''old'') = ([''A1'', ''B2''], Some ''A1'')"
    by code_simp
  have "''invoiceNumbers'' \<in> set [''invoiceNumbers''] \<or> ''invoiceNumber'' \<in> set [''invoiceNumbers'']" by simp
  from invoice_numbers_mirrored [OF this s] s show ?thesis by blast
qed

text \<open>\<open>annualizeTermCost\<close> leaves the cost of a one-year term as it is, whichever year it spans.\<close>
theorem one_year_cost_unchanged:
  assumes "four_digit_day z" "four_digit_day (add_years 1 z - 1)"
  shows "annualize_term_cost amount (Some (iso_of z)) (Some (term_end (iso_of z) 1)) = amount"
proof -
  have "inclusive_term_days (Some (iso_of z)) (Some (term_end (iso_of z) 1)) = Days (add_years 1 z - z)"
    using assms by (simp add: inclusive_term_days_def term_end_iso parse_day_iso)
  then show ?thesis
    using add_one_year [of z] by (auto simp: annualize_term_cost_def MAX_ONE_YEAR_TERM_DAYS_def)
qed

theorem one_year_cost_unchanged_witness:
  "annualize_term_cost (Fin 1200) (Some (iso_of 19782)) (Some (term_end (iso_of 19782) 1)) = Fin 1200"
proof -
  have "four_digit_day 19782" "four_digit_day (add_years 1 19782 - 1)" by code_simp+
  then show ?thesis by (rule one_year_cost_unchanged)
qed

end
