(* ===== verification/JsArray.thy ===== *)
theory JsArray
  imports JsString "HOL-Library.Multiset"
begin

text \<open>
  The array operations of the language that the code leans on: the stable \<open>Array.prototype.sort\<close>
  with a comparator, the order of the default sort, and \<open>[...new Set(xs)]\<close>.

  A comparator is a function to the integers of which only the sign counts. The language fixes the
  result of a sort for consistent comparators only; \<open>js_sort\<close> is one stable sort, and what is proved
  of it rests on the contract \<open>js_comparator\<close>. The order of \<open>localeCompare\<close> is the runtime's: it is an
  argument \<open>collate\<close> of the definitions that use it, with the contract \<open>text_order\<close>.
\<close>

section \<open>Sorting\<close>

primrec js_insert :: "('a \<Rightarrow> 'a \<Rightarrow> int) \<Rightarrow> 'a \<Rightarrow> 'a list \<Rightarrow> 'a list" where
  "js_insert cmp x [] = [x]"
| "js_insert cmp x (y # ys) = (if cmp x y \<le> 0 then x # y # ys else y # js_insert cmp x ys)"

definition js_sort :: "('a \<Rightarrow> 'a \<Rightarrow> int) \<Rightarrow> 'a list \<Rightarrow> 'a list" where
  "js_sort cmp xs = foldr (js_insert cmp) xs []"

lemma js_sort_simps [simp]:
  "js_sort cmp [] = []"
  "js_sort cmp (x # xs) = js_insert cmp x (js_sort cmp xs)"
  by (simp_all add: js_sort_def)

lemma mset_js_insert [simp]: "mset (js_insert cmp x ys) = add_mset x (mset ys)"
  by (induction ys) auto

lemma mset_js_sort [simp]: "mset (js_sort cmp xs) = mset xs"
  by (induction xs) simp_all

lemma set_js_sort [simp]: "set (js_sort cmp xs) = set xs"
  by (metis mset_js_sort set_mset_mset)

lemma length_js_sort [simp]: "length (js_sort cmp xs) = length xs"
  by (metis mset_js_sort size_mset)

lemma distinct_js_sort [simp]: "distinct (js_sort cmp xs) = distinct xs"
  by (metis mset_eq_imp_distinct_iff mset_js_sort)

lemma mset_filter_js_sort: "mset (filter p (js_sort cmp xs)) = mset (filter p xs)"
  by simp

text \<open>The comparator need only be consistent on the values that are sorted.\<close>

locale js_comparator =
  fixes cmp :: "'a \<Rightarrow> 'a \<Rightarrow> int"
    and valid :: "'a \<Rightarrow> bool"
  assumes cmp_total: "valid x \<Longrightarrow> valid y \<Longrightarrow> cmp x y \<le> 0 \<or> cmp y x \<le> 0"
    and cmp_trans: "valid x \<Longrightarrow> valid y \<Longrightarrow> valid z \<Longrightarrow> cmp x y \<le> 0 \<Longrightarrow> cmp y z \<le> 0 \<Longrightarrow> cmp x z \<le> 0"
begin

lemma sorted_insert:
  "sorted_wrt (\<lambda>x y. cmp x y \<le> 0) ys \<Longrightarrow> valid x \<Longrightarrow> \<forall>y \<in> set ys. valid y \<Longrightarrow>
     sorted_wrt (\<lambda>x y. cmp x y \<le> 0) (js_insert cmp x ys)"
proof (induction ys)
  case (Cons y ys)
  have set: "set (js_insert cmp x ys) = insert x (set ys)"
    by (metis mset_js_insert set_mset_add_mset_insert set_mset_mset)
  have trans: "cmp x z \<le> 0" if "cmp x y \<le> 0" "z \<in> set ys" for z
    using that Cons.prems by (intro cmp_trans [of x y z]) simp_all
  have "cmp y x \<le> 0" if "\<not> cmp x y \<le> 0"
    using that Cons.prems cmp_total [of x y] by simp
  then show ?case
    using Cons trans by (simp add: set)
qed simp

lemma sorted_sort: "\<forall>x \<in> set xs. valid x \<Longrightarrow> sorted_wrt (\<lambda>x y. cmp x y \<le> 0) (js_sort cmp xs)"
  by (induction xs) (simp_all add: sorted_insert)

lemma insert_first: "\<forall>y \<in> set ys. cmp x y \<le> 0 \<Longrightarrow> js_insert cmp x ys = x # ys"
  by (cases ys) simp_all

text \<open>A sorted array is left alone: the sort is stable, and sorting twice is sorting once.\<close>

lemma sort_sorted: "sorted_wrt (\<lambda>x y. cmp x y \<le> 0) xs \<Longrightarrow> js_sort cmp xs = xs"
  by (induction xs) (simp_all add: insert_first)

lemma sort_idem: "\<forall>x \<in> set xs. valid x \<Longrightarrow> js_sort cmp (js_sort cmp xs) = js_sort cmp xs"
  by (rule sort_sorted) (rule sorted_sort)

end

text \<open>A comparator whose sign flips with its arguments.\<close>

locale js_order = js_comparator +
  assumes cmp_swap: "valid x \<Longrightarrow> valid y \<Longrightarrow> cmp x y < 0 \<longleftrightarrow> 0 < cmp y x"
begin

lemma cmp_eq: "valid x \<Longrightarrow> valid y \<Longrightarrow> cmp x y = 0 \<longleftrightarrow> cmp y x = 0"
  using cmp_swap [of x y] cmp_swap [of y x] by linarith

lemma strict_trans:
  "valid x \<Longrightarrow> valid y \<Longrightarrow> valid z \<Longrightarrow> cmp x y < 0 \<Longrightarrow> cmp y z \<le> 0 \<Longrightarrow> cmp x z < 0"
  "valid x \<Longrightarrow> valid y \<Longrightarrow> valid z \<Longrightarrow> cmp x y \<le> 0 \<Longrightarrow> cmp y z < 0 \<Longrightarrow> cmp x z < 0"
  using cmp_trans cmp_swap by (meson not_less)+

lemma eq_trans:
  "valid x \<Longrightarrow> valid y \<Longrightarrow> valid z \<Longrightarrow> cmp x y = 0 \<Longrightarrow> cmp y z = 0 \<Longrightarrow> cmp x z = 0"
  using cmp_trans [of x y z] cmp_trans [of z y x] cmp_eq [of x y] cmp_eq [of y z] cmp_swap [of x z]
  by linarith

end

lemma rank_order: "js_order (\<lambda>a b. rank a - rank b) V" for rank :: "'a \<Rightarrow> int"
  by unfold_locales linarith+

lemma js_order_on:
  assumes c: "js_order c V" and f: "\<And>x. W x \<Longrightarrow> V (f x)"
  shows "js_order (\<lambda>a b. c (f a) (f b)) W"
proof
  note j = js_order.axioms(1) [OF c]
  fix x y z
  assume x: "W x" and y: "W y"
  show "c (f x) (f y) \<le> 0 \<or> c (f y) (f x) \<le> 0"
    by (rule js_comparator.cmp_total [OF j f f]) fact+
  show "c (f x) (f y) < 0 \<longleftrightarrow> 0 < c (f y) (f x)"
    by (rule js_order.cmp_swap [OF c f f]) fact+
  assume z: "W z" and "c (f x) (f y) \<le> 0" "c (f y) (f z) \<le> 0"
  then show "c (f x) (f z) \<le> 0"
    by (intro js_comparator.cmp_trans [OF j f f f, OF x y z])
qed

lemma js_order_cong:
  assumes c: "js_order c V" and d: "\<And>x y. V x \<Longrightarrow> V y \<Longrightarrow> d x y = c x y"
  shows "js_order d V"
proof
  note j = js_order.axioms(1) [OF c]
  fix x y z
  assume v: "V x" "V y"
  show "d x y \<le> 0 \<or> d y x \<le> 0"
    unfolding d [OF v] d [OF v(2,1)] by (rule js_comparator.cmp_total [OF j v])
  show "d x y < 0 \<longleftrightarrow> 0 < d y x"
    unfolding d [OF v] d [OF v(2,1)] by (rule js_order.cmp_swap [OF c v])
  assume z: "V z" and "d x y \<le> 0" "d y z \<le> 0"
  then show "d x z \<le> 0"
    unfolding d [OF v] d [OF v(2) z] d [OF v(1) z] by (intro js_comparator.cmp_trans [OF j v z])
qed

text \<open>\<open>return c(a, b) || d(a, b);\<close>, the second key where the first ones agree.\<close>

definition then_by :: "('a \<Rightarrow> 'a \<Rightarrow> int) \<Rightarrow> ('a \<Rightarrow> 'a \<Rightarrow> int) \<Rightarrow> 'a \<Rightarrow> 'a \<Rightarrow> int" where
  "then_by c d a b = (if c a b \<noteq> 0 then c a b else d a b)"

lemma then_by_order:
  assumes c: "js_order c V" and d: "js_order d V"
  shows "js_order (then_by c d) V"
proof
  fix x y z
  assume v: "V x" "V y"
  have cd: "c x y < 0 \<longleftrightarrow> 0 < c y x" "c y x < 0 \<longleftrightarrow> 0 < c x y"
    "d x y < 0 \<longleftrightarrow> 0 < d y x" "d y x < 0 \<longleftrightarrow> 0 < d x y"
    using v js_order.cmp_swap [OF c] js_order.cmp_swap [OF d] by simp_all
  show "then_by c d x y < 0 \<longleftrightarrow> 0 < then_by c d y x" "then_by c d x y \<le> 0 \<or> then_by c d y x \<le> 0"
    using cd by (auto simp: then_by_def)
  assume z: "V z" and le: "then_by c d x y \<le> 0" "then_by c d y z \<le> 0"
  then show "then_by c d x z \<le> 0"
    using v js_order.strict_trans [OF c v z] js_order.eq_trans [OF c v z]
      js_comparator.cmp_trans [OF js_order.axioms(1) [OF d] v z]
    by (fastforce simp: then_by_def split: if_splits)
qed

section \<open>The order of texts\<close>

locale text_order = js_order collate "\<lambda>_. True"
  for collate :: "string \<Rightarrow> string \<Rightarrow> int" +
  assumes collate_refl: "collate x x = 0"
begin

text \<open>Comparing by a number first and by a text where the numbers agree is a comparator.\<close>

lemma by_text: "js_order (\<lambda>a b. collate (text a) (text b)) V"
  by (rule js_order_on [OF js_order_axioms]) simp

lemma by_rank: "js_order (then_by (\<lambda>a b. rank a - rank b) (\<lambda>a b. collate (text a) (text b))) V"
  by (rule then_by_order [OF rank_order by_text])

end

text \<open>The order of the default sort: by code units.\<close>

fun code_unit_compare :: "string \<Rightarrow> string \<Rightarrow> int" where
  "code_unit_compare [] [] = 0"
| "code_unit_compare [] (_ # _) = - 1"
| "code_unit_compare (_ # _) [] = 1"
| "code_unit_compare (c # cs) (d # ds) =
     (if code c = code d then code_unit_compare cs ds else if code c < code d then - 1 else 1)"

lemma code_unit_refl [simp]: "code_unit_compare x x = 0"
  by (induction x) simp_all

lemma code_unit_swap: "code_unit_compare y x = - code_unit_compare x y"
  by (induction x y rule: code_unit_compare.induct) auto

lemma code_unit_zero: "code_unit_compare x y = 0 \<longleftrightarrow> x = y"
proof (induction x y rule: code_unit_compare.induct)
  case (4 c cs d ds)
  have "code c = code d \<longleftrightarrow> c = d"
    by (simp add: code_def)
  with 4 show ?case by auto
qed auto

lemma code_unit_Nil [simp]: "code_unit_compare [] z \<le> 0"
  by (cases z) simp_all

lemma code_unit_trans:
  "code_unit_compare x y \<le> 0 \<Longrightarrow> code_unit_compare y z \<le> 0 \<Longrightarrow> code_unit_compare x z \<le> 0"
proof (induction x y arbitrary: z rule: code_unit_compare.induct)
  case (4 c cs d ds)
  then show ?case by (cases z) (auto split: if_splits)
qed auto

interpretation cu: text_order code_unit_compare
proof
  fix x y z :: string
  show "code_unit_compare x y \<le> 0 \<or> code_unit_compare y x \<le> 0"
    using code_unit_swap [of x y] by linarith
  show "code_unit_compare x z \<le> 0" if "code_unit_compare x y \<le> 0" "code_unit_compare y z \<le> 0"
    using that by (rule code_unit_trans)
  show "code_unit_compare x y < 0 \<longleftrightarrow> 0 < code_unit_compare y x"
    using code_unit_swap [of x y] by linarith
qed simp

section \<open>Sets of values\<close>

text \<open>\<open>[...new Set(xs)]\<close>: the first occurrence of each value.\<close>

primrec uniq :: "'a list \<Rightarrow> 'a list" where
  "uniq [] = []"
| "uniq (x # xs) = x # filter (\<lambda>y. y \<noteq> x) (uniq xs)"

lemma set_uniq [simp]: "set (uniq xs) = set xs"
  by (induction xs) auto

lemma distinct_uniq [simp]: "distinct (uniq xs)"
  by (induction xs) auto

lemma uniq_distinct: "distinct xs \<Longrightarrow> uniq xs = xs"
  by (induction xs) (auto simp: filter_id_conv)

lemma uniq_idem [simp]: "uniq (uniq xs) = uniq xs"
  by (rule uniq_distinct) simp

end
