(* ===== verification/Sourcing.thy ===== *)
theory Sourcing
  imports LicenseRecords LineAmount JsArray
begin

text \<open>
  Sourcing lines and sourcing requests (\<^verbatim>\<open>store.js\<close>, "Sourcing / pending-order helpers"): the licenses a
  line renews, the value of a list of lines, the request that owns a line, its identity (supplier and
  contact), and what deleting a line does to the licenses it would have renewed.

  A function that mutates an object passed to it returns the new object together with the new store
  when the object need not be stored yet; otherwise the object is addressed by its id. Functions that
  may throw are operations \<open>demo_op\<close>. The objects of this component carry no uploaded documents.
\<close>

section \<open>Predecessors\<close>

definition sourcing_item_predecessor_ids :: "sourcing_item \<Rightarrow> int list" where
  "sourcing_item_predecessor_ids i =
     uniq (List.map_filter id (i_renewalForLicenseId i #
       map Some (case i_cotermPredecessorIds i of None \<Rightarrow> [] | Some ids \<Rightarrow> ids)))"

text \<open>Sorting by descending id, then the first line on an order, else the first line.\<close>

definition newest_first :: "sourcing_item \<Rightarrow> sourcing_item \<Rightarrow> int" where
  "newest_first a b = i_id b - i_id a"

definition prefer_ordered :: "sourcing_item list \<Rightarrow> sourcing_item option" where
  "prefer_ordered xs =
     (case List.find (\<lambda>i. i_pendingOrderId i \<noteq> None) xs of
        Some i \<Rightarrow> Some i | None \<Rightarrow> (case xs of [] \<Rightarrow> None | i # _ \<Rightarrow> Some i))"

definition select_renewal_sourcing_item :: "store \<Rightarrow> int \<Rightarrow> sourcing_item option" where
  "select_renewal_sourcing_item s lid =
     prefer_ordered (js_sort newest_first
       (filter (\<lambda>i. lid \<in> set (sourcing_item_predecessor_ids i)) (sourcingItems s)))"

definition open_support_renewal_items :: "store \<Rightarrow> int \<Rightarrow> sourcing_item list" where
  "open_support_renewal_items s parent =
     filter (\<lambda>i. i_maintenanceParentLicenseId i = Some parent \<and> i_status i \<noteq> Cancelled
       \<and> \<not> (\<exists>l \<in> set (licenses s). l_sourceSourcingItemId l = Some (i_id i))) (sourcingItems s)"

definition select_support_renewal_item :: "store \<Rightarrow> int \<Rightarrow> sourcing_item option" where
  "select_support_renewal_item s parent =
     prefer_ordered (js_sort newest_first (open_support_renewal_items s parent))"

section \<open>Values\<close>

text \<open>The three symbols are given by the bytes of their UTF-8 encoding, and so is the no-break space.\<close>

definition CURRENCY_SYMBOLS :: "(string \<times> string) list" where
  "CURRENCY_SYMBOLS =
     [(''EUR'', [CHR 0xE2, CHR 0x82, CHR 0xAC]), (''USD'', ''$''), (''GBP'', [CHR 0xC2, CHR 0xA3])]"

definition format_currency :: "jsnum \<Rightarrow> string \<Rightarrow> string" where
  "format_currency amount currency =
     (case map_of CURRENCY_SYMBOLS currency of
        Some symbol \<Rightarrow> symbol | None \<Rightarrow> currency @ [CHR 0xC2, CHR 0xA0]) @ to_locale2 amount"

text \<open>The line as the sums read it; lines and their summaries both have these fields.\<close>

record priced =
  p_licenseType :: "license_type option"
  p_estimatedTotalPrice :: jstr
  p_support :: support
  p_currency :: jstr

definition priced_item :: "sourcing_item \<Rightarrow> priced" where
  "priced_item i = \<lparr>p_licenseType = i_licenseType i, p_estimatedTotalPrice = i_estimatedTotalPrice i,
     p_support = i_support i, p_currency = i_currency i\<rparr>"

definition priced_summary :: "item_summary \<Rightarrow> priced" where
  "priced_summary i = \<lparr>p_licenseType = sm_licenseType i, p_estimatedTotalPrice = sm_estimatedTotalPrice i,
     p_support = sm_support i, p_currency = sm_currency i\<rparr>"

text \<open>A missing value as a property name.\<close>

definition property_name :: "jstr \<Rightarrow> string" where
  "property_name v = (case v of None \<Rightarrow> ''null'' | Some k \<Rightarrow> k)"

definition acquisition_value :: "priced \<Rightarrow> jsnum option" where
  "acquisition_value p = map_option js_Number (p_estimatedTotalPrice p)"

definition support_value :: "priced \<Rightarrow> jsnum option" where
  "support_value p =
     (if maintenanceCoverage (p_support p) = Some Included
         \<and> \<not> is_bundled_included_support (p_licenseType p) (maintenanceCoverage (p_support p))
      then map_option js_Number (maintenanceCost (p_support p)) else None)"

definition valid_amount :: "jsnum option \<Rightarrow> jsnum" where
  "valid_amount v = (case v of None \<Rightarrow> Fin 0 | Some x \<Rightarrow> if x = NaN then Fin 0 else x)"

text \<open>
  \<open>totals[currency] = (totals[currency] || 0) + a + b\<close>, in the order in which the currencies appear.
\<close>

primrec add_pair :: "string \<Rightarrow> jsnum \<Rightarrow> jsnum \<Rightarrow> (string \<times> jsnum) list \<Rightarrow> (string \<times> jsnum) list" where
  "add_pair k a b [] = [(k, js_add (js_add (Fin 0) a) b)]"
| "add_pair k a b (e # es) =
     (if fst e = k then (k, js_add (js_add (or_zero (snd e)) a) b) # es else e # add_pair k a b es)"

definition sum_by_currency :: "priced list \<Rightarrow> (string \<times> jsnum) list" where
  "sum_by_currency ps =
     fold (\<lambda>p totals.
       if acquisition_value p = None \<and> support_value p = None then totals
       else add_pair (property_name (p_currency p)) (valid_amount (acquisition_value p))
              (valid_amount (support_value p)) totals) ps []"

definition compute_total_po_value :: "item_summary list \<Rightarrow> jstr" where
  "compute_total_po_value items =
     (let totals = sum_by_currency (map priced_summary items)
      in if totals = [] then None
         else Some (join '' + '' (map (\<lambda>e. format_currency (snd e) (fst e)) totals)))"

definition compute_total_estimated_value :: "sourcing_item list \<Rightarrow> jstr" where
  "compute_total_estimated_value items =
     (let totals = sum_by_currency (map priced_item items)
      in if totals = [] then None
         else Some (join '' + '' (map (\<lambda>e. fst e @ '' '' @ to_locale2 (snd e)) totals)))"

section \<open>Summaries of a pending order\<close>

definition to_sourcing_item_summary :: "sourcing_item \<Rightarrow> item_summary" where
  "to_sourcing_item_summary i = \<lparr>
     sm_id = i_id i, sm_sourcingRequestId = i_sourcingRequestId i, sm_publisherName = i_publisherName i,
     sm_softwareDescription = i_softwareDescription i, sm_licenseType = i_licenseType i,
     sm_licenseMetric = i_licenseMetric i, sm_isRenewable = i_isRenewable i,
     sm_typeDescription = i_typeDescription i,
     sm_maintenanceParentLicenseId = i_maintenanceParentLicenseId i, sm_support = i_support i,
     sm_parentSourcingItemId = i_parentSourcingItemId i, sm_quantity = i_quantity i,
     sm_estimatedUnitPrice = i_estimatedUnitPrice i, sm_estimatedTotalPrice = i_estimatedTotalPrice i,
     sm_currency = i_currency i, sm_startDate = i_startDate i, sm_endDate = i_endDate i,
     sm_supplier = i_supplier i, sm_contactEmail = i_contactEmail i, sm_notes = i_notes i,
     sm_status = i_status i, sm_renewalForLicenseId = i_renewalForLicenseId i,
     sm_successorSourcingItemId = i_successorSourcingItemId i,
     sm_cotermPredecessorIds = i_cotermPredecessorIds i, sm_poLineNumber = i_poLineNumber i,
     sm_isRenewal = (i_renewalForLicenseId i \<noteq> None)\<rparr>"

text \<open>\<open>markPlannedRenewalLines\<close>, on summaries and on lines.\<close>

definition mark_planned_summaries :: "item_summary list \<Rightarrow> item_summary list" where
  "mark_planned_summaries xs =
     (let successors = List.map_filter sm_successorSourcingItemId xs
      in map (\<lambda>i. if sm_id i \<in> set successors then i\<lparr>sm_isRenewal := True\<rparr> else i) xs)"

definition mark_planned_renewal_lines :: "sourcing_item list \<Rightarrow> sourcing_item list" where
  "mark_planned_renewal_lines xs =
     (let successors = List.map_filter i_successorSourcingItemId xs
      in map (\<lambda>i. if i_id i \<in> set successors then i\<lparr>i_isRenewal := True\<rparr> else i) xs)"

definition order_summaries :: "int \<Rightarrow> store \<Rightarrow> item_summary list" where
  "order_summaries oid s = mark_planned_summaries (map to_sourcing_item_summary (order_items s oid))"

definition rebuild_pending_order_items :: "int \<Rightarrow> store \<Rightarrow> store" where
  "rebuild_pending_order_items oid s =
     (let s1 = sync_stored_order oid s; xs = order_summaries oid s1
      in upd_order oid (\<lambda>x. x\<lparr>o_items := xs, o_totalPoValue := compute_total_po_value xs\<rparr>) s1)"

section \<open>Requests\<close>

definition normalized :: "jstr \<Rightarrow> string" where
  "normalized v = to_lower (trim (str v))"

definition clean_procurement_identity :: "jstr \<Rightarrow> jstr" where
  "clean_procurement_identity v = (let c = trim (str v) in if c = [] then None else Some c)"

definition procurement_identities_match :: "jstr \<Rightarrow> jstr \<Rightarrow> bool" where
  "procurement_identities_match a b \<longleftrightarrow> normalized a = normalized b"

text \<open>\<open>ensureSourcingRequestForItem\<close> on a line that need not be stored, and on a stored line.\<close>

definition new_request :: "clock \<Rightarrow> int \<Rightarrow> sourcing_item \<Rightarrow> sourcing_request" where
  "new_request clk n i = \<lparr>r_id = n, r_supplier = i_supplier i, r_contactEmail = i_contactEmail i,
     r_notes = i_notes i, r_status = i_status i, r_createdAt = now clk, r_updatedAt = now clk\<rparr>"

definition ensure_sourcing_request_for_item :: "clock \<Rightarrow> sourcing_item \<Rightarrow> store \<Rightarrow> sourcing_item \<times> store" where
  "ensure_sourcing_request_for_item clk i s =
     (if opt_get get_request s (i_sourcingRequestId i) \<noteq> None then (i, s)
      else (i\<lparr>i_sourcingRequestId := Some (next_id s)\<rparr>,
            push_request (new_request clk (next_id s) i) (s\<lparr>next_id := next_id s + 1\<rparr>)))"

definition ensure_stored :: "clock \<Rightarrow> int \<Rightarrow> store \<Rightarrow> store" where
  "ensure_stored clk iid s =
     (case get_item s iid of
        None \<Rightarrow> s
      | Some i \<Rightarrow> (let (i', s') = ensure_sourcing_request_for_item clk i s in put_item i' s'))"

text \<open>
  The object \<open>changes\<close> is two optional values: \<open>None\<close> for a property it does not have. The request is
  rewritten first, the open lines of the request copy its identity.
\<close>

definition request_identity :: "jstr option \<Rightarrow> jstr option \<Rightarrow> sourcing_request \<Rightarrow> sourcing_request" where
  "request_identity supplier contact r =
     (let next = (case supplier of None \<Rightarrow> r_supplier r | Some v \<Rightarrow> clean_procurement_identity v);
          changed = (supplier \<noteq> None \<and> \<not> procurement_identities_match (r_supplier r) next)
      in r\<lparr>r_supplier := next,
           r_contactEmail :=
             (case contact of
                Some v \<Rightarrow> clean_procurement_identity v
              | None \<Rightarrow> if changed then None else r_contactEmail r)\<rparr>)"

definition open_line_of :: "int \<Rightarrow> sourcing_item \<Rightarrow> bool" where
  "open_line_of rid i \<longleftrightarrow> i_sourcingRequestId i = Some rid \<and> i_status i = Sourcing"

definition copy_identity :: "sourcing_request \<Rightarrow> sourcing_item \<Rightarrow> sourcing_item" where
  "copy_identity r i = i\<lparr>i_supplier := r_supplier r, i_contactEmail := r_contactEmail r\<rparr>"

definition synchronize_open_sourcing_request_identity ::
  "int \<Rightarrow> jstr option \<Rightarrow> jstr option \<Rightarrow> store \<Rightarrow> store" where
  "synchronize_open_sourcing_request_identity rid supplier contact s =
     (case get_request s rid of
        None \<Rightarrow> s
      | Some r \<Rightarrow> (let r' = request_identity supplier contact r
          in sourcingItems_update (upd_where (open_line_of rid) (copy_identity r')) (put_request r' s)))"

definition backfill_missing_sourcing_requests :: "clock \<Rightarrow> store \<Rightarrow> store" where
  "backfill_missing_sourcing_requests clk s =
     fold (\<lambda>i. ensure_stored clk (i_id i)) (filter (\<lambda>i. i_sourcingRequestId i = None) (sourcingItems s)) s"

definition assert_sourcing_item_editable :: "sourcing_item \<Rightarrow> unit demo_op" where
  "assert_sourcing_item_editable i =
     bindE (throw_if (i_status i = Converted \<or> i_pendingOrderId i \<noteq> None)
       ''Cannot modify a converted sourcing item'') (\<lambda>_.
     bindE (gets (\<lambda>s. opt_get get_request s (i_sourcingRequestId i))) (\<lambda>r.
       throw_if (case r of None \<Rightarrow> False | Some r \<Rightarrow> r_status r = Converted)
         ''Cannot modify an item in a converted sourcing request''))"

text \<open>The line of a request response, with the licenses made from it.\<close>

record item_view =
  iv_item :: sourcing_item
  iv_convertedLicenseIds :: "int list"
  iv_convertedLicenseId :: "int option"
  iv_convertedLicenseRef :: jstr

record request_view =
  rv_request :: sourcing_request
  rv_items :: "item_view list"
  rv_totalEstimatedValue :: jstr

definition only_one :: "'a list \<Rightarrow> 'a option" where
  "only_one xs = (case xs of [x] \<Rightarrow> Some x | _ \<Rightarrow> None)"

definition with_sourcing_item_license_refs :: "store \<Rightarrow> sourcing_item \<Rightarrow> item_view" where
  "with_sourcing_item_license_refs s i =
     (let matches = filter (\<lambda>l. \<not> l_isRetired l \<and> l_sourceSourcingItemId l = Some (i_id i)) (licenses s)
      in \<lparr>iv_item = i, iv_convertedLicenseIds = map l_id matches,
          iv_convertedLicenseId = map_option l_id (only_one matches),
          iv_convertedLicenseRef = (case only_one matches of None \<Rightarrow> None | Some l \<Rightarrow> l_licenseRef l)\<rparr>)"

definition build_sourcing_request_response :: "store \<Rightarrow> sourcing_request \<Rightarrow> request_view" where
  "build_sourcing_request_response s r =
     (let items = mark_planned_renewal_lines (request_items s (r_id r))
      in \<lparr>rv_request = r, rv_items = map (with_sourcing_item_license_refs s) items,
          rv_totalEstimatedValue = compute_total_estimated_value items\<rparr>)"

section \<open>Building a line\<close>

record item_overrides =
  ov_id :: "int option"
  ov_sourcingRequestId :: "int option"
  ov_status :: "procurement_status option"
  ov_pendingOrderId :: "int option"

definition no_overrides :: item_overrides where
  "no_overrides = \<lparr>ov_id = None, ov_sourcingRequestId = None, ov_status = None, ov_pendingOrderId = None\<rparr>"

text \<open>
  The payload is a line that starts from \<open>blank_item\<close>: \<open>payload.x ?? null\<close> is its field. The result
  has every key, so the type rules look at all three of theirs.
\<close>

definition item_defaults :: "sourcing_item \<Rightarrow> sourcing_item" where
  "item_defaults i =
     normalise_item_opt_in [''isRenewable'', ''typeDescription'', ''maintenanceParentLicenseId'']
       (i\<lparr>i_support := apply_included_support_defaults (item_acquisition i) (i_support i)\<rparr>)"

definition build_sourcing_item :: "clock \<Rightarrow> sourcing_item \<Rightarrow> item_overrides \<Rightarrow> store \<Rightarrow> sourcing_item \<times> store" where
  "build_sourcing_item clk payload ov s =
     (let (n, s1) = (case ov_id ov of Some n \<Rightarrow> (n, s) | None \<Rightarrow> (next_id s, s\<lparr>next_id := next_id s + 1\<rparr>))
      in (item_defaults (payload\<lparr>
            i_id := n,
            i_sourcingRequestId := nullish (ov_sourcingRequestId ov) (i_sourcingRequestId payload),
            i_estimatedUnitPrice :=
              (if i_licenseType payload = Some Freeware then None else i_estimatedUnitPrice payload),
            i_estimatedTotalPrice :=
              (if i_licenseType payload = Some Freeware then None else i_estimatedTotalPrice payload),
            i_currency := or_else (i_currency payload) (Some ''EUR''),
            i_secondaryContacts := nullish (i_secondaryContacts payload) (Some []),
            i_status := (case ov_status ov of None \<Rightarrow> Sourcing | Some st \<Rightarrow> st),
            i_pendingOrderId := ov_pendingOrderId ov,
            i_isRenewal := (i_renewalForLicenseId payload \<noteq> None),
            i_poLineId := None, i_poLineNumber := None,
            i_createdAt := now clk, i_updatedAt := now clk\<rparr>), s1))"

section \<open>Deleting a line\<close>

definition has_open_renewal_work :: "store \<Rightarrow> int \<Rightarrow> bool" where
  "has_open_renewal_work s lid \<longleftrightarrow>
     (\<exists>i \<in> set (sourcingItems s). i_status i \<noteq> Cancelled \<and> lid \<in> set (sourcing_item_predecessor_ids i))"

text \<open>A license in renewal goes back to normal when no open line renews it any more.\<close>

definition release_predecessor :: "clock \<Rightarrow> int \<Rightarrow> store \<Rightarrow> store" where
  "release_predecessor clk lid s =
     (case get_license s lid of
        None \<Rightarrow> s
      | Some l \<Rightarrow>
          if \<not> has_open_renewal_work s lid \<and> l_lifecycleStatus l = Some PendingRenewal
          then decorate_stored clk lid (upd_license lid (\<lambda>l. l\<lparr>l_lifecycleStatus := None\<rparr>) s)
          else s)"

definition drop_empty_order :: "int option \<Rightarrow> store \<Rightarrow> store" where
  "drop_empty_order parent s =
     (case parent of
        None \<Rightarrow> s
      | Some oid \<Rightarrow>
          if order_items s oid = [] then s\<lparr>pendingOrders := filter (\<lambda>x. o_id x \<noteq> oid) (pendingOrders s)\<rparr>
          else s)"

definition handle_sourcing_item_delete_side_effects ::
  "clock \<Rightarrow> int option \<Rightarrow> int option \<Rightarrow> int list \<Rightarrow> store \<Rightarrow> store" where
  "handle_sourcing_item_delete_side_effects clk renewal parent renewals s =
     fold (release_predecessor clk) (uniq (List.map_filter id (renewal # map Some renewals)))
       (drop_empty_order parent s)"

definition require_no_planned_links :: "sourcing_item \<Rightarrow> unit demo_op" where
  "require_no_planned_links i =
     bindE (gets (\<lambda>s. \<exists>c \<in> set (sourcingItems s). i_successorSourcingItemId c = Some (i_id i))) (\<lambda>incoming.
       throw_if (i_successorSourcingItemId i \<noteq> None \<or> incoming)
         ''Remove this line's planned successor links first'')"

end
