(* ===== verification/Stats.thy ===== *)
theory Stats
  imports LicenseRecords JsArray
begin

text \<open>
  The dashboard figures of \<^verbatim>\<open>store.js\<close>: the status counts of \<open>computeStats\<close>, the completeness of a
  record, the alerts of \<open>computeNotifications\<close>, the portfolio report. The counters of the loop are
  the fields of a record that \<open>count_license\<close> advances by one license.
\<close>

section \<open>Completeness of a record\<close>

definition has_text :: "jstr \<Rightarrow> bool" where
  "has_text v \<longleftrightarrow> trim (str v) \<noteq> []"

definition DOCUMENT_CATEGORIES :: "(string \<times> string) list" where
  "DOCUMENT_CATEGORIES = [(''invoice'', ''invoice''), (''eula'', ''eula''), (''entitlement'', ''entitlement''),
     (''purchaseOrder'', ''purchase_order''), (''quote'', ''quote'')]"

definition FREEWARE_INAPPLICABLE_FIELDS :: "string list" where
  "FREEWARE_INAPPLICABLE_FIELDS =
     [''contractNumber'', ''invoice'', ''invoiceNumber'', ''poNumber'', ''purchaseOrder'', ''quote'']"

text \<open>A license record carries the categories of its documents.\<close>

definition has_document_category :: "license \<Rightarrow> string \<Rightarrow> bool" where
  "has_document_category l category \<longleftrightarrow> category \<in> set (l_documentCategories l)"

definition has_mandatory_field :: "license \<Rightarrow> string \<Rightarrow> bool" where
  "has_mandatory_field l key =
     (case map_of DOCUMENT_CATEGORIES key of
        Some category \<Rightarrow> has_document_category l category
      | None \<Rightarrow>
          if key = ''startDate'' then has_text (l_startDate l)
          else if key = ''endDate'' then
            has_text (l_endDate l) \<or> is_non_expiring_license_type (l_licenseType l)
            \<or> \<not> is_renewable_license (l_licenseType l) (l_isRenewable l)
          else if key = ''noticeDate'' then has_text (l_noticeDate l)
          else if key = ''contractNumber'' then has_text (l_contractNumber l)
          else if key = ''poNumber'' then has_text (l_poNumber l)
          else if key = ''invoiceNumber'' then has_text (l_invoiceNumber l)
          else if key = ''contactEmail'' then has_text (l_contactEmail l)
          else if key = ''costCentre'' then has_text (l_costCentre l)
          else if key = ''budgetOwnerEmail'' then has_text (l_budgetOwnerEmail l)
          else False)"

definition enabled_keys :: "store \<Rightarrow> license \<Rightarrow> string list" where
  "enabled_keys s l =
     filter (\<lambda>key. l_licenseType l \<noteq> Some Freeware \<or> key \<notin> set FREEWARE_INAPPLICABLE_FIELDS)
       (map fst (filter snd (mandatory_fields (globalSettings s))))"

text \<open>
  \<open>Math.round((met * 100) / n)\<close> rounds halves up. The quotient of small integers is a double close to
  the exact one, and exact where that lies half-way, so the integer formula gives the same result.
\<close>

definition round_percent :: "int \<Rightarrow> int \<Rightarrow> int" where
  "round_percent met n = (200 * met + n) div (2 * n)"

definition compute_license_completeness_pct :: "store \<Rightarrow> license \<Rightarrow> int option" where
  "compute_license_completeness_pct s l =
     (if l_isCompletenessExempt l then None
      else (let keys = enabled_keys s l
            in if keys = [] then Some 100
               else Some (round_percent (int (length (filter (has_mandatory_field l) keys))) (int (length keys)))))"

text \<open>\<open>withComputedCompleteness\<close>: the license with its percentage.\<close>

definition with_computed_completeness :: "store \<Rightarrow> license \<Rightarrow> license \<times> int option" where
  "with_computed_completeness s l = (l, compute_license_completeness_pct s l)"

definition incomplete :: "store \<Rightarrow> license \<Rightarrow> bool" where
  "incomplete s l =
     (case compute_license_completeness_pct s l of None \<Rightarrow> False | Some pct \<Rightarrow> pct < 100)"

section \<open>Statistics\<close>

record bucket_counts =
  renewal_in_progress :: int
  retiring :: int
  not_started :: int

record stats =
  st_total :: int
  total_active :: int
  total_expiring :: int
  total_expired :: int
  expiring_breakdown :: bucket_counts
  expired_breakdown :: bucket_counts
  total_upcoming :: int
  total_pending :: int
  total_retirement_scheduled :: int
  total_incomplete :: int
  total_retired :: int
  total_renewed :: int
  total_legacy :: int
  annual_cost_by_currency :: "(string \<times> jsnum) list"
  excluded_from_totals :: int
  po_overrides_not_in_annual :: int

definition no_buckets :: bucket_counts where
  "no_buckets = \<lparr>renewal_in_progress = 0, retiring = 0, not_started = 0\<rparr>"

definition no_stats :: stats where
  "no_stats = \<lparr>st_total = 0, total_active = 0, total_expiring = 0, total_expired = 0,
     expiring_breakdown = no_buckets, expired_breakdown = no_buckets, total_upcoming = 0,
     total_pending = 0, total_retirement_scheduled = 0, total_incomplete = 0, total_retired = 0,
     total_renewed = 0, total_legacy = 0, annual_cost_by_currency = [], excluded_from_totals = 0,
     po_overrides_not_in_annual = 0\<rparr>"

text \<open>\<open>counter++\<close> under a condition.\<close>

definition inc :: "bool \<Rightarrow> int \<Rightarrow> int" where
  "inc c n = (if c then n + 1 else n)"

definition count_bucket :: "license \<Rightarrow> bucket_counts \<Rightarrow> bucket_counts" where
  "count_bucket l b =
     (if l_lifecycleStatus l = Some PendingRenewal then b\<lparr>renewal_in_progress := renewal_in_progress b + 1\<rparr>
      else if l_retirementScheduled l then b\<lparr>retiring := retiring b + 1\<rparr>
      else b\<lparr>not_started := not_started b + 1\<rparr>)"

definition is_live :: "expiration_status \<Rightarrow> bool" where
  "is_live st \<longleftrightarrow> st = StActive \<or> st = StPerpetual \<or> st = StExpiring"

definition in_annual_cost :: "license \<Rightarrow> bool" where
  "in_annual_cost l \<longleftrightarrow>
     is_live (l_expirationStatus l) \<and> is_recurring_license (l_licenseType l) (l_isRenewable l)"

text \<open>\<open>obj[k] = (obj[k] || 0) + x\<close>\<close>

primrec add_amount :: "string \<Rightarrow> jsnum \<Rightarrow> (string \<times> jsnum) list \<Rightarrow> (string \<times> jsnum) list" where
  "add_amount k x [] = [(k, js_add (Fin 0) x)]"
| "add_amount k x (e # es) =
     (if fst e = k then (k, js_add (or_zero (snd e)) x) # es else e # add_amount k x es)"

definition license_currency :: "license \<Rightarrow> string" where
  "license_currency l = str (or_else (l_currency l) (Some ''EUR''))"

definition annual_cost :: "license \<Rightarrow> jsnum" where
  "annual_cost l = annualize_term_cost (line_total l) (l_startDate l) (l_endDate l)"

definition count_license :: "store \<Rightarrow> license \<Rightarrow> stats \<Rightarrow> stats" where
  "count_license s l a = (let status = l_expirationStatus l in a\<lparr>
     expiring_breakdown :=
       (if status = StExpiring then count_bucket l (expiring_breakdown a) else expiring_breakdown a),
     expired_breakdown :=
       (if status = StExpired then count_bucket l (expired_breakdown a) else expired_breakdown a),
     total_retired := inc (status = StRetired) (total_retired a),
     total_legacy := inc (status = StLegacy) (total_legacy a),
     total_renewed := inc (status = StRenewed) (total_renewed a),
     total_upcoming := inc (status = StUpcoming) (total_upcoming a),
     total_expired := inc (status = StExpired) (total_expired a),
     total_expiring := inc (status = StExpiring) (total_expiring a),
     total_active := inc (status = StExpiring \<or> status = StActive \<or> status = StPerpetual) (total_active a),
     total_pending := inc (l_lifecycleStatus l = Some PendingRenewal) (total_pending a),
     total_retirement_scheduled := inc (l_retirementScheduled l) (total_retirement_scheduled a),
     total_incomplete :=
       inc (incomplete s l \<and> status \<noteq> StRetired \<and> status \<noteq> StRenewed \<and> status \<noteq> StLegacy) (total_incomplete a),
     annual_cost_by_currency :=
       (if in_annual_cost l then add_amount (license_currency l) (annual_cost l) (annual_cost_by_currency a)
        else annual_cost_by_currency a)\<rparr>)"

definition compute_stats :: "store \<Rightarrow> stats" where
  "compute_stats s =
     (fold (count_license s) (licenses s) no_stats)\<lparr>
        st_total := int (length (licenses s)),
        po_overrides_not_in_annual :=
          count_po_overrides_not_in_annual (filter in_annual_cost (licenses s)) (licenses s)\<rparr>"

text \<open>\<open>[...set].sort()\<close> of the cost centres that are not empty.\<close>

definition compute_departments :: "store \<Rightarrow> string list" where
  "compute_departments s =
     js_sort code_unit_compare
       (uniq (map (str \<circ> l_costCentre) (filter (\<lambda>l. truthy (l_costCentre l)) (licenses s))))"

section \<open>Portfolio report\<close>

record portfolio_stats =
  pf_total_active :: int
  pf_total_upcoming :: int
  pf_total_expiring :: int
  pf_total_expired :: int
  pf_total_incomplete :: int
  pf_annual_cost_by_currency :: "(string \<times> jsnum) list"
  pf_excluded_from_totals :: int
  pf_po_overrides_not_in_annual :: int
  pf_by_license_type :: "license_type option \<Rightarrow> int"

text \<open>The table by type: \<open>None\<close> is the key \<open>unknown\<close>, which the object has once it is counted.\<close>

definition count_type :: "license \<Rightarrow> (license_type option \<Rightarrow> int) \<Rightarrow> license_type option \<Rightarrow> int" where
  "count_type l m =
     (if l_isRetired l then m else m(l_licenseType l := m (l_licenseType l) + 1))"

definition compute_portfolio_report_stats :: "store \<Rightarrow> portfolio_stats" where
  "compute_portfolio_report_stats s = (let st = compute_stats s in
     \<lparr>pf_total_active = total_active st, pf_total_upcoming = total_upcoming st,
      pf_total_expiring = total_expiring st, pf_total_expired = total_expired st,
      pf_total_incomplete = total_incomplete st,
      pf_annual_cost_by_currency = annual_cost_by_currency st,
      pf_excluded_from_totals = excluded_from_totals st,
      pf_po_overrides_not_in_annual = po_overrides_not_in_annual st,
      pf_by_license_type = fold count_type (licenses s) (\<lambda>_. 0)\<rparr>)"

section \<open>Notifications\<close>

datatype severity = SevCritical | SevWarning | SevInfo
datatype alert_type = AlExpired | AlExpiring | AlSupportExpired | AlSupportExpiring | AlNoticeDue | AlIncomplete

record alert =
  al_license_id :: int
  al_software_name :: jstr
  al_publisher :: jstr
  al_type :: alert_type
  al_detail :: string
  al_severity :: severity
  al_relevant_date :: jstr

definition day_word :: "int \<Rightarrow> string" where
  "day_word n = (if \<bar>n\<bar> = 1 then ''day'' else ''days'')"

definition expiry_severity :: "int \<Rightarrow> severity" where
  "expiry_severity n = (if n \<le> 30 then SevCritical else if n \<le> 60 then SevWarning else SevInfo)"

definition notice_severity :: "int \<Rightarrow> severity" where
  "notice_severity n = (if n \<le> 7 then SevCritical else if n \<le> 30 then SevWarning else SevInfo)"

definition alert_for :: "license \<Rightarrow> alert_type \<Rightarrow> string \<Rightarrow> severity \<Rightarrow> jstr \<Rightarrow> alert" where
  "alert_for l type detail sev date = \<lparr>al_license_id = l_id l, al_software_name = l_softwareDescription l,
     al_publisher = l_publisherName l, al_type = type, al_detail = detail, al_severity = sev,
     al_relevant_date = date\<rparr>"

definition past_text :: "string \<Rightarrow> int \<Rightarrow> jstr \<Rightarrow> string" where
  "past_text verb n date = verb @ '' '' @ show_int (- n) @ '' '' @ day_word n @ '' ago on '' @ str date"

definition future_text :: "string \<Rightarrow> int \<Rightarrow> jstr \<Rightarrow> string" where
  "future_text verb n date = verb @ '' '' @ show_int n @ '' '' @ day_word n @ '' on '' @ str date"

text \<open>
  The three checks of a deadline share their form: past, within the window, or no alert. A date that
  is set but does not parse counts \<open>NaN\<close> days, which no comparison holds of; the days of an absent
  date are not looked at.
\<close>

definition is_upcoming :: "clock \<Rightarrow> license \<Rightarrow> bool" where
  "is_upcoming clk l \<longleftrightarrow> truthy (l_startDate l) \<and> count_greater (days_until (today clk) (l_startDate l)) 0"

definition in_progress_text :: "license \<Rightarrow> string" where
  "in_progress_text l =
     (if l_lifecycleStatus l = Some PendingRenewal then ''; renewal is in progress'' else [])"

definition deadline_alert :: "day_count \<Rightarrow> int \<Rightarrow> (int \<Rightarrow> alert) \<Rightarrow> (int \<Rightarrow> alert) \<Rightarrow> alert list" where
  "deadline_alert days window past soon =
     (case days of
        Days n \<Rightarrow> if n < 0 then [past n] else if n \<le> window then [soon n] else []
      | _ \<Rightarrow> [])"

definition expired_alert :: "license \<Rightarrow> int \<Rightarrow> alert" where
  "expired_alert l n =
     alert_for l AlExpired (past_text ''Expired'' n (l_endDate l) @ in_progress_text l) SevCritical (l_endDate l)"

definition expiring_alert :: "license \<Rightarrow> int \<Rightarrow> alert" where
  "expiring_alert l n =
     alert_for l AlExpiring (future_text ''Expires in'' n (l_endDate l) @ in_progress_text l)
       (expiry_severity n) (l_endDate l)"

definition expiry_alerts :: "clock \<Rightarrow> int \<Rightarrow> license \<Rightarrow> alert list" where
  "expiry_alerts clk window l =
     (if \<not> is_upcoming clk l \<and> is_renewable_license (l_licenseType l) (l_isRenewable l) \<and> truthy (l_endDate l)
      then deadline_alert (days_until (today clk) (l_endDate l)) window (expired_alert l) (expiring_alert l)
      else [])"

definition support_expired_alert :: "license \<Rightarrow> int \<Rightarrow> alert" where
  "support_expired_alert l n = (let d = maintenanceEndDate (l_support l) in
     alert_for l AlSupportExpired (past_text ''Maintenance expired'' n d) SevCritical d)"

definition support_expiring_alert :: "license \<Rightarrow> int \<Rightarrow> alert" where
  "support_expiring_alert l n = (let d = maintenanceEndDate (l_support l) in
     alert_for l AlSupportExpiring (future_text ''Maintenance ends in'' n d) (expiry_severity n) d)"

definition support_alerts :: "clock \<Rightarrow> int \<Rightarrow> license \<Rightarrow> alert list" where
  "support_alerts clk window l =
     (if \<not> is_upcoming clk l
      then deadline_alert (compute_support_days_remaining clk l) window
             (support_expired_alert l) (support_expiring_alert l)
      else [])"

definition notice_passed_alert :: "license \<Rightarrow> int \<Rightarrow> alert" where
  "notice_passed_alert l n =
     alert_for l AlNoticeDue (past_text ''Notice deadline passed'' n (l_noticeDate l)) SevCritical (l_noticeDate l)"

definition notice_due_alert :: "license \<Rightarrow> int \<Rightarrow> alert" where
  "notice_due_alert l n =
     alert_for l AlNoticeDue (future_text ''Notice deadline in'' n (l_noticeDate l)) (notice_severity n)
       (l_noticeDate l)"

definition notice_alerts :: "clock \<Rightarrow> int \<Rightarrow> license \<Rightarrow> alert list" where
  "notice_alerts clk window l =
     (if truthy (l_noticeDate l) \<and> \<not> truthy (l_noticeHandledAt l) \<and> \<not> is_upcoming clk l
      then deadline_alert (days_until (today clk) (l_noticeDate l)) window
             (notice_passed_alert l) (notice_due_alert l)
      else [])"

definition completeness_alerts :: "store \<Rightarrow> license \<Rightarrow> alert list" where
  "completeness_alerts s l =
     (case compute_license_completeness_pct s l of
        None \<Rightarrow> []
      | Some pct \<Rightarrow>
          if pct < 100 then
            [alert_for l AlIncomplete (''Record is '' @ show_int pct @ ''% complete (below 100%)'')
               SevInfo (l_endDate l)]
          else [])"

definition license_alerts :: "clock \<Rightarrow> store \<Rightarrow> license \<Rightarrow> alert list" where
  "license_alerts clk s l =
     (let expiry_window = the (nullish (notification_days (globalSettings s)) (Some 90));
          notice_window = the (nullish (notice_notification_days (globalSettings s)) (Some 30))
      in expiry_alerts clk expiry_window l @ support_alerts clk expiry_window l
         @ notice_alerts clk notice_window l @ completeness_alerts s l)"

definition raises_alerts :: "license \<Rightarrow> bool" where
  "raises_alerts l \<longleftrightarrow> \<not> l_isRetired l \<and> \<not> l_retirementScheduled l \<and> l_lifecycleStatus l \<noteq> Some Legacy
     \<and> l_lifecycleStatus l \<noteq> Some Renewed \<and> l_renewedToId l = None"

fun severity_rank :: "severity \<Rightarrow> int" where
  "severity_rank SevCritical = 0"
| "severity_rank SevWarning = 1"
| "severity_rank SevInfo = 2"

definition alert_date :: "alert \<Rightarrow> string" where
  "alert_date a = str (nullish (al_relevant_date a) (Some ''9999-12-31''))"

definition compare_alerts :: "(string \<Rightarrow> string \<Rightarrow> int) \<Rightarrow> alert \<Rightarrow> alert \<Rightarrow> int" where
  "compare_alerts collate a b =
     (if severity_rank (al_severity a) - severity_rank (al_severity b) \<noteq> 0
      then severity_rank (al_severity a) - severity_rank (al_severity b)
      else collate (alert_date a) (alert_date b))"

definition compute_notifications :: "(string \<Rightarrow> string \<Rightarrow> int) \<Rightarrow> clock \<Rightarrow> store \<Rightarrow> alert list" where
  "compute_notifications collate clk s =
     js_sort (compare_alerts collate)
       (concat (map (license_alerts clk s) (filter raises_alerts (licenses s))))"

definition clear_notice_handled_if_date_changed :: "jstr \<Rightarrow> license \<Rightarrow> license" where
  "clear_notice_handled_if_date_changed notice_date l =
     (if notice_date = l_noticeDate l then l
      else l\<lparr>l_noticeHandledAt := None, l_noticeHandledByUserId := None\<rparr>)"

section \<open>What the counters count\<close>

lemma fold_counter:
  assumes "\<And>l a. f (g l a) = inc (P l) (f a)"
  shows "f (fold g xs a) = f a + int (length (filter P xs))"
  by (induction xs arbitrary: a) (simp_all add: assms inc_def)

definition bucket_sum :: "bucket_counts \<Rightarrow> int" where
  "bucket_sum b = renewal_in_progress b + retiring b + not_started b"

lemma bucket_sum_count: "bucket_sum (count_bucket l b) = bucket_sum b + 1"
  by (simp add: bucket_sum_def count_bucket_def)

lemma bucket_sum_none [simp]: "bucket_sum no_buckets = 0"
  by (simp add: bucket_sum_def no_buckets_def)

definition with_status :: "store \<Rightarrow> (expiration_status \<Rightarrow> bool) \<Rightarrow> int" where
  "with_status s P = int (length (filter (\<lambda>l. P (l_expirationStatus l)) (licenses s)))"

lemma total_expired_eq: "total_expired (compute_stats s) = with_status s (\<lambda>st. st = StExpired)"
  unfolding compute_stats_def with_status_def
  using fold_counter [of total_expired "count_license s"] by (simp add: count_license_def Let_def no_stats_def)

lemma total_expiring_eq: "total_expiring (compute_stats s) = with_status s (\<lambda>st. st = StExpiring)"
  unfolding compute_stats_def with_status_def
  using fold_counter [of total_expiring "count_license s"] by (simp add: count_license_def Let_def no_stats_def)

lemma total_active_eq: "total_active (compute_stats s) = with_status s is_live"
  unfolding compute_stats_def with_status_def
  using fold_counter [of total_active "count_license s" "\<lambda>l. is_live (l_expirationStatus l)"]
  by (simp add: count_license_def Let_def no_stats_def is_live_def disj_ac)

lemma total_upcoming_eq: "total_upcoming (compute_stats s) = with_status s (\<lambda>st. st = StUpcoming)"
  unfolding compute_stats_def with_status_def
  using fold_counter [of total_upcoming "count_license s"] by (simp add: count_license_def Let_def no_stats_def)

lemma total_retired_eq: "total_retired (compute_stats s) = with_status s (\<lambda>st. st = StRetired)"
  unfolding compute_stats_def with_status_def
  using fold_counter [of total_retired "count_license s"] by (simp add: count_license_def Let_def no_stats_def)

lemma total_renewed_eq: "total_renewed (compute_stats s) = with_status s (\<lambda>st. st = StRenewed)"
  unfolding compute_stats_def with_status_def
  using fold_counter [of total_renewed "count_license s"] by (simp add: count_license_def Let_def no_stats_def)

lemma total_legacy_eq: "total_legacy (compute_stats s) = with_status s (\<lambda>st. st = StLegacy)"
  unfolding compute_stats_def with_status_def
  using fold_counter [of total_legacy "count_license s"] by (simp add: count_license_def Let_def no_stats_def)

lemmas stats_counts = total_expired_eq total_expiring_eq total_active_eq total_upcoming_eq
  total_retired_eq total_renewed_eq total_legacy_eq

lemma expiring_sum: "bucket_sum (expiring_breakdown (compute_stats s)) = with_status s (\<lambda>st. st = StExpiring)"
  unfolding compute_stats_def with_status_def
  using fold_counter [of "\<lambda>a. bucket_sum (expiring_breakdown a)" "count_license s" "\<lambda>l. l_expirationStatus l = StExpiring"]
  by (simp add: count_license_def Let_def no_stats_def inc_def bucket_sum_count)

lemma expired_sum: "bucket_sum (expired_breakdown (compute_stats s)) = with_status s (\<lambda>st. st = StExpired)"
  unfolding compute_stats_def with_status_def
  using fold_counter [of "\<lambda>a. bucket_sum (expired_breakdown a)" "count_license s" "\<lambda>l. l_expirationStatus l = StExpired"]
  by (simp add: count_license_def Let_def no_stats_def inc_def bucket_sum_count)

lemma status_classes:
  "int (length ls) =
     int (length (filter (\<lambda>l. is_live (l_expirationStatus l)) ls))
     + int (length (filter (\<lambda>l. l_expirationStatus l = StExpired) ls))
     + int (length (filter (\<lambda>l. l_expirationStatus l = StUpcoming) ls))
     + int (length (filter (\<lambda>l. l_expirationStatus l = StRetired) ls))
     + int (length (filter (\<lambda>l. l_expirationStatus l = StRenewed) ls))
     + int (length (filter (\<lambda>l. l_expirationStatus l = StLegacy) ls))"
proof (induction ls)
  case (Cons l ls)
  show ?case
    using Cons by (cases "l_expirationStatus l") (simp_all add: is_live_def)
qed simp

lemma int_div_less: "0 < k \<Longrightarrow> x < q * k \<Longrightarrow> x div k < (q::int)"
proof (rule ccontr)
  assume k: "0 < k" and x: "x < q * k" and "\<not> x div k < q"
  then have "q * k \<le> (x div k) * k"
    by (simp add: mult_right_mono)
  also have "(x div k) * k \<le> x"
    using pos_mod_sign [OF k, of x] div_mult_mod_eq [of x k] by linarith
  finally show False
    using x by simp
qed

lemma round_percent_range:
  assumes "0 \<le> m" "m \<le> n" "0 < n"
  shows "0 \<le> round_percent m n" "round_percent m n \<le> 100"
proof -
  show "0 \<le> round_percent m n"
    using assms by (simp add: round_percent_def pos_imp_zdiv_nonneg_iff)
  have "200 * m + n < 101 * (2 * n)"
    using assms by linarith
  then have "(200 * m + n) div (2 * n) < 101"
    using assms by (intro int_div_less) simp_all
  then show "round_percent m n \<le> 100"
    by (simp add: round_percent_def)
qed

lemma round_percent_full: "0 < n \<Longrightarrow> round_percent n n = 100"
  unfolding round_percent_def by (rule int_div_pos_eq [of _ _ _ n]) simp_all

lemma round_percent_less:
  assumes "0 \<le> m" "m < n" "n < 200"
  shows "round_percent m n < 100"
proof -
  have "200 * m + n < 100 * (2 * n)"
    using assms by linarith
  then show ?thesis
    unfolding round_percent_def using assms by (intro int_div_less) simp_all
qed

section \<open>Alerts\<close>

lemma compare_alerts_order: "text_order collate \<Longrightarrow> js_order (compare_alerts collate) V"
proof -
  have eq: "compare_alerts collate = then_by
      (\<lambda>a b. severity_rank (al_severity a) - severity_rank (al_severity b))
      (\<lambda>a b. collate (alert_date a) (alert_date b))"
    by (simp add: fun_eq_iff compare_alerts_def then_by_def)
  assume "text_order collate"
  then show ?thesis
    unfolding eq by (rule text_order.by_rank)
qed

text \<open>The severities are ordered by their rank, the most urgent first.\<close>

instantiation severity :: linorder
begin

definition less_eq_severity :: "severity \<Rightarrow> severity \<Rightarrow> bool" where
  "less_eq_severity x y \<longleftrightarrow> severity_rank x \<le> severity_rank y"

definition less_severity :: "severity \<Rightarrow> severity \<Rightarrow> bool" where
  "less_severity x y \<longleftrightarrow> severity_rank x < severity_rank y"

instance
proof
  fix x y z :: severity
  show "x < y \<longleftrightarrow> x \<le> y \<and> \<not> y \<le> x" "x \<le> x" "x \<le> y \<or> y \<le> x"
    by (auto simp: less_eq_severity_def less_severity_def)
  show "x \<le> y \<Longrightarrow> y \<le> z \<Longrightarrow> x \<le> z" by (simp add: less_eq_severity_def)
  show "x \<le> y \<Longrightarrow> y \<le> x \<Longrightarrow> x = y" by (cases x; cases y) (simp_all add: less_eq_severity_def)
qed

end

lemma alerts_by_severity: "text_order collate \<Longrightarrow> sorted (map al_severity (compute_notifications collate clk s))"
proof -
  assume "text_order collate"
  then have cmp: "js_comparator (compare_alerts collate) (\<lambda>_. True)"
    by (intro js_order.axioms(1) compare_alerts_order)
  have "sorted_wrt (\<lambda>a b. compare_alerts collate a b \<le> 0) (compute_notifications collate clk s)"
    unfolding compute_notifications_def by (rule js_comparator.sorted_sort [OF cmp]) simp
  then show ?thesis
    unfolding sorted_map
    by (rule sorted_wrt_mono_rel [rotated]) (simp add: compare_alerts_def less_eq_severity_def split: if_splits)
qed

interpretation al: js_order "compare_alerts code_unit_compare" "\<lambda>_. True"
  by (rule compare_alerts_order) (rule cu.text_order_axioms)

lemma alert_for_sel [simp]:
  "al_license_id (alert_for l t d sv dt) = l_id l" "al_type (alert_for l t d sv dt) = t"
  "al_severity (alert_for l t d sv dt) = sv"
  by (simp_all add: alert_for_def)

text \<open>Each check raises at most one alert, of one of its own kinds.\<close>

definition single_alert :: "alert_type set \<Rightarrow> license \<Rightarrow> alert list \<Rightarrow> bool" where
  "single_alert T l as \<longleftrightarrow> length as \<le> 1 \<and> (\<forall>a \<in> set as. al_type a \<in> T \<and> al_license_id a = l_id l)"

lemma deadline_single:
  assumes "\<And>n. al_type (past n) \<in> T \<and> al_license_id (past n) = l_id l"
    and "\<And>n. al_type (soon n) \<in> T \<and> al_license_id (soon n) = l_id l"
  shows "single_alert T l (deadline_alert days w past soon)"
  using assms by (cases days) (simp_all add: single_alert_def deadline_alert_def)

lemma no_single [simp]: "single_alert T l []"
  by (simp add: single_alert_def)

lemma expiry_single: "single_alert {AlExpired, AlExpiring} l (expiry_alerts clk w l)"
  unfolding expiry_alerts_def by (simp add: deadline_single expired_alert_def expiring_alert_def)

lemma support_single: "single_alert {AlSupportExpired, AlSupportExpiring} l (support_alerts clk w l)"
  unfolding support_alerts_def
  by (simp add: deadline_single support_expired_alert_def support_expiring_alert_def Let_def)

lemma notice_single: "single_alert {AlNoticeDue} l (notice_alerts clk w l)"
  unfolding notice_alerts_def by (simp add: deadline_single notice_passed_alert_def notice_due_alert_def)

lemma completeness_single: "single_alert {AlIncomplete} l (completeness_alerts s l)"
  unfolding completeness_alerts_def
  by (cases "compute_license_completeness_pct s l") (simp_all add: single_alert_def)

lemma single_alertD:
  "single_alert T l as \<Longrightarrow> a \<in> set as \<Longrightarrow> al_type a \<in> T"
  "single_alert T l as \<Longrightarrow> a \<in> set as \<Longrightarrow> al_license_id a = l_id l"
  by (simp_all add: single_alert_def)

lemma single_distinct: "single_alert T l as \<Longrightarrow> distinct (map al_type as)"
  by (cases as) (simp_all add: single_alert_def)

lemma single_alert_append:
  assumes "single_alert T l as" "distinct (map al_type bs)" "\<forall>b \<in> set bs. al_type b \<notin> T"
  shows "distinct (map al_type (as @ bs))"
  using assms by (cases as) (auto simp: single_alert_def)

lemma license_alerts_distinct: "distinct (map al_type (license_alerts clk s l))"
proof -
  note kinds = single_alertD(1) [OF support_single] single_alertD(1) [OF notice_single]
    single_alertD(1) [OF completeness_single]
  show ?thesis
    unfolding license_alerts_def Let_def
    by (intro single_alert_append [OF expiry_single] single_alert_append [OF support_single]
        single_alert_append [OF notice_single] single_distinct [OF completeness_single])
      (auto dest: kinds)
qed

lemma license_alerts_id: "a \<in> set (license_alerts clk s l) \<Longrightarrow> al_license_id a = l_id l"
  unfolding license_alerts_def Let_def
  by (auto dest: single_alertD(2) [OF expiry_single] single_alertD(2) [OF support_single]
      single_alertD(2) [OF notice_single] single_alertD(2) [OF completeness_single])

section \<open>Properties\<close>

text \<open>C16: the counters of \<open>computeStats\<close> are the numbers of licenses in each status: every license is
  counted in exactly one of active, expired, upcoming, retired, renewed and legacy, the expiring ones
  are part of the active ones, and each of the two breakdowns adds up to its total.\<close>

theorem stats_partition:
  "st_total (compute_stats s) =
     total_active (compute_stats s) + total_expired (compute_stats s) + total_upcoming (compute_stats s)
     + total_retired (compute_stats s) + total_renewed (compute_stats s) + total_legacy (compute_stats s)
   \<and> total_active (compute_stats s) = with_status s is_live
   \<and> total_expiring (compute_stats s) = with_status s (\<lambda>st. st = StExpiring)
   \<and> total_expired (compute_stats s) = with_status s (\<lambda>st. st = StExpired)
   \<and> bucket_sum (expiring_breakdown (compute_stats s)) = total_expiring (compute_stats s)
   \<and> bucket_sum (expired_breakdown (compute_stats s)) = total_expired (compute_stats s)"
  by (simp add: stats_counts expiring_sum expired_sum)
    (simp add: compute_stats_def with_status_def status_classes [of "licenses s"])

text \<open>C32: the completeness of a record that is not exempt is a percentage between 0 and 100. With
  fewer than 200 mandatory fields it is 100 exactly when no applicable mandatory field is missing.\<close>

theorem completeness_exact:
  assumes "compute_license_completeness_pct s l = Some pct"
  shows "0 \<le> pct \<and> pct \<le> 100
     \<and> (length (enabled_keys s l) < 200 \<longrightarrow> (pct = 100 \<longleftrightarrow> (\<forall>key \<in> set (enabled_keys s l). has_mandatory_field l key)))"
proof (cases "enabled_keys s l = []")
  case True
  with assms show ?thesis
    by (auto simp: compute_license_completeness_pct_def split: if_splits)
next
  case False
  define n where "n = int (length (enabled_keys s l))"
  define m where "m = int (length (filter (has_mandatory_field l) (enabled_keys s l)))"
  have pct: "pct = round_percent m n"
    using assms False by (simp add: compute_license_completeness_pct_def Let_def m_def n_def split: if_splits)
  have n: "0 < n" "0 \<le> m" "m \<le> n"
    using False by (simp_all add: n_def m_def)
  have all: "m = n \<longleftrightarrow> (\<forall>key \<in> set (enabled_keys s l). has_mandatory_field l key)"
    unfolding m_def n_def using length_filter_less
    by (metis (no_types, lifting) filter_True nat_int nat_less_le of_nat_eq_iff)
  have "n < 200 \<Longrightarrow> pct = 100 \<longleftrightarrow> m = n"
    using n round_percent_full [of n] round_percent_less [of m n]
    unfolding pct by (metis order_le_less order_less_irrefl)
  with all show ?thesis
    using n round_percent_range [of m n] by (auto simp: pct n_def)
qed

theorem completeness_exact_witness:
  "compute_license_completeness_pct fresh_store (base_license\<lparr>l_poNumber := Some ''PO-1''\<rparr>) = Some 33
   \<and> (0::int) \<le> 33 \<and> (33::int) \<le> 100"
proof -
  have pct: "compute_license_completeness_pct fresh_store (base_license\<lparr>l_poNumber := Some ''PO-1''\<rparr>) = Some 33"
    by code_simp
  show ?thesis
    using pct completeness_exact [OF pct] by simp
qed

text \<open>C18: with a collation that is an order, the notifications are the alerts of the records that
  raise any, sorted by severity and then by date, and no record raises two alerts of one kind.\<close>

theorem notifications_sorted:
  assumes "text_order collate"
  shows "sorted_wrt (\<lambda>a b. severity_rank (al_severity a) < severity_rank (al_severity b)
        \<or> severity_rank (al_severity a) = severity_rank (al_severity b) \<and> collate (alert_date a) (alert_date b) \<le> 0)
      (compute_notifications collate clk s)
    \<and> mset (compute_notifications collate clk s) =
        mset (concat (map (license_alerts clk s) (filter raises_alerts (licenses s))))
    \<and> (\<forall>l. distinct (map al_type (license_alerts clk s l)))"
proof -
  have sorted: "sorted_wrt (\<lambda>a b. compare_alerts collate a b \<le> 0) (compute_notifications collate clk s)"
    unfolding compute_notifications_def
    by (rule js_comparator.sorted_sort [OF js_order.axioms(1)
        [OF compare_alerts_order [OF assms, of "\<lambda>_. True"]]]) simp
  have "sorted_wrt (\<lambda>a b. severity_rank (al_severity a) < severity_rank (al_severity b)
        \<or> severity_rank (al_severity a) = severity_rank (al_severity b) \<and> collate (alert_date a) (alert_date b) \<le> 0)
      (compute_notifications collate clk s)"
    by (rule sorted_wrt_mono_rel [OF _ sorted]) (auto simp: compare_alerts_def split: if_splits)
  then show ?thesis
    by (simp add: compute_notifications_def license_alerts_distinct)
qed

theorem notifications_sorted_witness:
  "map al_type (compute_notifications code_unit_compare \<lparr>today = 20000, now = []\<rparr>
     (fresh_store\<lparr>licenses := [base_license]\<rparr>)) = [AlIncomplete]
   \<and> sorted_wrt (\<lambda>a b. severity_rank (al_severity a) < severity_rank (al_severity b)
        \<or> severity_rank (al_severity a) = severity_rank (al_severity b)
           \<and> code_unit_compare (alert_date a) (alert_date b) \<le> 0)
      (compute_notifications code_unit_compare \<lparr>today = 20000, now = []\<rparr> (fresh_store\<lparr>licenses := [base_license]\<rparr>))"
proof
  show "map al_type (compute_notifications code_unit_compare \<lparr>today = 20000, now = []\<rparr>
     (fresh_store\<lparr>licenses := [base_license]\<rparr>)) = [AlIncomplete]"
    by code_simp
qed (use notifications_sorted [OF cu.text_order_axioms] in blast)

end
