(* ===== verification/Workbench.thy ===== *)
theory Workbench
  imports Sourcing Stats
begin

text \<open>
  The renewal workbench of \<^verbatim>\<open>store.js\<close>: which records are candidates inside a window of days, the
  status, risk flags and deadline of their rows, the views, and the order of the rows.

  The window is \<open>Number(windowDays)\<close>; its value can be any number of the language, hence \<open>jsnum\<close>.
\<close>

section \<open>Views\<close>

datatype workbench_view =
    ViewAll | NeedsAction | Overdue | Due30 | Due60 | Due90 | InProgress | MissingDocs | HighValue | NoticeDue

definition WORKBENCH_VIEWS :: "(string \<times> workbench_view) list" where
  "WORKBENCH_VIEWS =
     [(''all'', ViewAll), (''needs_action'', NeedsAction), (''overdue'', Overdue), (''due_30'', Due30),
      (''due_60'', Due60), (''due_90'', Due90), (''in_progress'', InProgress),
      (''missing_docs'', MissingDocs), (''high_value'', HighValue), (''notice_due'', NoticeDue)]"

datatype renewal_status = RsPendingOrder | RsInSourcing | RsPendingRenewal | RsExpiredUnresolved | RsDueSoon

datatype flag_severity = FlHigh | FlMedium | FlLow

record risk_flag =
  fl_code :: string
  fl_label :: string
  fl_severity :: flag_severity

definition flag_of :: "string \<Rightarrow> string \<Rightarrow> flag_severity \<Rightarrow> risk_flag" where
  "flag_of c label sev = \<lparr>fl_code = c, fl_label = label, fl_severity = sev\<rparr>"

datatype row_kind = LicenseRow | SupportRow

record workbench_row =
  w_licenseId :: int
  w_rowKind :: row_kind
  w_licenseRef :: jstr
  w_publisherName :: jstr
  w_softwareDescription :: jstr
  w_licenseType :: "license_type option"
  w_licenseMetric :: jstr
  w_startDate :: jstr
  w_endDate :: jstr
  w_noticeDate :: jstr
  w_daysUntilNotice :: day_count
  w_lifecycleStatus :: "lifecycle option"
  w_contractNumber :: string
  w_poNumber :: string
  w_supplier :: string
  w_costCentre :: string
  w_budgetOwnerEmail :: string
  w_contactEmail :: string
  w_currency :: string
  w_quantity :: string
  w_unitPrice :: string
  w_completenessPct :: "int option"
  w_documentCount :: int
  w_riskFlags :: "risk_flag list"
  w_sourcingItemId :: "int option"
  w_pendingOrderId :: "int option"
  w_pendingOrderNumber :: jstr
  w_daysUntilExpiry :: day_count
  w_renewalStatus :: renewal_status
  w_estimatedAnnualValue :: jsnum

section \<open>Figures of a row\<close>

definition estimate_annual_value :: "license \<Rightarrow> jsnum" where
  "estimate_annual_value l =
     (if \<not> is_recurring_license (l_licenseType l) (l_isRenewable l) then Fin 0
      else annualize_term_cost (line_total l) (l_startDate l) (l_endDate l))"

text \<open>The thresholds by currency: a later entry for the same currency wins.\<close>

definition currency_key :: "jstr \<Rightarrow> string" where
  "currency_key c = to_upper (trim (str c))"

definition compute_high_value_thresholds :: "store \<Rightarrow> string \<Rightarrow> jsnum option" where
  "compute_high_value_thresholds s =
     fold (\<lambda>e m. if has_text (snd e) then m(currency_key (Some (fst e)) := Some (parse_decimal (snd e))) else m)
       (high_value_thresholds (globalSettings s)) (\<lambda>_. None)"

definition days_until_notice :: "clock \<Rightarrow> license \<Rightarrow> day_count" where
  "days_until_notice clk l =
     (if \<not> truthy (l_noticeDate l) \<or> truthy (l_noticeHandledAt l) then NullDays
      else days_until (today clk) (l_noticeDate l))"

text \<open>\<open>Math.min\<close> of the two counts that are not null: \<open>NaN\<close> when one of them is.\<close>

fun min_days :: "day_count \<Rightarrow> day_count \<Rightarrow> day_count" where
  "min_days NullDays d = d"
| "min_days d NullDays = d"
| "min_days (Days m) (Days n) = Days (min m n)"
| "min_days NanDays d = NanDays"
| "min_days d NanDays = NanDays"

definition effective_deadline_days :: "workbench_row \<Rightarrow> day_count" where
  "effective_deadline_days r = min_days (w_daysUntilExpiry r) (w_daysUntilNotice r)"

text \<open>\<open>days !== null && days < n\<close> and \<open>days !== null && days <= n\<close>\<close>

definition days_less :: "day_count \<Rightarrow> int \<Rightarrow> bool" where
  "days_less d n \<longleftrightarrow> (case d of Days m \<Rightarrow> m < n | _ \<Rightarrow> False)"

definition days_le :: "day_count \<Rightarrow> int \<Rightarrow> bool" where
  "days_le d n \<longleftrightarrow> (case d of Days m \<Rightarrow> m \<le> n | _ \<Rightarrow> False)"

definition within_window :: "day_count \<Rightarrow> jsnum \<Rightarrow> bool" where
  "within_window d w \<longleftrightarrow> (case d of Days m \<Rightarrow> js_le (Fin (of_int m)) w | _ \<Rightarrow> False)"

definition compute_renewal_status :: "license \<Rightarrow> sourcing_item option \<Rightarrow> day_count \<Rightarrow> renewal_status" where
  "compute_renewal_status l item days =
     (case item of
        Some i \<Rightarrow> if i_pendingOrderId i \<noteq> None then RsPendingOrder else RsInSourcing
      | None \<Rightarrow>
          if l_lifecycleStatus l = Some PendingRenewal then RsPendingRenewal
          else if days_less days 0 then RsExpiredUnresolved
          else RsDueSoon)"

section \<open>Risk flags\<close>

definition flag_if :: "bool \<Rightarrow> risk_flag \<Rightarrow> risk_flag list" where
  "flag_if c f = (if c then [f] else [])"

definition expiry_flags :: "day_count \<Rightarrow> risk_flag list" where
  "expiry_flags d =
     (if days_less d 0 then [flag_of ''expired'' ''Expired'' FlHigh]
      else if days_le d 30 then [flag_of ''due_30'' ''Due within 30 days'' FlHigh]
      else if days_le d 60 then [flag_of ''due_60'' ''Due within 60 days'' FlMedium]
      else if days_le d 90 then [flag_of ''due_90'' ''Due within 90 days'' FlLow]
      else [])"

definition notice_flags :: "day_count \<Rightarrow> risk_flag list" where
  "notice_flags d =
     (case d of
        Days n \<Rightarrow>
          if n < 0 then [flag_of ''notice_passed'' ''Notice deadline passed'' FlHigh]
          else if n \<le> 90 then
            [flag_of ''notice_due''
               (''Notice deadline in '' @ show_int n @ '' '' @ (if n = 1 then ''day'' else ''days''))
               (if n \<le> 30 then FlHigh else if n \<le> 60 then FlMedium else FlLow)]
          else []
      | _ \<Rightarrow> [])"

definition missing_data_flags :: "store \<Rightarrow> license \<Rightarrow> int \<Rightarrow> risk_flag list" where
  "missing_data_flags s l documents =
     flag_if (\<not> has_text (l_supplier l)) (flag_of ''no_supplier'' ''No supplier'' FlMedium)
     @ flag_if (\<not> has_text (l_contractNumber l)) (flag_of ''no_contract'' ''No contract'' FlMedium)
     @ flag_if (\<not> has_text (l_poNumber l)) (flag_of ''no_po'' ''No PO'' FlLow)
     @ flag_if (documents = 0) (flag_of ''no_documents'' ''No documents'' FlMedium)
     @ flag_if (incomplete s l) (flag_of ''incomplete'' ''Incomplete mandatory fields'' FlMedium)"

definition is_high_value :: "jsnum option \<Rightarrow> jsnum \<Rightarrow> bool" where
  "is_high_value threshold amount \<longleftrightarrow> (case threshold of None \<Rightarrow> False | Some t \<Rightarrow> js_le t amount)"

definition not_started_status :: "renewal_status \<Rightarrow> bool" where
  "not_started_status st \<longleftrightarrow> st = RsExpiredUnresolved \<or> st = RsDueSoon"

definition status_flags :: "renewal_status \<Rightarrow> risk_flag list" where
  "status_flags st =
     flag_if (not_started_status st) (flag_of ''renewal_not_started'' ''Renewal not started''
       (if st = RsExpiredUnresolved then FlHigh else FlMedium))
     @ flag_if (st = RsPendingOrder) (flag_of ''pending_order'' ''Pending order'' FlLow)"

definition high_value_flag :: risk_flag where
  "high_value_flag = flag_of ''high_value'' ''High value'' FlHigh"

definition compute_renewal_risk_flags ::
  "store \<Rightarrow> license \<Rightarrow> renewal_status \<Rightarrow> day_count \<Rightarrow> day_count \<Rightarrow> int \<Rightarrow> jsnum \<Rightarrow> jsnum option
     \<Rightarrow> risk_flag list" where
  "compute_renewal_risk_flags s l st expiry notice documents amount threshold =
     expiry_flags expiry @ notice_flags notice @ missing_data_flags s l documents
     @ flag_if (is_high_value threshold amount) high_value_flag @ status_flags st"

section \<open>Candidates\<close>

definition is_workbench_candidate :: "clock \<Rightarrow> jsnum \<Rightarrow> license \<Rightarrow> bool" where
  "is_workbench_candidate clk w l \<longleftrightarrow>
     \<not> (l_isRetired l \<or> l_retirementScheduled l \<or> \<not> is_renewable_license (l_licenseType l) (l_isRenewable l))
     \<and> l_lifecycleStatus l \<noteq> Some Renewed \<and> l_lifecycleStatus l \<noteq> Some Legacy
     \<and> (l_lifecycleStatus l = Some PendingRenewal
        \<or> within_window (days_until_notice clk l) w
        \<or> truthy (l_endDate l) \<and> within_window (days_until (today clk) (l_endDate l)) w)"

definition is_support_candidate :: "clock \<Rightarrow> jsnum \<Rightarrow> license \<Rightarrow> bool" where
  "is_support_candidate clk w l \<longleftrightarrow>
     in_types (l_licenseType l) included_support_parent_types
     \<and> maintenanceCoverage (l_support l) = Some Included
     \<and> truthy (maintenanceEndDate (l_support l))
     \<and> within_window (days_until (today clk) (maintenanceEndDate (l_support l))) w
     \<and> \<not> l_isRetired l \<and> l_lifecycleStatus l \<noteq> Some Legacy"

section \<open>Rows\<close>

definition order_of_item :: "store \<Rightarrow> sourcing_item option \<Rightarrow> pending_order option" where
  "order_of_item s item =
     (case item of None \<Rightarrow> None | Some i \<Rightarrow> opt_get get_order s (i_pendingOrderId i))"

definition workbench_row_base :: "store \<Rightarrow> license \<Rightarrow> sourcing_item option \<Rightarrow> workbench_row" where
  "workbench_row_base s l item = \<lparr>
     w_licenseId = l_id l, w_rowKind = LicenseRow, w_licenseRef = l_licenseRef l,
     w_publisherName = l_publisherName l, w_softwareDescription = l_softwareDescription l,
     w_licenseType = l_licenseType l, w_licenseMetric = l_licenseMetric l,
     w_startDate = l_startDate l, w_endDate = l_endDate l, w_noticeDate = None,
     w_daysUntilNotice = NullDays, w_lifecycleStatus = l_lifecycleStatus l,
     w_contractNumber = str (l_contractNumber l), w_poNumber = str (l_poNumber l),
     w_supplier = str (l_supplier l), w_costCentre = str (l_costCentre l),
     w_budgetOwnerEmail = str (l_budgetOwnerEmail l), w_contactEmail = str (l_contactEmail l),
     w_currency = str (nullish (l_currency l) (Some ''EUR'')), w_quantity = str (l_quantity l),
     w_unitPrice = str (l_unitPrice l), w_completenessPct = compute_license_completeness_pct s l,
     w_documentCount = l_documentCount l, w_riskFlags = [],
     w_sourcingItemId = map_option i_id item,
     w_pendingOrderId = (case item of None \<Rightarrow> None | Some i \<Rightarrow> i_pendingOrderId i),
     w_pendingOrderNumber = (case order_of_item s item of None \<Rightarrow> None | Some x \<Rightarrow> o_poNumber x),
     w_daysUntilExpiry = NullDays, w_renewalStatus = RsDueSoon, w_estimatedAnnualValue = Fin 0\<rparr>"

definition build_license_row :: "clock \<Rightarrow> store \<Rightarrow> (string \<Rightarrow> jsnum option) \<Rightarrow> license \<Rightarrow> workbench_row" where
  "build_license_row clk s thresholds l =
     (let item = select_renewal_sourcing_item s (l_id l);
          expiry = days_until (today clk) (l_endDate l);
          notice = days_until_notice clk l;
          st = compute_renewal_status l item expiry;
          amount = estimate_annual_value l;
          base = workbench_row_base s l item
      in base\<lparr>
           w_daysUntilExpiry := expiry,
           w_noticeDate := (if notice \<noteq> NullDays then l_noticeDate l else None),
           w_daysUntilNotice := notice, w_renewalStatus := st, w_estimatedAnnualValue := amount,
           w_riskFlags := compute_renewal_risk_flags s l st expiry notice (w_documentCount base) amount
             (thresholds (currency_key (l_currency l)))\<rparr>)"

definition support_row_status :: "sourcing_item option \<Rightarrow> day_count \<Rightarrow> renewal_status" where
  "support_row_status item days =
     (case item of
        Some i \<Rightarrow> if i_pendingOrderId i \<noteq> None then RsPendingOrder else RsInSourcing
      | None \<Rightarrow> if days_less days 0 then RsExpiredUnresolved else RsDueSoon)"

definition build_support_row :: "clock \<Rightarrow> store \<Rightarrow> (string \<Rightarrow> jsnum option) \<Rightarrow> license \<Rightarrow> workbench_row" where
  "build_support_row clk s thresholds l =
     (let item = select_support_renewal_item s (l_id l);
          start_date = maintenanceStartDate (l_support l);
          end_date = maintenanceEndDate (l_support l);
          expiry = days_until (today clk) end_date;
          st = support_row_status item expiry;
          amount = annualize_term_cost (parse_decimal (maintenanceCost (l_support l))) start_date end_date;
          base = workbench_row_base s l item
      in base\<lparr>
           w_rowKind := SupportRow,
           w_softwareDescription := Some (property_name (l_softwareDescription l) @ '' (included maintenance)''),
           w_startDate := start_date, w_endDate := end_date, w_daysUntilExpiry := expiry,
           w_renewalStatus := st, w_estimatedAnnualValue := amount,
           w_riskFlags := compute_renewal_risk_flags s l st expiry NullDays (w_documentCount base) amount
             (thresholds (currency_key (l_currency l)))\<rparr>)"

section \<open>The list of rows\<close>

definition matches_workbench_view :: "workbench_view \<Rightarrow> workbench_row \<Rightarrow> bool" where
  "matches_workbench_view v r =
     (let due = (\<lambda>n. days_le (w_daysUntilExpiry r) n \<and> \<not> days_less (w_daysUntilExpiry r) 0)
      in case v of
           ViewAll \<Rightarrow> True
         | NeedsAction \<Rightarrow> not_started_status (w_renewalStatus r)
         | Overdue \<Rightarrow> w_renewalStatus r = RsExpiredUnresolved
         | Due30 \<Rightarrow> due 30
         | Due60 \<Rightarrow> due 60
         | Due90 \<Rightarrow> due 90
         | InProgress \<Rightarrow> \<not> not_started_status (w_renewalStatus r)
         | MissingDocs \<Rightarrow> w_documentCount r = 0
         | HighValue \<Rightarrow> \<exists>f \<in> set (w_riskFlags r). fl_code f = ''high_value''
         | NoticeDue \<Rightarrow> w_daysUntilNotice r \<noteq> NullDays)"

text \<open>
  The comparator: rows without a deadline last, then by deadline, publisher and license. A deadline
  that is not a number makes the difference \<open>NaN\<close>, which sorts as 0.
\<close>

fun compare_deadlines :: "day_count \<Rightarrow> day_count \<Rightarrow> int" where
  "compare_deadlines NullDays NullDays = 0"
| "compare_deadlines NullDays _ = 1"
| "compare_deadlines _ NullDays = - 1"
| "compare_deadlines (Days m) (Days n) = m - n"
| "compare_deadlines _ _ = 0"

definition nan_deadlines :: "day_count \<Rightarrow> day_count \<Rightarrow> bool" where
  "nan_deadlines a b \<longleftrightarrow> a \<noteq> NullDays \<and> b \<noteq> NullDays \<and> (a = NanDays \<or> b = NanDays)"

definition compare_rows :: "(string \<Rightarrow> string \<Rightarrow> int) \<Rightarrow> workbench_row \<Rightarrow> workbench_row \<Rightarrow> int" where
  "compare_rows collate a b =
     (let da = effective_deadline_days a; db = effective_deadline_days b
      in if compare_deadlines da db \<noteq> 0 \<or> nan_deadlines da db then compare_deadlines da db
         else if collate (property_name (w_publisherName a)) (property_name (w_publisherName b)) \<noteq> 0
         then collate (property_name (w_publisherName a)) (property_name (w_publisherName b))
         else w_licenseId a - w_licenseId b)"

definition candidate_rows :: "clock \<Rightarrow> jsnum \<Rightarrow> store \<Rightarrow> workbench_row list" where
  "candidate_rows clk w s =
     (let thresholds = compute_high_value_thresholds s
      in map (build_license_row clk s thresholds) (filter (is_workbench_candidate clk w) (licenses s))
         @ map (build_support_row clk s thresholds) (filter (is_support_candidate clk w) (licenses s)))"

definition build_renewal_workbench_rows ::
  "(string \<Rightarrow> string \<Rightarrow> int) \<Rightarrow> clock \<Rightarrow> jsnum \<Rightarrow> string \<Rightarrow> workbench_row list demo_op" where
  "build_renewal_workbench_rows collate clk w view =
     bindE (the_or_throw (map_of WORKBENCH_VIEWS view) (''Unsupported workbench view: '' @ view)) (\<lambda>v.
     bindE (throw_if (\<not> is_finite w \<or> js_less w (Fin 0)) ''window_days must be greater than or equal to 0'') (\<lambda>_.
     gets (\<lambda>s. filter (matches_workbench_view v) (js_sort (compare_rows collate) (candidate_rows clk w s)))))"

section \<open>The order of rows\<close>

definition dated_row :: "workbench_row \<Rightarrow> bool" where
  "dated_row r \<longleftrightarrow> effective_deadline_days r \<noteq> NanDays"

lemma compare_deadlines_order: "js_order compare_deadlines (\<lambda>d. d \<noteq> NanDays)"
proof
  fix x y z :: day_count
  assume v: "x \<noteq> NanDays" "y \<noteq> NanDays"
  then show "compare_deadlines x y < 0 \<longleftrightarrow> 0 < compare_deadlines y x"
    "compare_deadlines x y \<le> 0 \<or> compare_deadlines y x \<le> 0"
    by (cases x; cases y; auto)+
  assume "z \<noteq> NanDays" "compare_deadlines x y \<le> 0" "compare_deadlines y z \<le> 0"
  with v show "compare_deadlines x z \<le> 0"
    by (cases x; cases y; cases z; auto)
qed

lemma compare_rows_then_by:
  assumes "dated_row a" "dated_row b"
  shows "compare_rows collate a b =
    then_by (\<lambda>a b. compare_deadlines (effective_deadline_days a) (effective_deadline_days b))
      (then_by (\<lambda>a b. collate (property_name (w_publisherName a)) (property_name (w_publisherName b)))
        (\<lambda>a b. w_licenseId a - w_licenseId b)) a b"
proof -
  have "nan_deadlines (effective_deadline_days a) (effective_deadline_days b) = False"
    using assms by (simp add: nan_deadlines_def dated_row_def)
  then show ?thesis
    unfolding compare_rows_def then_by_def Let_def by (simp only: simp_thms if_cancel)
qed

lemma compare_rows_order:
  assumes "text_order collate"
  shows "js_order (compare_rows collate) dated_row"
proof (rule js_order_cong [OF _ compare_rows_then_by])
  have "js_order (\<lambda>a b. compare_deadlines (effective_deadline_days a) (effective_deadline_days b)) dated_row"
    by (rule js_order_on [OF compare_deadlines_order]) (simp add: dated_row_def)
  then show "js_order (then_by (\<lambda>a b. compare_deadlines (effective_deadline_days a) (effective_deadline_days b))
      (then_by (\<lambda>a b. collate (property_name (w_publisherName a)) (property_name (w_publisherName b)))
        (\<lambda>a b. w_licenseId a - w_licenseId b))) dated_row"
    by (intro then_by_order rank_order text_order.by_text [OF assms])
qed

interpretation wr: js_order "compare_rows code_unit_compare" dated_row
  by (rule compare_rows_order) (rule cu.text_order_axioms)

lemma license_row_sel [simp]:
  "w_licenseId (build_license_row clk s th l) = l_id l" "w_rowKind (build_license_row clk s th l) = LicenseRow"
  by (simp_all add: build_license_row_def workbench_row_base_def Let_def)

lemma support_row_sel [simp]:
  "w_licenseId (build_support_row clk s th l) = l_id l" "w_rowKind (build_support_row clk s th l) = SupportRow"
  by (simp_all add: build_support_row_def workbench_row_base_def Let_def)

lemma rows_of_kind:
  "map w_licenseId (filter (\<lambda>r. w_rowKind r = LicenseRow) (candidate_rows clk w s)) =
     map l_id (filter (is_workbench_candidate clk w) (licenses s))"
  "map w_licenseId (filter (\<lambda>r. w_rowKind r = SupportRow) (candidate_rows clk w s)) =
     map l_id (filter (is_support_candidate clk w) (licenses s))"
  by (simp_all add: candidate_rows_def Let_def comp_def)

lemma sorted_wrt_filter_sort:
  assumes "js_order c V" "\<forall>x \<in> set xs. V x"
  shows "sorted_wrt (\<lambda>x y. c x y \<le> 0) (filter p (js_sort c xs))"
  by (rule sorted_wrt_filter) (rule js_comparator.sorted_sort [OF js_order.axioms(1) [OF assms(1)] assms(2)])

section \<open>Properties\<close>


definition workbench_example :: store where
  "workbench_example = fresh_store\<lparr>licenses :=
     [base_license\<lparr>l_id := 1, l_lifecycleStatus := Some PendingRenewal\<rparr>, base_license\<lparr>l_id := 2\<rparr>]\<rparr>"

lemma workbench_example_rows:
  "candidate_rows \<lparr>today = 20000, now = []\<rparr> (Fin 90) workbench_example =
     [build_license_row \<lparr>today = 20000, now = []\<rparr> workbench_example
        (compute_high_value_thresholds workbench_example)
        (base_license\<lparr>l_id := 1, l_lifecycleStatus := Some PendingRenewal\<rparr>)]"
  by (simp add: candidate_rows_def workbench_example_def fresh_store_def base_license_def Let_def
      is_workbench_candidate_def is_support_candidate_def no_support_def within_window_def
      days_until_notice_def days_until_def in_types_def included_support_parent_types_def
      is_renewable_license_def is_renewal_opt_in_license_type_def renewal_opt_in_license_types_def)

lemma workbench_example_dated:
  "dated_row (build_license_row \<lparr>today = 20000, now = []\<rparr> s th
     (base_license\<lparr>l_id := 1, l_lifecycleStatus := Some PendingRenewal\<rparr>))"
  by (simp add: dated_row_def effective_deadline_days_def build_license_row_def Let_def base_license_def
      days_until_def days_until_notice_def)


end
