(* ===== verification/Orders.thy ===== *)
theory Orders
  imports Sourcing Stats
begin

text \<open>
  Pending orders (\<^verbatim>\<open>store.js\<close>): creating, deleting and cancelling an order, turning sourcing lines into
  order lines, lines added on the order itself, the manual total of an order and its currency rule,
  and freeware lines, which become licenses without an order.
\<close>

section \<open>Creating an order\<close>

definition build_new_pending_order :: "clock \<Rightarrow> int \<Rightarrow> jstr \<Rightarrow> jstr \<Rightarrow> jstr \<Rightarrow> pending_order" where
  "build_new_pending_order clk n po supplier notes = \<lparr>o_id = n, o_poNumber = po, o_supplier = supplier,
     o_notes = notes, o_status = OrderPending, o_poTotalOverride = None, o_items = [],
     o_totalPoValue = None, o_createdAt = now clk, o_updatedAt = now clk\<rparr>"

definition push_new_order :: "clock \<Rightarrow> jstr \<Rightarrow> jstr \<Rightarrow> jstr \<Rightarrow> int demo_op" where
  "push_new_order clk po supplier notes =
     bindE fresh_id (\<lambda>n.
     bindE (modify (push_order (build_new_pending_order clk n po supplier notes))) (\<lambda>_. ret n))"

definition create_pending_order_record :: "clock \<Rightarrow> jstr \<Rightarrow> jstr \<Rightarrow> jstr \<Rightarrow> int demo_op" where
  "create_pending_order_record clk po supplier notes =
     bindE (throw_if (\<not> truthy po) ''po_number is required'') (\<lambda>_. push_new_order clk po supplier notes)"

section \<open>The manual total\<close>

definition PENDING_ORDER_CURRENCY_DETAIL :: string where
  "PENDING_ORDER_CURRENCY_DETAIL =
     ''A manual PO total needs every line of the pending order in one currency; ''
     @ ''clear the PO total before adding a line in another currency''"

definition normalize_currency :: "jstr \<Rightarrow> string" where
  "normalize_currency v = to_upper (trim (str v))"

definition pending_order_line_currencies :: "store \<Rightarrow> int \<Rightarrow> string list" where
  "pending_order_line_currencies s oid =
     uniq (filter (\<lambda>c. c \<noteq> [])
       (map (normalize_currency \<circ> i_currency) (filter (\<lambda>i. i_status i \<noteq> Cancelled) (order_items s oid))))"

definition assert_pending_order_override_currencies :: "int \<Rightarrow> unit demo_op" where
  "assert_pending_order_override_currencies oid =
     bindE (gets (\<lambda>s. pending_order_line_currencies s oid)) (\<lambda>cs.
       throw_if (1 < length cs) PENDING_ORDER_CURRENCY_DETAIL)"

definition currency_conflict :: "store \<Rightarrow> int \<Rightarrow> jstr \<Rightarrow> bool" where
  "currency_conflict s oid currency \<longleftrightarrow>
     (case get_order s oid of
        None \<Rightarrow> False
      | Some x \<Rightarrow>
          truthy (o_poTotalOverride x) \<and> pending_order_line_currencies s oid \<noteq> []
          \<and> normalize_currency currency \<notin> set (pending_order_line_currencies s oid))"

definition assert_line_currency_fits_pending_order :: "int \<Rightarrow> jstr \<Rightarrow> unit demo_op" where
  "assert_line_currency_fits_pending_order oid currency =
     bindE (gets (\<lambda>s. currency_conflict s oid currency)) (\<lambda>c. throw_if c PENDING_ORDER_CURRENCY_DETAIL)"

section \<open>From a sourcing line to an order line\<close>

definition paid_included_support :: "sourcing_item \<Rightarrow> bool" where
  "paid_included_support i \<longleftrightarrow> maintenanceCoverage (i_support i) = Some Included
     \<and> (case maintenanceCost (i_support i) of None \<Rightarrow> False | Some c \<Rightarrow> js_less (Fin 0) (js_Number c))"

definition is_direct_freeware :: "sourcing_item \<Rightarrow> bool" where
  "is_direct_freeware i \<longleftrightarrow> i_licenseType i = Some Freeware \<and> \<not> paid_included_support i"

record order_target =
  t_pendingOrderId :: "int option"
  t_poNumber :: jstr
  t_supplier :: jstr
  t_notes :: jstr

text \<open>
  The order the lines go to: the selected one, whose supplier the request takes over, or a new one.
  Both conversions of the source write this out; they differ in the notes of a new order.
\<close>

definition use_selected_order :: "int \<Rightarrow> sourcing_request \<Rightarrow> int demo_op" where
  "use_selected_order oid r =
     bindE (gets (\<lambda>s. get_order s oid)) (\<lambda>found.
     bindE (the_or_throw found ''Pending order not found'') (\<lambda>x.
     bindE (throw_if (clean_procurement_identity (o_supplier x) = None)
       ''The selected pending order must have a supplier'') (\<lambda>_.
     bindE (throw_if (truthy (r_supplier r) \<and> \<not> procurement_identities_match (r_supplier r) (o_supplier x))
       ''The sourcing request supplier conflicts with the selected pending order supplier'') (\<lambda>_.
     bindE (modify (synchronize_open_sourcing_request_identity (r_id r) (Some (o_supplier x)) None)) (\<lambda>_.
       ret oid)))))"

definition open_new_order :: "clock \<Rightarrow> order_target \<Rightarrow> jstr \<Rightarrow> sourcing_request \<Rightarrow> int demo_op" where
  "open_new_order clk t notes r =
     bindE (throw_if (\<not> truthy (t_poNumber t)) ''po_number is required when pending_order_id is not provided'') (\<lambda>_.
     bindE (the_or_throw (or_else (clean_procurement_identity (t_supplier t)) (clean_procurement_identity (r_supplier r)))
       ''Supplier is required to create a pending order'') (\<lambda>supplier.
     bindE (modify (synchronize_open_sourcing_request_identity (r_id r) (Some (Some supplier)) None)) (\<lambda>_.
       push_new_order clk (t_poNumber t) (Some supplier) notes)))"

definition resolve_target_order :: "clock \<Rightarrow> order_target \<Rightarrow> jstr \<Rightarrow> sourcing_request \<Rightarrow> int demo_op" where
  "resolve_target_order clk t notes r =
     (case t_pendingOrderId t of
        Some oid \<Rightarrow> use_selected_order oid r
      | None \<Rightarrow> open_new_order clk t notes r)"

definition attach_line :: "clock \<Rightarrow> int \<Rightarrow> int \<Rightarrow> store \<Rightarrow> store" where
  "attach_line clk oid iid =
     upd_item iid (\<lambda>i. i\<lparr>i_pendingOrderId := Some oid, i_status := Converted, i_updatedAt := now clk\<rparr>)"

definition close_request :: "clock \<Rightarrow> int \<Rightarrow> store \<Rightarrow> store" where
  "close_request clk rid = upd_request rid (\<lambda>r. r\<lparr>r_status := Converted, r_updatedAt := now clk\<rparr>)"

definition close_request_if_converted :: "clock \<Rightarrow> int \<Rightarrow> store \<Rightarrow> store" where
  "close_request_if_converted clk rid s =
     (if \<forall>i \<in> set (request_items s rid). i_status i = Converted then close_request clk rid s else s)"

definition touch_order :: "clock \<Rightarrow> int \<Rightarrow> store \<Rightarrow> store" where
  "touch_order clk oid = upd_order oid (\<lambda>x. x\<lparr>o_updatedAt := now clk\<rparr>)"

text \<open>
  The request of the line exists once \<open>ensureSourcingRequestForItem\<close> has run; \<open>request.supplier\<close> of a
  missing request would be a \<open>TypeError\<close>.
\<close>

definition request_of_line :: "int \<Rightarrow> store \<Rightarrow> sourcing_request option" where
  "request_of_line iid s =
     (case get_item s iid of None \<Rightarrow> None | Some i \<Rightarrow> opt_get get_request s (i_sourcingRequestId i))"

definition convert_sourcing_item_to_order :: "clock \<Rightarrow> sourcing_item \<Rightarrow> order_target \<Rightarrow> int demo_op" where
  "convert_sourcing_item_to_order clk i t =
     bindE (assert_sourcing_item_editable i) (\<lambda>_.
     bindE (throw_if (is_direct_freeware i)
       ''Freeware / Open Source items convert directly to the License Registry'') (\<lambda>_.
     bindE (modify (ensure_stored clk (i_id i))) (\<lambda>_.
     bindE (gets (request_of_line (i_id i))) (\<lambda>found.
     bindE (the_or_throw found ''TypeError'') (\<lambda>r.
     bindE (resolve_target_order clk t (t_notes t) r) (\<lambda>oid.
     bindE (assert_line_currency_fits_pending_order oid (i_currency i)) (\<lambda>_.
     bindE (modify (attach_line clk oid (i_id i))) (\<lambda>_.
     bindE (modify (close_request_if_converted clk (r_id r))) (\<lambda>_.
     bindE (modify (rebuild_pending_order_items oid)) (\<lambda>_.
     bindE (modify (touch_order clk oid)) (\<lambda>_.
       ret oid)))))))))))"

definition purchase_items :: "int \<Rightarrow> store \<Rightarrow> sourcing_item list" where
  "purchase_items rid s =
     filter (\<lambda>i. i_status i = Sourcing \<and> (i_licenseType i \<noteq> Some Freeware \<or> paid_included_support i))
       (request_items s rid)"

definition settle_request :: "clock \<Rightarrow> int \<Rightarrow> store \<Rightarrow> store" where
  "settle_request clk rid s =
     upd_request rid (\<lambda>r. r\<lparr>
       r_status := (if \<exists>i \<in> set (request_items s rid). i_status i = Sourcing then Sourcing else Converted),
       r_updatedAt := now clk\<rparr>) s"

definition convert_sourcing_request_to_order ::
  "clock \<Rightarrow> sourcing_request \<Rightarrow> order_target \<Rightarrow> int demo_op" where
  "convert_sourcing_request_to_order clk r t =
     bindE (throw_if (r_status r = Converted) ''Sourcing request has already been converted'') (\<lambda>_.
     bindE (gets (purchase_items (r_id r))) (\<lambda>lines.
     bindE (throw_if (lines = []) ''No purchase items are available to convert to a pending order'') (\<lambda>_.
     bindE (resolve_target_order clk t (nullish (t_notes t) (r_notes r)) r) (\<lambda>oid.
     bindE (forE (\<lambda>i. assert_line_currency_fits_pending_order oid (i_currency i)) lines) (\<lambda>_.
     bindE (modify (fold (\<lambda>i. attach_line clk oid (i_id i)) lines)) (\<lambda>_.
     bindE (modify (settle_request clk (r_id r))) (\<lambda>_.
     bindE (modify (rebuild_pending_order_items oid)) (\<lambda>_.
     bindE (modify (touch_order clk oid)) (\<lambda>_.
       ret oid)))))))))"

section \<open>The life of an order\<close>

fun order_status_text :: "order_status \<Rightarrow> string" where
  "order_status_text OrderPending = ''pending''"
| "order_status_text InvoiceReceived = ''invoice_received''"
| "order_status_text OrderConverted = ''converted''"
| "order_status_text OrderCancelled = ''cancelled''"

definition is_pending_order_open :: "pending_order \<Rightarrow> bool" where
  "is_pending_order_open x \<longleftrightarrow> o_status x = OrderPending \<or> o_status x = InvoiceReceived"

definition ensure_pending_order_editable :: "pending_order \<Rightarrow> string \<Rightarrow> unit demo_op" where
  "ensure_pending_order_editable x action =
     throw_if (o_status x = OrderConverted \<or> o_status x = OrderCancelled)
       (''Cannot '' @ action @ '' a '' @ order_status_text (o_status x) @ '' order'')"

definition delete_pending_order_record :: "clock \<Rightarrow> pending_order \<Rightarrow> unit demo_op" where
  "delete_pending_order_record clk x =
     bindE (throw_if (o_status x \<noteq> OrderPending)
       ''Only pending orders with status 'pending' can be deleted'') (\<lambda>_.
     modify (\<lambda>s. s\<lparr>
       sourcingItems := upd_where (\<lambda>i. i_pendingOrderId i = Some (o_id x))
         (\<lambda>i. i\<lparr>i_status := Sourcing, i_updatedAt := now clk\<rparr>) (sourcingItems s),
       pendingOrders := filter (\<lambda>p. o_id p \<noteq> o_id x) (pendingOrders s)\<rparr>))"

definition cancel_line :: "clock \<Rightarrow> sourcing_item \<Rightarrow> sourcing_item" where
  "cancel_line clk i = i\<lparr>i_status := Cancelled, i_updatedAt := now clk\<rparr>"

definition close_order :: "clock \<Rightarrow> pending_order \<Rightarrow> pending_order" where
  "close_order clk x = x\<lparr>o_status := OrderCancelled, o_updatedAt := now clk\<rparr>"

definition cancel_order_lines :: "clock \<Rightarrow> int \<Rightarrow> store \<Rightarrow> store" where
  "cancel_order_lines clk oid s =
     (let released = uniq (concat (map sourcing_item_predecessor_ids (order_items s oid)));
          s1 = sourcingItems_update (upd_where (\<lambda>i. i_pendingOrderId i = Some oid) (cancel_line clk))
                 (upd_order oid (close_order clk) s)
      in rebuild_pending_order_items oid (fold (release_predecessor clk) released s1))"

definition cancel_pending_order_record :: "clock \<Rightarrow> pending_order \<Rightarrow> int demo_op" where
  "cancel_pending_order_record clk x =
     bindE (ensure_pending_order_editable x ''cancel'') (\<lambda>_.
     bindE (modify (cancel_order_lines clk (o_id x))) (\<lambda>_. ret (o_id x)))"

definition refresh_order_status :: "int \<Rightarrow> store \<Rightarrow> store" where
  "refresh_order_status oid s =
     upd_order oid (\<lambda>x. x\<lparr>o_status :=
       (if \<forall>i \<in> set (order_items s oid). i_status i = Converted then OrderConverted else InvoiceReceived)\<rparr>) s"

section \<open>Lines added on an order\<close>

text \<open>A payload is a line that starts from \<open>blank_item\<close>, with its planned predecessors.\<close>

definition add_order_line :: "clock \<Rightarrow> int \<Rightarrow> sourcing_item \<times> int list \<Rightarrow> int demo_op" where
  "add_order_line clk oid payload =
     bindE (throw_if (snd payload \<noteq> []) ''Successor lines must be added to a sourcing request'') (\<lambda>_.
     bindE (assert_line_currency_fits_pending_order oid (or_else (i_currency (fst payload)) (Some ''EUR''))) (\<lambda>_.
     bindE (\<lambda>s. (let (created, s') = build_sourcing_item clk ((fst payload)\<lparr>i_renewalForLicenseId := None\<rparr>)
                       \<lparr>ov_id = None, ov_sourcingRequestId = None, ov_status = Some Converted,
                        ov_pendingOrderId = Some oid\<rparr> s
                in (Inr created, s'))) (\<lambda>created.
     bindE (modify (push_item created)) (\<lambda>_. ret (i_id created)))))"

definition add_pending_order_items_bulk ::
  "clock \<Rightarrow> pending_order \<Rightarrow> (sourcing_item \<times> int list) list \<Rightarrow> int list demo_op" where
  "add_pending_order_items_bulk clk x payloads =
     bindE (throw_if (payloads = []) ''At least one item is required'') (\<lambda>_.
     bindE (ensure_pending_order_editable x ''add items to'') (\<lambda>_.
     bindE (forE (add_order_line clk (o_id x)) payloads) (\<lambda>created.
     bindE (modify (rebuild_pending_order_items (o_id x))) (\<lambda>_. ret created))))"

section \<open>The order response\<close>

record summary_view =
  sv_item :: item_summary
  sv_convertedLicenseIds :: "int list"
  sv_convertedLicenseId :: "int option"
  sv_convertedLicenseRef :: jstr

record order_view =
  ov_order :: pending_order
  ov_convertedLicenseIds :: "int list"
  ov_convertedLicenseId :: "int option"
  ov_convertedLicenseRef :: jstr
  ov_items :: "summary_view list"

definition summary_licenses :: "license list \<Rightarrow> item_summary \<Rightarrow> license list" where
  "summary_licenses active i =
     (let exact = filter (\<lambda>l. l_sourceSourcingItemId l = Some (sm_id i)) active
      in if exact \<noteq> [] then exact
         else filter (\<lambda>l. l_publisherName l = sm_publisherName i
                        \<and> l_softwareDescription l = sm_softwareDescription i) active)"

definition only_ref :: "license list \<Rightarrow> jstr" where
  "only_ref ls = (case only_one ls of None \<Rightarrow> None | Some l \<Rightarrow> l_licenseRef l)"

definition with_pending_order_license_refs :: "store \<Rightarrow> pending_order \<Rightarrow> order_view" where
  "with_pending_order_license_refs s x =
     (let active = filter (\<lambda>l. l_pendingOrderId l = Some (o_id x) \<and> \<not> l_isRetired l) (licenses s)
      in \<lparr>ov_order = x, ov_convertedLicenseIds = map l_id active,
          ov_convertedLicenseId = map_option l_id (only_one active),
          ov_convertedLicenseRef = only_ref active,
          ov_items = map (\<lambda>i. let ls = summary_licenses active i in
             \<lparr>sv_item = i, sv_convertedLicenseIds = map l_id ls,
              sv_convertedLicenseId = map_option l_id (only_one ls), sv_convertedLicenseRef = only_ref ls\<rparr>)
            (o_items x)\<rparr>)"

section \<open>Freeware\<close>

definition license_ref :: "int \<Rightarrow> string" where
  "license_ref n = ''LT-2026-'' @ pad_start 4 CHR ''0'' (show_int n)"

definition freeware_license :: "clock \<Rightarrow> int \<Rightarrow> sourcing_item \<Rightarrow> sourcing_request option \<Rightarrow> license" where
  "freeware_license clk n i r = build_license clk (base_license\<lparr>
     l_id := n, l_publisherName := i_publisherName i, l_softwareDescription := i_softwareDescription i,
     l_licenseType := Some Freeware, l_licenseMetric := Some ''per_user'',
     l_quantity := nullish (i_quantity i) (Some []), l_currency := or_else (i_currency i) (Some ''EUR''),
     l_startDate := i_startDate i, l_endDate := i_endDate i, l_sourceSourcingItemId := Some (i_id i),
     l_requestDate := Some (i_createdAt i), l_purchaseDate := None, l_support := i_support i,
     l_contactEmail := or_else (i_contactEmail i)
       (or_else (case r of None \<Rightarrow> None | Some r \<Rightarrow> r_contactEmail r) (Some [])),
     l_supplier := or_else (i_supplier i) (or_else (case r of None \<Rightarrow> None | Some r \<Rightarrow> r_supplier r) (Some [])),
     l_notes := nullish (i_notes i) (case r of None \<Rightarrow> None | Some r \<Rightarrow> r_notes r),
     l_licenseRef := Some (license_ref n), l_createdAt := now clk, l_updatedAt := now clk,
     l_conversionType := Some ''direct_freeware''\<rparr>)"

definition line_message :: "sourcing_item \<Rightarrow> string \<Rightarrow> string" where
  "line_message i msg = ''Sourcing item '' @ show_int (i_id i) @ '' '' @ msg"

definition convert_freeware_item :: "clock \<Rightarrow> sourcing_item \<Rightarrow> (license \<times> int option) demo_op" where
  "convert_freeware_item clk i =
     bindE (assert_sourcing_item_editable i) (\<lambda>_.
     bindE (throw_if (i_licenseType i \<noteq> Some Freeware) (line_message i ''is not Freeware / Open Source'')) (\<lambda>_.
     bindE (throw_if (paid_included_support i) (line_message i
       ''has paid included maintenance and requires the purchase-order workflow'')) (\<lambda>_.
     bindE (throw_if (i_renewalForLicenseId i \<noteq> None) (line_message i
       ''is a renewal and must follow the purchase workflow'')) (\<lambda>_.
     bindE (gets (\<lambda>s. opt_get get_request s (i_sourcingRequestId i))) (\<lambda>r.
     bindE fresh_id (\<lambda>n.
     bindE (modify (push_license (freeware_license clk n i r))) (\<lambda>_.
     bindE (modify (upd_item (i_id i) (\<lambda>i. i\<lparr>i_status := Converted, i_updatedAt := now clk\<rparr>))) (\<lambda>_.
       gets (\<lambda>s. with_computed_completeness s (freeware_license clk n i r))))))))))"

definition close_request_if_settled :: "clock \<Rightarrow> int \<Rightarrow> store \<Rightarrow> store" where
  "close_request_if_settled clk rid s =
     (if \<exists>i \<in> set (request_items s rid). i_status i = Sourcing then s else close_request clk rid s)"

definition convert_freeware_sourcing_items ::
  "clock \<Rightarrow> sourcing_item list \<Rightarrow> (license \<times> int option) list demo_op" where
  "convert_freeware_sourcing_items clk lines =
     bindE (throw_if (lines = []) ''No Freeware / Open Source items are available to convert'') (\<lambda>_.
     bindE (forE (convert_freeware_item clk) lines) (\<lambda>created.
     bindE (modify (fold (close_request_if_settled clk)
       (uniq (List.map_filter i_sourcingRequestId lines)))) (\<lambda>_. ret created)))"

end
