(* ===== verification/Renewal.thy ===== *)
theory Renewal
  imports Orders Quantity
begin

text \<open>
  Renewals (\<^verbatim>\<open>store.js\<close>, and the renewal routes of \<^verbatim>\<open>handlers.js\<close>): when a renewal may start, starting
  one for a license or for a bundle of licenses, cancelling it, merging renewal lines into one
  co-termed line, and marking the predecessor of a new license as renewed.
\<close>

section \<open>When a renewal may start\<close>

definition assert_predecessor_has_no_successor :: "license \<Rightarrow> unit demo_op" where
  "assert_predecessor_has_no_successor l =
     throw_if (l_renewedToId l \<noteq> None) (''License '' @ show_int (l_id l) @ '' has already been renewed'')"

text \<open>\<open>Number(null)\<close> is 0.\<close>

definition get_renewal_action_days :: "store \<Rightarrow> int" where
  "get_renewal_action_days s =
     (case nullish (renewal_action_days (globalSettings s)) (notification_days (globalSettings s)) of
        None \<Rightarrow> 0 | Some n \<Rightarrow> n)"

definition set_and_filled :: "jstr \<Rightarrow> bool" where
  "set_and_filled v \<longleftrightarrow> v \<noteq> None \<and> v \<noteq> Some []"

definition assert_can_initiate_renewal :: "clock \<Rightarrow> int \<Rightarrow> bool \<Rightarrow> license \<Rightarrow> unit demo_op" where
  "assert_can_initiate_renewal clk action_days require_owner l =
     bindE (throw_if (l_isRetired l \<or> l_retirementScheduled l)
       ''Retired licenses are not eligible for renewal'') (\<lambda>_.
     bindE (throw_if (l_lifecycleStatus l = Some PendingRenewal)
       ''Renewal already initiated for this license'') (\<lambda>_.
     bindE (throw_if (l_lifecycleStatus l = Some Renewed) ''License has already been renewed'') (\<lambda>_.
     bindE (throw_if (\<not> is_renewable_license (l_licenseType l) (l_isRenewable l))
       ''Cannot initiate renewal on a one-off service or other license; mark it renewable first'') (\<lambda>_.
     bindE (throw_if (require_owner \<and> \<not> has_text (l_budgetOwnerEmail l))
       ''A budget owner is required before initiating renewal'') (\<lambda>_.
     bindE (assert_predecessor_has_no_successor l) (\<lambda>_.
     bindE (throw_if (\<not> set_and_filled (l_endDate l))
       ''Cannot initiate renewal on a perpetual license (no end date)'') (\<lambda>_.
     bindE (throw_if (set_and_filled (l_startDate l) \<and> count_greater (days_until (today clk) (l_startDate l)) 0)
       ''Upcoming licenses cannot start renewal'') (\<lambda>_.
       throw_if (count_greater (days_until (today clk) (l_endDate l)) action_days)
         (''Renewal actions are available '' @ show_int action_days @ '' days before expiry'')))))))))"

definition mark_predecessor_renewed :: "clock \<Rightarrow> license \<Rightarrow> int \<Rightarrow> unit demo_op" where
  "mark_predecessor_renewed clk l successor =
     bindE (assert_predecessor_has_no_successor l) (\<lambda>_.
       modify (\<lambda>s. decorate_stored clk (l_id l)
         (upd_license (l_id l) (\<lambda>l. l\<lparr>l_lifecycleStatus := Some Renewed, l_renewedToId := Some successor\<rparr>) s)))"

section \<open>Starting a renewal\<close>

definition start_pending :: "clock \<Rightarrow> int \<Rightarrow> store \<Rightarrow> store" where
  "start_pending clk lid s =
     decorate_stored clk lid (upd_license lid (\<lambda>l. l\<lparr>l_lifecycleStatus := Some PendingRenewal\<rparr>) s)"

definition or_null :: "jstr \<Rightarrow> jstr" where
  "or_null v = or_else v None"

definition renewal_line_total :: "license \<Rightarrow> jstr" where
  "renewal_line_total l =
     (if truthy (l_quantity l) \<and> truthy (l_unitPrice l)
      then Some (to_fixed 2 (js_mul (js_Number (str (l_quantity l))) (js_Number (str (l_unitPrice l)))))
      else None)"

definition renewal_line :: "clock \<Rightarrow> int \<Rightarrow> license \<Rightarrow> sourcing_item" where
  "renewal_line clk n l = blank_item\<lparr>
     i_id := n, i_sourcingRequestId := None, i_publisherName := l_publisherName l,
     i_softwareDescription := l_softwareDescription l, i_licenseType := l_licenseType l,
     i_licenseMetric := l_licenseMetric l, i_portalUrl := l_portalUrl l, i_isRenewable := l_isRenewable l,
     i_typeDescription := l_typeDescription l, i_maintenanceParentLicenseId := None,
     i_quantity := or_null (l_quantity l), i_quantityPerUnit := or_else (l_quantityPerUnit l) (Some ''1''),
     i_skuCode := or_null (l_skuCode l), i_estimatedUnitPrice := or_null (l_unitPrice l),
     i_estimatedTotalPrice := renewal_line_total l, i_currency := l_currency l,
     i_startDate := None, i_endDate := None, i_supplier := or_null (l_supplier l),
     i_contactEmail := or_null (l_contactEmail l), i_contractNumber := or_null (l_contractNumber l),
     i_externalRef := None, i_costCentre := or_null (l_costCentre l),
     i_budgetOwnerEmail := or_null (l_budgetOwnerEmail l), i_secondaryContacts := Some (l_secondaryContacts l),
     i_notes := None, i_status := Sourcing, i_pendingOrderId := None,
     i_renewalForLicenseId := Some (l_id l), i_cotermPredecessorIds := None, i_isRenewal := True,
     i_createdAt := now clk, i_updatedAt := now clk\<rparr>"

definition push_ensured_line :: "clock \<Rightarrow> sourcing_item \<Rightarrow> store \<Rightarrow> store" where
  "push_ensured_line clk i s =
     (let (i', s') = ensure_sourcing_request_for_item clk i s in push_item i' s')"

definition find_license :: "int \<Rightarrow> license demo_op" where
  "find_license lid = bindE (gets (\<lambda>s. get_license s lid)) (\<lambda>found. the_or_throw found ''License not found'')"

text \<open>The route \<open>POST /api/licenses/{id}/initiate-renewal\<close>; the result is the id of the new line.\<close>

definition initiate_renewal :: "clock \<Rightarrow> int \<Rightarrow> int demo_op" where
  "initiate_renewal clk lid =
     bindE (find_license lid) (\<lambda>l.
     bindE (gets get_renewal_action_days) (\<lambda>days.
     bindE (assert_can_initiate_renewal clk days True l) (\<lambda>_.
     bindE (modify (start_pending clk lid)) (\<lambda>_.
     bindE fresh_id (\<lambda>n.
     bindE (modify (push_ensured_line clk (renewal_line clk n l))) (\<lambda>_. ret n))))))"

section \<open>Cancelling a renewal\<close>

definition renews_in_sourcing :: "int \<Rightarrow> sourcing_item \<Rightarrow> bool" where
  "renews_in_sourcing lid i \<longleftrightarrow> i_status i = Sourcing \<and> lid \<in> set (sourcing_item_predecessor_ids i)"

definition ensure_requests :: "clock \<Rightarrow> int \<Rightarrow> store \<Rightarrow> store" where
  "ensure_requests clk lid s =
     fold (\<lambda>i. if i_sourcingRequestId i = None then ensure_stored clk (i_id i) else (\<lambda>s. s))
       (filter (renews_in_sourcing lid) (sourcingItems s)) s"

fun procurement_status_text :: "procurement_status \<Rightarrow> string" where
  "procurement_status_text Sourcing = ''sourcing''"
| "procurement_status_text Converted = ''converted''"
| "procurement_status_text Cancelled = ''cancelled''"

definition cancel_open_lines :: "clock \<Rightarrow> int \<Rightarrow> store \<Rightarrow> store" where
  "cancel_open_lines clk rid =
     sourcingItems_update (upd_where (open_line_of rid) (cancel_line clk))"

definition cancel_request :: "clock \<Rightarrow> int \<Rightarrow> store \<Rightarrow> store" where
  "cancel_request clk rid s =
     (let released = uniq (concat (map sourcing_item_predecessor_ids (filter (open_line_of rid) (sourcingItems s))));
          s1 = cancel_open_lines clk rid
                 (upd_request rid (\<lambda>r. r\<lparr>r_status := Cancelled, r_updatedAt := now clk\<rparr>) s)
      in fold (\<lambda>lid. handle_sourcing_item_delete_side_effects clk (Some lid) None []) released s1)"

definition cancel_sourcing_request :: "clock \<Rightarrow> int \<Rightarrow> unit demo_op" where
  "cancel_sourcing_request clk rid =
     bindE (gets (\<lambda>s. get_request s rid)) (\<lambda>found.
     bindE (the_or_throw found ''Sourcing request not found'') (\<lambda>r.
     bindE (throw_if (r_status r \<noteq> Sourcing)
       (''Cannot modify a '' @ procurement_status_text (r_status r) @ '' sourcing request'')) (\<lambda>_.
       modify (cancel_request clk rid))))"

definition end_pending :: "clock \<Rightarrow> int \<Rightarrow> store \<Rightarrow> store" where
  "end_pending clk lid s =
     (case get_license s lid of
        None \<Rightarrow> s
      | Some l \<Rightarrow>
          if l_lifecycleStatus l = Some PendingRenewal
          then decorate_stored clk lid (upd_license lid (\<lambda>l. l\<lparr>l_lifecycleStatus := None\<rparr>) s)
          else s)"

text \<open>The route \<open>POST /api/licenses/{id}/cancel-renewal\<close>; the result is \<open>poWarning\<close>.\<close>

definition cancel_renewal :: "clock \<Rightarrow> int \<Rightarrow> bool demo_op" where
  "cancel_renewal clk lid =
     bindE (find_license lid) (\<lambda>l.
     bindE (throw_if (l_lifecycleStatus l \<noteq> Some PendingRenewal) ''License is not in pending_renewal status'') (\<lambda>_.
     bindE (modify (ensure_requests clk lid)) (\<lambda>_.
     bindE (gets (\<lambda>s. uniq (List.map_filter i_sourcingRequestId
       (filter (renews_in_sourcing lid) (sourcingItems s))))) (\<lambda>requests.
     bindE (forE (cancel_sourcing_request clk) requests) (\<lambda>_.
     bindE (gets (\<lambda>s. \<exists>i \<in> set (sourcingItems s).
       i_status i = Converted \<and> lid \<in> set (sourcing_item_predecessor_ids i))) (\<lambda>warning.
     bindE (modify (end_pending clk lid)) (\<lambda>_. ret warning)))))))"

section \<open>Bundles\<close>

text \<open>The value the objects share: every one has it, and all agree up to case and white space.\<close>

definition common_value :: "jstr list \<Rightarrow> jstr" where
  "common_value vs =
     (let cleaned = map clean_procurement_identity vs
      in if None \<in> set cleaned then None
         else case cleaned of
                [] \<Rightarrow> None
              | c # _ \<Rightarrow> if \<forall>v \<in> set cleaned. normalized v = normalized c then c else None)"

definition bundle_request :: "clock \<Rightarrow> int \<Rightarrow> jstr \<Rightarrow> jstr \<Rightarrow> sourcing_request" where
  "bundle_request clk n supplier contact = \<lparr>r_id = n, r_supplier = supplier, r_contactEmail = contact,
     r_notes = None, r_status = Sourcing, r_createdAt = now clk, r_updatedAt = now clk\<rparr>"

definition bundle_line :: "clock \<Rightarrow> int \<Rightarrow> int \<Rightarrow> jstr \<Rightarrow> jstr \<Rightarrow> license \<Rightarrow> sourcing_item" where
  "bundle_line clk n rid supplier contact l = blank_item\<lparr>
     i_id := n, i_sourcingRequestId := Some rid, i_publisherName := l_publisherName l,
     i_softwareDescription := l_softwareDescription l, i_quantity := or_null (l_quantity l),
     i_estimatedUnitPrice := or_null (l_unitPrice l), i_estimatedTotalPrice := renewal_line_total l,
     i_currency := l_currency l, i_startDate := None, i_endDate := None, i_supplier := supplier,
     i_contactEmail := contact, i_notes := None, i_status := Sourcing, i_pendingOrderId := None,
     i_renewalForLicenseId := Some (l_id l), i_cotermPredecessorIds := None, i_isRenewal := True,
     i_createdAt := now clk, i_updatedAt := now clk\<rparr>"

definition bundle_license :: "int \<Rightarrow> clock \<Rightarrow> int \<Rightarrow> license demo_op" where
  "bundle_license days clk lid =
     bindE (gets (\<lambda>s. get_license s lid)) (\<lambda>found.
     bindE (the_or_throw found (''License(s) not found: '' @ show_int lid)) (\<lambda>l.
     bindE (assert_can_initiate_renewal clk days True l) (\<lambda>_. ret l)))"

definition start_bundle_line :: "clock \<Rightarrow> int \<Rightarrow> jstr \<Rightarrow> jstr \<Rightarrow> license \<Rightarrow> int demo_op" where
  "start_bundle_line clk rid supplier contact l =
     bindE (modify (start_pending clk (l_id l))) (\<lambda>_.
     bindE fresh_id (\<lambda>n.
     bindE (modify (push_item (bundle_line clk n rid supplier contact l))) (\<lambda>_. ret n)))"

definition initiate_renewal_bundle_record :: "clock \<Rightarrow> int list \<Rightarrow> int demo_op" where
  "initiate_renewal_bundle_record clk ids =
     bindE (throw_if (length (uniq ids) < 2) ''At least two license IDs are required for a renewal bundle'') (\<lambda>_.
     bindE (gets get_renewal_action_days) (\<lambda>days.
     bindE (forE (bundle_license days clk) (uniq ids)) (\<lambda>ls.
     bindE (throw_if (length (uniq (map (\<lambda>l. trim (str (l_poNumber l))) ls)) \<noteq> 1
         \<or> (\<exists>l \<in> set ls. trim (str (l_poNumber l)) = []))
       ''Renewal bundle licenses must share the same PO number'') (\<lambda>_.
     bindE (throw_if (length (uniq (map l_endDate ls)) \<noteq> 1)
       ''Renewal bundle licenses must share the same end date'') (\<lambda>_.
     (let supplier = common_value (map l_supplier ls);
          contact = (if truthy supplier then common_value (map l_contactEmail ls) else None)
      in bindE fresh_id (\<lambda>rid.
         bindE (modify (push_request (bundle_request clk rid supplier contact))) (\<lambda>_.
         bindE (forE (start_bundle_line clk rid supplier contact) ls) (\<lambda>_. ret rid)))))))))"

section \<open>Co-termed lines\<close>

definition join_ids :: "int list \<Rightarrow> string" where
  "join_ids ids = join '', '' (map show_int ids)"

definition ascending :: "int list \<Rightarrow> int list" where
  "ascending = js_sort (\<lambda>a b. a - b)"

text \<open>The earliest start first, a license without one before all; equal dates by id.\<close>

definition start_or_first :: "license \<Rightarrow> string" where
  "start_or_first l = str (nullish (l_startDate l) (Some ''0000-01-01''))"

definition compare_predecessors :: "license \<Rightarrow> license \<Rightarrow> int" where
  "compare_predecessors =
     then_by (\<lambda>a b. code_unit_compare (start_or_first a) (start_or_first b)) (\<lambda>a b. l_id a - l_id b)"

definition product_differs :: "(license \<Rightarrow> jstr) \<Rightarrow> (sourcing_item \<Rightarrow> jstr) \<Rightarrow> license list \<Rightarrow> sourcing_item list \<Rightarrow> bool" where
  "product_differs f g ls is \<longleftrightarrow>
     1 < length (uniq (map (\<lambda>l. normalized (f l)) ls @ map (\<lambda>i. normalized (g i)) is))"

definition present_skus :: "license list \<Rightarrow> string list" where
  "present_skus ls = uniq (filter (\<lambda>k. k \<noteq> []) (map (\<lambda>l. normalized (l_skuCode l)) ls))"

definition coterm_total_price :: "jstr \<Rightarrow> string \<Rightarrow> jstr" where
  "coterm_total_price unit_price quantity =
     (if has_text unit_price \<and> js_Number (str unit_price) \<noteq> NaN
      then Some (to_fixed 2 (js_mul (js_Number (str unit_price)) (js_Number quantity)))
      else None)"

definition request_value :: "store \<Rightarrow> (sourcing_request \<Rightarrow> jstr) \<Rightarrow> (sourcing_item \<Rightarrow> jstr) \<Rightarrow> sourcing_item \<Rightarrow> jstr" where
  "request_value s f g i =
     (case opt_get get_request s (i_sourcingRequestId i) of None \<Rightarrow> g i | Some r \<Rightarrow> nullish (f r) (g i))"

definition coterm_line ::
  "clock \<Rightarrow> int \<Rightarrow> sourcing_item \<Rightarrow> license list \<Rightarrow> string \<Rightarrow> jstr \<Rightarrow> jstr \<Rightarrow> sourcing_item" where
  "coterm_line clk n primary preds quantity supplier contact = blank_item\<lparr>
     i_id := n, i_sourcingRequestId := None, i_publisherName := i_publisherName primary,
     i_softwareDescription := i_softwareDescription primary, i_quantity := Some quantity,
     i_estimatedUnitPrice := i_estimatedUnitPrice primary,
     i_estimatedTotalPrice := coterm_total_price (i_estimatedUnitPrice primary) quantity,
     i_currency := i_currency primary, i_startDate := None, i_endDate := None, i_supplier := supplier,
     i_contactEmail := contact, i_notes := None, i_status := Sourcing, i_pendingOrderId := None,
     i_renewalForLicenseId := (case preds of [] \<Rightarrow> None | p # _ \<Rightarrow> Some (l_id p)),
     i_cotermPredecessorIds := Some (map l_id preds), i_isRenewal := True,
     i_createdAt := now clk, i_updatedAt := now clk\<rparr>"

definition line_predecessor :: "store \<Rightarrow> sourcing_item \<Rightarrow> license option" where
  "line_predecessor s i = opt_get get_license s (i_renewalForLicenseId i)"

text \<open>The lines and licenses of the merge, checked in the order of the source.\<close>

definition coterm_lines :: "int list \<Rightarrow> sourcing_item list demo_op" where
  "coterm_lines ids =
     bindE (throw_if (length ids < 2) ''At least two sourcing item IDs are required to merge'') (\<lambda>_.
     bindE (gets (\<lambda>s. List.map_filter (get_item s) ids)) (\<lambda>lines.
     bindE (let missing = filter (\<lambda>n. n \<notin> i_id ` set lines) ids
            in throw_if (missing \<noteq> []) (''Sourcing item(s) not found: '' @ join_ids (ascending missing))) (\<lambda>_.
     bindE (let converted = filter (\<lambda>i. i_status i = Converted) lines
            in throw_if (converted \<noteq> []) (''Sourcing item(s) already converted: '' @ join_ids (map i_id converted))) (\<lambda>_.
     bindE (let others = filter (\<lambda>i. i_renewalForLicenseId i = None) lines
            in throw_if (others \<noteq> []) (''Sourcing item(s) are not renewal items: '' @ join_ids (map i_id others))) (\<lambda>_.
       ret lines)))))"

definition coterm_predecessors :: "sourcing_item list \<Rightarrow> license list demo_op" where
  "coterm_predecessors lines =
     bindE (gets (\<lambda>s. filter (\<lambda>i. line_predecessor s i = None) lines)) (\<lambda>missing.
     bindE (throw_if (missing \<noteq> [])
       (''Predecessor license(s) not found: '' @ join_ids (List.map_filter i_renewalForLicenseId missing))) (\<lambda>_.
     bindE (gets (\<lambda>s. List.map_filter (line_predecessor s) lines)) (\<lambda>ls.
     bindE (let bad = filter (\<lambda>l. l_lifecycleStatus l = Some Renewed \<or> l_lifecycleStatus l = Some Legacy \<or> l_isRetired l) ls
            in throw_if (bad \<noteq> []) (''Predecessor license(s) are no longer eligible for renewal: ''
                 @ join_ids (ascending (map l_id bad)))) (\<lambda>_.
       ret ls))))"

definition assert_same_product :: "license list \<Rightarrow> sourcing_item list \<Rightarrow> unit demo_op" where
  "assert_same_product ls lines =
     bindE (throw_if (product_differs l_publisherName i_publisherName ls lines)
       ''Coterm merge requires the same publisher.'') (\<lambda>_.
     bindE (throw_if (product_differs l_softwareDescription i_softwareDescription ls lines)
       ''Coterm merge requires the same software description.'') (\<lambda>_.
     bindE (throw_if (product_differs l_licenseMetric i_licenseMetric ls lines)
       ''Coterm merge requires the same license metric.'') (\<lambda>_.
       throw_if (1 < length (present_skus ls))
         ''Coterm merge requires matching SKU codes when SKUs are present.'')))"

definition replace_lines :: "clock \<Rightarrow> sourcing_item list \<Rightarrow> sourcing_item \<Rightarrow> store \<Rightarrow> store" where
  "replace_lines clk lines merged s =
     ensure_stored clk (i_id merged) (push_item merged
       (s\<lparr>sourcingItems := filter (\<lambda>i. i_id i \<notin> i_id ` set lines) (sourcingItems s)\<rparr>))"

definition primary_line :: "license list \<Rightarrow> sourcing_item list \<Rightarrow> sourcing_item option" where
  "primary_line preds lines =
     (case preds of [] \<Rightarrow> None
      | p # _ \<Rightarrow> List.find (\<lambda>i. i_renewalForLicenseId i = Some (l_id p)) lines)"

definition merge_coterm_sourcing_items :: "clock \<Rightarrow> int list \<Rightarrow> int demo_op" where
  "merge_coterm_sourcing_items clk ids =
     bindE (coterm_lines ids) (\<lambda>lines.
     bindE (coterm_predecessors lines) (\<lambda>ls.
     bindE (assert_same_product ls lines) (\<lambda>_.
     (let preds = js_sort compare_predecessors ls
      in bindE (the_or_throw (primary_line preds lines) ''TypeError'') (\<lambda>primary.
         bindE (the_or_throw (sum_canonical_quantities (map i_quantity lines))
           ''Coterm merge requires valid positive quantities.'') (\<lambda>quantity.
         bindE (gets (\<lambda>s. common_value (map (request_value s r_supplier i_supplier) lines))) (\<lambda>supplier.
         bindE (gets (\<lambda>s. if truthy supplier
             then common_value (map (request_value s r_contactEmail i_contactEmail) lines) else None)) (\<lambda>contact.
         bindE fresh_id (\<lambda>n.
         bindE (modify (replace_lines clk lines (coterm_line clk n primary preds quantity supplier contact))) (\<lambda>_.
           ret n))))))))))"

end
