(* ===== verification/Planned.thy ===== *)
theory Planned
  imports Renewal TermRelationship
begin

text \<open>
  Planned next terms (\<^verbatim>\<open>store.js\<close>, "Planned multi-term succession"): the check that links between the
  lines of one procurement event never form a loop, setting links, and replacing the predecessors of
  a line. \<open>Map\<close>s from line ids are functions with an optional value.
\<close>

section \<open>The rule\<close>

definition never_renewed_types :: "license_type list" where
  "never_renewed_types = [Freeware, Perpetual]"

definition can_take_part_in_planned_chain :: "license_type option \<Rightarrow> bool option \<Rightarrow> bool" where
  "can_take_part_in_planned_chain t renewable \<longleftrightarrow>
     is_renewable_license t renewable \<and> \<not> in_types t never_renewed_types"

text \<open>
  One walk of \<open>assertPlannedLinksAcyclic\<close>: \<open>nextById.get(current) ?? null\<close> until the chain ends or an
  id comes back. Ids that are no key of the map have no next id.
\<close>

function walk_repeats :: "(int \<Rightarrow> int option) \<Rightarrow> int list \<Rightarrow> int list \<Rightarrow> int \<Rightarrow> bool" where
  "walk_repeats nx keys seen current =
     (if current \<in> set seen then True
      else if current \<notin> set keys then False
      else case nx current of
          None \<Rightarrow> False
        | Some n \<Rightarrow> walk_repeats nx keys (current # seen) n)"
  by pat_completeness auto
termination
proof (relation "measure (\<lambda>(nx, keys, seen, current). card (set keys - set seen))", goal_cases)
  case (2 nx keys seen current n)
  then have "set keys - set (current # seen) \<subset> set keys - set seen"
    by auto
  then show ?case
    by (simp add: psubset_card_mono)
qed simp

declare walk_repeats.simps [simp del]

text \<open>\<open>nextById\<close>: a later line with the same id wins, and the pending changes come before the lines.\<close>

definition next_by_id :: "sourcing_item list \<Rightarrow> (int \<Rightarrow> int option option) \<Rightarrow> int \<Rightarrow> int option" where
  "next_by_id lines changes n =
     (case changes n of
        Some target \<Rightarrow> target
      | None \<Rightarrow> (case by_id lines n of None \<Rightarrow> None | Some i \<Rightarrow> i_successorSourcingItemId i))"

definition assert_planned_links_acyclic :: "sourcing_item list \<Rightarrow> (int \<Rightarrow> int option option) \<Rightarrow> unit demo_op" where
  "assert_planned_links_acyclic lines changes =
     throw_if (\<exists>i \<in> set lines. walk_repeats (next_by_id lines changes) (map i_id lines) [] (i_id i))
       ''Successor links cannot form a cycle''"

text \<open>\<open>plannedEventKey\<close>: the order of a line, or else its request.\<close>

datatype event_key = OrderEvent int | RequestEvent "int option"

definition planned_event_key :: "sourcing_item \<Rightarrow> event_key" where
  "planned_event_key i =
     (case i_pendingOrderId i of Some oid \<Rightarrow> OrderEvent oid | None \<Rightarrow> RequestEvent (i_sourcingRequestId i))"

section \<open>Setting links\<close>

definition selected_lines :: "int list \<Rightarrow> sourcing_item list demo_op" where
  "selected_lines ids =
     forE (\<lambda>n. bindE (gets (\<lambda>s. get_item s n)) (\<lambda>found.
       the_or_throw found ''A selected sourcing line was not found'')) ids"

text \<open>The lines of the procurement event of the selection.\<close>

definition event_lines :: "sourcing_item list \<Rightarrow> sourcing_item list demo_op" where
  "event_lines selected =
     bindE (throw_if (length (uniq (map planned_event_key selected)) \<noteq> 1
         \<or> (\<exists>i \<in> set selected. i_sourcingRequestId i = None \<and> i_pendingOrderId i = None))
       ''Linked lines must belong to one procurement event'') (\<lambda>_.
     (let first = hd selected
      in case i_pendingOrderId first of
           None \<Rightarrow>
             bindE (throw_if (\<exists>i \<in> set selected. i_status i \<noteq> Sourcing) ''Linked sourcing lines must still be open'') (\<lambda>_.
               gets (\<lambda>s. filter (\<lambda>i. i_sourcingRequestId i = i_sourcingRequestId first) (sourcingItems s)))
         | Some oid \<Rightarrow>
             bindE (gets (\<lambda>s. get_order s oid)) (\<lambda>x.
             bindE (throw_if (case x of None \<Rightarrow> True | Some x \<Rightarrow> \<not> is_pending_order_open x)
               ''The pending order is no longer editable'') (\<lambda>_.
               gets (\<lambda>s. order_items s oid)))))"

definition item_in_chain :: "sourcing_item \<Rightarrow> bool" where
  "item_in_chain i \<longleftrightarrow> can_take_part_in_planned_chain (i_licenseType i) (i_isRenewable i)"

definition assert_link_terms :: "sourcing_item \<Rightarrow> sourcing_item list \<Rightarrow> unit demo_op" where
  "assert_link_terms successor predecessors =
     bindE (throw_if (normalized (i_publisherName successor) = []) ''Successor publisher is required'') (\<lambda>_.
     bindE (throw_if (\<not> item_in_chain successor) ''This successor type cannot be renewed'') (\<lambda>_.
     bindE (forE (\<lambda>p.
       bindE (throw_if (normalized (i_publisherName p) \<noteq> normalized (i_publisherName successor))
         ''Linked terms must have the same publisher'') (\<lambda>_.
       bindE (throw_if (\<not> item_in_chain p) ''This predecessor type cannot be renewed'') (\<lambda>_.
         throw_if ((i_licenseType p = Some Maintenance) \<noteq> (i_licenseType successor = Some Maintenance))
           ''Maintenance terms can only follow maintenance terms''))) predecessors) (\<lambda>_. ret ())))"

definition starts_too_late :: "sourcing_item \<Rightarrow> sourcing_item \<Rightarrow> bool" where
  "starts_too_late successor p \<longleftrightarrow> truthy (i_startDate successor) \<and> truthy (i_startDate p)
     \<and> \<not> str (i_startDate p) < str (i_startDate successor)"

definition link_changes :: "int list \<Rightarrow> int option \<Rightarrow> int \<Rightarrow> int option option" where
  "link_changes predecessors target n = (if n \<in> set predecessors then Some target else None)"

definition set_successor :: "clock \<Rightarrow> int option \<Rightarrow> sourcing_item \<Rightarrow> sourcing_item" where
  "set_successor clk target i = i\<lparr>i_successorSourcingItemId := target, i_updatedAt := now clk\<rparr>"

definition set_links :: "clock \<Rightarrow> int list \<Rightarrow> int option \<Rightarrow> store \<Rightarrow> store" where
  "set_links clk predecessors target = fold (\<lambda>n. upd_item n (set_successor clk target)) predecessors"

text \<open>\<open>targetIds\<close> is the set of the predecessors and the successor, in that order.\<close>

definition target_ids :: "int list \<Rightarrow> int option \<Rightarrow> int list" where
  "target_ids predecessors target = uniq (predecessors @ (case target of None \<Rightarrow> [] | Some n \<Rightarrow> [n]))"

definition has_other_successor :: "int option \<Rightarrow> sourcing_item \<Rightarrow> bool" where
  "has_other_successor target i \<longleftrightarrow> i_successorSourcingItemId i \<noteq> None \<and> i_successorSourcingItemId i \<noteq> target"

definition set_planned_successors :: "clock \<Rightarrow> int list \<Rightarrow> int option \<Rightarrow> unit demo_op" where
  "set_planned_successors clk ids target =
     bindE (throw_if (ids = [] \<or> \<not> distinct ids) ''Choose one or more distinct predecessor lines'') (\<lambda>_.
     bindE (selected_lines (target_ids ids target)) (\<lambda>selected.
     bindE (throw_if (case target of None \<Rightarrow> False | Some n \<Rightarrow> n \<in> set ids) ''A line cannot succeed itself'') (\<lambda>_.
     (let predecessors = filter (\<lambda>i. i_id i \<in> set ids) selected;
          successor = (case target of None \<Rightarrow> None | Some n \<Rightarrow> find_id i_id n selected)
      in
      bindE (throw_if (successor \<noteq> None \<and> (\<exists>p \<in> set predecessors. has_other_successor target p))
        ''A predecessor already has a planned next term'') (\<lambda>_.
      bindE (throw_if (case successor of None \<Rightarrow> False
          | Some i \<Rightarrow> i_renewalForLicenseId i \<noteq> None \<or> coterm_nonempty i)
        ''The successor line already follows existing licenses'') (\<lambda>_.
      bindE (event_lines selected) (\<lambda>lines.
      bindE (case successor of None \<Rightarrow> ret () | Some i \<Rightarrow> assert_link_terms i predecessors) (\<lambda>_.
      bindE (assert_planned_links_acyclic lines (link_changes ids target)) (\<lambda>_.
      bindE (throw_if (case successor of None \<Rightarrow> False | Some i \<Rightarrow> \<exists>p \<in> set predecessors. starts_too_late i p)
        ''A predecessor must start before its next term'') (\<lambda>_.
        modify (set_links clk ids target)))))))))))"

section \<open>Replacing the predecessors of a line\<close>

definition current_predecessors :: "store \<Rightarrow> int \<Rightarrow> int list" where
  "current_predecessors s n = map i_id (filter (\<lambda>i. i_successorSourcingItemId i = Some n) (sourcingItems s))"

definition replace_planned_predecessors :: "clock \<Rightarrow> int list \<Rightarrow> int \<Rightarrow> unit demo_op" where
  "replace_planned_predecessors clk ids n =
     bindE (gets (\<lambda>s. get_item s n)) (\<lambda>found.
     bindE (the_or_throw found ''Successor line was not found'') (\<lambda>_.
     bindE (throw_if (\<not> distinct ids) ''Choose distinct predecessor lines'') (\<lambda>_.
     bindE (gets (\<lambda>s. ascending (filter (\<lambda>i. i \<notin> set ids) (current_predecessors s n)))) (\<lambda>removed.
     bindE (if removed \<noteq> [] then set_planned_successors clk removed None else ret ()) (\<lambda>_.
       if ids \<noteq> [] then set_planned_successors clk ids (Some n) else ret ())))))"

section \<open>The walk decides cycles\<close>

definition next_rel :: "(int \<Rightarrow> int option) \<Rightarrow> int set \<Rightarrow> (int \<times> int) set" where
  "next_rel nx K = {(a, b). a \<in> K \<and> nx a = Some b}"

lemma walk_step:
  "current \<in> set keys \<Longrightarrow> current \<notin> set seen \<Longrightarrow> nx current = Some n \<Longrightarrow>
     walk_repeats nx keys seen current = walk_repeats nx keys (current # seen) n"
  by (subst walk_repeats.simps) simp

lemma walk_seen: "current \<in> set seen \<Longrightarrow> walk_repeats nx keys seen current"
  by (subst walk_repeats.simps) simp

text \<open>A walk that enters a cycle repeats an id.\<close>

lemma cycle_repeats:
  assumes "(n, n) \<in> (next_rel nx (set keys))\<^sup>+"
  shows "walk_repeats nx keys seen n"
proof -
  have inv: "walk_repeats nx keys seen m" if "(m, m) \<in> (next_rel nx (set keys))\<^sup>+" for m seen
    using that
  proof (induction "card (set keys - set seen)" arbitrary: m seen rule: less_induct)
    case less
    show ?case
    proof (cases "m \<in> set seen")
      case False
      from less.prems obtain k where k: "(m, k) \<in> next_rel nx (set keys)" "(k, m) \<in> (next_rel nx (set keys))\<^sup>*"
        by (auto dest: tranclD)
      then have m: "m \<in> set keys" "nx m = Some k"
        by (auto simp: next_rel_def)
      have "(k, k) \<in> (next_rel nx (set keys))\<^sup>+"
        using k(2,1) by (rule rtrancl_into_trancl1)
      moreover have "card (set keys - set (m # seen)) < card (set keys - set seen)"
        using m(1) False by (intro psubset_card_mono) auto
      ultimately have "walk_repeats nx keys (m # seen) k"
        by (intro less.hyps)
      then show ?thesis
        using walk_step [of m keys seen nx k] m False by simp
    qed (rule walk_seen)
  qed
  show ?thesis
    by (rule inv) fact
qed

text \<open>A walk that repeats an id has gone round a cycle.\<close>

lemma repeats_cycle:
  "walk_repeats nx keys seen n \<Longrightarrow> \<forall>m \<in> set seen. (m, n) \<in> (next_rel nx (set keys))\<^sup>+ \<Longrightarrow>
     \<not> acyclic (next_rel nx (set keys))"
proof (induction nx keys seen n rule: walk_repeats.induct)
  case (1 nx keys seen n)
  show ?case
  proof (cases "n \<in> set seen")
    case True
    then show ?thesis
      using "1.prems"(2) by (auto simp: acyclic_def)
  next
    case False
    with "1.prems"(1) obtain k where k: "n \<in> set keys" "nx n = Some k" "walk_repeats nx keys (n # seen) k"
      by (subst (asm) walk_repeats.simps) (auto split: if_splits option.splits)
    then have "(n, k) \<in> next_rel nx (set keys)"
      by (simp add: next_rel_def)
    then have "\<forall>m \<in> set (n # seen). (m, k) \<in> (next_rel nx (set keys))\<^sup>+"
      using "1.prems"(2) by (auto intro: trancl_into_trancl)
    with k False show ?thesis
      by (intro "1.IH" [of k]) simp_all
  qed
qed

lemma walks_acyclic:
  "(\<forall>n \<in> set keys. \<not> walk_repeats nx keys [] n) \<longleftrightarrow> acyclic (next_rel nx (set keys))"
proof
  assume no: "\<forall>n \<in> set keys. \<not> walk_repeats nx keys [] n"
  show "acyclic (next_rel nx (set keys))"
    unfolding acyclic_def
  proof (intro allI notI)
    fix n assume c: "(n, n) \<in> (next_rel nx (set keys))\<^sup>+"
    then have "n \<in> set keys"
      by (auto dest!: tranclD simp: next_rel_def)
    with no cycle_repeats [OF c] show False by blast
  qed
next
  assume "acyclic (next_rel nx (set keys))"
  then show "\<forall>n \<in> set keys. \<not> walk_repeats nx keys [] n"
    using repeats_cycle [of nx keys "[]"] by fastforce
qed

end
