(* ===== verification/Maintenance.thy ===== *)
theory Maintenance
  imports Renewal
begin

text \<open>
  The maintenance life cycle (\<^verbatim>\<open>store.js\<close>, "Support lifecycle"): linking a maintenance record to the
  licenses it supports, making it their active support, the daily hand-over and retirement jobs,
  editing and leaving included support, starting a support renewal; and the retirement update that
  license writes go through.

  A maintenance record and its parent are two stored licenses, addressed by id. In the code they are
  two references into \<open>store.licenses\<close>; the theory \<^verbatim>\<open>LicenseBatch\<close> has the route that links licenses
  before it stores them.
\<close>

section \<open>Linking\<close>

definition maintenance_parent_ids_of :: "license \<Rightarrow> int list" where
  "maintenance_parent_ids_of l =
     uniq (List.map_filter id (l_parentLicenseId l # map Some (l_maintenanceParentIds l)))"

definition link_child :: "int \<Rightarrow> license \<Rightarrow> license" where
  "link_child parent l = l\<lparr>
     l_maintenanceParentIds :=
       (if parent \<in> set (l_maintenanceParentIds l) then l_maintenanceParentIds l
        else l_maintenanceParentIds l @ [parent]),
     l_parentLicenseId := nullish (l_parentLicenseId l) (Some parent)\<rparr>"

definition link_parent :: "int \<Rightarrow> license \<Rightarrow> license" where
  "link_parent maintenance l = l\<lparr>
     l_linkedMaintenanceIds :=
       (if maintenance \<in> set (l_linkedMaintenanceIds l) then l_linkedMaintenanceIds l
        else l_linkedMaintenanceIds l @ [maintenance])\<rparr>"

definition link_maintenance_to_parent :: "int \<Rightarrow> int \<Rightarrow> store \<Rightarrow> store" where
  "link_maintenance_to_parent m p s = upd_license p (link_parent m) (upd_license m (link_child p) s)"

text \<open>The parent mirrors the term and the line total of its active record.\<close>

definition mirrored_cost :: "license \<Rightarrow> jstr" where
  "mirrored_cost m =
     (if has_text (l_quantity m) \<and> has_text (l_unitPrice m) then Some (to_fixed 2 (line_total m)) else None)"

definition mirror_support :: "license \<Rightarrow> license \<Rightarrow> license" where
  "mirror_support m l = l\<lparr>
     l_activeMaintenanceId := Some (l_id m), l_hasMaintenance := True,
     l_support := \<lparr>maintenanceCoverage = Some SeparatelyTracked, maintenanceStartDate = l_startDate m,
       maintenanceEndDate = l_endDate m, maintenancePricingBasis = None, maintenanceQuantity = None,
       maintenanceUnitPrice = None, maintenanceCost = mirrored_cost m\<rparr>\<rparr>"

definition activate_maintenance_for_parent :: "clock \<Rightarrow> int \<Rightarrow> int \<Rightarrow> store \<Rightarrow> store" where
  "activate_maintenance_for_parent clk m p s =
     (let s1 = link_maintenance_to_parent m p s
      in case get_license s1 m of
           None \<Rightarrow> s1
         | Some record \<Rightarrow>
             decorate_stored clk p (decorate_stored clk m (upd_license p (mirror_support record) s1)))"

definition starts_after_today :: "clock \<Rightarrow> license \<Rightarrow> bool" where
  "starts_after_today clk l \<longleftrightarrow>
     truthy (l_startDate l) \<and> count_greater (days_until (today clk) (l_startDate l)) 0"

definition should_become_active_now :: "clock \<Rightarrow> store \<Rightarrow> license \<Rightarrow> license \<Rightarrow> bool" where
  "should_become_active_now clk s m p =
     (if l_activeMaintenanceId p = None \<or> l_activeMaintenanceId p = Some (l_id m) then True
      else if \<not> starts_after_today clk m then True
      else case opt_get get_license s (l_activeMaintenanceId p) of
          None \<Rightarrow> True
        | Some active \<Rightarrow>
            if l_isRetired active then True
            else if truthy (l_endDate active) \<and> count_less (days_until (today clk) (l_endDate active)) 0 then True
            else starts_after_today clk active
                 \<and> code_unit_compare (str (l_startDate m)) (str (l_startDate active)) < 0)"

text \<open>Both records exist where the code calls this; the result says whether the record is active now.\<close>

definition link_or_activate_maintenance :: "clock \<Rightarrow> int \<Rightarrow> int \<Rightarrow> store \<Rightarrow> bool \<times> store" where
  "link_or_activate_maintenance clk m p s =
     (case (get_license s m, get_license s p) of
        (Some record, Some parent) \<Rightarrow>
          if should_become_active_now clk s record parent
          then (True, activate_maintenance_for_parent clk m p s)
          else (False, decorate_stored clk p (decorate_stored clk m (link_maintenance_to_parent m p s)))
      | _ \<Rightarrow> (False, s))"

section \<open>Daily jobs\<close>

definition covers_today :: "clock \<Rightarrow> license \<Rightarrow> bool" where
  "covers_today clk l \<longleftrightarrow>
     \<not> l_isRetired l
     \<and> (\<not> truthy (l_startDate l) \<or> count_le (days_until (today clk) (l_startDate l)) 0)
     \<and> (\<not> truthy (l_endDate l) \<or> count_ge (days_until (today clk) (l_endDate l)) 0)"

definition handover_key :: "license \<Rightarrow> string" where
  "handover_key l =
     str (nullish (l_startDate l) (Some ''0000-00-00'')) @ ''|'' @ pad_start 12 CHR ''0'' (show_int (l_id l))"

text \<open>\<open>bestByParent\<close> as an association list in the order of insertion.\<close>

primrec better_candidate :: "license \<Rightarrow> int \<Rightarrow> (int \<times> license) list \<Rightarrow> (int \<times> license) list" where
  "better_candidate c p [] = [(p, c)]"
| "better_candidate c p (e # es) =
     (if fst e = p
      then (if 0 < code_unit_compare (handover_key c) (handover_key (snd e)) then (p, c) # es else e # es)
      else e # better_candidate c p es)"

definition best_by_parent :: "clock \<Rightarrow> store \<Rightarrow> (int \<times> license) list" where
  "best_by_parent clk s =
     fold (\<lambda>c. fold (better_candidate c) (maintenance_parent_ids_of c))
       (filter (\<lambda>l. l_licenseType l = Some Maintenance \<and> covers_today clk l) (licenses s)) []"

definition needs_hand_over :: "clock \<Rightarrow> store \<Rightarrow> int \<Rightarrow> license \<Rightarrow> bool" where
  "needs_hand_over clk s p c \<longleftrightarrow>
     (case get_license s p of
        None \<Rightarrow> False
      | Some parent \<Rightarrow>
          \<not> l_isRetired parent \<and> l_activeMaintenanceId parent \<noteq> Some (l_id c)
          \<and> (case opt_get get_license s (l_activeMaintenanceId parent) of
               None \<Rightarrow> True | Some active \<Rightarrow> \<not> covers_today clk active))"

definition hand_over :: "clock \<Rightarrow> int \<times> license \<Rightarrow> int \<times> store \<Rightarrow> int \<times> store" where
  "hand_over clk e acc =
     (if needs_hand_over clk (snd acc) (fst e) (snd e)
      then (fst acc + 1, activate_maintenance_for_parent clk (l_id (snd e)) (fst e) (snd acc))
      else acc)"

definition hand_over_due_maintenance :: "clock \<Rightarrow> store \<Rightarrow> int \<times> store" where
  "hand_over_due_maintenance clk s = fold (hand_over clk) (best_by_parent clk s) (0, s)"

definition retirement_due :: "clock \<Rightarrow> license \<Rightarrow> bool" where
  "retirement_due clk l \<longleftrightarrow>
     \<not> (l_isRetired l \<or> \<not> truthy (l_endDate l) \<or> count_ge (days_until (today clk) (l_endDate l)) 0)
     \<and> (l_retirementScheduled l
        \<or> is_renewal_opt_in_license_type (l_licenseType l) \<and> l_isRenewable l \<noteq> Some True
          \<and> \<not> l_retirementScheduled l \<and> l_lifecycleStatus l \<noteq> Some Legacy)"

definition retire_license :: "clock \<Rightarrow> int \<Rightarrow> store \<Rightarrow> store" where
  "retire_license clk lid s =
     decorate_stored clk lid (upd_license lid (\<lambda>l. l\<lparr>l_isRetired := True, l_retirementScheduled := False\<rparr>) s)"

definition retire_if_due :: "clock \<Rightarrow> int \<Rightarrow> int \<times> store \<Rightarrow> int \<times> store" where
  "retire_if_due clk lid acc =
     (case get_license (snd acc) lid of
        None \<Rightarrow> acc
      | Some l \<Rightarrow> if retirement_due clk l then (fst acc + 1, retire_license clk lid (snd acc)) else acc)"

definition retire_due_licenses :: "clock \<Rightarrow> store \<Rightarrow> int \<times> store" where
  "retire_due_licenses clk s = fold (retire_if_due clk) (map l_id (licenses s)) (0, s)"

definition run_daily_license_jobs :: "clock \<Rightarrow> store \<Rightarrow> (int \<times> int) \<times> store" where
  "run_daily_license_jobs clk s =
     (let (retired, s1) = retire_due_licenses clk s; (handed, s2) = hand_over_due_maintenance clk s1
      in ((retired, handed), s2))"

section \<open>Included support\<close>

definition record_included_support_exit :: "coverage option \<Rightarrow> license \<Rightarrow> license" where
  "record_included_support_exit previous l =
     (if previous \<noteq> Some Included \<or> maintenanceCoverage (l_support l) = Some Included then l
      else if l_activeMaintenanceId l \<noteq> None then l
      else l\<lparr>l_hasMaintenance := False,
             l_support := (l_support l)\<lparr>maintenanceStartDate := None, maintenanceEndDate := None,
               maintenancePricingBasis := None, maintenanceQuantity := None,
               maintenanceUnitPrice := None, maintenanceCost := None\<rparr>\<rparr>)"

text \<open>\<^verbatim>\<open>/^\d+(\.\d+)?$/\<close>\<close>

definition canonical_money :: "string \<Rightarrow> bool" where
  "canonical_money v =
     (case split_on CHR ''.'' v of
        [a] \<Rightarrow> a \<noteq> [] \<and> list_all is_digit a
      | [a, b] \<Rightarrow> a \<noteq> [] \<and> list_all is_digit a \<and> b \<noteq> [] \<and> list_all is_digit b
      | _ \<Rightarrow> False)"

definition blank_to_null :: "jstr \<Rightarrow> jstr" where
  "blank_to_null v = (if v = Some [] then None else v)"

record support_payload =
  sp_startDate :: jstr
  sp_endDate :: jstr
  sp_pricingBasis :: "pricing_basis option"
  sp_quantity :: jstr
  sp_unitPrice :: jstr
  sp_cost :: jstr

definition money_fields :: "support_payload \<Rightarrow> jstr list" where
  "money_fields d = map blank_to_null [sp_quantity d, sp_unitPrice d, sp_cost d]"

definition included_support :: "support_payload \<Rightarrow> license \<Rightarrow> license" where
  "included_support d l =
     (let basis = (case sp_pricingBasis d of None \<Rightarrow> Flat | Some b \<Rightarrow> b)
      in l\<lparr>l_support := (l_support l)\<lparr>
           maintenanceStartDate := blank_to_null (sp_startDate d),
           maintenanceEndDate := blank_to_null (sp_endDate d),
           maintenancePricingBasis := Some basis,
           maintenanceQuantity := (if basis = PerUnit then blank_to_null (sp_quantity d) else None),
           maintenanceUnitPrice := (if basis = PerUnit then blank_to_null (sp_unitPrice d) else None),
           maintenanceCost := blank_to_null (sp_cost d)\<rparr>\<rparr>)"

definition apply_included_support_update :: "clock \<Rightarrow> license \<Rightarrow> support_payload \<Rightarrow> unit demo_op" where
  "apply_included_support_update clk l d =
     bindE (throw_if (\<exists>v \<in> set (money_fields d). case v of None \<Rightarrow> False | Some x \<Rightarrow> \<not> canonical_money x)
       ''Amounts must be plain decimal strings (e.g. '1234.50').'') (\<lambda>_.
     bindE (throw_if (truthy (sp_startDate d) \<and> truthy (sp_endDate d)
         \<and> code_unit_compare (str (sp_endDate d)) (str (sp_startDate d)) < 0)
       ''Maintenance end date cannot be before its start date.'') (\<lambda>_.
     bindE (throw_if (\<not> in_types (l_licenseType l) included_support_parent_types)
       ''Included maintenance can only be edited on perpetual, OEM or freeware licenses'') (\<lambda>_.
     bindE (throw_if (maintenanceCoverage (l_support l) \<noteq> Some Included)
       ''Set coverage to Included before editing the maintenance period'') (\<lambda>_.
     bindE (throw_if (l_activeMaintenanceId l \<noteq> None)
       ''Maintenance is tracked on a linked maintenance record; edit that record instead'') (\<lambda>_.
       modify (\<lambda>s. decorate_stored clk (l_id l) (upd_license (l_id l) (included_support d) s)))))))"

section \<open>Starting a support renewal\<close>

definition previous_cost :: "license \<Rightarrow> jstr" where
  "previous_cost l =
     (if js_less (Fin 0) (parse_decimal (maintenanceCost (l_support l))) then maintenanceCost (l_support l) else None)"

definition support_renewal_payload :: "license \<Rightarrow> sourcing_item" where
  "support_renewal_payload l =
     (let start_date = add_days_iso (str (maintenanceEndDate (l_support l))) 1
      in blank_item\<lparr>
           i_publisherName := l_publisherName l,
           i_softwareDescription := Some (property_name (l_softwareDescription l) @ '' Maintenance''),
           i_licenseType := Some Maintenance,
           i_licenseMetric := or_else (l_licenseMetric l) (Some ''per_user''),
           i_support := no_support\<lparr>maintenanceCoverage := Some NotApplicable\<rparr>,
           i_quantity := or_null (l_quantity l), i_quantityPerUnit := or_else (l_quantityPerUnit l) (Some ''1''),
           i_estimatedUnitPrice := None, i_estimatedTotalPrice := previous_cost l, i_currency := l_currency l,
           i_supplier := or_null (l_supplier l), i_contactEmail := or_null (l_contactEmail l),
           i_costCentre := or_null (l_costCentre l), i_budgetOwnerEmail := or_null (l_budgetOwnerEmail l),
           i_secondaryContacts := Some (l_secondaryContacts l), i_startDate := Some start_date,
           i_endDate := Some (term_end start_date 1),
           i_notes := Some (''Maintenance renewal for ''
             @ property_name (or_else (l_licenseRef l) (l_softwareDescription l)) @ ''.''),
           i_maintenanceParentLicenseId := Some (l_id l)\<rparr>)"

definition start_support_renewal :: "clock \<Rightarrow> license \<Rightarrow> int demo_op" where
  "start_support_renewal clk l =
     bindE (throw_if (\<not> in_types (l_licenseType l) included_support_parent_types)
       ''Maintenance renewal applies to perpetual, OEM and freeware licenses'') (\<lambda>_.
     bindE (throw_if (maintenanceCoverage (l_support l) \<noteq> Some Included \<or> \<not> truthy (maintenanceEndDate (l_support l)))
       ''This license has no included maintenance period with an end date'') (\<lambda>_.
     bindE (throw_if (l_isRetired l \<or> l_lifecycleStatus l = Some Legacy)
       ''Retired, retirement-scheduled or legacy licenses cannot start a maintenance renewal'') (\<lambda>_.
     bindE (gets (\<lambda>s. open_support_renewal_items s (l_id l))) (\<lambda>open_items.
     bindE (throw_if (open_items \<noteq> []) ''A maintenance renewal is already in progress for this license'') (\<lambda>_.
     bindE (\<lambda>s. (let (i, s') = build_sourcing_item clk (support_renewal_payload l) no_overrides s in (Inr i, s'))) (\<lambda>i.
     bindE (modify (push_item i)) (\<lambda>_.
     bindE (modify (ensure_stored clk (i_id i))) (\<lambda>_. ret (i_id i)))))))))"

section \<open>Retirement requests\<close>

text \<open>The three keys of the update that this function looks at; \<open>None\<close> is a key the update does not have.\<close>

record retirement_update =
  ru_isRetired :: "bool option"
  ru_retirementScheduled :: "bool option"
  ru_endDate :: "jstr option"

definition update_end_days :: "clock \<Rightarrow> license option \<Rightarrow> retirement_update \<Rightarrow> day_count" where
  "update_end_days clk l u =
     (let end_date = (case ru_endDate u of
            Some d \<Rightarrow> d | None \<Rightarrow> (case l of None \<Rightarrow> None | Some l \<Rightarrow> l_endDate l))
      in if \<not> set_and_filled end_date then NullDays else days_until (today clk) end_date)"

text \<open>\<open>days != null && days >= 0\<close>\<close>

definition not_ended :: "day_count \<Rightarrow> bool" where
  "not_ended d \<longleftrightarrow> (case d of Days n \<Rightarrow> 0 \<le> n | _ \<Rightarrow> False)"

text \<open>\<open>days == null || days < 0\<close>\<close>

definition ended_or_open :: "day_count \<Rightarrow> bool" where
  "ended_or_open d \<longleftrightarrow> (case d of Days n \<Rightarrow> n < 0 | NullDays \<Rightarrow> True | NanDays \<Rightarrow> False)"

definition normalize_retirement_update :: "clock \<Rightarrow> license option \<Rightarrow> retirement_update \<Rightarrow> retirement_update" where
  "normalize_retirement_update clk l u =
     (let days = update_end_days clk l u
      in case ru_isRetired u of
           Some retired \<Rightarrow>
             if retired \<and> not_ended days
             then u\<lparr>ru_isRetired := Some False, ru_retirementScheduled := Some True\<rparr>
             else u\<lparr>ru_isRetired := Some retired, ru_retirementScheduled := Some False\<rparr>
         | None \<Rightarrow>
             if (case l of None \<Rightarrow> False | Some l \<Rightarrow> l_retirementScheduled l) \<and> ru_endDate u \<noteq> None
             then u\<lparr>ru_isRetired := Some (ended_or_open days),
                    ru_retirementScheduled := Some (\<not> ended_or_open days)\<rparr>
             else u)"

end
