(* ===== verification/Conversion.thy ===== *)
theory Conversion
  imports Planned Maintenance
begin

text \<open>
  From a pending order to licenses (\<^verbatim>\<open>store.js\<close>): the data of a license made from an order line, purchases
  and renewal successors, the planned links between the new licenses, the conversion of a whole order
  and of selected lines.

  The data of a conversion is a partial object. It is modelled by the license that starts from
  \<open>base_license\<close>, because every key that is missing takes that default when \<open>buildLicense\<close> merges the
  object, and the code reads a missing key and its default alike (both are falsy or the same text). The
  keys the caller sent, which some rules look at, are a list of their own.

  The order of \<open>localeCompare\<close> is the argument \<open>collate\<close>.
\<close>

section \<open>The data of a new license\<close>

record convert_payload =
  cp_keys :: "string list"
  cp_data :: license

definition normalize_convert_payload :: "license \<Rightarrow> license" where
  "normalize_convert_payload l = l\<lparr>
     l_licenseType := (case l_licenseType l of None \<Rightarrow> Some Subscription | Some t \<Rightarrow> Some t),
     l_licenseMetric := or_else (l_licenseMetric l) (Some ''per_user''),
     l_currency := or_else (l_currency l) (Some ''EUR''),
     l_startDate := or_null (l_startDate l), l_endDate := or_null (l_endDate l)\<rparr>"

definition apply_included_support_term_fallback :: "string list \<Rightarrow> license \<Rightarrow> license" where
  "apply_included_support_term_fallback submitted l =
     (if maintenanceCoverage (l_support l) \<noteq> Some Included then l
      else l\<lparr>l_support := (l_support l)\<lparr>
        maintenanceStartDate :=
          (if ''maintenanceStartDate'' \<notin> set submitted \<and> ''startDate'' \<in> set submitted
           then l_startDate l else maintenanceStartDate (l_support l)),
        maintenanceEndDate :=
          (if ''maintenanceEndDate'' \<notin> set submitted \<and> ''endDate'' \<in> set submitted
           then l_endDate l else maintenanceEndDate (l_support l)),
        maintenanceCost :=
          (if ''maintenanceCost'' \<notin> set submitted
              \<and> (''quantity'' \<in> set submitted \<or> ''unitPrice'' \<in> set submitted)
              \<and> format_line_amount (l_quantity l) (l_unitPrice l) \<noteq> []
           then Some (format_line_amount (l_quantity l) (l_unitPrice l))
           else maintenanceCost (l_support l))\<rparr>\<rparr>)"

text \<open>\<open>if (item.f != null && item.f !== "") data.f = item.f\<close>\<close>

definition filled_or :: "jstr \<Rightarrow> jstr \<Rightarrow> jstr" where
  "filled_or a b = (if set_and_filled a then a else b)"

definition support_over :: "support \<Rightarrow> support \<Rightarrow> support" where
  "support_over a b = \<lparr>
     maintenanceCoverage = nullish (maintenanceCoverage a) (maintenanceCoverage b),
     maintenanceStartDate = nullish (maintenanceStartDate a) (maintenanceStartDate b),
     maintenanceEndDate = nullish (maintenanceEndDate a) (maintenanceEndDate b),
     maintenancePricingBasis = nullish (maintenancePricingBasis a) (maintenancePricingBasis b),
     maintenanceQuantity = nullish (maintenanceQuantity a) (maintenanceQuantity b),
     maintenanceUnitPrice = nullish (maintenanceUnitPrice a) (maintenanceUnitPrice b),
     maintenanceCost = nullish (maintenanceCost a) (maintenanceCost b)\<rparr>"

definition line_over_form :: "string list \<Rightarrow> sourcing_item \<Rightarrow> license option \<Rightarrow> license \<Rightarrow> license" where
  "line_over_form submitted i old form = form\<lparr>
     l_publisherName := i_publisherName i, l_softwareDescription := i_softwareDescription i,
     l_requestDate := Some (i_createdAt i),
     l_quantity := nullish (i_quantity i) (l_quantity form),
     l_quantityPerUnit := nullish (i_quantityPerUnit i) (l_quantityPerUnit form),
     l_licenseMetric := nullish (i_licenseMetric i) (l_licenseMetric form),
     l_portalUrl := nullish (i_portalUrl i) (l_portalUrl form),
     l_skuCode := nullish (i_skuCode i) (l_skuCode form),
     l_unitPrice := nullish (i_estimatedUnitPrice i) (l_unitPrice form),
     l_support := support_over (i_support i) (l_support form),
     l_currency := or_else (i_currency i) (l_currency form),
     l_supplier := (if \<not> truthy (l_supplier form) \<and> truthy (i_supplier i) then i_supplier i else l_supplier form),
     l_contactEmail := or_else (i_contactEmail i) (l_contactEmail form),
     l_startDate := filled_or (i_startDate i) (l_startDate form),
     l_endDate := filled_or (i_endDate i) (l_endDate form),
     l_noticeDate := filled_or (i_noticeDate i) (l_noticeDate form),
     l_purchaseDate := filled_or (i_purchaseDate i) (l_purchaseDate form),
     l_contractNumber := filled_or (i_contractNumber i) (l_contractNumber form),
     l_invoiceNumber := filled_or (i_invoiceNumber i) (l_invoiceNumber form),
     l_externalRef := filled_or (i_externalRef i) (l_externalRef form),
     l_costCentre := filled_or (i_costCentre i) (l_costCentre form),
     l_budgetOwnerEmail := filled_or (i_budgetOwnerEmail i) (l_budgetOwnerEmail form),
     l_secondaryContacts :=
       (case i_secondaryContacts i of None \<Rightarrow> l_secondaryContacts form | Some cs \<Rightarrow> cs),
     l_notes := filled_or (i_notes i) (l_notes form),
     l_isRenewable :=
       (if ''isRenewable'' \<in> set submitted then l_isRenewable form
        else nullish (nullish (i_isRenewable i) (case old of None \<Rightarrow> None | Some l \<Rightarrow> l_isRenewable l))
               (l_isRenewable form)),
     l_typeDescription :=
       (if ''typeDescription'' \<in> set submitted then l_typeDescription form
        else filled_or (nullish (i_typeDescription i) (case old of None \<Rightarrow> None | Some l \<Rightarrow> l_typeDescription l))
               (l_typeDescription form))\<rparr>"

definition inherits_allocation :: "string list \<Rightarrow> string \<Rightarrow> sourcing_item \<Rightarrow> jstr \<Rightarrow> jstr \<Rightarrow> bool" where
  "inherits_allocation submitted key i line_value old_value \<longleftrightarrow>
     length (case i_cotermPredecessorIds i of None \<Rightarrow> [] | Some ids \<Rightarrow> ids) < 2
     \<and> key \<notin> set submitted \<and> \<not> has_text line_value \<and> truthy old_value"

definition inherit_from :: "string list \<Rightarrow> sourcing_item \<Rightarrow> license \<Rightarrow> license \<Rightarrow> license" where
  "inherit_from submitted i old l = l\<lparr>
     l_notes := None, l_licenseType := l_licenseType old, l_licenseMetric := l_licenseMetric old,
     l_parentLicenseId :=
       (if l_licenseType old = Some Maintenance then l_parentLicenseId old else l_parentLicenseId l),
     l_skuCode := or_else (l_skuCode old) (l_skuCode l),
     l_budgetOwnerEmail :=
       (if inherits_allocation submitted ''budgetOwnerEmail'' i (i_budgetOwnerEmail i) (l_budgetOwnerEmail old)
        then l_budgetOwnerEmail old else l_budgetOwnerEmail l),
     l_costCentre :=
       (if inherits_allocation submitted ''costCentre'' i (i_costCentre i) (l_costCentre old)
        then l_costCentre old else l_costCentre l)\<rparr>"

text \<open>A maintenance line started from a license supports that license.\<close>

definition line_parent :: "string list \<Rightarrow> sourcing_item \<Rightarrow> license \<Rightarrow> license" where
  "line_parent submitted i l =
     (if l_licenseType l = Some Maintenance \<and> ''parentLicenseId'' \<notin> set submitted
         \<and> l_parentLicenseId l = None \<and> i_maintenanceParentLicenseId i \<noteq> None
      then l\<lparr>l_parentLicenseId := i_maintenanceParentLicenseId i\<rparr> else l)"

definition build_pending_order_item_license_data ::
  "license \<Rightarrow> sourcing_item \<Rightarrow> license option \<Rightarrow> string list \<Rightarrow> license" where
  "build_pending_order_item_license_data form i old submitted =
     (let l = apply_included_support_term_fallback submitted (line_over_form submitted i old form)
      in line_parent submitted i (case old of None \<Rightarrow> l | Some prev \<Rightarrow> inherit_from submitted i prev l))"

section \<open>Creating licenses\<close>

definition converted_license ::
  "clock \<Rightarrow> int \<Rightarrow> license \<Rightarrow> int option \<Rightarrow> int option \<Rightarrow> int list option \<Rightarrow> jstr \<Rightarrow> license" where
  "converted_license clk n l renewed_from predecessor coterm_from ref = build_license clk (l\<lparr>
     l_poLineId := None, l_poLineNumber := None, l_id := n, l_renewedFromId := renewed_from,
     l_predecessorId := predecessor, l_cotermFromIds := coterm_from,
     l_licenseRef := nullish ref (Some (license_ref n)), l_createdAt := now clk, l_updatedAt := now clk\<rparr>)"

definition build_converted_license ::
  "clock \<Rightarrow> license \<Rightarrow> int option \<Rightarrow> int option \<Rightarrow> int list option \<Rightarrow> jstr \<Rightarrow> int demo_op" where
  "build_converted_license clk l renewed_from predecessor coterm_from ref =
     bindE fresh_id (\<lambda>n.
     bindE (modify (push_license (converted_license clk n l renewed_from predecessor coterm_from ref))) (\<lambda>_.
     bindE (modify (sync_stored_license n)) (\<lambda>_. ret n)))"

definition apply_type_rules :: "license \<Rightarrow> license" where
  "apply_type_rules = normalise_license_types [''isRenewable'', ''typeDescription'']"

definition default_coverage :: "license \<Rightarrow> license" where
  "default_coverage l = l\<lparr>l_support := with_default_maintenance_coverage (license_acquisition l) (l_support l)\<rparr>"

definition link_if_parent :: "clock \<Rightarrow> int \<Rightarrow> int option \<Rightarrow> store \<Rightarrow> store" where
  "link_if_parent clk n parent s =
     (case parent of
        None \<Rightarrow> s
      | Some p \<Rightarrow> if get_license s p = None then s else snd (link_or_activate_maintenance clk n p s))"

definition create_purchase_license :: "clock \<Rightarrow> string \<Rightarrow> license \<Rightarrow> int demo_op" where
  "create_purchase_license clk prefix l =
     (let typed = apply_type_rules l
      in bindE (throw_if (type_description_missing (l_licenseType typed) (l_typeDescription typed))
           (prefix @ TYPE_DESCRIPTION_REQUIRED_DETAIL)) (\<lambda>_.
         bindE (throw_if (l_licenseType typed \<noteq> Some Maintenance \<and> l_parentLicenseId typed \<noteq> None)
           ''parentLicenseId is only valid for maintenance licenses'') (\<lambda>_.
         bindE (build_converted_license clk (default_coverage typed) None None None None) (\<lambda>n.
         bindE (modify (link_if_parent clk n
           (if l_licenseType typed = Some Maintenance then l_parentLicenseId typed else None))) (\<lambda>_.
           ret n)))))"

text \<open>\<open>assertPredecessorHasNoSuccessor\<close> and \<open>markPredecessorRenewed\<close> on the stored license.\<close>

definition assert_free :: "int \<Rightarrow> unit demo_op" where
  "assert_free lid =
     bindE (gets (\<lambda>s. get_license s lid)) (\<lambda>found.
       case found of None \<Rightarrow> ret () | Some l \<Rightarrow> assert_predecessor_has_no_successor l)"

definition mark_renewed :: "clock \<Rightarrow> int \<Rightarrow> int \<Rightarrow> unit demo_op" where
  "mark_renewed clk successor lid =
     bindE (gets (\<lambda>s. get_license s lid)) (\<lambda>found.
       case found of None \<Rightarrow> ret () | Some l \<Rightarrow> mark_predecessor_renewed clk l successor)"

text \<open>The code gives a missing coverage the default of the type before the type rules, not after.\<close>

definition successor_data :: "license \<Rightarrow> license \<Rightarrow> license" where
  "successor_data old l =
     (let typed = (if l_licenseType old = Some Maintenance
                   then l\<lparr>l_licenseType := l_licenseType old, l_licenseMetric := l_licenseMetric old,
                          l_parentLicenseId := l_parentLicenseId old\<rparr> else l);
          coverage = nullish (maintenanceCoverage (l_support typed))
            (Some (default_maintenance_coverage (nullish (l_licenseType typed) (l_licenseType old))));
          covered = typed\<lparr>l_support := (l_support typed)\<lparr>maintenanceCoverage := coverage\<rparr>\<rparr>
      in apply_type_rules (covered\<lparr>l_support :=
           apply_included_support_defaults (license_acquisition covered) (l_support covered)\<rparr>))"

definition coterm_successor :: "clock \<Rightarrow> int list \<Rightarrow> license \<Rightarrow> (int \<times> int list) demo_op" where
  "coterm_successor clk pred_ids l =
     bindE (gets (\<lambda>s. List.map_filter (get_license s) pred_ids)) (\<lambda>preds.
     bindE (forE assert_predecessor_has_no_successor preds) (\<lambda>_.
     (let first = hd pred_ids;
          ref = (case find_id l_id first preds of None \<Rightarrow> None | Some p \<Rightarrow> or_null (l_licenseRef p))
      in bindE (build_converted_license clk l (Some first) (Some first) (Some pred_ids) ref) (\<lambda>n.
         bindE (forE (mark_renewed clk n) (map l_id preds)) (\<lambda>_.
           ret (n, map l_id preds))))))"

definition link_successor :: "clock \<Rightarrow> int \<Rightarrow> license \<Rightarrow> license \<Rightarrow> store \<Rightarrow> store" where
  "link_successor clk n l old s =
     (if l_licenseType l = Some Maintenance
      then fold (\<lambda>p. link_if_parent clk n (Some p)) (maintenance_parent_ids_of old) s else s)"

definition single_successor :: "clock \<Rightarrow> license \<Rightarrow> license \<Rightarrow> (int \<times> int list) demo_op" where
  "single_successor clk old l =
     bindE (assert_predecessor_has_no_successor old) (\<lambda>_.
     bindE (build_converted_license clk l (Some (l_id old)) (Some (l_id old)) None (or_null (l_licenseRef old))) (\<lambda>n.
     bindE (mark_renewed clk n (l_id old)) (\<lambda>_.
     bindE (modify (link_successor clk n l old)) (\<lambda>_. ret (n, [l_id old])))))"

definition missing_predecessor :: "string \<Rightarrow> sourcing_item \<Rightarrow> string" where
  "missing_predecessor prefix i =
     prefix @ (case i_renewalForLicenseId i of None \<Rightarrow> ''null'' | Some n \<Rightarrow> show_int n) @ '' not found for renewal''"

definition create_renewal_successor_from_sourcing_item ::
  "clock \<Rightarrow> sourcing_item \<Rightarrow> license \<Rightarrow> (int \<times> int list) demo_op" where
  "create_renewal_successor_from_sourcing_item clk i l =
     bindE (gets (\<lambda>s. opt_get get_license s (i_renewalForLicenseId i))) (\<lambda>found.
     bindE (the_or_throw found (missing_predecessor ''License '' i)) (\<lambda>old.
     (let d = successor_data old l
      in case i_cotermPredecessorIds i of
           Some (p # ps) \<Rightarrow> coterm_successor clk (p # ps) d
         | _ \<Rightarrow> single_successor clk old d)))"

section \<open>Choices\<close>

definition allocation_values :: "store \<Rightarrow> (license \<Rightarrow> jstr) \<Rightarrow> int list \<Rightarrow> string list" where
  "allocation_values s f ids =
     uniq (map normalized (filter has_text (map f (List.map_filter (get_license s) ids))))"

definition needs_choice :: "store \<Rightarrow> (license \<Rightarrow> jstr) \<Rightarrow> sourcing_item \<Rightarrow> license \<Rightarrow> bool" where
  "needs_choice s f i l \<longleftrightarrow>
     (case i_cotermPredecessorIds i of
        None \<Rightarrow> False
      | Some ids \<Rightarrow> 2 \<le> length ids \<and> \<not> has_text (f l) \<and> 1 < length (allocation_values s f ids))"

definition require_choices_for_split_coterm :: "string \<Rightarrow> sourcing_item \<Rightarrow> license \<Rightarrow> unit demo_op" where
  "require_choices_for_split_coterm prefix i l =
     bindE (gets (\<lambda>s. needs_choice s l_budgetOwnerEmail i l)) (\<lambda>owner.
     bindE (throw_if owner
       (prefix @ ''Choose a budget owner: the merged licenses had different budget owners'')) (\<lambda>_.
     bindE (gets (\<lambda>s. needs_choice s l_costCentre i l)) (\<lambda>centre.
       throw_if centre (prefix @ ''Choose a cost centre: the merged licenses had different cost centres''))))"

section \<open>Planned links between the new licenses\<close>

definition license_for_item :: "store \<Rightarrow> int \<Rightarrow> license option" where
  "license_for_item s n = List.find (\<lambda>l. l_sourceSourcingItemId l = Some n) (licenses s)"

text \<open>The lines that lead to a target, and the targets in the order in which they first appear.\<close>

definition incoming_links :: "sourcing_item list \<Rightarrow> int \<Rightarrow> int list" where
  "incoming_links lines n = map i_id (filter (\<lambda>i. i_successorSourcingItemId i = Some n) lines)"

definition link_targets :: "sourcing_item list \<Rightarrow> int list" where
  "link_targets lines = uniq (List.map_filter i_successorSourcingItemId lines)"

definition start_or_last :: "license \<Rightarrow> string" where
  "start_or_last l = str (nullish (l_startDate l) (Some ''9999''))"

definition license_in_chain :: "license \<Rightarrow> bool" where
  "license_in_chain l \<longleftrightarrow> can_take_part_in_planned_chain (l_licenseType l) (l_isRenewable l)"

definition line_text :: "int \<Rightarrow> string \<Rightarrow> string" where
  "line_text n msg = ''Line '' @ show_int n @ msg"

text \<open>The order of dates as text.\<close>

definition not_after :: "jstr \<Rightarrow> jstr \<Rightarrow> bool" where
  "not_after a b \<longleftrightarrow> code_unit_compare (str a) (str b) \<le> 0"

definition assert_follows :: "int \<Rightarrow> license \<Rightarrow> license \<Rightarrow> unit demo_op" where
  "assert_follows n successor p =
     bindE (assert_predecessor_has_no_successor p) (\<lambda>_.
     bindE (throw_if (normalized (l_publisherName p) \<noteq> normalized (l_publisherName successor))
       (line_text n '' must match predecessor publisher'')) (\<lambda>_.
     bindE (throw_if (\<not> license_in_chain p) (line_text n '' follows a nonrenewable license'')) (\<lambda>_.
     bindE (throw_if ((l_licenseType p = Some Maintenance) \<noteq> (l_licenseType successor = Some Maintenance))
       (line_text n '': maintenance terms can only follow maintenance terms'')) (\<lambda>_.
     bindE (throw_if (\<not> truthy (l_endDate successor)) ''Renewal successor must have an end date'') (\<lambda>_.
     bindE (throw_if (truthy (l_endDate p) \<and> not_after (l_endDate successor) (l_endDate p))
       ''Renewal successor must extend coverage beyond every predecessor end date'') (\<lambda>_.
       throw_if (truthy (l_startDate p)
           \<and> (\<not> truthy (l_startDate successor) \<or> not_after (l_startDate successor) (l_startDate p)))
         ''Renewal successor must start after every predecessor start date''))))))"

definition adopt_predecessors :: "license list \<Rightarrow> license \<Rightarrow> license" where
  "adopt_predecessors preds l =
     (case preds of
        [] \<Rightarrow> l
      | p # _ \<Rightarrow> l\<lparr>l_renewedFromId := Some (l_id p), l_predecessorId := Some (l_id p),
          l_cotermFromIds := (if 1 < length preds then Some (map l_id preds) else l_cotermFromIds l),
          l_licenseRef := l_licenseRef p\<rparr>)"

definition compare_terms :: "(string \<Rightarrow> string \<Rightarrow> int) \<Rightarrow> license \<Rightarrow> license \<Rightarrow> int" where
  "compare_terms collate =
     then_by (\<lambda>a b. collate (start_or_last a) (start_or_last b)) (\<lambda>a b. l_id a - l_id b)"

text \<open>One target: the result is the successor license and the licenses it follows.\<close>

definition link_target ::
  "(string \<Rightarrow> string \<Rightarrow> int) \<Rightarrow> clock \<Rightarrow> sourcing_item list \<Rightarrow> int \<Rightarrow> (int \<times> int list) demo_op" where
  "link_target collate clk lines n =
     bindE (gets (\<lambda>s. license_for_item s n)) (\<lambda>found.
     bindE (gets (\<lambda>s. map (license_for_item s) (incoming_links lines n))) (\<lambda>sources.
     bindE (throw_if (found = None \<or> None \<in> set sources) ''Every linked PO line must create one license'') (\<lambda>_.
     (let successor = the found; preds = js_sort (compare_terms collate) (map the sources)
      in
      bindE (throw_if (\<not> license_in_chain successor) (line_text n '' cannot be a renewal successor'')) (\<lambda>_.
      bindE (forE (assert_follows n successor) preds) (\<lambda>_.
      bindE (modify (upd_license (l_id successor) (adopt_predecessors preds))) (\<lambda>_.
      bindE (forE (mark_renewed clk (l_id successor)) (map l_id preds)) (\<lambda>_.
      bindE (modify (decorate_stored clk (l_id successor))) (\<lambda>_.
        ret (l_id successor, map l_id preds))))))))))"

text \<open>A round takes the targets none of whose sources is still a target, by id.\<close>

definition ready_targets :: "sourcing_item list \<Rightarrow> int list \<Rightarrow> int list" where
  "ready_targets lines remaining =
     ascending (filter (\<lambda>n. \<not> (\<exists>m \<in> set (incoming_links lines n). m \<in> set remaining)) remaining)"

lemma ready_targets_subset: "set (ready_targets lines remaining) \<subseteq> set remaining"
  by (auto simp: ready_targets_def ascending_def)

function link_rounds ::
  "(string \<Rightarrow> string \<Rightarrow> int) \<Rightarrow> clock \<Rightarrow> sourcing_item list \<Rightarrow> int list \<Rightarrow> (int \<times> int list) list demo_op" where
  "link_rounds collate clk lines remaining =
     (if remaining = [] then ret []
      else (let ready = ready_targets lines remaining
        in if ready = [] then throw ''Planned successor links contain a cycle''
           else
             bindE (forE (link_target collate clk lines) ready) (\<lambda>linked.
             bindE (link_rounds collate clk lines (filter (\<lambda>n. n \<notin> set ready) remaining)) (\<lambda>later.
               ret (linked @ later)))))"
  by pat_completeness auto
termination
proof (relation "measure (\<lambda>(collate, clk, lines, remaining). length remaining)", goal_cases)
  case (2 collate clk lines remaining ready linked)
  then obtain n where "n \<in> set ready" "n \<in> set remaining"
    using ready_targets_subset by (metis ex_in_conv set_empty subsetD)
  then show ?case
    by (simp add: length_filter_less)
qed simp

definition apply_planned_successor_links ::
  "(string \<Rightarrow> string \<Rightarrow> int) \<Rightarrow> clock \<Rightarrow> sourcing_item list \<Rightarrow> (int \<times> int list) list demo_op" where
  "apply_planned_successor_links collate clk lines =
     bindE (forE (\<lambda>i. throw_if (case i_successorSourcingItemId i of
           None \<Rightarrow> False | Some n \<Rightarrow> n \<notin> i_id ` set lines)
         (line_text (i_id i) '' has a successor outside this PO'')) lines) (\<lambda>_.
       link_rounds collate clk lines (link_targets lines))"

section \<open>The response\<close>

record converted_view =
  cv_license :: "license \<times> int option"
  cv_conversionType :: string

definition build_conversion_response :: "store \<Rightarrow> (int \<times> string) list \<Rightarrow> int list \<Rightarrow> converted_view list" where
  "build_conversion_response s entries predecessors =
     map (\<lambda>l. \<lparr>cv_license = with_computed_completeness s l,
         cv_conversionType = (case map_of (rev entries) (l_id l) of
           None \<Rightarrow> ''renewed_predecessor'' | Some t \<Rightarrow> t)\<rparr>)
       (List.map_filter (get_license s) (uniq (map fst entries @ predecessors)))"

definition mark_planned_renewals :: "(int \<times> string) list \<Rightarrow> int list \<Rightarrow> (int \<times> string) list" where
  "mark_planned_renewals entries successors =
     map (\<lambda>e. (fst e, if fst e \<in> set successors then ''renewed'' else snd e)) entries"

section \<open>Converting a whole order\<close>

definition assert_convertible :: "pending_order \<Rightarrow> unit demo_op" where
  "assert_convertible x =
     bindE (throw_if (o_status x = OrderConverted) ''Pending order has already been converted'') (\<lambda>_.
       throw_if (o_status x = OrderCancelled) ''Pending order has been cancelled'')"

definition supplier_conflict :: "pending_order \<Rightarrow> license \<Rightarrow> bool" where
  "supplier_conflict x l \<longleftrightarrow>
     clean_procurement_identity (o_supplier x) \<noteq> None \<and> clean_procurement_identity (l_supplier l) \<noteq> None
     \<and> \<not> procurement_identities_match (clean_procurement_identity (o_supplier x))
           (clean_procurement_identity (l_supplier l))"

definition order_form :: "pending_order \<Rightarrow> license \<Rightarrow> license" where
  "order_form x l = (let d = normalize_convert_payload l in d\<lparr>
     l_pendingOrderId := Some (o_id x), l_purchaseDate := Some (o_createdAt x),
     l_supplier := nullish (clean_procurement_identity (o_supplier x)) (l_supplier d),
     l_poTotalOverride := or_else (o_poTotalOverride x) (l_poTotalOverride d)\<rparr>)"

definition from_line :: "int \<Rightarrow> license \<Rightarrow> license" where
  "from_line n l = l\<lparr>l_sourceSourcingItemId := Some n\<rparr>"

definition convert_line ::
  "clock \<Rightarrow> license \<Rightarrow> string list \<Rightarrow> sourcing_item \<Rightarrow> ((int \<times> string) \<times> int list) demo_op" where
  "convert_line clk form submitted i =
     (case i_renewalForLicenseId i of
        Some lid \<Rightarrow>
          bindE (gets (\<lambda>s. get_license s lid)) (\<lambda>found.
          bindE (the_or_throw found (missing_predecessor ''License '' i)) (\<lambda>old.
          (let d = from_line (i_id i) (build_pending_order_item_license_data form i (Some old) submitted)
           in bindE (require_choices_for_split_coterm [] i d) (\<lambda>_.
              bindE (create_renewal_successor_from_sourcing_item clk i d) (\<lambda>r.
                ret ((fst r, ''renewed''), snd r))))))
      | None \<Rightarrow>
          bindE (create_purchase_license clk []
            (from_line (i_id i) (build_pending_order_item_license_data form i None submitted))) (\<lambda>n.
            ret ((n, ''new_purchase''), [])))"

definition mark_lines_converted :: "clock \<Rightarrow> int list \<Rightarrow> store \<Rightarrow> store" where
  "mark_lines_converted clk =
     fold (\<lambda>n. upd_item n (\<lambda>i. i\<lparr>i_status := Converted, i_updatedAt := now clk\<rparr>))"

text \<open>The end of both conversions: links, status, lines and time of the order, response.\<close>

definition finish_conversion ::
  "(string \<Rightarrow> string \<Rightarrow> int) \<Rightarrow> clock \<Rightarrow> int \<Rightarrow> sourcing_item list \<Rightarrow> ((int \<times> string) \<times> int list) list
     \<Rightarrow> converted_view list demo_op" where
  "finish_conversion collate clk oid lines entries =
     bindE (apply_planned_successor_links collate clk lines) (\<lambda>planned.
     bindE (modify (refresh_order_status oid)) (\<lambda>_.
     bindE (modify (rebuild_pending_order_items oid)) (\<lambda>_.
     bindE (modify (touch_order clk oid)) (\<lambda>_.
       gets (\<lambda>s. build_conversion_response s
         (mark_planned_renewals (map fst entries) (map fst planned))
         (concat (map snd entries) @ concat (map snd planned)))))))"

definition convert_pending_order_to_licenses ::
  "(string \<Rightarrow> string \<Rightarrow> int) \<Rightarrow> clock \<Rightarrow> pending_order \<Rightarrow> convert_payload \<Rightarrow> converted_view list demo_op" where
  "convert_pending_order_to_licenses collate clk x payload =
     bindE (assert_convertible x) (\<lambda>_.
     bindE (throw_if (supplier_conflict x (cp_data payload))
       ''License supplier must match the pending order supplier'') (\<lambda>_.
     (let form = order_form x (cp_data payload)
      in
      bindE (gets (\<lambda>s. order_items s (o_id x))) (\<lambda>lines.
      bindE (if lines = []
             then bindE (create_purchase_license clk [] form) (\<lambda>n. ret [((n, ''new_purchase''), [])])
             else forE (convert_line clk form (cp_keys payload)) lines) (\<lambda>entries.
      bindE (modify (mark_lines_converted clk (map i_id lines))) (\<lambda>_.
        finish_conversion collate clk (o_id x) lines entries))))))"

section \<open>Converting selected lines\<close>

record batch_item =
  bi_sourcingItemId :: int
  bi_keys :: "string list"
  bi_data :: license

definition item_prefix :: "int \<Rightarrow> string" where
  "item_prefix n = ''Item '' @ show_int n @ '': ''"

definition batch_item_data :: "pending_order \<Rightarrow> sourcing_item \<Rightarrow> batch_item \<Rightarrow> license" where
  "batch_item_data x i b =
     (let d = apply_included_support_term_fallback (bi_keys b)
            ((from_line (i_id i) (order_form x (bi_data b)))\<lparr>l_requestDate := Some (i_createdAt i)\<rparr>)
      in if l_licenseType d = Some Maintenance \<and> ''parentLicenseId'' \<notin> set (bi_keys b)
            \<and> i_maintenanceParentLicenseId i \<noteq> None
         then d\<lparr>l_parentLicenseId := i_maintenanceParentLicenseId i\<rparr> else d)"

text \<open>
  The result of one batch item: an entry of the response, or a maintenance purchase put off until the
  licenses it may belong to exist.
\<close>

datatype batch_result = Entry "(int \<times> string) \<times> int list" | Deferred sourcing_item license

definition convert_batch_item ::
  "clock \<Rightarrow> pending_order \<Rightarrow> sourcing_item list \<Rightarrow> batch_item \<Rightarrow> batch_result demo_op" where
  "convert_batch_item clk x lines b =
     bindE (the_or_throw (by_id lines (bi_sourcingItemId b))
       (item_prefix (bi_sourcingItemId b) @ ''not found in pending order '' @ show_int (o_id x))) (\<lambda>i.
     (let d = batch_item_data x i b
      in
      bindE (require_choices_for_split_coterm (item_prefix (bi_sourcingItemId b)) i d) (\<lambda>_.
        case i_renewalForLicenseId i of
          Some lid \<Rightarrow>
            bindE (gets (\<lambda>s. get_license s lid)) (\<lambda>found.
            bindE (the_or_throw found (missing_predecessor (item_prefix (bi_sourcingItemId b) @ ''license '') i)) (\<lambda>_.
            bindE (create_renewal_successor_from_sourcing_item clk i d) (\<lambda>r.
            bindE (modify (mark_lines_converted clk [i_id i])) (\<lambda>_.
              ret (Entry ((fst r, ''renewed''), snd r))))))
        | None \<Rightarrow>
            if l_licenseType d = Some Maintenance then ret (Deferred i d)
            else
              bindE (create_purchase_license clk (item_prefix (bi_sourcingItemId b)) d) (\<lambda>n.
              bindE (modify (mark_lines_converted clk [i_id i])) (\<lambda>_.
                ret (Entry ((n, ''new_purchase''), [])))))))"

text \<open>
  \<open>maintenanceChainOrder\<close>: the number of planned predecessors before a line. \<open>predecessorOf\<close> keeps the
  last line for each target; the walk ends at a line seen before.
\<close>

definition predecessor_of :: "sourcing_item list \<Rightarrow> int \<Rightarrow> int option" where
  "predecessor_of lines n =
     map_option i_id (List.find (\<lambda>i. i_successorSourcingItemId i = Some n) (rev lines))"

lemma predecessor_of_in:
  assumes "predecessor_of lines n = Some m"
  shows "n \<in> set (link_targets lines)"
proof -
  obtain i where "List.find (\<lambda>i. i_successorSourcingItemId i = Some n) (rev lines) = Some i"
    using assms by (auto simp: predecessor_of_def)
  then have "i \<in> set lines" "i_successorSourcingItemId i = Some n"
    by (auto dest: find_SomeD)
  then show ?thesis
    by (force simp: link_targets_def map_filter_def)
qed

function chain_depth :: "sourcing_item list \<Rightarrow> int list \<Rightarrow> int \<Rightarrow> int" where
  "chain_depth lines seen n =
     (case predecessor_of lines n of
        None \<Rightarrow> 0
      | Some m \<Rightarrow> if n \<in> set seen then 0 else 1 + chain_depth lines (n # seen) m)"
  by pat_completeness auto
termination
proof (relation "measure (\<lambda>(lines, seen, n). card (set (link_targets lines) - set seen))", goal_cases)
  case (2 lines seen n m)
  then have "set (link_targets lines) - set (n # seen) \<subset> set (link_targets lines) - set seen"
    using predecessor_of_in by fastforce
  then show ?case
    by (simp add: psubset_card_mono)
qed simp

definition maintenance_chain_order ::
  "sourcing_item list \<Rightarrow> (sourcing_item \<times> license) list \<Rightarrow> (sourcing_item \<times> license) list" where
  "maintenance_chain_order lines =
     js_sort (\<lambda>a b. chain_depth lines [] (i_id (fst a)) - chain_depth lines [] (i_id (fst b)))"

text \<open>\<open>resolvedParents\<close>: a line that was converted, with the parent it got, if any.\<close>

definition inherit_chain_parent ::
  "sourcing_item list \<Rightarrow> (int \<Rightarrow> int option option) \<Rightarrow> sourcing_item \<Rightarrow> license \<Rightarrow> license" where
  "inherit_chain_parent lines resolved i l =
     (if l_parentLicenseId l \<noteq> None then l
      else case List.find (\<lambda>p. i_successorSourcingItemId p = Some (i_id i)) lines of
          None \<Rightarrow> l
        | Some p \<Rightarrow> (case resolved (i_id p) of
            Some (Some parent) \<Rightarrow> l\<lparr>l_parentLicenseId := Some parent\<rparr> | _ \<Rightarrow> l))"

primrec convert_deferred ::
  "clock \<Rightarrow> sourcing_item list \<Rightarrow> (int \<Rightarrow> int option option) \<Rightarrow> (sourcing_item \<times> license) list
     \<Rightarrow> ((int \<times> string) \<times> int list) list demo_op" where
  "convert_deferred clk lines resolved [] = ret []"
| "convert_deferred clk lines resolved (e # es) =
     (let i = fst e; d = inherit_chain_parent lines resolved i (snd e)
      in bindE (create_purchase_license clk (item_prefix (i_id i)) d) (\<lambda>n.
         bindE (modify (mark_lines_converted clk [i_id i])) (\<lambda>_.
         bindE (convert_deferred clk lines (resolved(i_id i := Some (l_parentLicenseId d))) es) (\<lambda>later.
           ret (((n, ''new_purchase''), []) # later)))))"

definition entries_of :: "batch_result list \<Rightarrow> ((int \<times> string) \<times> int list) list" where
  "entries_of rs = List.map_filter (\<lambda>r. case r of Entry e \<Rightarrow> Some e | Deferred _ _ \<Rightarrow> None) rs"

definition deferred_of :: "batch_result list \<Rightarrow> (sourcing_item \<times> license) list" where
  "deferred_of rs = List.map_filter (\<lambda>r. case r of Entry _ \<Rightarrow> None | Deferred i d \<Rightarrow> Some (i, d)) rs"

definition batch_convert_pending_order_to_licenses ::
  "(string \<Rightarrow> string \<Rightarrow> int) \<Rightarrow> clock \<Rightarrow> pending_order \<Rightarrow> batch_item list \<Rightarrow> converted_view list demo_op" where
  "batch_convert_pending_order_to_licenses collate clk x payload =
     bindE (assert_convertible x) (\<lambda>_.
     bindE (throw_if (payload = []) ''Payload must contain at least one item'') (\<lambda>_.
     bindE (forE (\<lambda>b. throw_if (supplier_conflict x (bi_data b)) (item_prefix (bi_sourcingItemId b)
         @ ''License supplier must match the pending order supplier'')) payload) (\<lambda>_.
     bindE (gets (\<lambda>s. order_items s (o_id x))) (\<lambda>lines.
     bindE (forE (convert_batch_item clk x lines) payload) (\<lambda>results.
     bindE (convert_deferred clk lines (\<lambda>_. None) (maintenance_chain_order lines (deferred_of results))) (\<lambda>later.
       finish_conversion collate clk (o_id x) lines (entries_of results @ later)))))))"

end
