(* ===== verification/ReferenceData.thy ===== *)
theory ReferenceData
  imports LicenseRecords JsArray
begin

text \<open>
  The names of organisations and cost centres (\<^verbatim>\<open>handlers.js\<close>, the reference-data helpers and routes).
  A reference owns its name and its aliases; a lookup compares normalised names. Renaming and merging
  rewrite the copies of the name that licenses, contracts, lines, requests, orders and viewers hold.

  Names are read over ASCII, where the normal form \<open>NFKC\<close> changes nothing.
\<close>

datatype ref_kind = Organization | CostCentre
datatype ref_role = PublisherRole | SupplierRole

section \<open>Names\<close>

definition demo_reference_normalized :: "jstr \<Rightarrow> string" where
  "demo_reference_normalized v = to_lower (collapse_ws (trim (str v)))"

abbreviation name_key :: "string \<Rightarrow> string" where
  "name_key n \<equiv> demo_reference_normalized (Some n)"

definition names_of :: "reference \<Rightarrow> string list" where
  "names_of r = ref_name r # map a_name (ref_aliases r)"

definition keys_of :: "reference \<Rightarrow> string list" where
  "keys_of r = ref_normalizedName r # map a_normalizedName (ref_aliases r)"

definition reference_collection :: "ref_kind \<Rightarrow> store \<Rightarrow> reference list" where
  "reference_collection k s = (case k of Organization \<Rightarrow> organizations s | CostCentre \<Rightarrow> costCentres s)"

definition put_collection :: "ref_kind \<Rightarrow> (reference list \<Rightarrow> reference list) \<Rightarrow> store \<Rightarrow> store" where
  "put_collection k f s =
     (case k of Organization \<Rightarrow> organizations_update f s | CostCentre \<Rightarrow> costCentres_update f s)"

definition upd_reference :: "ref_kind \<Rightarrow> int \<Rightarrow> (reference \<Rightarrow> reference) \<Rightarrow> store \<Rightarrow> store" where
  "upd_reference k i f = put_collection k (upd_id ref_id i f)"

definition demo_reference_or_404 :: "ref_kind \<Rightarrow> int \<Rightarrow> reference demo_op" where
  "demo_reference_or_404 k i =
     bindE (gets (\<lambda>s. find_id ref_id i (reference_collection k s))) (\<lambda>found.
       the_or_throw found ''Reference not found'')"

definition owns_key :: "string \<Rightarrow> reference \<Rightarrow> bool" where
  "owns_key n r \<longleftrightarrow> n \<in> set (keys_of r)"

definition find_demo_reference :: "ref_kind \<Rightarrow> store \<Rightarrow> jstr \<Rightarrow> reference option" where
  "find_demo_reference k s v =
     (let n = demo_reference_normalized v
      in if n = [] then None else List.find (owns_key n) (reference_collection k s))"

definition assert_demo_reference_name_available :: "ref_kind \<Rightarrow> string \<Rightarrow> int option \<Rightarrow> unit demo_op" where
  "assert_demo_reference_name_available k name owner =
     bindE (gets (\<lambda>s. find_demo_reference k s (Some name))) (\<lambda>found.
       throw_if (case found of None \<Rightarrow> False | Some r \<Rightarrow> Some (ref_id r) \<noteq> owner)
         ''A reference with this name or alias already exists'')"

section \<open>Use\<close>

text \<open>The number of records that hold one of the names; a cost centre has no contracts, lines or orders.\<close>

record reference_usage =
  us_licenses :: int
  us_contracts :: int
  us_sourcingRequests :: int
  us_sourcingItems :: int
  us_pendingOrders :: int
  us_assignedViewers :: int
  us_total :: int

definition matches :: "reference \<Rightarrow> jstr \<Rightarrow> bool" where
  "matches r v \<longleftrightarrow> truthy v \<and> demo_reference_normalized v \<in> set (map name_key (names_of r))"

definition count_where :: "('a \<Rightarrow> bool) \<Rightarrow> 'a list \<Rightarrow> int" where
  "count_where p xs = int (length (filter p xs))"

definition organization_usage :: "reference \<Rightarrow> store \<Rightarrow> reference_usage" where
  "organization_usage r s =
     (let ls = count_where (\<lambda>l. matches r (l_publisherName l) \<or> matches r (l_supplier l)) (licenses s);
          cs = count_where (\<lambda>c. matches r (c_publisherName c)) (contracts s);
          qs = count_where (\<lambda>q. matches r (r_supplier q)) (sourcingRequests s);
          ns = count_where (\<lambda>i. matches r (i_publisherName i) \<or> matches r (i_supplier i)) (sourcingItems s);
          xs = count_where (\<lambda>x. matches r (o_supplier x)) (pendingOrders s)
      in \<lparr>us_licenses = ls, us_contracts = cs, us_sourcingRequests = qs, us_sourcingItems = ns,
          us_pendingOrders = xs, us_assignedViewers = 0, us_total = ls + cs + qs + ns + xs\<rparr>)"

definition cost_centre_usage :: "reference \<Rightarrow> store \<Rightarrow> reference_usage" where
  "cost_centre_usage r s =
     (let vs = count_where (\<lambda>e. \<exists>d \<in> set (snd e). matches r (Some d)) (userDepartments s);
          ls = count_where (\<lambda>l. matches r (l_costCentre l)) (licenses s)
      in \<lparr>us_licenses = ls, us_contracts = 0, us_sourcingRequests = 0, us_sourcingItems = 0,
          us_pendingOrders = 0, us_assignedViewers = vs, us_total = ls + vs\<rparr>)"

definition demo_reference_usage :: "ref_kind \<Rightarrow> reference \<Rightarrow> store \<Rightarrow> reference_usage" where
  "demo_reference_usage k r s =
     (case k of Organization \<Rightarrow> organization_usage r s | CostCentre \<Rightarrow> cost_centre_usage r s)"

section \<open>Rewriting the copies\<close>

definition replace_name :: "string list \<Rightarrow> string \<Rightarrow> jstr \<Rightarrow> jstr" where
  "replace_name keys name v = (if demo_reference_normalized v \<in> set keys then Some name else v)"

definition rewrite_organizations :: "(jstr \<Rightarrow> jstr) \<Rightarrow> store \<Rightarrow> store" where
  "rewrite_organizations f s = s\<lparr>
     licenses := map (\<lambda>l. l\<lparr>l_publisherName := f (l_publisherName l), l_supplier := f (l_supplier l)\<rparr>) (licenses s),
     contracts := map (\<lambda>c. c\<lparr>c_publisherName := f (c_publisherName c)\<rparr>) (contracts s),
     sourcingItems :=
       map (\<lambda>i. i\<lparr>i_publisherName := f (i_publisherName i), i_supplier := f (i_supplier i)\<rparr>) (sourcingItems s),
     sourcingRequests := map (\<lambda>q. q\<lparr>r_supplier := f (r_supplier q)\<rparr>) (sourcingRequests s),
     pendingOrders := map (\<lambda>x. x\<lparr>o_supplier := f (o_supplier x)\<rparr>) (pendingOrders s)\<rparr>"

definition rewrite_departments :: "(jstr \<Rightarrow> jstr) \<Rightarrow> string list \<Rightarrow> string list" where
  "rewrite_departments f ds = uniq (map (\<lambda>d. str (f (Some d))) ds)"

definition rewrite_cost_centres :: "(jstr \<Rightarrow> jstr) \<Rightarrow> store \<Rightarrow> store" where
  "rewrite_cost_centres f s = s\<lparr>
     licenses := map (\<lambda>l. l\<lparr>l_costCentre := f (l_costCentre l)\<rparr>) (licenses s),
     userDepartments := map (\<lambda>e. (fst e, rewrite_departments f (snd e))) (userDepartments s)\<rparr>"

definition rewrite_demo_reference_mirrors :: "ref_kind \<Rightarrow> string list \<Rightarrow> string \<Rightarrow> store \<Rightarrow> store" where
  "rewrite_demo_reference_mirrors k previous name =
     (let f = replace_name (map name_key previous) name
      in case k of Organization \<Rightarrow> rewrite_organizations f | CostCentre \<Rightarrow> rewrite_cost_centres f)"

section \<open>Renaming\<close>

definition new_alias :: "clock \<Rightarrow> int \<Rightarrow> string \<Rightarrow> string \<Rightarrow> name_alias" where
  "new_alias clk n name key = \<lparr>a_id = n, a_name = name, a_normalizedName = key, a_createdAt = now clk\<rparr>"

definition has_alias :: "string \<Rightarrow> name_alias list \<Rightarrow> bool" where
  "has_alias key as \<longleftrightarrow> key \<in> set (map a_normalizedName as)"

text \<open>The aliases after a rename: the new name is no alias any more, the old one is.\<close>

definition renamed_aliases :: "clock \<Rightarrow> reference \<Rightarrow> string \<Rightarrow> name_alias list demo_op" where
  "renamed_aliases clk r key =
     (if key = ref_normalizedName r then ret (ref_aliases r)
      else (let kept = filter (\<lambda>a. a_normalizedName a \<noteq> key) (ref_aliases r)
        in if has_alias (ref_normalizedName r) kept then ret kept
           else bindE fresh_id (\<lambda>n. ret (kept @ [new_alias clk n (ref_name r) (ref_normalizedName r)]))))"

definition rename_demo_reference :: "clock \<Rightarrow> ref_kind \<Rightarrow> reference \<Rightarrow> string \<Rightarrow> unit demo_op" where
  "rename_demo_reference clk k r next_name =
     (let name = trim next_name; key = name_key (trim next_name)
      in bindE (assert_demo_reference_name_available k name (Some (ref_id r))) (\<lambda>_.
         bindE (renamed_aliases clk r key) (\<lambda>as.
         bindE (modify (upd_reference k (ref_id r)
           (\<lambda>x. x\<lparr>ref_name := name, ref_normalizedName := key, ref_aliases := as\<rparr>))) (\<lambda>_.
           modify (rewrite_demo_reference_mirrors k (ref_name r # map a_name as) name)))))"

section \<open>Merging\<close>

primrec transfer_aliases ::
  "clock \<Rightarrow> string \<Rightarrow> string list \<Rightarrow> name_alias list \<Rightarrow> name_alias list demo_op" where
  "transfer_aliases clk key [] as = ret as"
| "transfer_aliases clk key (n # ns) as =
     (if name_key n = key \<or> has_alias (name_key n) as then transfer_aliases clk key ns as
      else bindE fresh_id (\<lambda>i. transfer_aliases clk key ns (as @ [new_alias clk i n (name_key n)])))"

definition adopt_roles :: "ref_kind \<Rightarrow> reference \<Rightarrow> reference \<Rightarrow> reference" where
  "adopt_roles k source r =
     (case k of
        Organization \<Rightarrow> r\<lparr>ref_isPublisher := ref_isPublisher r \<or> ref_isPublisher source,
                          ref_isSupplier := ref_isSupplier r \<or> ref_isSupplier source\<rparr>
      | CostCentre \<Rightarrow> r)"

definition assert_owned_by :: "ref_kind \<Rightarrow> reference \<Rightarrow> reference \<Rightarrow> string \<Rightarrow> unit demo_op" where
  "assert_owned_by k source target name =
     bindE (gets (\<lambda>s. find_demo_reference k s (Some name))) (\<lambda>found.
       throw_if (case found of None \<Rightarrow> False | Some r \<Rightarrow> ref_id r \<noteq> ref_id source \<and> ref_id r \<noteq> ref_id target)
         (''Cannot merge because '' @ name @ '' belongs to another reference''))"

definition merge_demo_references :: "clock \<Rightarrow> ref_kind \<Rightarrow> reference \<Rightarrow> reference \<Rightarrow> unit demo_op" where
  "merge_demo_references clk k source target =
     bindE (forE (assert_owned_by k source target) (names_of source)) (\<lambda>_.
     bindE (modify (upd_reference k (ref_id target) (adopt_roles k source))) (\<lambda>_.
     bindE (transfer_aliases clk (ref_normalizedName target) (names_of source) (ref_aliases target)) (\<lambda>as.
     bindE (modify (upd_reference k (ref_id target) (\<lambda>r. r\<lparr>ref_aliases := as\<rparr>))) (\<lambda>_.
     bindE (modify (rewrite_demo_reference_mirrors k (names_of source) (ref_name target))) (\<lambda>_.
       modify (put_collection k (filter (\<lambda>r. ref_id r \<noteq> ref_id source))))))))"

section \<open>Names that records bring\<close>

definition new_reference :: "clock \<Rightarrow> int \<Rightarrow> string \<Rightarrow> bool \<Rightarrow> bool \<Rightarrow> reference" where
  "new_reference clk n name publisher supplier = \<lparr>ref_id = n, ref_name = name,
     ref_normalizedName = name_key name, ref_isPublisher = publisher, ref_isSupplier = supplier,
     ref_isActive = True, ref_aliases = [], ref_createdAt = now clk, ref_updatedAt = now clk\<rparr>"

definition push_reference :: "clock \<Rightarrow> ref_kind \<Rightarrow> string \<Rightarrow> bool \<Rightarrow> bool \<Rightarrow> reference demo_op" where
  "push_reference clk k name publisher supplier =
     bindE fresh_id (\<lambda>n.
     bindE (modify (put_collection k (\<lambda>rs. rs @ [new_reference clk n name publisher supplier]))) (\<lambda>_.
       ret (new_reference clk n name publisher supplier)))"

text \<open>The reference a record names, made if there is none; the callers read its name.\<close>

definition ensure_demo_reference :: "clock \<Rightarrow> ref_kind \<Rightarrow> jstr \<Rightarrow> reference option demo_op" where
  "ensure_demo_reference clk k v =
     (let name = trim (str v)
      in if name = [] then ret None
         else bindE (gets (\<lambda>s. find_demo_reference k s (Some name))) (\<lambda>found.
           case found of
             Some r \<Rightarrow> bindE (throw_if (\<not> ref_isActive r) (ref_name r @ '' is inactive'')) (\<lambda>_. ret (Some r))
           | None \<Rightarrow> bindE (push_reference clk k name False False) (\<lambda>r. ret (Some r))))"

definition grant_role :: "ref_role \<Rightarrow> reference \<Rightarrow> reference" where
  "grant_role role r =
     (case role of PublisherRole \<Rightarrow> r\<lparr>ref_isPublisher := True\<rparr> | SupplierRole \<Rightarrow> r\<lparr>ref_isSupplier := True\<rparr>)"

definition ensure_demo_organization :: "clock \<Rightarrow> jstr \<Rightarrow> ref_role \<Rightarrow> reference option demo_op" where
  "ensure_demo_organization clk v role =
     bindE (ensure_demo_reference clk Organization v) (\<lambda>found.
       case found of
         None \<Rightarrow> ret None
       | Some r \<Rightarrow>
           bindE (modify (upd_reference Organization (ref_id r) (grant_role role))) (\<lambda>_.
             ret (Some (grant_role role r))))"

definition ensure_demo_cost_centre :: "clock \<Rightarrow> jstr \<Rightarrow> reference option demo_op" where
  "ensure_demo_cost_centre clk v = ensure_demo_reference clk CostCentre v"

section \<open>Routes\<close>

text \<open>\<open>POST /api/reference-data/{kind}\<close>: the body's name and roles.\<close>

definition create_reference :: "clock \<Rightarrow> ref_kind \<Rightarrow> jstr \<Rightarrow> bool \<Rightarrow> bool \<Rightarrow> reference demo_op" where
  "create_reference clk k v publisher supplier =
     (let name = trim (str v)
      in bindE (throw_if (name = []) ''Name is required'') (\<lambda>_.
         bindE (assert_demo_reference_name_available k name None) (\<lambda>_.
         bindE (throw_if (k = Organization \<and> \<not> publisher \<and> \<not> supplier)
           ''At least one organization role is required'') (\<lambda>_.
           push_reference clk k name (k = Organization \<and> publisher) (k = Organization \<and> supplier)))))"

text \<open>
  \<open>PATCH\<close>: \<open>None\<close> is a key the body does not have. A role is not taken away while a record uses it;
  the check compares names without looking at whether the record's field is set.
\<close>

definition holds_name :: "reference \<Rightarrow> jstr \<Rightarrow> bool" where
  "holds_name r v \<longleftrightarrow> demo_reference_normalized v \<in> set (map name_key (names_of r))"

definition used_as_publisher :: "reference \<Rightarrow> store \<Rightarrow> bool" where
  "used_as_publisher r s \<longleftrightarrow>
     (\<exists>l \<in> set (licenses s). holds_name r (l_publisherName l))
     \<or> (\<exists>c \<in> set (contracts s). holds_name r (c_publisherName c))
     \<or> (\<exists>i \<in> set (sourcingItems s). holds_name r (i_publisherName i))"

definition used_as_supplier :: "reference \<Rightarrow> store \<Rightarrow> bool" where
  "used_as_supplier r s \<longleftrightarrow>
     (\<exists>l \<in> set (licenses s). holds_name r (l_supplier l))
     \<or> (\<exists>q \<in> set (sourcingRequests s). holds_name r (r_supplier q))
     \<or> (\<exists>i \<in> set (sourcingItems s). holds_name r (i_supplier i))
     \<or> (\<exists>x \<in> set (pendingOrders s). holds_name r (o_supplier x))"

definition role_or :: "bool option \<Rightarrow> bool \<Rightarrow> bool" where
  "role_or given current = (case given of None \<Rightarrow> current | Some b \<Rightarrow> b)"

definition assert_roles :: "reference \<Rightarrow> bool \<Rightarrow> bool \<Rightarrow> unit demo_op" where
  "assert_roles r publisher supplier =
     bindE (throw_if (\<not> publisher \<and> \<not> supplier) ''At least one organization role is required'') (\<lambda>_.
     bindE (gets (used_as_publisher r)) (\<lambda>p.
     bindE (throw_if (ref_isPublisher r \<and> \<not> publisher \<and> p) ''Publisher role cannot be removed while it is in use'') (\<lambda>_.
     bindE (gets (used_as_supplier r)) (\<lambda>q.
       throw_if (ref_isSupplier r \<and> \<not> supplier \<and> q) ''Supplier role cannot be removed while it is in use''))))"

definition set_roles :: "bool \<Rightarrow> bool \<Rightarrow> reference \<Rightarrow> reference" where
  "set_roles publisher supplier r = r\<lparr>ref_isPublisher := publisher, ref_isSupplier := supplier\<rparr>"

definition patch_reference ::
  "clock \<Rightarrow> ref_kind \<Rightarrow> int \<Rightarrow> jstr option \<Rightarrow> bool option \<Rightarrow> bool option \<Rightarrow> unit demo_op" where
  "patch_reference clk k i new_name publisher supplier =
     bindE (demo_reference_or_404 k i) (\<lambda>r.
     (let p = role_or publisher (ref_isPublisher r); q = role_or supplier (ref_isSupplier r)
      in bindE (if k = Organization then assert_roles r p q else ret ()) (\<lambda>_.
         bindE (case new_name of
             None \<Rightarrow> ret ()
           | Some v \<Rightarrow> bindE (throw_if (trim (str v) = []) ''Name is required'') (\<lambda>_.
               rename_demo_reference clk k r (trim (str v)))) (\<lambda>_.
         bindE (modify (if k = Organization then upd_reference k i (set_roles p q) else id)) (\<lambda>_.
           modify (upd_reference k i (ref_updatedAt_update (\<lambda>_. now clk))))))))"

definition activate_reference :: "ref_kind \<Rightarrow> int \<Rightarrow> bool \<Rightarrow> unit demo_op" where
  "activate_reference k i active =
     bindE (demo_reference_or_404 k i) (\<lambda>_.
       modify (upd_reference k i (ref_isActive_update (\<lambda>_. active))))"

definition add_alias :: "clock \<Rightarrow> ref_kind \<Rightarrow> int \<Rightarrow> jstr \<Rightarrow> unit demo_op" where
  "add_alias clk k i v =
     (let name = trim (str v)
      in bindE (demo_reference_or_404 k i) (\<lambda>_.
         bindE (throw_if (name = []) ''Alias name is required'') (\<lambda>_.
         bindE (gets (\<lambda>s. find_demo_reference k s (Some name))) (\<lambda>found.
         bindE (throw_if (found \<noteq> None) ''This name or alias already exists'') (\<lambda>_.
         bindE fresh_id (\<lambda>n.
           modify (upd_reference k i
             (ref_aliases_update (\<lambda>as. as @ [new_alias clk n name (name_key name)])))))))))"

definition remove_alias :: "ref_kind \<Rightarrow> int \<Rightarrow> int \<Rightarrow> unit demo_op" where
  "remove_alias k i alias_id =
     bindE (demo_reference_or_404 k i) (\<lambda>_.
       modify (upd_reference k i (ref_aliases_update (filter (\<lambda>a. a_id a \<noteq> alias_id)))))"

definition assert_mergeable :: "reference \<Rightarrow> reference \<Rightarrow> unit demo_op" where
  "assert_mergeable source target =
     bindE (throw_if (ref_id source = ref_id target) ''A reference cannot be merged into itself'') (\<lambda>_.
       throw_if (\<not> ref_isActive target) ''The merge target must be active'')"

definition merge_preview :: "ref_kind \<Rightarrow> int \<Rightarrow> int \<Rightarrow> reference_usage demo_op" where
  "merge_preview k i j =
     bindE (demo_reference_or_404 k i) (\<lambda>source.
     bindE (demo_reference_or_404 k j) (\<lambda>target.
     bindE (assert_mergeable source target) (\<lambda>_. gets (demo_reference_usage k source))))"

definition merge_reference :: "clock \<Rightarrow> ref_kind \<Rightarrow> int \<Rightarrow> int \<Rightarrow> reference_usage demo_op" where
  "merge_reference clk k i j =
     bindE (demo_reference_or_404 k i) (\<lambda>source.
     bindE (demo_reference_or_404 k j) (\<lambda>target.
     bindE (assert_mergeable source target) (\<lambda>_.
     bindE (gets (demo_reference_usage k source)) (\<lambda>affected.
     bindE (merge_demo_references clk k source target) (\<lambda>_. ret affected)))))"

definition delete_reference :: "ref_kind \<Rightarrow> int \<Rightarrow> unit demo_op" where
  "delete_reference k i =
     bindE (demo_reference_or_404 k i) (\<lambda>r.
     bindE (gets (demo_reference_usage k r)) (\<lambda>u.
     bindE (throw_if (0 < us_total u) ''This reference is still in use'') (\<lambda>_.
       modify (put_collection k (filter (\<lambda>x. ref_id x \<noteq> i))))))"

section \<open>What the directory does not touch\<close>

text \<open>A property of the store that does not depend on the directory and on the next id.\<close>

locale outside_directory =
  fixes I :: "store \<Rightarrow> bool"
  assumes put: "I s \<Longrightarrow> I (put_collection k f s)"
    and tick: "I s \<Longrightarrow> I (s\<lparr>next_id := next_id s + 1\<rparr>)"
begin

lemma dir_fresh: "preserves I fresh_id"
  by (simp add: preserves_iff fresh_id_def tick)

lemma dir_push: "preserves I (push_reference clk k name p q)"
  unfolding push_reference_def by (intro wp_rules dir_fresh preserves_modify put)

lemma dir_reference: "preserves I (ensure_demo_reference clk k v)"
  unfolding ensure_demo_reference_def Let_def by (intro wp_rules dir_push)

lemma dir_organization: "preserves I (ensure_demo_organization clk v role)"
  unfolding ensure_demo_organization_def upd_reference_def
  by (intro wp_rules dir_reference preserves_modify put)

lemma dir_cost_centre: "preserves I (ensure_demo_cost_centre clk v)"
  unfolding ensure_demo_cost_centre_def by (rule dir_reference)

end

section \<open>Names stay unique\<close>

text \<open>An operation that starts at one state.\<close>

lemma bind_fresh_id: "bindE fresh_id k s = k (next_id s) (s\<lparr>next_id := next_id s + 1\<rparr>)"
  by (simp add: fresh_id_def bindE_def)

lemma keeps_bind_at: "I (snd (m s)) \<Longrightarrow> (\<And>x. preserves I (k x)) \<Longrightarrow> I (snd (bindE m k s))"
  by (auto simp: bindE_def preserves_iff split: prod.splits sum.splits)

lemma keeps_read_at: "reads m \<Longrightarrow> I s \<Longrightarrow> (\<And>x. I (snd (k x s))) \<Longrightarrow> I (snd (bindE m k s))"
  by (auto simp: bindE_def split: prod.splits sum.splits dest: readsD)

lemma keeps_keyI: "(\<And>e. key (f e) = key e) \<Longrightarrow> keeps_key key f"
  by (simp add: keeps_key_def)

text \<open>
  A name or alias belongs to one reference: the keys of a reference are those of its names, none is
  empty and none comes twice, and two references share none.
\<close>

definition own_ok :: "reference \<Rightarrow> bool" where
  "own_ok r \<longleftrightarrow> keys_of r = map name_key (names_of r) \<and> distinct (keys_of r) \<and> [] \<notin> set (keys_of r)"

definition apart :: "reference \<Rightarrow> reference \<Rightarrow> bool" where
  "apart r q \<longleftrightarrow> set (keys_of r) \<inter> set (keys_of q) = {}"

definition names_ok :: "int \<Rightarrow> reference list \<Rightarrow> bool" where
  "names_ok n rs \<longleftrightarrow> distinct (map ref_id rs) \<and> (\<forall>r \<in> set rs. own_ok r \<and> ref_id r < n)
     \<and> (\<forall>r \<in> set rs. \<forall>q \<in> set rs. ref_id r \<noteq> ref_id q \<longrightarrow> apart r q)"

definition refs_ok :: "store \<Rightarrow> bool" where
  "refs_ok s \<longleftrightarrow> (\<forall>k. names_ok (next_id s) (reference_collection k s))"

lemma names_ok_mono: "names_ok n rs \<Longrightarrow> n \<le> m \<Longrightarrow> names_ok m rs"
  by (fastforce simp: names_ok_def)

lemma names_ok_filter: "names_ok n rs \<Longrightarrow> names_ok n (filter p rs)"
  by (auto simp: names_ok_def distinct_map inj_on_def)

lemma apart_sym: "apart r q \<Longrightarrow> apart q r"
  by (auto simp: apart_def)

lemma names_ok_apart:
  "names_ok n rs \<Longrightarrow> r \<in> set rs \<Longrightarrow> q \<in> set rs \<Longrightarrow> ref_id r \<noteq> ref_id q \<Longrightarrow> apart r q"
  unfolding names_ok_def by blast

lemma names_ok_own: "names_ok n rs \<Longrightarrow> r \<in> set rs \<Longrightarrow> own_ok r"
  unfolding names_ok_def by blast

lemma names_ok_push:
  "names_ok n rs \<Longrightarrow> own_ok r \<Longrightarrow> ref_id r = n \<Longrightarrow> \<forall>q \<in> set rs. apart r q \<Longrightarrow> names_ok (n + 1) (rs @ [r])"
  unfolding names_ok_def by (auto intro: apart_sym)

lemma names_ok_upd:
  assumes ok: "names_ok n rs" and id: "keeps_key ref_id f"
    and new: "\<And>r. r \<in> set rs \<Longrightarrow> ref_id r = i \<Longrightarrow>
      own_ok (f r) \<and> (\<forall>q \<in> set rs. ref_id q \<noteq> i \<longrightarrow> apart (f r) q)"
  shows "names_ok n (upd_id ref_id i f rs)"
proof -
  have "distinct (map ref_id rs)"
    using ok by (simp add: names_ok_def)
  then have eq: "upd_id ref_id i f rs = map (\<lambda>r. if ref_id r = i then f r else r) rs"
    by (rule upd_id_distinct)
  have ids: "map ref_id (upd_id ref_id i f rs) = map ref_id rs"
    using id by simp
  have mem: "r \<in> set (upd_id ref_id i f rs) \<longleftrightarrow> (\<exists>q \<in> set rs. r = (if ref_id q = i then f q else q))" for r
    unfolding eq set_map image_iff ..
  have each: "own_ok r \<and> ref_id r < n" if "r \<in> set (upd_id ref_id i f rs)" for r
    using that ok id new unfolding mem names_ok_def by auto
  have "apart r q" if "r \<in> set (upd_id ref_id i f rs)" "q \<in> set (upd_id ref_id i f rs)" "ref_id r \<noteq> ref_id q" for r q
    using that id new names_ok_apart [OF ok] apart_sym unfolding mem by (auto split: if_splits)
  with each ok show ?thesis
    unfolding names_ok_def ids by blast
qed

lemma find_owner:
  assumes "names_ok n rs" "r \<in> set rs" "owns_key x r"
  shows "List.find (owns_key x) rs = Some r"
proof -
  obtain q where q: "List.find (owns_key x) rs = Some q"
    using assms(2,3) by (cases "List.find (owns_key x) rs") (auto simp: find_None_iff)
  then have "q \<in> set rs" "owns_key x q"
    by (auto dest: find_SomeD)
  then have "ref_id q = ref_id r"
    using assms by (auto simp: names_ok_def apart_def owns_key_def)
  then have "q = r"
    using assms(1,2) \<open>q \<in> set rs\<close> by (auto simp: names_ok_def distinct_map inj_on_def)
  then show ?thesis by (simp add: q)
qed

subsection \<open>Keys of names\<close>

lemma collapse_ws_nonempty: "s \<noteq> [] \<Longrightarrow> collapse_ws s \<noteq> []"
  by (cases s) simp_all

lemma name_key_empty: "name_key n = [] \<longleftrightarrow> trim n = []"
  using collapse_ws_nonempty [of "trim n"] by (cases "trim n = []") (simp_all add: demo_reference_normalized_def to_lower_def)

lemma name_key_trim [simp]: "name_key (trim n) = name_key n"
  by (simp add: demo_reference_normalized_def)

lemma find_demo_reference_None:
  "trim name \<noteq> [] \<Longrightarrow> find_demo_reference k s (Some name) = None \<longleftrightarrow>
     (\<forall>r \<in> set (reference_collection k s). name_key name \<notin> set (keys_of r))"
  by (simp add: find_demo_reference_def Let_def name_key_empty find_None_iff owns_key_def Ball_def)

lemma find_demo_reference_Some:
  "find_demo_reference k s v = Some r \<Longrightarrow>
     r \<in> set (reference_collection k s) \<and> demo_reference_normalized v \<in> set (keys_of r)"
  by (auto simp: find_demo_reference_def Let_def owns_key_def split: if_splits dest: find_SomeD)

lemma keys_of_simps [simp]:
  "keys_of (r\<lparr>ref_name := a, ref_normalizedName := b, ref_aliases := as\<rparr>) = b # map a_normalizedName as"
  "keys_of (r\<lparr>ref_aliases := as\<rparr>) = ref_normalizedName r # map a_normalizedName as"
  "names_of (r\<lparr>ref_name := a, ref_normalizedName := b, ref_aliases := as\<rparr>) = a # map a_name as"
  "names_of (r\<lparr>ref_aliases := as\<rparr>) = ref_name r # map a_name as"
  by (simp_all add: keys_of_def names_of_def)

lemma collection_put [simp]:
  "reference_collection j (put_collection k f s) =
     (if j = k then f (reference_collection k s) else reference_collection j s)"
  "next_id (put_collection k f s) = next_id s"
  by (cases j; cases k; simp add: reference_collection_def put_collection_def)+

lemma collection_rewrite [simp]:
  "reference_collection j (rewrite_demo_reference_mirrors k ns n s) = reference_collection j s"
  "next_id (rewrite_demo_reference_mirrors k ns n s) = next_id s"
  by (cases j; cases k; simp add: reference_collection_def rewrite_demo_reference_mirrors_def Let_def
      rewrite_organizations_def rewrite_cost_centres_def)+

lemma collection_next_id [simp]: "reference_collection j (s\<lparr>next_id := m\<rparr>) = reference_collection j s"
  by (cases j) (simp_all add: reference_collection_def)


subsection \<open>The operations keep the names unique\<close>

lemma refs_ok_collection: "refs_ok s \<Longrightarrow> names_ok (next_id s) (reference_collection k s)"
  by (simp add: refs_ok_def)

lemma refs_ok_next: "refs_ok s \<Longrightarrow> next_id s \<le> m \<Longrightarrow> refs_ok (s\<lparr>next_id := m\<rparr>)"
  by (auto simp: refs_ok_def intro: names_ok_mono)

lemma refs_ok_put:
  "refs_ok s \<Longrightarrow> names_ok (next_id s) (f (reference_collection k s)) \<Longrightarrow> refs_ok (put_collection k f s)"
  by (simp add: refs_ok_def)

lemma refs_ok_rewrite: "refs_ok s \<Longrightarrow> refs_ok (rewrite_demo_reference_mirrors k ns n s)"
  by (simp add: refs_ok_def)

text \<open>An update that keeps names and aliases.\<close>

lemma refs_ok_flags:
  assumes "refs_ok s" "keeps_key ref_id f" "\<And>r. keys_of (f r) = keys_of r" "\<And>r. names_of (f r) = names_of r"
  shows "refs_ok (upd_reference k i f s)"
proof -
  have ok: "names_ok (next_id s) (reference_collection k s)"
    using assms(1) by (rule refs_ok_collection)
  have same: "own_ok (f r) = own_ok r" "apart (f r) q = apart r q" for r q
    by (simp_all only: own_ok_def apart_def assms(3,4))
  have "names_ok (next_id s) (upd_id ref_id i f (reference_collection k s))"
    using ok assms(2)
    by (rule names_ok_upd) (simp add: same names_ok_own [OF ok] names_ok_apart [OF ok])
  then show ?thesis
    unfolding upd_reference_def by (intro refs_ok_put assms(1))
qed

text \<open>Keys move between a reference and the free ones.\<close>

definition takes_free :: "reference list \<Rightarrow> reference \<Rightarrow> reference \<Rightarrow> bool" where
  "takes_free rs r r' \<longleftrightarrow> (\<forall>x \<in> set (keys_of r'). x \<in> set (keys_of r) \<or> (\<forall>q \<in> set rs. x \<notin> set (keys_of q)))"

lemma refs_ok_replace:
  assumes ok: "refs_ok s" and r: "find_id ref_id i (reference_collection k s) = Some r"
    and f: "keeps_key ref_id f" "own_ok (f r)" "takes_free (reference_collection k s) r (f r)"
  shows "refs_ok (upd_reference k i f s)"
proof -
  let ?rs = "reference_collection k s"
  have names: "names_ok (next_id s) ?rs"
    using ok by (rule refs_ok_collection)
  have ri: "r \<in> set ?rs" "ref_id r = i"
    using r by (auto dest: find_id_SomeD)
  have only: "q = r" if "q \<in> set ?rs" "ref_id q = i" for q
    using that ri names by (auto simp: names_ok_def distinct_map inj_on_def)
  have far: "apart (f r) q" if q: "q \<in> set ?rs" "ref_id q \<noteq> i" for q
  proof -
    have "apart r q"
      using names_ok_apart [OF names ri(1) q(1)] ri(2) q(2) by simp
    then show ?thesis
      using f(3) q(1) unfolding apart_def takes_free_def by blast
  qed
  have "names_ok (next_id s) (upd_id ref_id i f ?rs)"
    using names f(1) by (rule names_ok_upd) (auto simp: f(2) far dest: only)
  then show ?thesis
    unfolding upd_reference_def by (intro refs_ok_put ok)
qed

lemma own_ok_new: "trim name \<noteq> [] \<Longrightarrow> own_ok (new_reference clk n name p q)"
  using name_key_empty [of name] by (simp add: own_ok_def new_reference_def keys_of_def names_of_def)

lemma refs_ok_push:
  assumes "refs_ok s" "trim name \<noteq> []" "find_demo_reference k s (Some name) = None"
  shows "refs_ok (snd (push_reference clk k name p q s))"
proof -
  let ?r = "new_reference clk (next_id s) name p q"
  have key: "keys_of ?r = [name_key name]" "ref_id ?r = next_id s"
    by (simp_all add: new_reference_def keys_of_def)
  have "names_ok (next_id s + 1) (reference_collection k s @ [?r])"
    using assms(3) assms(1,2) own_ok_new
    by (intro names_ok_push refs_ok_collection) (auto simp: find_demo_reference_None apart_def key)
  moreover have "refs_ok (s\<lparr>next_id := next_id s + 1\<rparr>)"
    using assms(1) by (intro refs_ok_next) simp_all
  ultimately show ?thesis
    by (simp add: push_reference_def fresh_id_def bindE_def refs_ok_put)
qed


lemma transfer_step:
  "transfer_aliases clk key (n # ns) as s =
     (if name_key n = key \<or> has_alias (name_key n) as then transfer_aliases clk key ns as s
      else transfer_aliases clk key ns (as @ [new_alias clk (next_id s) n (name_key n)]) (s\<lparr>next_id := next_id s + 1\<rparr>))"
  by (simp add: fresh_id_def bindE_def)

declare transfer_aliases.simps(2) [simp del]

lemma transfer_state:
  "\<exists>bs m. transfer_aliases clk key ns as s = (Inr bs, s\<lparr>next_id := m\<rparr>) \<and> next_id s \<le> m"
proof (induction ns arbitrary: as s)
  case Nil
  then show ?case by (intro exI [of _ as] exI [of _ "next_id s"]) simp
next
  case (Cons n ns)
  show ?case
  proof (cases "name_key n = key \<or> has_alias (name_key n) as")
    case True
    then show ?thesis using Cons.IH [of as s] by (simp add: transfer_step)
  next
    case False
    obtain bs m where "transfer_aliases clk key ns (as @ [new_alias clk (next_id s) n (name_key n)])
        (s\<lparr>next_id := next_id s + 1\<rparr>) = (Inr bs, s\<lparr>next_id := m\<rparr>)" "next_id s + 1 \<le> m"
      using Cons.IH [of "as @ [new_alias clk (next_id s) n (name_key n)]" "s\<lparr>next_id := next_id s + 1\<rparr>"]
      by auto
    with False show ?thesis
      by (intro exI [of _ bs] exI [of _ m]) (simp add: transfer_step)
  qed
qed

lemma transfer_induct:
  assumes "transfer_aliases clk key ns as s = (Inr bs, t)" "P as"
    and "\<And>as i n. P as \<Longrightarrow> n \<in> set ns \<Longrightarrow> name_key n \<noteq> key \<Longrightarrow> \<not> has_alias (name_key n) as \<Longrightarrow>
      P (as @ [new_alias clk i n (name_key n)])"
  shows "P bs"
  using assms
proof (induction ns arbitrary: as s)
  case (Cons n ns)
  show ?case
  proof (cases "name_key n = key \<or> has_alias (name_key n) as")
    case True
    with Cons.prems(1) have "transfer_aliases clk key ns as s = (Inr bs, t)"
      by (simp add: transfer_step)
    from this Cons.prems(2) show ?thesis
      by (rule Cons.IH) (simp add: Cons.prems(3))
  next
    case False
    with Cons.prems(1) have "transfer_aliases clk key ns (as @ [new_alias clk (next_id s) n (name_key n)])
        (s\<lparr>next_id := next_id s + 1\<rparr>) = (Inr bs, t)"
      by (simp add: transfer_step)
    from this show ?thesis
      by (rule Cons.IH) (use False Cons.prems(2,3) in simp_all)
  qed
qed simp

lemma transfer_aliases_safe: "safe (transfer_aliases clk key ns as)"
  using transfer_state unfolding safe_def by blast

lemma new_alias_sel [simp]:
  "a_id (new_alias clk i n k) = i" "a_name (new_alias clk i n k) = n"
  "a_normalizedName (new_alias clk i n k) = k"
  by (simp_all add: new_alias_def)

lemma transfer_keys:
  assumes "transfer_aliases clk key ns as s = (Inr bs, t)"
  shows "set (map a_normalizedName bs) \<subseteq> set (map a_normalizedName as) \<union> set (map name_key ns)"
  using assms by (rule transfer_induct) auto

definition keyed :: "name_alias list \<Rightarrow> bool" where
  "keyed as \<longleftrightarrow> (\<forall>a \<in> set as. a_normalizedName a = name_key (a_name a))"

lemma keyed_snoc [simp]: "keyed (as @ [new_alias clk i n k]) \<longleftrightarrow> keyed as \<and> k = name_key n"
  by (auto simp: keyed_def)

lemma own_ok_alt:
  "own_ok r \<longleftrightarrow> ref_normalizedName r = name_key (ref_name r) \<and> keyed (ref_aliases r)
     \<and> distinct (keys_of r) \<and> [] \<notin> set (keys_of r)"
  by (auto simp: own_ok_def keyed_def keys_of_def names_of_def)

lemma transfer_own:
  assumes "transfer_aliases clk key ns as s = (Inr bs, t)"
    and "distinct (key # map a_normalizedName as)" "keyed as"
  shows "distinct (key # map a_normalizedName bs) \<and> keyed bs"
  using assms(1) by (rule transfer_induct) (use assms(2,3) in \<open>auto simp: has_alias_def\<close>)

text \<open>Renaming.\<close>

lemma renamed_aliases_state:
  "\<exists>as m. renamed_aliases clk r key s = (Inr as, s\<lparr>next_id := m\<rparr>) \<and> next_id s \<le> m"
proof (cases "key = ref_normalizedName r \<or>
    has_alias (ref_normalizedName r) (filter (\<lambda>a. a_normalizedName a \<noteq> key) (ref_aliases r))")
  case True
  then show ?thesis
    by (auto simp: renamed_aliases_def Let_def intro!: exI [of _ "next_id s"])
next
  case False
  then show ?thesis
    by (auto simp: renamed_aliases_def Let_def fresh_id_def bindE_def intro!: exI [of _ "next_id s + 1"])
qed

lemma distinct_map_filter: "distinct (map f xs) \<Longrightarrow> distinct (map f (filter p xs))"
  by (induction xs) auto

lemma renamed_aliases_own:
  assumes "renamed_aliases clk r key s = (Inr as, t)" "own_ok r"
  shows "distinct (key # map a_normalizedName as)" "keyed as"
    "insert key (set (map a_normalizedName as)) = insert key (set (keys_of r))"
  using assms
  by (auto simp: renamed_aliases_def Let_def own_ok_alt keys_of_def keyed_def has_alias_def fresh_id_def bindE_def
      distinct_map_filter split: if_splits)


lemma only_reference:
  assumes "refs_ok s" "find_id ref_id i (reference_collection k s) = Some r"
    "q \<in> set (reference_collection k s)" "ref_id q = i"
  shows "q = r"
proof -
  have "distinct (map ref_id (reference_collection k s))"
    using refs_ok_collection [OF assms(1)] by (simp add: names_ok_def)
  then have "find_id ref_id (ref_id q) (reference_collection k s) = Some q"
    using assms(3) by (rule find_id_distinct)
  with assms(2,4) show ?thesis by simp
qed

lemma found_own:
  "refs_ok s \<Longrightarrow> find_id ref_id i (reference_collection k s) = Some r \<Longrightarrow> own_ok r \<and> ref_id r = i"
  using names_ok_own [OF refs_ok_collection] by (blast dest: find_id_SomeD)

lemma available_key:
  assumes "refs_ok s" "find_id ref_id i (reference_collection k s) = Some r" "trim name \<noteq> []"
    and "assert_demo_reference_name_available k name (Some i) s = (Inr u, t)"
  shows "t = s \<and> (name_key name \<in> set (keys_of r) \<or> (\<forall>q \<in> set (reference_collection k s). name_key name \<notin> set (keys_of q)))"
proof (cases "find_demo_reference k s (Some name)")
  case None
  then show ?thesis
    using assms(4) find_demo_reference_None [OF assms(3), of k s]
    by (simp add: assert_demo_reference_name_available_def)
next
  case (Some q)
  then have "ref_id q = i" "t = s"
    using assms(4) by (simp_all add: assert_demo_reference_name_available_def throw_if_Inr)
  then show ?thesis
    using find_demo_reference_Some [OF Some] only_reference [OF assms(1,2)] by auto
qed

lemma assert_available_reads: "reads (assert_demo_reference_name_available k name owner)"
  unfolding assert_demo_reference_name_available_def by (intro read_rules)

text \<open>The state a successful rename leaves.\<close>

definition renamed :: "reference \<Rightarrow> string \<Rightarrow> name_alias list \<Rightarrow> reference \<Rightarrow> reference" where
  "renamed r name as x = x\<lparr>ref_name := name, ref_normalizedName := name_key name, ref_aliases := as\<rparr>"

lemma rename_result:
  assumes "rename_demo_reference clk k r v s = (Inr u, t)"
  shows "\<exists>as m. assert_demo_reference_name_available k (trim v) (Some (ref_id r)) s = (Inr (), s)
     \<and> renamed_aliases clk r (name_key (trim v)) s = (Inr as, s\<lparr>next_id := m\<rparr>) \<and> next_id s \<le> m
     \<and> t = rewrite_demo_reference_mirrors k (ref_name r # map a_name as) (trim v)
             (upd_reference k (ref_id r) (renamed r (trim v) as) (s\<lparr>next_id := m\<rparr>))"
proof -
  obtain as m where a: "renamed_aliases clk r (name_key (trim v)) s = (Inr as, s\<lparr>next_id := m\<rparr>)" "next_id s \<le> m"
    using renamed_aliases_state by blast
  obtain w where w: "assert_demo_reference_name_available k (trim v) (Some (ref_id r)) s = (Inr w, s)"
    using assms assert_available_reads [of k "trim v" "Some (ref_id r)"]
    by (auto simp: rename_demo_reference_def Let_def bindE_Inr dest: readsD)
  show ?thesis
    using assms a w by (intro exI [of _ as] exI [of _ m])
      (simp add: rename_demo_reference_def Let_def bindE_eq_Inr renamed_def [abs_def])
qed

lemma rename_error: "rename_demo_reference clk k r v s = (Inl e, t) \<Longrightarrow> t = s"
proof -
  have "atomic (rename_demo_reference clk k r v)"
    unfolding rename_demo_reference_def Let_def
    by (rule atomic_read_bind [OF assert_available_reads], rule atomic_safe, rule safe_bind)
      (use renamed_aliases_state in \<open>force simp: safe_def, auto intro!: safe_rules\<close>)
  then show "rename_demo_reference clk k r v s = (Inl e, t) \<Longrightarrow> t = s"
    by (rule atomicD)
qed

lemma rename_keeps_ok:
  assumes ok: "refs_ok s" and r: "find_id ref_id i (reference_collection k s) = Some r" and v: "trim v \<noteq> []"
  shows "refs_ok (snd (rename_demo_reference clk k r v s))"
proof (cases "rename_demo_reference clk k r v s")
  case (Pair res t)
  show ?thesis
  proof (cases res)
    case (Inl e)
    with Pair have "t = s"
      by (intro rename_error) simp
    with Pair ok show ?thesis by simp
  next
    case (Inr u)
    then obtain as m where
      a: "assert_demo_reference_name_available k (trim v) (Some (ref_id r)) s = (Inr (), s)"
      and l: "renamed_aliases clk r (name_key (trim v)) s = (Inr as, s\<lparr>next_id := m\<rparr>)" "next_id s \<le> m"
      and t: "t = rewrite_demo_reference_mirrors k (ref_name r # map a_name as) (trim v)
             (upd_reference k (ref_id r) (renamed r (trim v) as) (s\<lparr>next_id := m\<rparr>))"
      using Pair rename_result by blast
    have own: "own_ok r" "ref_id r = i"
      using found_own [OF ok r] by simp_all
    let ?s = "s\<lparr>next_id := m\<rparr>"
    have ok': "refs_ok ?s"
      using ok l(2) by (rule refs_ok_next)
    have key: "name_key v \<in> set (keys_of r) \<or> (\<forall>q \<in> set (reference_collection k s). name_key v \<notin> set (keys_of q))"
      using available_key [OF ok r, of "trim v"] a own(2) v by simp
    have as: "distinct (name_key v # map a_normalizedName as)" "keyed as"
      "insert (name_key v) (set (map a_normalizedName as)) = insert (name_key v) (set (keys_of r))"
      using renamed_aliases_own [OF l(1) own(1)] by simp_all
    let ?r = "renamed r (trim v) as r"
    have keys: "set (keys_of ?r) = insert (name_key v) (set (keys_of r))"
      using as(3) by (simp add: renamed_def)
    have "own_ok ?r"
      unfolding own_ok_alt keys using own(1) as(1,2) v name_key_empty [of v]
      by (auto simp: renamed_def own_ok_alt)
    moreover have "takes_free (reference_collection k ?s) r ?r"
      unfolding takes_free_def keys using key by auto
    moreover have "keeps_key ref_id (renamed r (trim v) as)"
      by (rule keeps_keyI) (simp add: renamed_def)
    moreover have "find_id ref_id i (reference_collection k ?s) = Some r"
      using r by simp
    ultimately have "refs_ok (upd_reference k i (renamed r (trim v) as) ?s)"
      by (intro refs_ok_replace [OF ok'])
    then show ?thesis
      unfolding Pair t own(2) by (simp add: refs_ok_rewrite)
  qed
qed


text \<open>Merging.\<close>

lemma merge_result:
  assumes "merge_demo_references clk k source target s = (Inr u, t)"
  shows "\<exists>as m. transfer_aliases clk (ref_normalizedName target) (names_of source) (ref_aliases target)
         (upd_reference k (ref_id target) (adopt_roles k source) s)
       = (Inr as, (upd_reference k (ref_id target) (adopt_roles k source) s)\<lparr>next_id := m\<rparr>)
     \<and> next_id s \<le> m
     \<and> t = put_collection k (filter (\<lambda>r. ref_id r \<noteq> ref_id source))
         (rewrite_demo_reference_mirrors k (names_of source) (ref_name target)
           (upd_reference k (ref_id target) (\<lambda>r. r\<lparr>ref_aliases := as\<rparr>)
             ((upd_reference k (ref_id target) (adopt_roles k source) s)\<lparr>next_id := m\<rparr>)))"
proof -
  let ?s = "upd_reference k (ref_id target) (adopt_roles k source) s"
  obtain as m where a: "transfer_aliases clk (ref_normalizedName target) (names_of source) (ref_aliases target) ?s
      = (Inr as, ?s\<lparr>next_id := m\<rparr>)" "next_id ?s \<le> m"
    using transfer_state by blast
  have "reads (forE (assert_owned_by k source target) (names_of source))"
    unfolding assert_owned_by_def by (intro read_rules)
  then obtain w where w: "forE (assert_owned_by k source target) (names_of source) s = (Inr w, s)"
    using assms by (auto simp: merge_demo_references_def bindE_Inr dest: readsD)
  show ?thesis
    using assms a w
    by (intro exI [of _ as] exI [of _ m]) (simp add: merge_demo_references_def bindE_eq_Inr upd_reference_def)
qed


lemma upd_id_upd_id:
  "keeps_key key f \<Longrightarrow> upd_id key i g (upd_id key i f xs) = upd_id key i (\<lambda>x. g (f x)) xs"
  by (induction xs) (auto simp: keeps_keyD)

lemma upd_id_filter:
  "keeps_key key f \<Longrightarrow> i \<noteq> j \<Longrightarrow>
     filter (\<lambda>e. key e \<noteq> j) (upd_id key i f xs) = upd_id key i f (filter (\<lambda>e. key e \<noteq> j) xs)"
  by (induction xs) (auto simp: keeps_keyD)

lemma merge_keeps_ok:
  assumes ok: "refs_ok s" and source: "find_id ref_id i (reference_collection k s) = Some source"
    and target: "find_id ref_id j (reference_collection k s) = Some target" and ij: "i \<noteq> j"
    and run: "merge_demo_references clk k source target s = (Inr u, t)"
  shows "refs_ok t"
proof -
  obtain as m where
    a: "transfer_aliases clk (ref_normalizedName target) (names_of source) (ref_aliases target)
         (upd_reference k (ref_id target) (adopt_roles k source) s)
       = (Inr as, (upd_reference k (ref_id target) (adopt_roles k source) s)\<lparr>next_id := m\<rparr>)"
      "next_id s \<le> m"
    and t: "t = put_collection k (filter (\<lambda>r. ref_id r \<noteq> ref_id source))
         (rewrite_demo_reference_mirrors k (names_of source) (ref_name target)
           (upd_reference k (ref_id target) (\<lambda>r. r\<lparr>ref_aliases := as\<rparr>)
             ((upd_reference k (ref_id target) (adopt_roles k source) s)\<lparr>next_id := m\<rparr>)))"
    using merge_result [OF run] by blast
  have own: "own_ok source" "ref_id source = i" "own_ok target" "ref_id target = j"
    using found_own [OF ok source] found_own [OF ok target] by simp_all
  let ?rs = "filter (\<lambda>r. ref_id r \<noteq> i) (reference_collection k s)"
  let ?f = "\<lambda>r. adopt_roles k source r\<lparr>ref_aliases := as\<rparr>"
  have f: "keeps_key ref_id ?f"
    by (rule keeps_keyI) (simp add: adopt_roles_def split: ref_kind.split)
  have sel: "keys_of (?f r) = ref_normalizedName r # map a_normalizedName as"
    "ref_name (?f r) = ref_name r" "ref_normalizedName (?f r) = ref_normalizedName r" "ref_aliases (?f r) = as" for r
    by (cases k; simp add: keys_of_def adopt_roles_def)+
  have source_keys: "set (map name_key (names_of source)) = set (keys_of source)"
    using own(1) by (simp only: own_ok_def)
  have keys: "set (keys_of (?f target)) \<subseteq> set (keys_of target) \<union> set (keys_of source)"
    using transfer_keys [OF a(1)] unfolding sel source_keys by (auto simp: keys_of_def)
  have "distinct (keys_of (?f target)) \<and> keyed as"
    unfolding sel using own(3) by (intro transfer_own [OF a(1)]) (auto simp: own_ok_alt keys_of_def)
  moreover have "[] \<notin> set (keys_of (?f target))"
    using keys own(1,3) unfolding own_ok_alt by blast
  ultimately have new: "own_ok (?f target)"
    using own(3) unfolding own_ok_alt sel by simp
  have members: "source \<in> set (reference_collection k s)" "target \<in> set (reference_collection k s)"
    using source target by (auto dest: find_id_SomeD)
  have names: "names_ok m ?rs"
    by (rule names_ok_filter [OF names_ok_mono [OF refs_ok_collection [OF ok] a(2)]])
  have "names_ok m (upd_id ref_id j ?f ?rs)"
    using names f
  proof (rule names_ok_upd)
    fix r assume "r \<in> set ?rs" "ref_id r = j"
    then have "r = target"
      using only_reference [OF ok target] by simp
    moreover have "apart (?f target) q" if q: "q \<in> set ?rs" "ref_id q \<noteq> j" for q
    proof -
      have "apart target q"
        using q own(4) members(2) by (intro names_ok_apart [OF refs_ok_collection [OF ok]]) auto
      moreover have "apart source q"
        using q own(2) members(1) by (intro names_ok_apart [OF refs_ok_collection [OF ok]]) auto
      ultimately show ?thesis
        using keys unfolding apart_def by blast
    qed
    ultimately show "own_ok (?f r) \<and> (\<forall>q \<in> set ?rs. ref_id q \<noteq> j \<longrightarrow> apart (?f r) q)"
      using new by blast
  qed
  moreover have k': "keeps_key ref_id (adopt_roles k source)" "keeps_key ref_id (\<lambda>r. r\<lparr>ref_aliases := as\<rparr>)"
    by (rule keeps_keyI, simp add: adopt_roles_def split: ref_kind.split)+
  moreover have "upd_id ref_id j ?f ?rs =
      filter (\<lambda>r. ref_id r \<noteq> i) (upd_id ref_id j (\<lambda>r. r\<lparr>ref_aliases := as\<rparr>)
        (upd_id ref_id j (adopt_roles k source) (reference_collection k s)))"
    using f ij k' by (simp add: upd_id_filter upd_id_upd_id)
  ultimately show ?thesis
    using ok a(2) unfolding t refs_ok_def own(2,4)
    by (auto simp: upd_reference_def intro: names_ok_mono)
qed


text \<open>Every route.\<close>

lemma refs_ok_filter: "refs_ok s \<Longrightarrow> refs_ok (put_collection k (filter p) s)"
  by (intro refs_ok_put names_ok_filter refs_ok_collection)

lemma flag_frames [simp]:
  "keys_of (set_roles p q r) = keys_of r" "names_of (set_roles p q r) = names_of r"
  "keys_of (ref_updatedAt_update g r) = keys_of r" "names_of (ref_updatedAt_update g r) = names_of r"
  "keys_of (ref_isActive_update h r) = keys_of r" "names_of (ref_isActive_update h r) = names_of r"
  "keys_of (grant_role role r) = keys_of r" "names_of (grant_role role r) = names_of r"
  by (cases role; simp add: keys_of_def names_of_def set_roles_def grant_role_def)+

lemma flag_keeps_key [simp]:
  "keeps_key ref_id (set_roles p q)" "keeps_key ref_id (ref_updatedAt_update g)"
  "keeps_key ref_id (ref_isActive_update h)" "keeps_key ref_id (grant_role role)"
  by (rule keeps_keyI, simp add: set_roles_def grant_role_def split: ref_role.split)+

lemma refs_ok_flag_rules [intro]:
  "refs_ok s \<Longrightarrow> refs_ok (upd_reference k i (set_roles p q) s)"
  "refs_ok s \<Longrightarrow> refs_ok (upd_reference k i (ref_updatedAt_update g) s)"
  "refs_ok s \<Longrightarrow> refs_ok (upd_reference k i (ref_isActive_update h) s)"
  "refs_ok s \<Longrightarrow> refs_ok (upd_reference k i (grant_role role) s)"
  by (rule refs_ok_flags; simp)+

lemma push_reference_run:
  "push_reference clk k name p q s = (Inr (new_reference clk (next_id s) name p q), snd (push_reference clk k name p q s))"
  by (simp add: push_reference_def fresh_id_def bindE_def)

lemma ensure_reference_keeps: "preserves refs_ok (ensure_demo_reference clk k v)"
proof -
  have "refs_ok (snd (ensure_demo_reference clk k v s))" if ok: "refs_ok s" for s
  proof (cases "find_demo_reference k s (Some (trim (str v)))")
    case None
    have "refs_ok (snd (push_reference clk k (trim (str v)) False False s))" if "trim (str v) \<noteq> []"
      using ok that None by (intro refs_ok_push) simp_all
    with ok None show ?thesis
      using push_reference_run [of clk k "trim (str v)" False False s]
      by (simp add: ensure_demo_reference_def Let_def bindE_eq_Inr)
  next
    case (Some r)
    with ok show ?thesis
      by (simp add: ensure_demo_reference_def Let_def bindE_throw_if_apply)
  qed
  then show ?thesis
    by (simp add: preserves_iff)
qed

lemma create_reference_keeps: "preserves refs_ok (create_reference clk k v p q)"
proof -
  have "refs_ok (snd (create_reference clk k v p q s))" if ok: "refs_ok s" for s
  proof (cases "find_demo_reference k s (Some (trim (str v)))")
    case None
    have "refs_ok (snd (push_reference clk k (trim (str v)) a b s))" if "trim (str v) \<noteq> []" for a b
      using ok that None by (intro refs_ok_push) simp_all
    with ok None show ?thesis
      by (simp add: create_reference_def Let_def bindE_throw_if_apply
          assert_demo_reference_name_available_def bindE_eq_Inr)
  next
    case (Some r)
    with ok show ?thesis
      by (simp add: create_reference_def Let_def bindE_throw_if_apply
          assert_demo_reference_name_available_def bindE_eq_Inl)
  qed
  then show ?thesis
    by (simp add: preserves_iff)
qed


lemma organization_keeps: "preserves refs_ok (ensure_demo_organization clk v role)"
  unfolding ensure_demo_organization_def
  by (intro wp_rules ensure_reference_keeps preserves_modify refs_ok_flag_rules)

lemma or_404_reads: "demo_reference_or_404 k i s = (r, t) \<Longrightarrow> t = s"
  by (rule readsD [of "demo_reference_or_404 k i"]) (unfold demo_reference_or_404_def, intro read_rules)

lemma or_404_cases:
  "demo_reference_or_404 k i s =
     (case find_id ref_id i (reference_collection k s) of
        None \<Rightarrow> (Inl (Error ''Reference not found''), s) | Some r \<Rightarrow> (Inr r, s))"
  by (simp add: demo_reference_or_404_def split: option.split)

text \<open>A handler that finds its reference first keeps the invariant if it does for the one it finds.\<close>

lemma keeps_for_found:
  assumes "\<And>s r. refs_ok s \<Longrightarrow> find_id ref_id i (reference_collection k s) = Some r \<Longrightarrow> refs_ok (snd (h r s))"
  shows "preserves refs_ok (bindE (demo_reference_or_404 k i) h)"
  using assms by (auto simp: preserves_iff bindE_def or_404_cases split: option.split)

lemma activate_keeps: "preserves refs_ok (activate_reference k i active)"
  unfolding activate_reference_def by (rule keeps_for_found) auto

lemma remove_alias_keeps: "preserves refs_ok (remove_alias k i alias_id)"
  unfolding remove_alias_def
proof (rule keeps_for_found)
  fix s r assume ok: "refs_ok s" and r: "find_id ref_id i (reference_collection k s) = Some r"
  let ?f = "ref_aliases_update (filter (\<lambda>a. a_id a \<noteq> alias_id))"
  have "own_ok (?f r)"
    using found_own [OF ok r] by (auto simp: own_ok_alt keys_of_def keyed_def distinct_map_filter)
  moreover have "takes_free (reference_collection k s) r (?f r)"
    by (auto simp: takes_free_def keys_of_def)
  moreover have "keeps_key ref_id ?f"
    by (rule keeps_keyI) simp
  ultimately have "refs_ok (upd_reference k i ?f s)"
    by (intro refs_ok_replace [OF ok r])
  then show "refs_ok (snd (modify (upd_reference k i ?f) s))"
    by simp
qed

lemma add_alias_keeps: "preserves refs_ok (add_alias clk k i v)"
  unfolding add_alias_def Let_def
proof (rule keeps_for_found)
  fix s r assume ok: "refs_ok s" and r: "find_id ref_id i (reference_collection k s) = Some r"
  let ?n = "trim (str v)"
  let ?f = "ref_aliases_update (\<lambda>as. as @ [new_alias clk (next_id s) ?n (name_key ?n)])"
  have "refs_ok (upd_reference k i ?f (s\<lparr>next_id := next_id s + 1\<rparr>))"
    if "?n \<noteq> []" "find_demo_reference k s (Some ?n) = None"
  proof -
    have key: "\<forall>q \<in> set (reference_collection k s). name_key ?n \<notin> set (keys_of q)"
      using find_demo_reference_None [of ?n k s] that by simp
    moreover have "r \<in> set (reference_collection k s)"
      using r by (auto dest: find_id_SomeD)
    ultimately have "own_ok (?f r)"
      using found_own [OF ok r] that(1) name_key_empty [of ?n] by (auto simp: own_ok_alt keys_of_def)
    moreover have "takes_free (reference_collection k s) r (?f r)"
      using key by (auto simp: takes_free_def keys_of_def)
    moreover have "keeps_key ref_id ?f"
      by (rule keeps_keyI) simp
    moreover have "refs_ok (s\<lparr>next_id := next_id s + 1\<rparr>)"
      using ok by (rule refs_ok_next) simp
    ultimately show ?thesis
      using r by (intro refs_ok_replace [of _ i k r]) simp_all
  qed
  then show "refs_ok (snd (bindE (throw_if (?n = []) ''Alias name is required'') (\<lambda>_.
      bindE (gets (\<lambda>s. find_demo_reference k s (Some ?n))) (\<lambda>found.
      bindE (throw_if (found \<noteq> None) ''This name or alias already exists'') (\<lambda>_.
      bindE fresh_id (\<lambda>n. modify (upd_reference k i
        (ref_aliases_update (\<lambda>as. as @ [new_alias clk n ?n (name_key ?n)]))))))) s))"
    using ok by (simp add: bindE_throw_if_apply bind_fresh_id)
qed

lemma assert_roles_reads: "reads (assert_roles r p q)"
  unfolding assert_roles_def by (intro read_rules)

lemma preserves_reads: "reads m \<Longrightarrow> preserves I m"
  by (auto simp: preserves_iff reads_def)

lemma delete_keeps: "preserves refs_ok (delete_reference k i)"
  unfolding delete_reference_def demo_reference_or_404_def
  by (intro wp_rules preserves_modify refs_ok_filter)

lemma merge_keeps: "preserves refs_ok (merge_reference clk k i j)"
proof -
  have "refs_ok t" if ok: "refs_ok s" and run: "merge_reference clk k i j s = (res, t)" for s res t
  proof (cases res)
    case (Inl e)
    have "atomic (merge_demo_references clk k a b)" for a b
      unfolding merge_demo_references_def assert_owned_by_def
      by (rule atomic_read_bind, (intro read_rules)[1], rule atomic_safe)
        (intro safe_rules transfer_aliases_safe)
    then have "atomic (merge_reference clk k i j)"
      unfolding merge_reference_def demo_reference_or_404_def assert_mergeable_def
      by (intro atomic_bind_safe atomic_read_bind [OF reads_bind] atomic_read_bind [OF reads_gets] read_rules safe_rules)
    with run Inl ok show ?thesis
      by (auto dest: atomicD)
  next
    case (Inr u)
    with run obtain source target v where
      "find_id ref_id i (reference_collection k s) = Some source"
      "find_id ref_id j (reference_collection k s) = Some target" "ref_id source \<noteq> ref_id target"
      "merge_demo_references clk k source target s = (Inr v, t)"
      by (auto simp: merge_reference_def assert_mergeable_def success_simps or_404_cases split: option.splits)
    with ok show ?thesis
      by (metis found_own merge_keeps_ok)
  qed
  then show ?thesis
    by (simp add: preserves_iff) (metis prod.collapse)
qed

lemma patch_keeps: "preserves refs_ok (patch_reference clk k i v p q)"
  unfolding patch_reference_def Let_def
proof (rule keeps_for_found)
  fix s r assume ok: "refs_ok s" and r: "find_id ref_id i (reference_collection k s) = Some r"
  let ?tail = "\<lambda>p q. bindE (modify (if k = Organization then upd_reference k i (set_roles p q) else id))
    (\<lambda>_. modify (upd_reference k i (ref_updatedAt_update (\<lambda>_. now clk))))"
  have tail: "preserves refs_ok (?tail a b)" for a b
    by (intro wp_rules preserves_modify refs_ok_flag_rules) (auto split: if_splits)
  have name: "refs_ok (snd ((case v of None \<Rightarrow> ret ()
      | Some v \<Rightarrow> bindE (throw_if (trim (str v) = []) ''Name is required'') (\<lambda>_.
          rename_demo_reference clk k r (trim (str v)))) s))"
  proof (cases v)
    case (Some w)
    have "refs_ok (snd (rename_demo_reference clk k r (trim (str w)) s))" if "trim (str w) \<noteq> []"
      using that by (intro rename_keeps_ok [OF ok r]) simp
    with ok Some show ?thesis
      by (simp add: bindE_throw_if_apply)
  qed (use ok in simp)
  have whole: "refs_ok (snd (bindE (case v of None \<Rightarrow> ret ()
      | Some v \<Rightarrow> bindE (throw_if (trim (str v) = []) ''Name is required'') (\<lambda>_.
          rename_demo_reference clk k r (trim (str v)))) (\<lambda>_. ?tail a b) s))" for a b
    by (rule keeps_bind_at [where I = refs_ok], rule name, rule tail)
  show "refs_ok (snd (bindE
      (if k = Organization then assert_roles r (role_or p (ref_isPublisher r)) (role_or q (ref_isSupplier r)) else ret ())
      (\<lambda>_. bindE (case v of None \<Rightarrow> ret ()
          | Some v \<Rightarrow> bindE (throw_if (trim (str v) = []) ''Name is required'') (\<lambda>_.
              rename_demo_reference clk k r (trim (str v))))
        (\<lambda>_. ?tail (role_or p (ref_isPublisher r)) (role_or q (ref_isSupplier r)))) s))"
  proof (cases "k = Organization")
    case True
    then show ?thesis
      unfolding if_P [OF True]
      by (intro keeps_read_at [where I = refs_ok, OF assert_roles_reads ok]) (use whole True in simp)
  next
    case False
    then show ?thesis
      using whole by simp
  qed
qed


section \<open>The reference-data service\<close>

text \<open>The requests that change references, and the state a request leaves, refused or not.\<close>

datatype reference_request =
    CreateReference ref_kind jstr bool bool
  | PatchReference ref_kind int "jstr option" "bool option" "bool option"
  | ActivateReference ref_kind int bool
  | AddAlias ref_kind int jstr
  | RemoveAlias ref_kind int int
  | MergeReference ref_kind int int
  | DeleteReference ref_kind int
  | EnsureOrganization jstr ref_role
  | EnsureCostCentre jstr

fun serve_reference :: "clock \<Rightarrow> reference_request \<Rightarrow> store \<Rightarrow> store" where
  "serve_reference clk (CreateReference k v p q) s = snd (create_reference clk k v p q s)"
| "serve_reference clk (PatchReference k i v p q) s = snd (patch_reference clk k i v p q s)"
| "serve_reference clk (ActivateReference k i active) s = snd (activate_reference k i active s)"
| "serve_reference clk (AddAlias k i v) s = snd (add_alias clk k i v s)"
| "serve_reference clk (RemoveAlias k i a) s = snd (remove_alias k i a s)"
| "serve_reference clk (MergeReference k i j) s = snd (merge_reference clk k i j s)"
| "serve_reference clk (DeleteReference k i) s = snd (delete_reference k i s)"
| "serve_reference clk (EnsureOrganization v role) s = snd (ensure_demo_organization clk v role s)"
| "serve_reference clk (EnsureCostCentre v) s = snd (ensure_demo_cost_centre clk v s)"

definition serve_references :: "(clock \<times> reference_request) list \<Rightarrow> store \<Rightarrow> store" where
  "serve_references = fold (\<lambda>e. serve_reference (fst e) (snd e))"

lemmas reference_routes_keep = create_reference_keeps patch_keeps activate_keeps add_alias_keeps
  remove_alias_keeps merge_keeps delete_keeps organization_keeps ensure_reference_keeps

lemma serve_reference_keeps: "refs_ok s \<Longrightarrow> refs_ok (serve_reference clk x s)"
  by (cases x) (simp_all add: ensure_demo_cost_centre_def preservesD [OF reference_routes_keep(1)]
      preservesD [OF reference_routes_keep(2)] preservesD [OF reference_routes_keep(3)]
      preservesD [OF reference_routes_keep(4)] preservesD [OF reference_routes_keep(5)]
      preservesD [OF reference_routes_keep(6)] preservesD [OF reference_routes_keep(7)]
      preservesD [OF reference_routes_keep(8)] preservesD [OF reference_routes_keep(9)])

lemma serve_references_keep: "refs_ok s \<Longrightarrow> refs_ok (serve_references xs s)"
  unfolding serve_references_def by (induction xs arbitrary: s) (simp_all add: serve_reference_keeps)

text \<open>C6: whatever requests are served, refused ones included, a name or alias belongs to at most one
  organisation and at most one cost centre: two references of a kind that own the same normalised name
  are the same reference, every stored key is the normal form of its name, and looking the name up finds
  its owner.\<close>

theorem reference_names_stay_unique:
  assumes "refs_ok s" and "r \<in> set (reference_collection k (serve_references xs s))"
    and "n \<in> set (names_of r)"
  shows "find_demo_reference k (serve_references xs s) (Some n) = Some r
    \<and> (\<forall>q \<in> set (reference_collection k (serve_references xs s)). owns_key (name_key n) q \<longrightarrow> q = r)"
proof (intro conjI)
  have ok: "names_ok (next_id (serve_references xs s)) (reference_collection k (serve_references xs s))"
    using assms(1) by (intro refs_ok_collection serve_references_keep)
  have own: "own_ok r"
    using ok assms(2) by (rule names_ok_own)
  have key: "owns_key (name_key n) r" "name_key n \<noteq> []"
    using own assms(3) unfolding own_ok_def owns_key_def by (metis image_eqI list.set_map)+
  show "find_demo_reference k (serve_references xs s) (Some n) = Some r"
    using find_owner [OF ok assms(2) key(1)] key(2) by (simp add: find_demo_reference_def Let_def)
  show "\<forall>q \<in> set (reference_collection k (serve_references xs s)). owns_key (name_key n) q \<longrightarrow> q = r"
    using find_owner [OF ok assms(2) key(1)] find_owner [OF ok] by fastforce
qed


definition example_clock :: clock where
  "example_clock = \<lparr>today = 0, now = ''t''\<rparr>"

definition example_requests :: "(clock \<times> reference_request) list" where
  "example_requests =
     [(example_clock, CreateReference Organization (Some ''Adobe'') True False),
      (example_clock, AddAlias Organization 1000 (Some ''Adobe Systems'')),
      (example_clock, CreateReference Organization (Some '' ADOBE  systems'') True True),
      (example_clock, PatchReference Organization 1000 (Some (Some ''Adobe Inc'')) None None)]"

definition example_reference :: reference where
  "example_reference = \<lparr>ref_id = 1000, ref_name = ''Adobe Inc'', ref_normalizedName = ''adobe inc'',
     ref_isPublisher = True, ref_isSupplier = False, ref_isActive = True,
     ref_aliases = [\<lparr>a_id = 1001, a_name = ''Adobe Systems'', a_normalizedName = ''adobe systems'', a_createdAt = ''t''\<rparr>,
       \<lparr>a_id = 1002, a_name = ''Adobe'', a_normalizedName = ''adobe'', a_createdAt = ''t''\<rparr>],
     ref_createdAt = ''t'', ref_updatedAt = ''t''\<rparr>"

lemma example_references:
  "reference_collection Organization (serve_references example_requests fresh_store) = [example_reference]"
  by code_simp

lemma refs_ok_fresh: "refs_ok fresh_store"
  by (simp add: refs_ok_def names_ok_def reference_collection_def fresh_store_def split: ref_kind.split)

theorem reference_names_stay_unique_witness:
  "find_demo_reference Organization (serve_references example_requests fresh_store) (Some ''Adobe Systems'')
     = Some example_reference"
  by (rule reference_names_stay_unique [OF refs_ok_fresh, THEN conjunct1])
    (simp_all only: example_references, simp_all add: example_reference_def names_of_def)

text \<open>The copies a rename redirects: those of the names the reference had, but for one it takes now.\<close>

definition redirected_keys :: "reference \<Rightarrow> string \<Rightarrow> string set" where
  "redirected_keys r v =
     (if name_key v = ref_normalizedName r then set (keys_of r) else set (keys_of r) - {name_key v})"

definition redirect :: "reference \<Rightarrow> string \<Rightarrow> jstr \<Rightarrow> jstr" where
  "redirect r v f = (if demo_reference_normalized f \<in> redirected_keys r v then Some (trim v) else f)"

definition copies_redirected :: "ref_kind \<Rightarrow> (jstr \<Rightarrow> jstr) \<Rightarrow> store \<Rightarrow> store \<Rightarrow> bool" where
  "copies_redirected k f s t \<longleftrightarrow>
     (case k of
        Organization \<Rightarrow>
          map l_publisherName (licenses t) = map (f \<circ> l_publisherName) (licenses s)
          \<and> map l_supplier (licenses t) = map (f \<circ> l_supplier) (licenses s)
          \<and> map c_publisherName (contracts t) = map (f \<circ> c_publisherName) (contracts s)
          \<and> map i_publisherName (sourcingItems t) = map (f \<circ> i_publisherName) (sourcingItems s)
          \<and> map i_supplier (sourcingItems t) = map (f \<circ> i_supplier) (sourcingItems s)
          \<and> map r_supplier (sourcingRequests t) = map (f \<circ> r_supplier) (sourcingRequests s)
          \<and> map o_supplier (pendingOrders t) = map (f \<circ> o_supplier) (pendingOrders s)
      | CostCentre \<Rightarrow> map l_costCentre (licenses t) = map (f \<circ> l_costCentre) (licenses s))"

lemma keyed_names: "keyed as \<Longrightarrow> set (map name_key (map a_name as)) = set (map a_normalizedName as)"
  unfolding keyed_def by (induction as) simp_all

lemma insert_eq_diff:
  assumes "x \<notin> A" "insert x A = insert x B"
  shows "A = B - {x}"
proof -
  have "A = insert x A - {x}"
    using assms(1) by simp
  also have "\<dots> = B - {x}"
    unfolding assms(2) by simp
  finally show ?thesis .
qed

lemma insert_diff_if: "n \<in> K \<Longrightarrow> insert n (K - {v}) = (if v = n then K else K - {v})"
  by auto

lemma renamed_keys:
  assumes "renamed_aliases clk r (name_key v) s = (Inr as, t)" "own_ok r"
  shows "set (map name_key (ref_name r # map a_name as)) = redirected_keys r v"
proof -
  have as: "distinct (name_key v # map a_normalizedName as)" "keyed as"
    "insert (name_key v) (set (map a_normalizedName as)) = insert (name_key v) (set (keys_of r))"
    using renamed_aliases_own [OF assms] by simp_all
  have same: "set (map name_key (map a_name as)) = set (map a_normalizedName as)"
    using as(2) by (rule keyed_names)
  have key: "name_key (ref_name r) = ref_normalizedName r"
    using assms(2) by (simp add: own_ok_alt)
  have "set (map a_normalizedName as) = set (keys_of r) - {name_key v}"
    using as(1,3) by (intro insert_eq_diff) simp_all
  then have "set (map name_key (ref_name r # map a_name as)) = insert (ref_normalizedName r) (set (keys_of r) - {name_key v})"
    using same key by (simp only: list.map(2) list.set(2))
  also have "\<dots> = redirected_keys r v"
    unfolding redirected_keys_def by (rule insert_diff_if) (simp add: keys_of_def)
  finally show ?thesis .
qed

lemma find_id_upd_reference:
  "keeps_key ref_id f \<Longrightarrow> find_id ref_id i (reference_collection k s) = Some r \<Longrightarrow>
     f r \<in> set (reference_collection k (upd_reference k i f s))"
  using find_id_upd_id [of ref_id f i i "reference_collection k s"]
  by (auto simp: upd_reference_def dest: find_id_SomeD)

lemma find_name:
  assumes "names_ok n (reference_collection k t)" "q \<in> set (reference_collection k t)" "name_key v \<in> set (keys_of q)"
  shows "find_demo_reference k t (Some v) = Some q"
  using find_owner [OF assms(1,2), of "name_key v"] assms(3) names_ok_own [OF assms(1,2)]
  by (auto simp: find_demo_reference_def Let_def owns_key_def own_ok_def)


definition cost_centre_store :: store where
  "cost_centre_store = fresh_store\<lparr>costCentres := [new_reference example_clock 700 ''IT'' False False],
     licenses := [base_license\<lparr>l_id := 1, l_costCentre := Some ''it''\<rparr>, base_license\<lparr>l_id := 2, l_costCentre := Some ''HR''\<rparr>]\<rparr>"

lemma cost_centre_ok: "refs_ok cost_centre_store"
proof -
  have "reference_collection k cost_centre_store =
      (if k = CostCentre then [new_reference example_clock 700 ''IT'' False False] else [])" for k
    by (cases k) (simp_all add: cost_centre_store_def reference_collection_def fresh_store_def)
  moreover have "own_ok (new_reference example_clock 700 ''IT'' False False)"
    by (rule own_ok_new) code_simp
  ultimately show ?thesis
    by (simp add: refs_ok_def names_ok_def new_reference_def cost_centre_store_def fresh_store_def)
qed


end
