(* ===== verification/Frames.thy ===== *)
theory Frames
  imports LicenseRecords
begin

text \<open>
  What \<open>decorateLicense\<close> leaves alone. A license has data and derived fields; \<open>core\<close> forgets the derived
  ones. Decorating a stored license keeps the core of every license and every collection of the store
  but the licenses and the PO line register.
\<close>

definition core :: "license \<Rightarrow> license" where
  "core l = l\<lparr>l_poLineId := None, l_poLineNumber := None, l_support := no_support,
     l_daysUntilExpiry := NullDays, l_expirationStatus := StActive, l_supportDaysRemaining := NullDays,
     l_supportStatus := None, l_updatedAt := []\<rparr>"

lemma core_simps [simp]:
  "core (derive_status clk s l) = core l"
  "core (normalise_support l) = core l"
  "core (assign_license row l) = core l"
  "core (core l) = core l"
  by (simp_all add: core_def derive_status_def normalise_support_def assign_license_def)

lemma core_sel [simp]:
  "l_id (core l) = l_id l" "l_publisherName (core l) = l_publisherName l"
  "l_softwareDescription (core l) = l_softwareDescription l"
  "l_contractNumber (core l) = l_contractNumber l" "l_isRetired (core l) = l_isRetired l"
  "l_retirementScheduled (core l) = l_retirementScheduled l"
  "l_lifecycleStatus (core l) = l_lifecycleStatus l" "l_licenseType (core l) = l_licenseType l"
  "l_isRenewable (core l) = l_isRenewable l" "l_startDate (core l) = l_startDate l"
  "l_endDate (core l) = l_endDate l" "l_renewedToId (core l) = l_renewedToId l"
  "l_maintenanceParentIds (core l) = l_maintenanceParentIds l"
  "l_linkedMaintenanceIds (core l) = l_linkedMaintenanceIds l"
  "l_activeMaintenanceId (core l) = l_activeMaintenanceId l"
  "l_parentLicenseId (core l) = l_parentLicenseId l" "l_costCentre (core l) = l_costCentre l"
  "l_supplier (core l) = l_supplier l" "l_sourceSourcingItemId (core l) = l_sourceSourcingItemId l"
  by (simp_all add: core_def)

lemma core_field: "core l = core m \<Longrightarrow> (\<And>x. f (core x) = f x) \<Longrightarrow> f l = f m"
  by metis

lemma sync_license_core: "sync_license_po_line l s = (l', s') \<Longrightarrow> core l' = core l"
  by (erule sync_license_cases) simp_all

lemma decorate_core: "core (fst (decorate_license clk l s)) = core l"
  by (cases "sync_license_po_line (normalise_support l) s")
    (simp add: decorate_license_def sync_license_core)

lemma sync_license_store: "sync_license_po_line l s = (l', s') \<Longrightarrow> s' = s\<lparr>poLineRegister := poLineRegister s'\<rparr>"
  by (erule sync_license_cases) simp_all

lemma decorate_store: "snd (decorate_license clk l s) = s\<lparr>poLineRegister := poLineRegister (snd (decorate_license clk l s))\<rparr>"
  using sync_license_store [of "normalise_support l" s]
  by (cases "sync_license_po_line (normalise_support l) s") (simp add: decorate_license_def)

lemma decorate_frames [simp]:
  "sourcingItems (snd (decorate_license clk l s)) = sourcingItems s"
  "sourcingRequests (snd (decorate_license clk l s)) = sourcingRequests s"
  "pendingOrders (snd (decorate_license clk l s)) = pendingOrders s"
  "licenses (snd (decorate_license clk l s)) = licenses s"
  "contracts (snd (decorate_license clk l s)) = contracts s"
  "contractDocuments (snd (decorate_license clk l s)) = contractDocuments s"
  "organizations (snd (decorate_license clk l s)) = organizations s"
  "costCentres (snd (decorate_license clk l s)) = costCentres s"
  "globalSettings (snd (decorate_license clk l s)) = globalSettings s"
  "next_id (snd (decorate_license clk l s)) = next_id s"
  by (subst decorate_store, simp)+

lemma put_id_map:
  "find_id key (key y) xs = Some x \<Longrightarrow> f y = f x \<Longrightarrow> map f (put_id key y xs) = map f xs"
  unfolding put_id_def by (induction xs) (auto split: if_splits)

lemma decorate_stored_unfold:
  "get_license s i = Some l \<Longrightarrow>
     decorate_stored clk i s = put_license (fst (decorate_license clk l s)) (snd (decorate_license clk l s))"
  by (simp add: decorate_stored_def split_beta)

lemma decorate_stored_none: "get_license s i = None \<Longrightarrow> decorate_stored clk i s = s"
  by (simp add: decorate_stored_def)

lemma decorate_license_id: "l_id (fst (decorate_license clk l s)) = l_id l"
  using core_field [OF decorate_core, of l_id] by simp

lemma decorate_stored_cores [simp]: "map core (licenses (decorate_stored clk i s)) = map core (licenses s)"
proof (cases "get_license s i")
  case (Some l)
  then have "l_id l = i"
    by (auto simp: get_license_def dest: find_id_SomeD)
  with Some show ?thesis
    by (simp add: decorate_stored_unfold put_license_def decorate_license_id get_license_def
        put_id_map [where x = l] decorate_core)
qed (simp add: decorate_stored_none)

lemma decorate_stored_frames [simp]:
  "sourcingItems (decorate_stored clk i s) = sourcingItems s"
  "sourcingRequests (decorate_stored clk i s) = sourcingRequests s"
  "pendingOrders (decorate_stored clk i s) = pendingOrders s"
  "contracts (decorate_stored clk i s) = contracts s"
  "contractDocuments (decorate_stored clk i s) = contractDocuments s"
  "organizations (decorate_stored clk i s) = organizations s"
  "costCentres (decorate_stored clk i s) = costCentres s"
  "globalSettings (decorate_stored clk i s) = globalSettings s"
  "next_id (decorate_stored clk i s) = next_id s"
  by (cases "get_license s i"; simp add: decorate_stored_unfold decorate_stored_none)+

text \<open>A field of the core, read off the list of licenses or at an id.\<close>

lemma map_core_field:
  "map core xs = map core ys \<Longrightarrow> (\<And>l. f (core l) = f l) \<Longrightarrow> map f xs = map f ys"
  by (metis (no_types, lifting) comp_apply ext list.map_comp)

lemma find_id_core: "map_option core (find_id l_id i xs) = find_id l_id i (map core xs)"
  by (induction xs) auto

lemma decorate_stored_get: "map_option core (get_license (decorate_stored clk i s) j) = map_option core (get_license s j)"
  by (simp add: get_license_def find_id_core)

lemma decorate_stored_ids [simp]: "map l_id (licenses (decorate_stored clk i s)) = map l_id (licenses s)"
  by (rule map_core_field [OF decorate_stored_cores]) simp

lemma decorate_stored_ids_ok [simp]: "ids_ok (decorate_stored clk i s) = ids_ok s"
proof -
  have "ids_below n l_id (licenses (decorate_stored clk i s)) = ids_below n l_id (licenses s)" for n
    unfolding ids_below_alt by (simp flip: set_map)
  then show ?thesis by (simp add: ids_ok_def)
qed

text \<open>A loop over the ids that changes one license at a time, up to derived fields.\<close>

lemma map_upd_id: "(\<And>x. key (h x) = key x) \<Longrightarrow> (\<And>x. h (f x) = g (h x)) \<Longrightarrow> map h (upd_id key i f xs) = upd_id key i g (map h xs)"
  by (induction xs) simp_all

lemma fold_upd_id:
  assumes each: "\<And>i s. V (G i s) = upd_id key i g (V s)" and g: "keeps_key key g"
    and "distinct is" "distinct (map key (V s))"
  shows "V (fold G is s) = map (\<lambda>e. if key e \<in> set is then g e else e) (V s)"
  using assms(3,4)
proof (induction "is" arbitrary: s)
  case (Cons i "is")
  have step: "V (G i s) = map (\<lambda>e. if key e = i then g e else e) (V s)"
    using Cons.prems(2) by (simp add: each upd_id_distinct)
  have "distinct (map key (V (G i s)))"
    using Cons.prems(2) g by (simp add: each)
  then have "V (fold G is (G i s)) = map (\<lambda>e. if key e \<in> set is then g e else e) (V (G i s))"
    using Cons by simp
  also have "\<dots> = map (\<lambda>e. if key e \<in> set (i # is) then g e else e) (V s)"
    using Cons.prems(1) keeps_keyD [OF g] unfolding step by auto
  finally show ?case by simp
qed simp

lemma fold_upd_all:
  assumes "\<And>i s. V (G i s) = upd_id key i g (V s)" "keeps_key key g" "distinct (map key (V s))"
  shows "V (fold G (map key (V s)) s) = map g (V s)"
  using fold_upd_id [of V G key g "map key (V s)" s, OF assms(1,2,3,3)] by (simp cong: map_cong)

end
