(* ===== verification/Contracts.thy ===== *)
theory Contracts
  imports Frames ReferenceData Sourcing
begin

text \<open>
  Contracts (\<^verbatim>\<open>store.js\<close> and the routes of \<^verbatim>\<open>handlers.js\<close>): a contract has folders, its documents refer
  to it and to a folder, and licenses belong to it by their contract number. An uploaded file is its name
  and size.
\<close>

section \<open>Reading\<close>

definition same_contract_number :: "jstr \<Rightarrow> jstr \<Rightarrow> bool" where
  "same_contract_number a b \<longleftrightarrow> normalized a = normalized b"

record contract_view =
  cw_contract :: contract
  cw_licenseCount :: int
  cw_documentCount :: int
  cw_folders :: "folder list"

definition build_contract_response :: "store \<Rightarrow> contract \<Rightarrow> contract_view" where
  "build_contract_response s c =
     (let docs = filter (\<lambda>d. d_contractId d = c_id c) (contractDocuments s)
      in \<lparr>cw_contract = c,
          cw_licenseCount =
            count_where (\<lambda>l. same_contract_number (l_contractNumber l) (c_contractNumber c)) (licenses s),
          cw_documentCount = int (length docs),
          cw_folders = map (\<lambda>f. f\<lparr>f_documentCount := count_where (\<lambda>d. d_folderId d = Some (f_id f)) docs\<rparr>)
            (c_folders c)\<rparr>)"

record contract_license_row =
  cr_id :: int
  cr_publisherName :: jstr
  cr_softwareDescription :: jstr
  cr_contractNumber :: jstr
  cr_startDate :: jstr
  cr_endDate :: jstr
  cr_lifecycleStatus :: "lifecycle option"
  cr_expirationStatus :: expiration_status

definition contract_license_row :: "license \<Rightarrow> contract_license_row" where
  "contract_license_row l = \<lparr>cr_id = l_id l, cr_publisherName = l_publisherName l,
     cr_softwareDescription = l_softwareDescription l, cr_contractNumber = l_contractNumber l,
     cr_startDate = l_startDate l, cr_endDate = l_endDate l, cr_lifecycleStatus = l_lifecycleStatus l,
     cr_expirationStatus = l_expirationStatus l\<rparr>"

definition build_contract_license_rows :: "store \<Rightarrow> contract \<Rightarrow> contract_license_row list" where
  "build_contract_license_rows s c =
     map contract_license_row
       (filter (\<lambda>l. same_contract_number (l_contractNumber l) (c_contractNumber c))
         (filter (\<lambda>l. \<not> l_isRetired l) (licenses s)))"

definition find_contract :: "int \<Rightarrow> contract demo_op" where
  "find_contract i =
     bindE (gets (\<lambda>s. find_id c_id i (contracts s))) (\<lambda>found. the_or_throw found ''Contract not found'')"

definition find_contract_folder :: "int \<Rightarrow> int \<Rightarrow> (contract \<times> folder) demo_op" where
  "find_contract_folder i j =
     bindE (find_contract i) (\<lambda>c.
     bindE (the_or_throw (find_id f_id j (c_folders c)) ''Folder not found'') (\<lambda>f. ret (c, f)))"

definition find_contract_document :: "int \<Rightarrow> int \<Rightarrow> contract_document demo_op" where
  "find_contract_document i j =
     bindE (gets (\<lambda>s. List.find (\<lambda>d. d_contractId d = i \<and> d_id d = j) (contractDocuments s))) (\<lambda>found.
       the_or_throw found ''Document not found'')"

definition upd_contract :: "int \<Rightarrow> (contract \<Rightarrow> contract) \<Rightarrow> store \<Rightarrow> store" where
  "upd_contract i f = contracts_update (upd_id c_id i f)"

text \<open>\<open>GET /api/contracts\<close>, by publisher.\<close>

definition list_contracts :: "(string \<Rightarrow> string \<Rightarrow> int) \<Rightarrow> store \<Rightarrow> contract_view list" where
  "list_contracts collate s =
     map (build_contract_response s)
       (js_sort (\<lambda>a b. collate (str (c_publisherName a)) (str (c_publisherName b))) (contracts s))"

section \<open>Writing\<close>

definition renumber_license :: "clock \<Rightarrow> jstr \<Rightarrow> jstr \<Rightarrow> int \<Rightarrow> store \<Rightarrow> store" where
  "renumber_license clk old_number new_number lid s =
     (case get_license s lid of
        None \<Rightarrow> s
      | Some l \<Rightarrow>
          if same_contract_number (l_contractNumber l) old_number
          then decorate_stored clk lid (upd_license lid (\<lambda>l. l\<lparr>l_contractNumber := new_number\<rparr>) s) else s)"

definition rename_contract_number_on_licenses :: "clock \<Rightarrow> jstr \<Rightarrow> jstr \<Rightarrow> store \<Rightarrow> store" where
  "rename_contract_number_on_licenses clk old_number new_number s =
     (if \<not> truthy old_number \<or> same_contract_number old_number new_number then s
      else fold (renumber_license clk old_number new_number) (map l_id (licenses s)) s)"

definition new_contract :: "clock \<Rightarrow> int \<Rightarrow> string \<Rightarrow> string \<Rightarrow> jstr \<Rightarrow> contract" where
  "new_contract clk n number publisher notes = \<lparr>c_id = n, c_contractNumber = Some number,
     c_publisherName = Some publisher, c_notes = notes, c_createdAt = now clk, c_folders = []\<rparr>"

definition create_contract :: "clock \<Rightarrow> jstr \<Rightarrow> jstr \<Rightarrow> jstr \<Rightarrow> contract demo_op" where
  "create_contract clk number publisher notes =
     bindE (throw_if (trim (str number) = [] \<or> trim (str publisher) = [])
       ''Contract number and publisher name are required.'') (\<lambda>_.
     bindE (ensure_demo_organization clk (Some (trim (str publisher))) PublisherRole) (\<lambda>found.
     bindE (the_or_throw found ''TypeError'') (\<lambda>r.
     bindE fresh_id (\<lambda>n.
     (let c = new_contract clk n (trim (str number)) (ref_name r) notes
      in bindE (modify (contracts_update (\<lambda>cs. cs @ [c]))) (\<lambda>_. ret c))))))"

text \<open>
  \<open>PUT /api/contracts/{id}\<close>: \<open>None\<close> is a number or publisher that is nullish in the body, and notes
  the body does not have. The number is written before the publisher is looked up.
\<close>

definition set_number :: "jstr \<Rightarrow> contract \<Rightarrow> contract" where
  "set_number number c = (case number of None \<Rightarrow> c | Some v \<Rightarrow> c\<lparr>c_contractNumber := Some (trim v)\<rparr>)"

definition update_publisher :: "clock \<Rightarrow> int \<Rightarrow> jstr \<Rightarrow> unit demo_op" where
  "update_publisher clk i publisher =
     (case publisher of
        None \<Rightarrow> ret ()
      | Some v \<Rightarrow>
          bindE (ensure_demo_organization clk (Some v) PublisherRole) (\<lambda>found.
            modify (upd_contract i (\<lambda>c. c\<lparr>c_publisherName :=
              Some (case found of None \<Rightarrow> [] | Some r \<Rightarrow> ref_name r)\<rparr>))))"

definition update_contract :: "clock \<Rightarrow> int \<Rightarrow> jstr \<Rightarrow> jstr \<Rightarrow> jstr option \<Rightarrow> unit demo_op" where
  "update_contract clk i number publisher notes =
     bindE (find_contract i) (\<lambda>c.
     bindE (modify (upd_contract i (set_number number))) (\<lambda>_.
     bindE (update_publisher clk i publisher) (\<lambda>_.
     bindE (modify (upd_contract i (\<lambda>c. case notes of None \<Rightarrow> c | Some v \<Rightarrow> c\<lparr>c_notes := v\<rparr>))) (\<lambda>_.
       modify (rename_contract_number_on_licenses clk (c_contractNumber c)
         (c_contractNumber (set_number number c)))))))"

definition delete_contract :: "int \<Rightarrow> unit demo_op" where
  "delete_contract i =
     bindE (find_contract i) (\<lambda>_.
     bindE (modify (contracts_update (filter (\<lambda>c. c_id c \<noteq> i)))) (\<lambda>_.
       modify (contractDocuments_update (filter (\<lambda>d. d_contractId d \<noteq> i)))))"

definition create_folder :: "clock \<Rightarrow> int \<Rightarrow> jstr \<Rightarrow> folder demo_op" where
  "create_folder clk i v =
     bindE (find_contract i) (\<lambda>_.
     bindE (throw_if (trim (str v) = []) ''Folder name is required'') (\<lambda>_.
     bindE fresh_id (\<lambda>n.
     (let f = \<lparr>f_id = n, f_name = trim (str v), f_createdAt = now clk, f_documentCount = 0\<rparr>
      in bindE (modify (upd_contract i (\<lambda>c. c\<lparr>c_folders := c_folders c @ [f]\<rparr>))) (\<lambda>_. ret f)))))"

definition upd_folder :: "int \<Rightarrow> (folder \<Rightarrow> folder) \<Rightarrow> contract \<Rightarrow> contract" where
  "upd_folder j g c = c\<lparr>c_folders := upd_id f_id j g (c_folders c)\<rparr>"

definition rename_folder :: "int \<Rightarrow> int \<Rightarrow> jstr \<Rightarrow> unit demo_op" where
  "rename_folder i j v =
     bindE (find_contract_folder i j) (\<lambda>_.
     bindE (throw_if (trim (str v) = []) ''Folder name is required'') (\<lambda>_.
     bindE (gets (\<lambda>s. count_where (\<lambda>d. d_folderId d = Some j) (contractDocuments s))) (\<lambda>n.
       modify (upd_contract i (upd_folder j (\<lambda>f. f\<lparr>f_name := trim (str v), f_documentCount := n\<rparr>))))))"

definition delete_folder :: "int \<Rightarrow> int \<Rightarrow> unit demo_op" where
  "delete_folder i j =
     bindE (find_contract_folder i j) (\<lambda>_.
     bindE (gets (\<lambda>s. count_where (\<lambda>d. d_folderId d = Some j) (contractDocuments s))) (\<lambda>n.
     bindE (throw_if (0 < n) ''Cannot delete a folder that contains documents. Remove all documents first.'') (\<lambda>_.
       modify (upd_contract i (\<lambda>c. c\<lparr>c_folders := filter (\<lambda>f. f_id f \<noteq> j) (c_folders c)\<rparr>)))))"

definition list_documents :: "int \<Rightarrow> contract_document list demo_op" where
  "list_documents i =
     bindE (find_contract i) (\<lambda>_.
       gets (\<lambda>s. map (\<lambda>d. d\<lparr>d_fileAvailability := nullish (d_fileAvailability d) (Some ''available'')\<rparr>)
         (filter (\<lambda>d. d_contractId d = i) (contractDocuments s))))"

definition upload_document :: "clock \<Rightarrow> int \<Rightarrow> int option \<Rightarrow> jstr \<Rightarrow> int option \<Rightarrow> contract_document demo_op" where
  "upload_document clk i folder_id file_name file_size =
     bindE fresh_id (\<lambda>n.
     (let name = str (or_else file_name (Some ''demo-upload.txt''));
          d = \<lparr>d_id = n, d_contractId = i, d_folderId = folder_id,
               d_filename = ''contracts/'' @ show_int i @ ''/'' @ name, d_originalFilename = name,
               d_fileSize = file_size, d_createdAt = now clk, d_fileAvailability = Some ''available''\<rparr>
      in bindE (modify (contractDocuments_update (\<lambda>ds. ds @ [d]))) (\<lambda>_. ret d)))"

definition upload_contract_document :: "clock \<Rightarrow> int \<Rightarrow> jstr \<Rightarrow> int option \<Rightarrow> contract_document demo_op" where
  "upload_contract_document clk i file_name file_size =
     bindE (find_contract i) (\<lambda>_. upload_document clk i None file_name file_size)"

definition upload_folder_document :: "clock \<Rightarrow> int \<Rightarrow> int \<Rightarrow> jstr \<Rightarrow> int option \<Rightarrow> contract_document demo_op" where
  "upload_folder_document clk i j file_name file_size =
     bindE (find_contract_folder i j) (\<lambda>_. upload_document clk i (Some j) file_name file_size)"

definition delete_document :: "int \<Rightarrow> int \<Rightarrow> unit demo_op" where
  "delete_document i j =
     bindE (find_contract_document i j) (\<lambda>_.
       modify (contractDocuments_update (filter (\<lambda>d. \<not> (d_contractId d = i \<and> d_id d = j)))))"

section \<open>Documents stay attached\<close>

definition holds :: "contract_document \<Rightarrow> contract \<Rightarrow> bool" where
  "holds d c \<longleftrightarrow> c_id c = d_contractId d
     \<and> (case d_folderId d of None \<Rightarrow> True | Some j \<Rightarrow> j \<in> f_id ` set (c_folders c))"

definition attached :: "contract list \<Rightarrow> contract_document \<Rightarrow> bool" where
  "attached cs d \<longleftrightarrow> (\<exists>c \<in> set cs. holds d c)"

definition documents_ok :: "store \<Rightarrow> bool" where
  "documents_ok s \<longleftrightarrow> (\<forall>d \<in> set (contractDocuments s). attached (contracts s) d)"

lemma documents_ok_cong:
  "contracts t = contracts s \<Longrightarrow> contractDocuments t = contractDocuments s \<Longrightarrow> documents_ok t = documents_ok s"
  by (simp add: documents_ok_def)

lemma attached_upd: "attached cs d \<Longrightarrow> (\<And>c. holds d c \<Longrightarrow> holds d (f c)) \<Longrightarrow> attached (upd_id c_id i f cs) d"
  by (induction cs) (auto simp: attached_def)

lemma upd_contract_sel [simp]:
  "contracts (upd_contract i f s) = upd_id c_id i f (contracts s)"
  "contractDocuments (upd_contract i f s) = contractDocuments s"
  "licenses (upd_contract i f s) = licenses s"
  by (simp_all add: upd_contract_def)

text \<open>An update of contracts that loses no folder in use.\<close>

lemma documents_ok_upd:
  assumes "documents_ok s" "\<And>c d. d \<in> set (contractDocuments s) \<Longrightarrow> holds d c \<Longrightarrow> holds d (f c)"
  shows "documents_ok (upd_contract i f s)"
  using assms by (simp add: documents_ok_def attached_upd)

lemma holds_cong: "c_id c' = c_id c \<Longrightarrow> f_id ` set (c_folders c) \<subseteq> f_id ` set (c_folders c') \<Longrightarrow> holds d c \<Longrightarrow> holds d c'"
  by (auto simp: holds_def split: option.splits)

lemma documents_ok_grow:
  assumes "\<And>c. c_id (f c) = c_id c" "\<And>c. f_id ` set (c_folders c) \<subseteq> f_id ` set (c_folders (f c))"
  shows "preserves documents_ok (modify (upd_contract i f))"
  by (rule preserves_modify, erule documents_ok_upd) (rule holds_cong [OF assms])

text \<open>Organisations come and go beside the contracts.\<close>

lemma contracts_put [simp]:
  "contracts (put_collection k f s) = contracts s"
  "contractDocuments (put_collection k f s) = contractDocuments s"
  "licenses (put_collection k f s) = licenses s"
  by (cases k; simp add: put_collection_def)+

interpretation doc_dir: outside_directory documents_ok
  by unfold_locales (simp_all add: documents_ok_def)

lemmas documents_ok_ensure = doc_dir.dir_organization
lemmas documents_ok_fresh_id = doc_dir.dir_fresh

lemma renumber_frames:
  "contracts (rename_contract_number_on_licenses clk a b s) = contracts s"
  "contractDocuments (rename_contract_number_on_licenses clk a b s) = contractDocuments s"
proof -
  have one: "contracts (renumber_license clk a b i s) = contracts s"
    "contractDocuments (renumber_license clk a b i s) = contractDocuments s" for i s
    by (simp_all add: renumber_license_def split: option.split)
  have "contracts (fold (renumber_license clk a b) is s) = contracts s
      \<and> contractDocuments (fold (renumber_license clk a b) is s) = contractDocuments s" for "is"
    by (induction "is" arbitrary: s) (simp_all add: one)
  then show "contracts (rename_contract_number_on_licenses clk a b s) = contracts s"
    "contractDocuments (rename_contract_number_on_licenses clk a b s) = contractDocuments s"
    by (simp_all add: rename_contract_number_on_licenses_def)
qed

lemma find_contract_reads: "reads (find_contract i)"
  unfolding find_contract_def by (intro read_rules)

lemma find_folder_reads: "reads (find_contract_folder i j)"
  unfolding find_contract_folder_def by (intro read_rules find_contract_reads)

lemma find_document_reads: "reads (find_contract_document i j)"
  unfolding find_contract_document_def by (intro read_rules)

lemmas find_keeps = preserves_reads [OF find_contract_reads] preserves_reads [OF find_folder_reads]
  preserves_reads [OF find_document_reads]

lemma upload_keeps:
  "documents_ok s \<Longrightarrow> c \<in> set (contracts s) \<Longrightarrow> c_id c = i \<Longrightarrow> (\<And>j. fid = Some j \<Longrightarrow> j \<in> f_id ` set (c_folders c)) \<Longrightarrow>
     documents_ok (snd (upload_document clk i fid name n s))"
  unfolding upload_document_def Let_def bind_fresh_id
  by (force simp: documents_ok_def attached_def holds_def split: option.splits)

text \<open>From the look-up of a contract or a folder on.\<close>

lemma keeps_found_contract:
  "I s \<Longrightarrow> (\<And>c. c \<in> set (contracts s) \<Longrightarrow> c_id c = i \<Longrightarrow> I (snd (k c s))) \<Longrightarrow> I (snd (bindE (find_contract i) k s))"
  by (cases "find_id c_id i (contracts s)")
    (simp_all only: find_contract_def bindE_assoc bindE_gets_apply the_or_throw_simps bindE_throw bindE_ret throw_apply snd_conv,
     auto dest: find_id_SomeD)

lemma keeps_found_folder:
  assumes "I s" "\<And>c f. c \<in> set (contracts s) \<Longrightarrow> c_id c = i \<Longrightarrow> j \<in> f_id ` set (c_folders c) \<Longrightarrow> I (snd (k (c, f) s))"
  shows "I (snd (bindE (find_contract_folder i j) k s))"
  unfolding find_contract_folder_def bindE_assoc
proof (rule keeps_found_contract [of I, OF assms(1)])
  fix c
  assume c: "c \<in> set (contracts s)" "c_id c = i"
  show "I (snd (bindE (the_or_throw (find_id f_id j (c_folders c)) ''Folder not found'') (\<lambda>f. bindE (ret (c, f)) k) s))"
  proof (cases "find_id f_id j (c_folders c)")
    case (Some f)
    then have "j \<in> f_id ` set (c_folders c)"
      by (metis find_id_None option.distinct(1))
    with Some assms(2) [OF c] show ?thesis by simp
  qed (simp add: assms(1))
qed

lemma upload_contract_keeps: "preserves documents_ok (upload_contract_document clk i name n)"
  unfolding preserves_iff upload_contract_document_def
  by (intro allI impI, rule keeps_found_contract, assumption, rule upload_keeps) simp_all

lemma upload_folder_keeps: "preserves documents_ok (upload_folder_document clk i j name n)"
  unfolding preserves_iff upload_folder_document_def
  by (intro allI impI, rule keeps_found_folder, assumption, rule upload_keeps) simp_all

lemma delete_contract_keeps: "preserves documents_ok (delete_contract i)"
  unfolding preserves_iff delete_contract_def
  by (intro allI impI, rule keeps_found_contract, assumption) (fastforce simp: documents_ok_def attached_def holds_def)

lemma documents_ok_fewer:
  "documents_ok s \<Longrightarrow> documents_ok (contractDocuments_update (filter p) s)"
  by (simp add: documents_ok_def)

lemma delete_document_keeps: "preserves documents_ok (delete_document i j)"
  unfolding delete_document_def
  by (intro preserves_bind preserves_modify find_keeps documents_ok_fewer)

lemma filed_nowhere:
  "\<not> 0 < count_where (\<lambda>d. d_folderId d = Some j) ds \<Longrightarrow> d \<in> set ds \<Longrightarrow> d_folderId d \<noteq> Some j"
  by (auto simp: count_where_def filter_empty_conv)

lemma holds_drop: "holds d c \<Longrightarrow> d_folderId d \<noteq> Some j \<Longrightarrow> holds d (c\<lparr>c_folders := filter (\<lambda>f. f_id f \<noteq> j) (c_folders c)\<rparr>)"
  by (auto simp: holds_def split: option.splits)

lemma delete_folder_keeps: "preserves documents_ok (delete_folder i j)"
  unfolding preserves_iff delete_folder_def
  by (intro allI impI, rule keeps_found_folder, assumption)
    (simp add: bindE_throw_if_apply documents_ok_upd holds_drop filed_nowhere)

lemma create_contract_keeps: "preserves documents_ok (create_contract clk number publisher notes)"
  unfolding create_contract_def Let_def
  by (intro wp_rules documents_ok_ensure documents_ok_fresh_id preserves_modify) (auto simp: documents_ok_def attached_def)

lemma set_number_sel [simp]: "c_id (set_number v c) = c_id c" "c_folders (set_number v c) = c_folders c"
  by (simp_all add: set_number_def split: option.split)

lemma update_contract_keeps: "preserves documents_ok (update_contract clk i number publisher notes)"
  unfolding update_contract_def update_publisher_def
  by (intro wp_rules find_keeps documents_ok_ensure documents_ok_grow)
    (simp_all add: preserves_iff renumber_frames documents_ok_def split: option.split)

lemma create_folder_keeps: "preserves documents_ok (create_folder clk i v)"
  unfolding create_folder_def Let_def
  by (intro wp_rules find_keeps documents_ok_fresh_id documents_ok_grow) auto

lemma upd_folder_sel [simp]: "c_id (upd_folder j g c) = c_id c" "c_folders (upd_folder j g c) = upd_id f_id j g (c_folders c)"
  by (simp_all add: upd_folder_def)

lemma rename_folder_keeps: "preserves documents_ok (rename_folder i j v)"
  unfolding rename_folder_def
  by (intro wp_rules find_keeps documents_ok_grow)
    (simp_all, subst upd_id_key_set, auto intro: keeps_keyI)

section \<open>Requests\<close>

datatype contract_request =
    CreateContract jstr jstr jstr
  | UpdateContract int jstr jstr "jstr option"
  | DeleteContract int
  | CreateFolder int jstr
  | RenameFolder int int jstr
  | DeleteFolder int int
  | UploadDocument int jstr "int option"
  | UploadFolderDocument int int jstr "int option"
  | DeleteDocument int int

primrec serve_contract :: "clock \<Rightarrow> contract_request \<Rightarrow> store \<Rightarrow> store" where
  "serve_contract clk (CreateContract n p t) s = snd (create_contract clk n p t s)"
| "serve_contract clk (UpdateContract i n p t) s = snd (update_contract clk i n p t s)"
| "serve_contract clk (DeleteContract i) s = snd (delete_contract i s)"
| "serve_contract clk (CreateFolder i v) s = snd (create_folder clk i v s)"
| "serve_contract clk (RenameFolder i j v) s = snd (rename_folder i j v s)"
| "serve_contract clk (DeleteFolder i j) s = snd (delete_folder i j s)"
| "serve_contract clk (UploadDocument i f n) s = snd (upload_contract_document clk i f n s)"
| "serve_contract clk (UploadFolderDocument i j f n) s = snd (upload_folder_document clk i j f n s)"
| "serve_contract clk (DeleteDocument i j) s = snd (delete_document i j s)"

definition serve_contracts :: "(clock \<times> contract_request) list \<Rightarrow> store \<Rightarrow> store" where
  "serve_contracts xs s = fold (\<lambda>(clk, x). serve_contract clk x) xs s"

lemma serve_contract_keeps: "documents_ok s \<Longrightarrow> documents_ok (serve_contract clk x s)"
  by (cases x) (simp_all add: preservesD [OF create_contract_keeps] preservesD [OF update_contract_keeps]
      preservesD [OF delete_contract_keeps] preservesD [OF create_folder_keeps] preservesD [OF rename_folder_keeps]
      preservesD [OF delete_folder_keeps] preservesD [OF upload_contract_keeps] preservesD [OF upload_folder_keeps]
      preservesD [OF delete_document_keeps])

lemma serve_contracts_keep: "documents_ok s \<Longrightarrow> documents_ok (serve_contracts xs s)"
  unfolding serve_contracts_def by (induction xs arbitrary: s) (auto simp: serve_contract_keeps)

definition example_contract_requests :: "(clock \<times> contract_request) list" where
  "example_contract_requests =
     [(example_clock, CreateContract (Some ''C-1'') (Some ''Adobe'') None),
      (example_clock, CreateFolder 1001 (Some ''Signed'')),
      (example_clock, UploadFolderDocument 1001 1002 (Some ''scan.pdf'') (Some 12)),
      (example_clock, DeleteFolder 1001 1002)]"

text \<open>C4: whatever contract requests are served, refused ones included, every document belongs to a
  stored contract, and the folder it is filed in is one of that contract's folders.\<close>

theorem documents_stay_attached:
  assumes "documents_ok s" and "d \<in> set (contractDocuments (serve_contracts xs s))"
  shows "\<exists>c \<in> set (contracts (serve_contracts xs s)). c_id c = d_contractId d
    \<and> (case d_folderId d of None \<Rightarrow> True | Some j \<Rightarrow> j \<in> f_id ` set (c_folders c))"
  using serve_contracts_keep [OF assms(1), of xs] assms(2)
  unfolding documents_ok_def attached_def holds_def by blast

lemma documents_ok_start: "documents_ok fresh_store"
  by (simp add: documents_ok_def fresh_store_def)

theorem documents_stay_attached_witness:
  "\<exists>c \<in> set (contracts (serve_contracts example_contract_requests fresh_store)). c_id c = 1001 \<and> 1002 \<in> f_id ` set (c_folders c)"
proof -
  have docs: "map (\<lambda>d. (d_contractId d, d_folderId d)) (contractDocuments (serve_contracts example_contract_requests fresh_store))
      = [(1001, Some 1002)]"
    by code_simp
  then obtain d where d: "d \<in> set (contractDocuments (serve_contracts example_contract_requests fresh_store))"
    "d_contractId d = 1001" "d_folderId d = Some 1002"
    by (auto simp: map_eq_Cons_conv)
  show ?thesis
    using documents_stay_attached [OF documents_ok_start d(1)] by (simp only: d(2,3) option.case)
qed

section \<open>Renumbering\<close>

definition renumbered :: "jstr \<Rightarrow> jstr \<Rightarrow> license \<Rightarrow> license" where
  "renumbered old_number new_number l =
     (if same_contract_number (l_contractNumber l) old_number then l\<lparr>l_contractNumber := new_number\<rparr> else l)"

lemma renumber_core: "core (renumbered a b l) = renumbered a b (core l)"
  by (simp add: renumbered_def core_def)

lemma upd_id_found: "find_id key i xs = Some x \<Longrightarrow> f x = g x \<Longrightarrow> upd_id key i f xs = upd_id key i g xs"
  by (induction xs) (auto split: if_splits)

lemma upd_id_fixed: "find_id key i xs = Some x \<Longrightarrow> f x = x \<Longrightarrow> upd_id key i f xs = xs"
  by (induction xs) (auto split: if_splits)

lemma renumber_license_core:
  "map core (licenses (renumber_license clk a b i s)) = upd_id l_id i (renumbered a b) (map core (licenses s))"
proof -
  have core: "map core (upd_id l_id i (renumbered a b) xs) = upd_id l_id i (renumbered a b) (map core xs)" for xs
    by (rule map_upd_id) (simp_all add: renumber_core)
  show ?thesis
  proof (cases "get_license s i")
    case None
    then show ?thesis
      unfolding core [symmetric] by (simp add: renumber_license_def get_license_def upd_id_absent)
  next
    case (Some l)
    then have "licenses (if same_contract_number (l_contractNumber l) a
          then upd_license i (\<lambda>l. l\<lparr>l_contractNumber := b\<rparr>) s else s) = upd_id l_id i (renumbered a b) (licenses s)"
      by (auto simp: upd_license_def get_license_def renumbered_def intro: upd_id_found upd_id_fixed [symmetric])
    with Some show ?thesis
      unfolding core [symmetric] by (auto simp: renumber_license_def split: if_splits)
  qed
qed

lemma renumbered_keeps: "keeps_key l_id (renumbered a b)"
  by (rule keeps_keyI) (simp add: renumbered_def)

lemma map_core_ids: "map l_id (map core xs) = map l_id xs"
  by simp

lemma renumber_all:
  assumes "distinct (map l_id (licenses s))" "truthy a"
  shows "map core (licenses (rename_contract_number_on_licenses clk a b s)) =
    (if same_contract_number a b then map core (licenses s) else map (core \<circ> renumbered a b) (licenses s))"
proof -
  have "map core (licenses (fold (renumber_license clk a b) (map l_id (map core (licenses s))) s))
      = map (renumbered a b) (map core (licenses s))"
    by (rule fold_upd_all) (simp_all add: renumber_license_core renumbered_keeps assms(1) comp_def)
  then show ?thesis
    using assms(2) by (simp add: rename_contract_number_on_licenses_def map_core_ids renumber_core comp_def)
qed

text \<open>The directory of organisations has no part in the licenses.\<close>

definition same_licenses :: "license list \<Rightarrow> store \<Rightarrow> bool" where
  "same_licenses ls s \<longleftrightarrow> licenses s = ls"

lemma same_licenses_upd: "same_licenses ls s \<Longrightarrow> same_licenses ls (upd_contract i f s)"
  by (simp add: same_licenses_def)

interpretation lic_dir: outside_directory "same_licenses ls" for ls
  by unfold_locales (simp_all add: same_licenses_def)

lemma same_licenses_publisher: "preserves (same_licenses ls) (update_publisher clk i v)"
  unfolding update_publisher_def
  by (intro wp_rules lic_dir.dir_organization preserves_modify same_licenses_upd)

lemma update_contract_result:
  assumes "find_id c_id i (contracts s) = Some c" "update_contract clk i number publisher notes s = (Inr u, t)"
  shows "\<exists>t'. licenses t' = licenses s
    \<and> t = rename_contract_number_on_licenses clk (c_contractNumber c) (c_contractNumber (set_number number c)) t'"
proof -
  obtain s' where p: "update_publisher clk i publisher (upd_contract i (set_number number) s) = (Inr (), s')"
    and t: "t = rename_contract_number_on_licenses clk (c_contractNumber c) (c_contractNumber (set_number number c))
      (upd_contract i (\<lambda>c. case notes of None \<Rightarrow> c | Some v \<Rightarrow> c\<lparr>c_notes := v\<rparr>) s')"
    using assms by (auto simp: update_contract_def find_contract_def bindE_Inr)
  have "same_licenses (licenses s) s'"
    using same_licenses_publisher same_licenses_upd p by (rule preservesD2) (simp add: same_licenses_def)
  then show ?thesis
    using t unfolding same_licenses_def by (metis upd_contract_sel(3))
qed


definition renumber_store :: store where
  "renumber_store = fresh_store\<lparr>
     contracts := [new_contract example_clock 5 ''C-1'' ''Adobe'' None],
     licenses := [base_license\<lparr>l_id := 1, l_contractNumber := Some '' c-1''\<rparr>,
                  base_license\<lparr>l_id := 2, l_contractNumber := Some ''C-9''\<rparr>, base_license\<lparr>l_id := 3\<rparr>]\<rparr>"


lemma ensure_inactive:
  assumes "trim v \<noteq> []" "find_demo_reference Organization s (Some (trim v)) = Some r" "\<not> ref_isActive r"
  shows "ensure_demo_organization clk (Some v) role s = (Inl (Error (ref_name r @ '' is inactive'')), s)"
proof -
  have "ensure_demo_reference clk Organization (Some v) s = (Inl (Error (ref_name r @ '' is inactive'')), s)"
    using assms by (simp add: ensure_demo_reference_def Let_def bindE_throw_if_apply)
  then show ?thesis
    unfolding ensure_demo_organization_def by (rule bindE_eq_Inl)
qed

text \<open>C34: an update that names an inactive publisher is refused, but the number it carries has been
  written by then, and the licenses keep the number the contract had.\<close>

theorem refused_update_leaves_number:
  assumes "find_id c_id i (contracts s) = Some c" and "trim v \<noteq> []"
    and "find_demo_reference Organization s (Some (trim v)) = Some r" "\<not> ref_isActive r"
  shows "update_contract clk i number (Some v) notes s
    = (Inl (Error (ref_name r @ '' is inactive'')), upd_contract i (set_number number) s)"
proof -
  have "find_demo_reference Organization (upd_contract i (set_number number) s) w = find_demo_reference Organization s w" for w
    by (simp add: find_demo_reference_def reference_collection_def upd_contract_def Let_def)
  then have "update_publisher clk i (Some v) (upd_contract i (set_number number) s)
      = (Inl (Error (ref_name r @ '' is inactive'')), upd_contract i (set_number number) s)"
    unfolding update_publisher_def option.case using assms(2-4) by (intro bindE_eq_Inl ensure_inactive) simp_all
  then have "bindE (update_publisher clk i (Some v)) k (upd_contract i (set_number number) s)
      = (Inl (Error (ref_name r @ '' is inactive'')), upd_contract i (set_number number) s)" for k :: "unit \<Rightarrow> unit demo_op"
    by (rule bindE_eq_Inl)
  then show ?thesis
    using assms(1) by (simp add: update_contract_def find_contract_def bindE_assoc)
qed

definition inactive_store :: store where
  "inactive_store = renumber_store\<lparr>organizations :=
     [(new_reference example_clock 6 ''Oracle'' True False)\<lparr>ref_isActive := False\<rparr>]\<rparr>"

theorem refused_update_leaves_number_witness:
  "map c_contractNumber (contracts (snd (update_contract example_clock 5 (Some ''C-9'') (Some ''Oracle'') None inactive_store)))
     = [Some ''C-9'']"
proof -
  let ?r = "(new_reference example_clock 6 ''Oracle'' True False)\<lparr>ref_isActive := False\<rparr>"
  have found: "find_id c_id 5 (contracts inactive_store) = Some (new_contract example_clock 5 ''C-1'' ''Adobe'' None)"
    by code_simp
  have name: "trim ''Oracle'' \<noteq> []"
    by code_simp
  have owner: "find_demo_reference Organization inactive_store (Some (trim ''Oracle'')) = Some ?r"
    by code_simp
  have off: "\<not> ref_isActive ?r"
    by simp
  show ?thesis
    unfolding refused_update_leaves_number [OF found name owner off] snd_conv by code_simp
qed

end
