(* ===== verification/LicenseRoutes.thy ===== *)
theory LicenseRoutes
  imports Maintenance ReferenceData Frames Stats
begin

text \<open>
  The license routes of \<^verbatim>\<open>handlers.js\<close>: creating, patching, updating and deleting licenses, disabling
  and linking maintenance, overriding the total of a purchase order, marking a notice handled.

  A request body is the list of the keys it has and a license that holds their values and the defaults
  elsewhere. The responses add the completeness percentage to the stored license; the operations
  return its id. The batch-create route is in \<^verbatim>\<open>LicenseBatch\<close>.
\<close>

section \<open>Payloads\<close>

record license_payload =
  lp_keys :: "string list"
  lp_data :: license

definition has_key :: "string \<Rightarrow> license_payload \<Rightarrow> bool" where
  "has_key k p \<longleftrightarrow> k \<in> set (lp_keys p)"

definition map_data :: "(license \<Rightarrow> license) \<Rightarrow> license_payload \<Rightarrow> license_payload" where
  "map_data f p = p\<lparr>lp_data := f (lp_data p)\<rparr>"

text \<open>\<open>/^-?\d+(\.\d+)?$/\<close> or blank (\<^verbatim>\<open>formatting.js\<close>).\<close>

definition is_valid_number_value :: "jstr \<Rightarrow> bool" where
  "is_valid_number_value v \<longleftrightarrow>
     (case v of None \<Rightarrow> True | Some t \<Rightarrow> t = [] \<or> match_quantity (trim t) \<noteq> None)"

definition validate_demo_money :: "jstr list \<Rightarrow> unit demo_op" where
  "validate_demo_money vs =
     throw_if (\<exists>v \<in> set vs. \<not> is_valid_number_value v)
       ''Money values must be plain decimal strings (e.g. '1234.50').''"

definition money_of_license :: "(string \<times> (license \<Rightarrow> jstr)) list" where
  "money_of_license =
     [(''quantity'', l_quantity), (''quantityPerUnit'', l_quantityPerUnit), (''unitPrice'', l_unitPrice),
      (''totalPoPrice'', l_totalPoPrice),
      (''maintenanceQuantity'', \<lambda>l. maintenanceQuantity (l_support l)),
      (''maintenanceUnitPrice'', \<lambda>l. maintenanceUnitPrice (l_support l)),
      (''maintenanceCost'', \<lambda>l. maintenanceCost (l_support l)), (''poTotalOverride'', l_poTotalOverride)]"

definition submitted_money :: "license_payload \<Rightarrow> jstr list" where
  "submitted_money p = map (\<lambda>e. snd e (lp_data p)) (filter (\<lambda>e. has_key (fst e) p) money_of_license)"

text \<open>The names a record brings, made or found in the directory.\<close>

definition publisher_for :: "clock \<Rightarrow> jstr \<Rightarrow> jstr demo_op" where
  "publisher_for clk v =
     bindE (ensure_demo_organization clk v PublisherRole) (\<lambda>r. ret (Some (str (map_option ref_name r))))"

definition supplier_for :: "clock \<Rightarrow> jstr \<Rightarrow> jstr demo_op" where
  "supplier_for clk v =
     bindE (ensure_demo_organization clk v SupplierRole) (\<lambda>r. ret (or_null (map_option ref_name r)))"

definition cost_centre_for :: "clock \<Rightarrow> jstr \<Rightarrow> jstr demo_op" where
  "cost_centre_for clk v =
     bindE (ensure_demo_cost_centre clk v) (\<lambda>r. ret (or_null (map_option ref_name r)))"

definition when_key :: "bool \<Rightarrow> jstr demo_op \<Rightarrow> (jstr \<Rightarrow> 'a \<Rightarrow> 'a) \<Rightarrow> 'a \<Rightarrow> 'a demo_op" where
  "when_key present m put x = (if present then bindE m (\<lambda>v. ret (put v x)) else ret x)"

definition canonicalize_demo_reference_fields :: "clock \<Rightarrow> license_payload \<Rightarrow> license_payload demo_op" where
  "canonicalize_demo_reference_fields clk p =
     (let l = lp_data p in
      bindE (validate_demo_money (submitted_money p)) (\<lambda>_.
      bindE (throw_if (has_key ''poLineNumber'' p \<or> has_key ''poLineId'' p)
        ''PO line numbers are generated and cannot be set'') (\<lambda>_.
      bindE (when_key (has_key ''publisherName'' p) (publisher_for clk (l_publisherName l))
        (\<lambda>v l. l\<lparr>l_publisherName := v\<rparr>) l) (\<lambda>l.
      bindE (when_key (has_key ''supplier'' p) (supplier_for clk (l_supplier l))
        (\<lambda>v l. l\<lparr>l_supplier := v\<rparr>) l) (\<lambda>l.
      bindE (when_key (has_key ''costCentre'' p) (cost_centre_for clk (l_costCentre l))
        (\<lambda>v l. l\<lparr>l_costCentre := v\<rparr>) l) (\<lambda>l.
        ret (p\<lparr>lp_data := l\<rparr>)))))))"

context outside_directory
begin

lemma dir_names:
  "preserves I (publisher_for clk v)" "preserves I (supplier_for clk v)" "preserves I (cost_centre_for clk v)"
  unfolding publisher_for_def supplier_for_def cost_centre_for_def
  by (intro wp_rules dir_organization dir_cost_centre)+

lemma dir_canonicalize: "preserves I (canonicalize_demo_reference_fields clk p)"
  unfolding canonicalize_demo_reference_fields_def when_key_def validate_demo_money_def Let_def
  by (intro wp_rules dir_names)

end

definition sync_payload_invoices :: "license_payload \<Rightarrow> license_payload" where
  "sync_payload_invoices p =
     (let l = lp_data p; (ns, n) = sync_invoice_numbers (lp_keys p) (l_invoiceNumbers l, l_invoiceNumber l);
          keys = (if has_key ''invoiceNumbers'' p \<or> has_key ''invoiceNumber'' p
                  then lp_keys p @ [''invoiceNumbers'', ''invoiceNumber''] else lp_keys p)
      in \<lparr>lp_keys = keys, lp_data = l\<lparr>l_invoiceNumbers := ns, l_invoiceNumber := n\<rparr>\<rparr>)"

definition prepare_demo_license_create :: "clock \<Rightarrow> license_payload \<Rightarrow> license_payload demo_op" where
  "prepare_demo_license_create clk p =
     bindE (canonicalize_demo_reference_fields clk p) (\<lambda>p.
     (let d = map_data (normalise_license_types (lp_keys p)) (sync_payload_invoices p)
      in bindE (validate_type_description (l_licenseType (lp_data d)) (l_typeDescription (lp_data d))) (\<lambda>_. ret d)))"

section \<open>Maintenance parents\<close>

definition maintenance_parent_types :: "license_type list" where
  "maintenance_parent_types = [Perpetual, Oem, Freeware]"

definition has_maintenance_parent :: "license \<Rightarrow> int \<Rightarrow> bool" where
  "has_maintenance_parent l p \<longleftrightarrow> l_parentLicenseId l = Some p \<or> p \<in> set (l_maintenanceParentIds l)"

definition assert_parent_type :: "license \<Rightarrow> unit demo_op" where
  "assert_parent_type p =
     throw_if (\<not> in_types (l_licenseType p) maintenance_parent_types)
       ''Maintenance tracking can only be linked to perpetual, OEM, or freeware Licenses.''"

definition link_maintenance_to_parent_record :: "clock \<Rightarrow> license \<Rightarrow> license \<Rightarrow> unit demo_op" where
  "link_maintenance_to_parent_record clk m p =
     bindE (throw_if (l_licenseType m \<noteq> Some Maintenance)
       ''Only maintenance licenses can be linked to maintenance parents'') (\<lambda>_.
     bindE (assert_parent_type p) (\<lambda>_.
       modify (\<lambda>s. snd (link_or_activate_maintenance clk (l_id m) (l_id p) s))))"

definition link_maintenance :: "clock \<Rightarrow> int \<Rightarrow> int \<Rightarrow> unit demo_op" where
  "link_maintenance clk p m =
     bindE (find_license p) (\<lambda>parent.
     bindE (find_license m) (\<lambda>record. link_maintenance_to_parent_record clk record parent))"

definition leave_parent :: "int \<Rightarrow> license \<Rightarrow> license" where
  "leave_parent p l =
     (let parents = filter (\<lambda>i. i \<noteq> p) (l_maintenanceParentIds l)
      in l\<lparr>l_maintenanceParentIds := parents,
           l_parentLicenseId :=
             (if l_parentLicenseId l = Some p then (case parents of [] \<Rightarrow> None | q # _ \<Rightarrow> Some q)
              else l_parentLicenseId l),
           l_isRetired := (if parents = [] then True else l_isRetired l)\<rparr>)"

definition without_maintenance :: "int \<Rightarrow> license \<Rightarrow> license" where
  "without_maintenance m l = l\<lparr>
     l_linkedMaintenanceIds := filter (\<lambda>i. i \<noteq> m) (l_linkedMaintenanceIds l),
     l_activeMaintenanceId := None, l_hasMaintenance := False,
     l_support := (l_support l)\<lparr>maintenanceStartDate := None, maintenanceEndDate := None,
       maintenancePricingBasis := None, maintenanceQuantity := None, maintenanceUnitPrice := None,
       maintenanceCost := None\<rparr>\<rparr>"

definition disable_active :: "clock \<Rightarrow> int \<Rightarrow> int \<Rightarrow> store \<Rightarrow> store" where
  "disable_active clk p m s =
     (let s1 = (if get_license s m = None then s
                else decorate_stored clk m (upd_license m (leave_parent p) s))
      in decorate_stored clk p (upd_license p (without_maintenance m) s1))"

definition disable_maintenance :: "clock \<Rightarrow> int \<Rightarrow> unit demo_op" where
  "disable_maintenance clk p =
     bindE (find_license p) (\<lambda>l.
     bindE (throw_if (\<not> in_types (l_licenseType l) maintenance_parent_types)
       ''Maintenance tracking can only be disabled on perpetual, OEM, or freeware Licenses.'') (\<lambda>_.
       case l_activeMaintenanceId l of
         None \<Rightarrow> ret ()
       | Some m \<Rightarrow> if \<not> l_hasMaintenance l then ret () else modify (disable_active clk p m)))"

section \<open>PO totals and notices\<close>

definition set_override :: "clock \<Rightarrow> jstr \<Rightarrow> int \<Rightarrow> store \<Rightarrow> store" where
  "set_override clk v lid s = decorate_stored clk lid (upd_license lid (\<lambda>l. l\<lparr>l_poTotalOverride := v\<rparr>) s)"

definition set_override_of_group :: "clock \<Rightarrow> jstr \<Rightarrow> license \<Rightarrow> store \<Rightarrow> store" where
  "set_override_of_group clk v l s =
     fold (set_override clk v) (map l_id (filter (\<lambda>x. has_same_procurement_identity x l) (licenses s))) s"

definition override_po_total :: "clock \<Rightarrow> int \<Rightarrow> jstr \<Rightarrow> unit demo_op" where
  "override_po_total clk i v =
     bindE (find_license i) (\<lambda>l.
     bindE (throw_if (\<not> truthy (l_poNumber l)) ''A PO number is required to override the total PO value'') (\<lambda>_.
     bindE (throw_if (\<not> truthy v) ''PO total override is required'') (\<lambda>_.
     bindE (validate_demo_money [v]) (\<lambda>_. modify (set_override_of_group clk v l)))))"

definition clear_po_total :: "clock \<Rightarrow> int \<Rightarrow> unit demo_op" where
  "clear_po_total clk i =
     bindE (find_license i) (\<lambda>l.
     bindE (throw_if (\<not> truthy (l_poNumber l)) ''A PO number is required to clear the total PO override'') (\<lambda>_.
       modify (set_override_of_group clk None l)))"

definition DEMO_USER_ID :: int where
  "DEMO_USER_ID = 1"

definition mark_notice_handled :: "clock \<Rightarrow> int \<Rightarrow> unit demo_op" where
  "mark_notice_handled clk i =
     bindE (find_license i) (\<lambda>l.
     bindE (throw_if (\<not> truthy (l_noticeDate l)) ''License has no notice date to mark handled'') (\<lambda>_.
       modify (upd_license i (\<lambda>l. l\<lparr>l_noticeHandledAt := Some (now clk),
         l_noticeHandledByUserId := Some DEMO_USER_ID, l_updatedAt := now clk\<rparr>))))"

section \<open>Patching a field\<close>

definition date_patch_fields :: "string list" where
  "date_patch_fields = [''startDate'', ''endDate'', ''noticeDate'']"

definition email_patch_fields :: "string list" where
  "email_patch_fields = [''contactEmail'', ''budgetOwnerEmail'']"

definition numeric_patch_fields :: "string list" where
  "numeric_patch_fields = [''quantity'', ''quantityPerUnit'', ''unitPrice'', ''totalPoPrice'']"

definition required_patch_fields :: "string list" where
  "required_patch_fields =
     [''publisherName'', ''softwareDescription'', ''licenseType'', ''licenseMetric'', ''currency'']"

definition blankable_patch_fields :: "string list" where
  "blankable_patch_fields =
     [''quantity'', ''quantityPerUnit'', ''skuCode'', ''unitPrice'', ''totalPoPrice'', ''contractNumber'',
      ''poNumber'', ''procurementReference'', ''invoiceNumber'', ''contactEmail'', ''supplier'',
      ''costCentre'', ''budgetOwnerEmail'']"

definition field_patch_allowed :: "string list" where
  "field_patch_allowed =
     [''publisherName'', ''softwareDescription'', ''licenseType'', ''licenseMetric'', ''portalUrl'',
      ''quantity'', ''quantityPerUnit'', ''skuCode'', ''unitPrice'', ''totalPoPrice'', ''currency'', ''startDate'',
      ''endDate'', ''noticeDate'', ''requestDate'', ''purchaseDate'', ''contractNumber'', ''poNumber'',
      ''procurementReference'', ''invoiceNumber'', ''contactEmail'', ''supplier'', ''costCentre'',
      ''budgetOwnerEmail'', ''notes'', ''maintenanceCoverage'']"

text \<open>\<^verbatim>\<open>/^\d{4}-\d{2}-\d{2}$/\<close> and \<^verbatim>\<open>/^[^\s@]+@[^\s@]+\.[^\s@]+$/\<close>\<close>

definition iso_shape :: "string \<Rightarrow> bool" where
  "iso_shape v \<longleftrightarrow>
     (case split_on CHR ''-'' v of
        [y, m, d] \<Rightarrow> length y = 4 \<and> length m = 2 \<and> length d = 2 \<and> list_all is_digit (y @ m @ d)
      | _ \<Rightarrow> False)"

definition inner_dot :: "string \<Rightarrow> bool" where
  "inner_dot d \<longleftrightarrow> CHR ''.'' \<in> set (butlast (tl d))"

definition simple_email :: "string \<Rightarrow> bool" where
  "simple_email v \<longleftrightarrow>
     (case split_on CHR ''@'' v of
        [a, d] \<Rightarrow> a \<noteq> [] \<and> inner_dot d \<and> \<not> list_ex is_ws (a @ d)
      | _ \<Rightarrow> False)"

text \<open>The value of a patch: text, or a license type or coverage for these two fields.\<close>

datatype patch_value = TextValue jstr | TypeValue "license_type option" | CoverageValue "coverage option"

fun blank_patch :: "patch_value \<Rightarrow> bool" where
  "blank_patch (TextValue v) = (trim (str v) = [])"
| "blank_patch (TypeValue t) = (t = None)"
| "blank_patch (CoverageValue c) = (c = None)"

fun patch_text :: "patch_value \<Rightarrow> jstr" where
  "patch_text (TextValue v) = v"
| "patch_text _ = None"

definition quoted :: "string \<Rightarrow> string" where
  "quoted v = CHR 0x27 # v @ [CHR 0x27]"

definition validate_patch_field_input :: "string \<Rightarrow> patch_value \<Rightarrow> unit demo_op" where
  "validate_patch_field_input field value =
     (let v = patch_text value in
      bindE (throw_if (field \<notin> set field_patch_allowed)
        (''Field '' @ quoted field @ '' is not allowed. Allowed: '' @ join '', '' field_patch_allowed)) (\<lambda>_.
      bindE (throw_if (field \<in> set required_patch_fields \<and> blank_patch value)
        (''Field '' @ quoted field @ '' cannot be empty.'')) (\<lambda>_.
      bindE (throw_if (field \<in> set date_patch_fields \<and> truthy v \<and> \<not> iso_shape (str v))
        (''Invalid date for '' @ quoted field @ ''. Expected YYYY-MM-DD.'')) (\<lambda>_.
      bindE (throw_if (field \<in> set email_patch_fields \<and> truthy v \<and> \<not> simple_email (str v))
        (''Invalid email format for '' @ quoted field @ ''.'')) (\<lambda>_.
      bindE (throw_if (field \<in> set numeric_patch_fields \<and> \<not> is_valid_number_value v)
        (''Invalid numeric value for '' @ quoted field @ ''. Expected a plain decimal string such as ''
          @ quoted ''1234.50'' @ ''.'')) (\<lambda>_.
        throw_if (field = ''maintenanceCoverage'' \<and> blank_patch value) ''Invalid maintenance coverage: null''))))))"

definition assert_coverage_change_allowed ::
  "license_type option \<Rightarrow> int option \<Rightarrow> coverage option \<Rightarrow> unit demo_op" where
  "assert_coverage_change_allowed t active c =
     bindE (throw_if (active \<noteq> None \<and> c \<noteq> Some SeparatelyTracked)
       ''This license has an active maintenance record. Disable the linked contract before changing coverage away from separately tracked.'') (\<lambda>_.
       throw_if (c = Some SeparatelyTracked \<and> \<not> in_types t maintenance_parent_types)
         ''Separately tracked maintenance is only valid for perpetual, oem, or freeware Licenses. Use included coverage for subscription or SaaS support bundled into the term.'')"

text \<open>
  \<open>license[field] = value\<close> for the fields the handler has no branch for; a procurement reference is not
  part of the license record.
\<close>

definition set_text_field :: "string \<Rightarrow> jstr \<Rightarrow> license \<Rightarrow> license" where
  "set_text_field field v l =
     (if field = ''publisherName'' then l\<lparr>l_publisherName := v\<rparr>
      else if field = ''softwareDescription'' then l\<lparr>l_softwareDescription := v\<rparr>
      else if field = ''licenseMetric'' then l\<lparr>l_licenseMetric := v\<rparr>
      else if field = ''portalUrl'' then l\<lparr>l_portalUrl := v\<rparr>
      else if field = ''quantity'' then l\<lparr>l_quantity := v\<rparr>
      else if field = ''quantityPerUnit'' then l\<lparr>l_quantityPerUnit := v\<rparr>
      else if field = ''skuCode'' then l\<lparr>l_skuCode := v\<rparr>
      else if field = ''unitPrice'' then l\<lparr>l_unitPrice := v\<rparr>
      else if field = ''totalPoPrice'' then l\<lparr>l_totalPoPrice := v\<rparr>
      else if field = ''currency'' then l\<lparr>l_currency := v\<rparr>
      else if field = ''requestDate'' then l\<lparr>l_requestDate := v\<rparr>
      else if field = ''purchaseDate'' then l\<lparr>l_purchaseDate := v\<rparr>
      else if field = ''poNumber'' then l\<lparr>l_poNumber := v\<rparr>
      else if field = ''contactEmail'' then l\<lparr>l_contactEmail := v\<rparr>
      else if field = ''supplier'' then l\<lparr>l_supplier := v\<rparr>
      else if field = ''costCentre'' then l\<lparr>l_costCentre := v\<rparr>
      else if field = ''budgetOwnerEmail'' then l\<lparr>l_budgetOwnerEmail := v\<rparr>
      else if field = ''notes'' then l\<lparr>l_notes := v\<rparr>
      else l)"

definition set_date_field :: "string \<Rightarrow> jstr \<Rightarrow> license \<Rightarrow> license" where
  "set_date_field field v l =
     (if field = ''startDate'' then l\<lparr>l_startDate := or_null v\<rparr>
      else if field = ''noticeDate'' then
        (clear_notice_handled_if_date_changed (or_null v) l)\<lparr>l_noticeDate := or_null v\<rparr>
      else l\<lparr>l_endDate := (if is_non_expiring_license_type (l_licenseType l) then None else or_null v)\<rparr>)"

definition set_invoice :: "jstr \<Rightarrow> license \<Rightarrow> license" where
  "set_invoice v l = l\<lparr>l_invoiceNumber := Some (str v), l_invoiceNumbers := (if truthy v then [str v] else [])\<rparr>"

definition set_coverage :: "coverage option \<Rightarrow> license \<Rightarrow> license" where
  "set_coverage c l =
     record_included_support_exit (maintenanceCoverage (l_support l))
       (l\<lparr>l_support := (l_support l)\<lparr>maintenanceCoverage := c\<rparr>\<rparr>)"

text \<open>The type rules on a whole license, which has the two opt-in keys.\<close>

definition normalise_whole_license :: "license \<Rightarrow> license" where
  "normalise_whole_license = normalise_license_types [''isRenewable'', ''typeDescription'']"

definition write_patch :: "string \<Rightarrow> patch_value \<Rightarrow> jstr \<Rightarrow> license \<Rightarrow> license" where
  "write_patch field value resolved l =
     (case value of
        TypeValue t \<Rightarrow> normalise_whole_license (l\<lparr>l_licenseType := t\<rparr>)
      | CoverageValue c \<Rightarrow> set_coverage c l
      | TextValue v \<Rightarrow>
          if field = ''contractNumber'' then l\<lparr>l_contractNumber := Some (str v)\<rparr>
          else if field \<in> set date_patch_fields then set_date_field field v l
          else if field = ''invoiceNumber'' then set_invoice v l
          else set_text_field field resolved l)"

definition resolve_patch :: "clock \<Rightarrow> string \<Rightarrow> jstr \<Rightarrow> jstr demo_op" where
  "resolve_patch clk field v =
     (if field = ''publisherName'' then publisher_for clk v
      else if field = ''supplier'' then supplier_for clk v
      else if field = ''costCentre'' then cost_centre_for clk v
      else ret v)"

definition support_defaults :: "license \<Rightarrow> license" where
  "support_defaults l = l\<lparr>l_support := apply_included_support_defaults (license_acquisition l) (l_support l)\<rparr>"

text \<open>The three keys of a retirement update written to the license.\<close>

definition write_retirement :: "retirement_update \<Rightarrow> license \<Rightarrow> license" where
  "write_retirement u l = l\<lparr>
     l_isRetired := (case ru_isRetired u of None \<Rightarrow> l_isRetired l | Some b \<Rightarrow> b),
     l_retirementScheduled := (case ru_retirementScheduled u of None \<Rightarrow> l_retirementScheduled l | Some b \<Rightarrow> b)\<rparr>"

definition retire_after_end_date :: "clock \<Rightarrow> license \<Rightarrow> license" where
  "retire_after_end_date clk l =
     write_retirement (normalize_retirement_update clk (Some l)
       \<lparr>ru_isRetired = None, ru_retirementScheduled = None, ru_endDate = Some (l_endDate l)\<rparr>) l"

definition patched_license :: "clock \<Rightarrow> string \<Rightarrow> patch_value \<Rightarrow> jstr \<Rightarrow> license \<Rightarrow> license" where
  "patched_license clk field value resolved l =
     (let l1 = support_defaults (write_patch field value resolved l)
      in if field = ''endDate'' then retire_after_end_date clk l1 else l1)"

text \<open>A type and a coverage come under their own field names only.\<close>

definition well_typed_patch :: "string \<Rightarrow> patch_value \<Rightarrow> bool" where
  "well_typed_patch field value \<longleftrightarrow>
     (case value of
        TypeValue _ \<Rightarrow> field = ''licenseType''
      | CoverageValue _ \<Rightarrow> field = ''maintenanceCoverage''
      | TextValue _ \<Rightarrow> field \<noteq> ''licenseType'' \<and> field \<noteq> ''maintenanceCoverage'')"

definition fill_blank :: "string \<Rightarrow> patch_value \<Rightarrow> patch_value" where
  "fill_blank field value =
     (if field \<in> set blankable_patch_fields \<and> value = TextValue None then TextValue (Some []) else value)"

definition patch_license_field :: "clock \<Rightarrow> int \<Rightarrow> string \<Rightarrow> patch_value \<Rightarrow> unit demo_op" where
  "patch_license_field clk i field value =
     bindE (find_license i) (\<lambda>l.
     bindE (validate_patch_field_input field value) (\<lambda>_.
     (let value = fill_blank field value in
      bindE (resolve_patch clk field (patch_text value)) (\<lambda>resolved.
      bindE (case value of
          CoverageValue c \<Rightarrow> assert_coverage_change_allowed (l_licenseType l) (l_activeMaintenanceId l) c
        | _ \<Rightarrow> ret ()) (\<lambda>_.
        modify (\<lambda>s. decorate_stored clk i (upd_license i (patched_license clk field value resolved) s)))))))"

section \<open>Creating, updating and deleting\<close>

definition payload_retirement :: "license_payload \<Rightarrow> retirement_update" where
  "payload_retirement p =
     \<lparr>ru_isRetired = (if has_key ''isRetired'' p then Some (l_isRetired (lp_data p)) else None),
      ru_retirementScheduled =
        (if has_key ''retirementScheduled'' p then Some (l_retirementScheduled (lp_data p)) else None),
      ru_endDate = (if has_key ''endDate'' p then Some (l_endDate (lp_data p)) else None)\<rparr>"

definition created_license :: "clock \<Rightarrow> int \<Rightarrow> license_payload \<Rightarrow> license" where
  "created_license clk n p =
     build_license clk ((write_retirement (normalize_retirement_update clk None (payload_retirement p)) (lp_data p))\<lparr>
       l_id := n, l_licenseRef := Some (license_ref n), l_createdAt := now clk, l_updatedAt := now clk\<rparr>)"

text \<open>\<open>const parent = store.licenses.find(...); if (parent) linkMaintenanceToParentRecord(...)\<close>\<close>

definition link_to_stored_parent :: "clock \<Rightarrow> int \<Rightarrow> int \<Rightarrow> unit demo_op" where
  "link_to_stored_parent clk n p =
     bindE (gets (\<lambda>s. get_license s p)) (\<lambda>parent.
     bindE (gets (\<lambda>s. get_license s n)) (\<lambda>record.
       case (parent, record) of
         (Some p, Some m) \<Rightarrow> link_maintenance_to_parent_record clk m p
       | _ \<Rightarrow> ret ()))"

definition link_created :: "clock \<Rightarrow> int \<Rightarrow> unit demo_op" where
  "link_created clk n =
     bindE (gets (\<lambda>s. get_license s n)) (\<lambda>found.
       case found of
         None \<Rightarrow> ret ()
       | Some l \<Rightarrow>
           if l_licenseType l = Some Maintenance
           then bindE (forE (link_to_stored_parent clk n) (maintenance_parent_ids_of l)) (\<lambda>_. ret ())
           else ret ())"

definition create_license :: "clock \<Rightarrow> license_payload \<Rightarrow> int demo_op" where
  "create_license clk p =
     bindE fresh_id (\<lambda>n.
     bindE (prepare_demo_license_create clk p) (\<lambda>d.
     bindE (modify (push_license (created_license clk n d))) (\<lambda>_.
     bindE (modify (sync_stored_license n)) (\<lambda>_.
     bindE (link_created clk n) (\<lambda>_. ret n)))))"

text \<open>\<open>Object.assign(license, updateData)\<close>, key by key; the keys an update may have.\<close>

definition copy_support :: "(support \<Rightarrow> support \<Rightarrow> support) \<Rightarrow> license \<Rightarrow> license \<Rightarrow> license" where
  "copy_support f d l = l\<lparr>l_support := f (l_support d) (l_support l)\<rparr>"

definition assign_table :: "(string \<times> (license \<Rightarrow> license \<Rightarrow> license)) list" where
  "assign_table =
     [(''publisherName'', \<lambda>d l. l\<lparr>l_publisherName := l_publisherName d\<rparr>),
      (''softwareDescription'', \<lambda>d l. l\<lparr>l_softwareDescription := l_softwareDescription d\<rparr>),
      (''licenseMetric'', \<lambda>d l. l\<lparr>l_licenseMetric := l_licenseMetric d\<rparr>),
      (''portalUrl'', \<lambda>d l. l\<lparr>l_portalUrl := l_portalUrl d\<rparr>),
      (''quantity'', \<lambda>d l. l\<lparr>l_quantity := l_quantity d\<rparr>),
      (''quantityPerUnit'', \<lambda>d l. l\<lparr>l_quantityPerUnit := l_quantityPerUnit d\<rparr>),
      (''skuCode'', \<lambda>d l. l\<lparr>l_skuCode := l_skuCode d\<rparr>),
      (''unitPrice'', \<lambda>d l. l\<lparr>l_unitPrice := l_unitPrice d\<rparr>),
      (''totalPoPrice'', \<lambda>d l. l\<lparr>l_totalPoPrice := l_totalPoPrice d\<rparr>),
      (''currency'', \<lambda>d l. l\<lparr>l_currency := l_currency d\<rparr>),
      (''requestDate'', \<lambda>d l. l\<lparr>l_requestDate := l_requestDate d\<rparr>),
      (''purchaseDate'', \<lambda>d l. l\<lparr>l_purchaseDate := l_purchaseDate d\<rparr>),
      (''poNumber'', \<lambda>d l. l\<lparr>l_poNumber := l_poNumber d\<rparr>),
      (''contactEmail'', \<lambda>d l. l\<lparr>l_contactEmail := l_contactEmail d\<rparr>),
      (''supplier'', \<lambda>d l. l\<lparr>l_supplier := l_supplier d\<rparr>),
      (''costCentre'', \<lambda>d l. l\<lparr>l_costCentre := l_costCentre d\<rparr>),
      (''budgetOwnerEmail'', \<lambda>d l. l\<lparr>l_budgetOwnerEmail := l_budgetOwnerEmail d\<rparr>),
      (''notes'', \<lambda>d l. l\<lparr>l_notes := l_notes d\<rparr>),
      (''licenseType'', \<lambda>d l. l\<lparr>l_licenseType := l_licenseType d\<rparr>),
      (''startDate'', \<lambda>d l. l\<lparr>l_startDate := l_startDate d\<rparr>),
      (''endDate'', \<lambda>d l. l\<lparr>l_endDate := l_endDate d\<rparr>),
      (''noticeDate'', \<lambda>d l. l\<lparr>l_noticeDate := l_noticeDate d\<rparr>),
      (''contractNumber'', \<lambda>d l. l\<lparr>l_contractNumber := l_contractNumber d\<rparr>),
      (''poTotalOverride'', \<lambda>d l. l\<lparr>l_poTotalOverride := l_poTotalOverride d\<rparr>),
      (''invoiceNumber'', \<lambda>d l. l\<lparr>l_invoiceNumber := l_invoiceNumber d\<rparr>),
      (''invoiceNumbers'', \<lambda>d l. l\<lparr>l_invoiceNumbers := l_invoiceNumbers d\<rparr>),
      (''secondaryContacts'', \<lambda>d l. l\<lparr>l_secondaryContacts := l_secondaryContacts d\<rparr>),
      (''isRenewable'', \<lambda>d l. l\<lparr>l_isRenewable := l_isRenewable d\<rparr>),
      (''typeDescription'', \<lambda>d l. l\<lparr>l_typeDescription := l_typeDescription d\<rparr>),
      (''hasMaintenance'', \<lambda>d l. l\<lparr>l_hasMaintenance := l_hasMaintenance d\<rparr>),
      (''parentLicenseId'', \<lambda>d l. l\<lparr>l_parentLicenseId := l_parentLicenseId d\<rparr>),
      (''maintenanceParentIds'', \<lambda>d l. l\<lparr>l_maintenanceParentIds := l_maintenanceParentIds d\<rparr>),
      (''externalRef'', \<lambda>d l. l\<lparr>l_externalRef := l_externalRef d\<rparr>),
      (''isRetired'', \<lambda>d l. l\<lparr>l_isRetired := l_isRetired d\<rparr>),
      (''retirementScheduled'', \<lambda>d l. l\<lparr>l_retirementScheduled := l_retirementScheduled d\<rparr>),
      (''isCompletenessExempt'', \<lambda>d l. l\<lparr>l_isCompletenessExempt := l_isCompletenessExempt d\<rparr>),
      (''lifecycleStatus'', \<lambda>d l. l\<lparr>l_lifecycleStatus := l_lifecycleStatus d\<rparr>),
      (''maintenanceCoverage'', copy_support (\<lambda>d u. u\<lparr>maintenanceCoverage := maintenanceCoverage d\<rparr>)),
      (''maintenanceStartDate'', copy_support (\<lambda>d u. u\<lparr>maintenanceStartDate := maintenanceStartDate d\<rparr>)),
      (''maintenanceEndDate'', copy_support (\<lambda>d u. u\<lparr>maintenanceEndDate := maintenanceEndDate d\<rparr>)),
      (''maintenancePricingBasis'', copy_support (\<lambda>d u. u\<lparr>maintenancePricingBasis := maintenancePricingBasis d\<rparr>)),
      (''maintenanceQuantity'', copy_support (\<lambda>d u. u\<lparr>maintenanceQuantity := maintenanceQuantity d\<rparr>)),
      (''maintenanceUnitPrice'', copy_support (\<lambda>d u. u\<lparr>maintenanceUnitPrice := maintenanceUnitPrice d\<rparr>)),
      (''maintenanceCost'', copy_support (\<lambda>d u. u\<lparr>maintenanceCost := maintenanceCost d\<rparr>))]"

definition assign_key :: "license \<Rightarrow> string \<Rightarrow> license \<Rightarrow> license" where
  "assign_key d k l = (case map_of assign_table k of None \<Rightarrow> l | Some f \<Rightarrow> f d l)"

definition assign_keys :: "license_payload \<Rightarrow> license \<Rightarrow> license" where
  "assign_keys p = fold (assign_key (lp_data p)) (lp_keys p)"

text \<open>\<open>typeData\<close>: the fields of the update, those of the license where the update has none.\<close>

definition update_type_data :: "license_payload \<Rightarrow> license \<Rightarrow> type_fields" where
  "update_type_data p l =
     (let d = lp_data p
      in normalise_license_type_fields [''isRenewable'', ''typeDescription'']
        \<lparr>tf_licenseType = nullish (if has_key ''licenseType'' p then l_licenseType d else None) (l_licenseType l),
         tf_isRenewable = (if has_key ''isRenewable'' p then l_isRenewable d else l_isRenewable l),
         tf_typeDescription = (if has_key ''typeDescription'' p then l_typeDescription d else l_typeDescription l),
         tf_maintenanceParentLicenseId = None,
         tf_unitPrice = (if has_key ''unitPrice'' p then l_unitPrice d else l_unitPrice l),
         tf_totalPoPrice = (if has_key ''totalPoPrice'' p then l_totalPoPrice d else l_totalPoPrice l),
         tf_endDate = (if has_key ''endDate'' p then l_endDate d else l_endDate l)\<rparr>)"

text \<open>The five fields the update takes from \<open>typeData\<close>: all it has, and those that differ.\<close>

definition take_type_data :: "type_fields \<Rightarrow> license \<Rightarrow> license_payload \<Rightarrow> license_payload" where
  "take_type_data t l p = \<lparr>
     lp_keys = lp_keys p
       @ (if tf_unitPrice t \<noteq> l_unitPrice l then [''unitPrice''] else [])
       @ (if tf_totalPoPrice t \<noteq> l_totalPoPrice l then [''totalPoPrice''] else [])
       @ (if tf_endDate t \<noteq> l_endDate l then [''endDate''] else [])
       @ (if tf_isRenewable t \<noteq> l_isRenewable l then [''isRenewable''] else [])
       @ (if tf_typeDescription t \<noteq> l_typeDescription l then [''typeDescription''] else []),
     lp_data = (lp_data p)\<lparr>l_unitPrice := tf_unitPrice t, l_totalPoPrice := tf_totalPoPrice t,
       l_endDate := tf_endDate t, l_isRenewable := tf_isRenewable t,
       l_typeDescription := tf_typeDescription t\<rparr>\<rparr>"

definition new_maintenance_parent :: "type_fields \<Rightarrow> license \<Rightarrow> license_payload \<Rightarrow> int option demo_op" where
  "new_maintenance_parent t l p =
     (if tf_licenseType t = Some Maintenance \<and> l_licenseType l \<noteq> Some Maintenance
      then case (if has_key ''parentLicenseId'' p then l_parentLicenseId (lp_data p) else None) of
          None \<Rightarrow> throw ''Maintenance licenses must have a parent license''
        | Some n \<Rightarrow> bindE (find_license n) (\<lambda>parent. bindE (assert_parent_type parent) (\<lambda>_. ret (Some n)))
      else ret None)"

text \<open>The retirement update and its two keys, written to the update.\<close>

definition retire_payload :: "clock \<Rightarrow> license \<Rightarrow> license_payload \<Rightarrow> license_payload" where
  "retire_payload clk l p =
     (let u = normalize_retirement_update clk (Some l) (payload_retirement p)
      in \<lparr>lp_keys = lp_keys p @ (if ru_isRetired u = None then [] else [''isRetired''])
            @ (if ru_retirementScheduled u = None then [] else [''retirementScheduled'']),
          lp_data = write_retirement u (lp_data p)\<rparr>)"

definition written_update :: "license_payload \<Rightarrow> license \<Rightarrow> license" where
  "written_update p l =
     assign_keys p (if has_key ''noticeDate'' p
       then clear_notice_handled_if_date_changed (l_noticeDate (lp_data p)) l else l)"

definition finish_update :: "coverage option \<Rightarrow> license \<Rightarrow> license" where
  "finish_update previous l = record_included_support_exit previous (support_defaults l)"

definition link_new_parent :: "clock \<Rightarrow> int \<Rightarrow> int option \<Rightarrow> unit demo_op" where
  "link_new_parent clk i parent =
     (case parent of None \<Rightarrow> ret () | Some n \<Rightarrow> link_to_stored_parent clk i n)"

text \<open>The update of a found license, once its names are resolved.\<close>

definition apply_update :: "clock \<Rightarrow> int \<Rightarrow> license \<Rightarrow> license_payload \<Rightarrow> license_payload \<Rightarrow> unit demo_op" where
  "apply_update clk i l body resolved =
     (let p = sync_payload_invoices resolved; t = update_type_data p l; p' = take_type_data t l p in
      bindE (if tf_licenseType t \<noteq> l_licenseType l \<or> has_key ''typeDescription'' body
             then validate_type_description (tf_licenseType t) (tf_typeDescription t) else ret ()) (\<lambda>_.
      bindE (if has_key ''maintenanceCoverage'' p
               \<and> maintenanceCoverage (l_support (lp_data p)) \<noteq> maintenanceCoverage (l_support l)
             then assert_coverage_change_allowed (tf_licenseType t) (l_activeMaintenanceId l)
               (maintenanceCoverage (l_support (lp_data p))) else ret ()) (\<lambda>_.
      bindE (new_maintenance_parent t l p) (\<lambda>parent.
      bindE (modify (upd_license i (written_update (retire_payload clk l p')))) (\<lambda>_.
      bindE (link_new_parent clk i parent) (\<lambda>_.
        modify (\<lambda>s. decorate_stored clk i
          (upd_license i (finish_update (maintenanceCoverage (l_support l))) s))))))))"

definition update_license :: "clock \<Rightarrow> int \<Rightarrow> license_payload \<Rightarrow> unit demo_op" where
  "update_license clk i body =
     bindE (find_license i) (\<lambda>l.
     bindE (canonicalize_demo_reference_fields clk body) (apply_update clk i l body))"

primrec splice_id :: "('e \<Rightarrow> 'k) \<Rightarrow> 'k \<Rightarrow> 'e list \<Rightarrow> 'e list" where
  "splice_id key i [] = []"
| "splice_id key i (x # xs) = (if key x = i then xs else x # splice_id key i xs)"

definition delete_license :: "int \<Rightarrow> unit demo_op" where
  "delete_license i =
     bindE (find_license i) (\<lambda>_. modify (licenses_update (splice_id l_id i)))"

definition delete_licenses :: "int list \<Rightarrow> int demo_op" where
  "delete_licenses ids =
     bindE (gets (\<lambda>s. length (licenses s))) (\<lambda>before.
     bindE (modify (licenses_update (filter (\<lambda>l. l_id l \<notin> set ids)))) (\<lambda>_.
       gets (\<lambda>s. int before - int (length (licenses s)))))"

definition list_licenses :: "bool \<Rightarrow> int option \<Rightarrow> store \<Rightarrow> (license \<times> int option) list" where
  "list_licenses include_retired parent s =
     (let xs = (if include_retired then licenses s else filter (\<lambda>l. \<not> l_isRetired l) (licenses s));
          xs = (case parent of None \<Rightarrow> xs | Some p \<Rightarrow> filter (\<lambda>l. has_maintenance_parent l p) xs)
      in map (with_computed_completeness s) xs)"

end
