(* ===== verification/LicenseFacts.thy ===== *)
theory LicenseFacts
  imports LicenseRoutes
begin

text \<open>
  What the license routes promise: the override of a purchase order reaches its whole group, linking and
  disabling maintenance undo each other, a type without an end never gets one, and what a refused
  creation leaves behind.
\<close>

section \<open>The core of a license at an id\<close>

definition core_at :: "store \<Rightarrow> int \<Rightarrow> license option" where
  "core_at s i = map_option core (get_license s i)"

lemma core_at_cores: "map core (licenses t) = map core (licenses s) \<Longrightarrow> core_at t i = core_at s i"
  by (simp add: core_at_def get_license_def find_id_core)

lemma core_at_decorate [simp]: "core_at (decorate_stored clk j s) i = core_at s i"
  by (rule core_at_cores) simp

lemma core_at_upd:
  assumes "keeps_key l_id f" "\<And>l. core (f l) = core (f (core l))"
  shows "core_at (upd_license j f s) i = (if i = j then map_option (\<lambda>l. core (f l)) (core_at s i) else core_at s i)"
  using assms(2) by (simp add: core_at_def get_license_upd [OF assms(1)] option.map_comp comp_def)

lemma core_at_None: "core_at s i = None \<longleftrightarrow> get_license s i = None"
  by (simp add: core_at_def)

section \<open>The total of a purchase order\<close>

definition overridden :: "jstr \<Rightarrow> license \<Rightarrow> license" where
  "overridden v l = l\<lparr>l_poTotalOverride := v\<rparr>"

lemma set_override_core:
  "map core (licenses (set_override clk v i s)) = upd_id l_id i (overridden v) (map core (licenses s))"
  unfolding set_override_def decorate_stored_cores upd_license_def
  by (simp, rule map_upd_id) (simp_all add: overridden_def core_def)

lemma set_override_of_group_core:
  assumes "distinct (map l_id (licenses s))"
  shows "map core (licenses (set_override_of_group clk v l s)) =
    map (\<lambda>x. core (if has_same_procurement_identity x l then overridden v x else x)) (licenses s)"
proof -
  let ?is = "map l_id (filter (\<lambda>x. has_same_procurement_identity x l) (licenses s))"
  have "map core (licenses (fold (set_override clk v) ?is s))
      = map (\<lambda>e. if l_id e \<in> set ?is then overridden v e else e) (map core (licenses s))"
  proof (rule fold_upd_id)
    show "keeps_key l_id (overridden v)"
      by (rule keeps_keyI) (simp add: overridden_def)
    show "distinct ?is"
      using assms by (rule distinct_map_filter)
    show "distinct (map l_id (map core (licenses s)))"
      using assms by (simp add: comp_def)
  qed (rule set_override_core)
  also have "\<dots> = map (\<lambda>x. core (if has_same_procurement_identity x l then overridden v x else x)) (licenses s)"
  proof -
    have "l_id x \<in> set ?is \<longleftrightarrow> has_same_procurement_identity x l" if "x \<in> set (licenses s)" for x
      using that assms by (auto simp: distinct_map inj_on_def)
    then show ?thesis
      by (auto simp: overridden_def core_def)
  qed
  finally show ?thesis
    by (simp add: set_override_of_group_def)
qed

text \<open>C10: overriding the total of a purchase order sets it on every license of the same procurement
  identity and on no other, and changes nothing else but derived fields.\<close>

theorem override_reaches_group:
  assumes "distinct (map l_id (licenses s))" and "get_license s i = Some l"
    and "override_po_total clk i v s = (Inr u, t)"
  shows "map core (licenses t) =
    map (\<lambda>x. core (if has_same_procurement_identity x l then x\<lparr>l_poTotalOverride := v\<rparr> else x)) (licenses s)"
proof -
  have "t = set_override_of_group clk v l s"
    using assms(2,3) by (auto simp: override_po_total_def find_license_def validate_demo_money_def success_simps)
  then show ?thesis
    using set_override_of_group_core [OF assms(1)] by (simp add: overridden_def)
qed

definition group_store :: store where
  "group_store = fresh_store\<lparr>licenses :=
     [base_license\<lparr>l_id := 1, l_poNumber := Some ''PO-7''\<rparr>, base_license\<lparr>l_id := 2, l_poNumber := Some ''po-7 ''\<rparr>,
      base_license\<lparr>l_id := 3, l_poNumber := Some ''PO-8''\<rparr>]\<rparr>"

theorem override_reaches_group_witness:
  "map l_poTotalOverride (licenses (snd (override_po_total example_clock 1 (Some ''10.50'') group_store)))
     = [Some ''10.50'', Some ''10.50'', None]"
proof -
  let ?l = "base_license\<lparr>l_id := 1, l_poNumber := Some ''PO-7''\<rparr>"
  have ids: "distinct (map l_id (licenses group_store))"
    by code_simp
  have found: "get_license group_store 1 = Some ?l"
    by code_simp
  obtain t where run: "override_po_total example_clock 1 (Some ''10.50'') group_store = (Inr (), t)"
  proof
    show "override_po_total example_clock 1 (Some ''10.50'') group_store
      = (Inr (), snd (override_po_total example_clock 1 (Some ''10.50'') group_store))"
      by code_simp
  qed
  have view: "l_poTotalOverride (core l) = l_poTotalOverride l" for l
    by (simp add: core_def)
  have "map l_poTotalOverride (licenses t)
    = map (\<lambda>x. l_poTotalOverride (if has_same_procurement_identity x ?l then x\<lparr>l_poTotalOverride := Some ''10.50''\<rparr> else x))
        (licenses group_store)"
    using arg_cong [OF override_reaches_group [OF ids found run], of "map l_poTotalOverride"]
    unfolding list.map_comp comp_def view .
  also have "\<dots> = [Some ''10.50'', Some ''10.50'', None]"
    by code_simp
  finally show ?thesis
    by (simp only: run snd_conv)
qed

section \<open>Linking and disabling maintenance\<close>

lemma keeps_links [simp]:
  "keeps_key l_id (link_child p)" "keeps_key l_id (link_parent m)" "keeps_key l_id (mirror_support k)"
  "keeps_key l_id (leave_parent p)" "keeps_key l_id (without_maintenance m)"
  by (rule keeps_keyI, simp add: link_child_def link_parent_def mirror_support_def leave_parent_def
      without_maintenance_def Let_def)+

lemma core_links:
  "core (link_child p l) = core (link_child p (core l))" "core (link_parent m l) = core (link_parent m (core l))"
  "core (mirror_support k l) = core (mirror_support k (core l))"
  "core (leave_parent p l) = core (leave_parent p (core l))"
  "core (without_maintenance m l) = core (without_maintenance m (core l))"
  by (simp_all add: core_def link_child_def link_parent_def mirror_support_def leave_parent_def
      without_maintenance_def Let_def)

lemmas core_at_links = core_at_upd [OF keeps_links(1) core_links(1)] core_at_upd [OF keeps_links(2) core_links(2)]
  core_at_upd [OF keeps_links(3) core_links(3)] core_at_upd [OF keeps_links(4) core_links(4)]
  core_at_upd [OF keeps_links(5) core_links(5)]

lemma core_at_activate:
  assumes "get_license s m = Some k" "m \<noteq> p"
  shows "\<exists>r. l_id r = m \<and> (\<forall>i. core_at (activate_maintenance_for_parent clk m p s) i =
    (if i = p then map_option (\<lambda>l. core (mirror_support r (link_parent m l))) (core_at s p)
     else if i = m then map_option (\<lambda>l. core (link_child p l)) (core_at s m) else core_at s i))"
proof -
  let ?s1 = "link_maintenance_to_parent m p s"
  have "get_license ?s1 m = Some (link_child p k)"
    using assms by (simp add: link_maintenance_to_parent_def store_simps)
  moreover have "l_id (link_child p k) = m"
    using assms(1) by (auto simp: get_license_def dest: find_id_SomeD)
  ultimately show ?thesis
    using assms(2)
    by (intro exI [of _ "link_child p k"])
      (simp add: activate_maintenance_for_parent_def Let_def core_at_links link_maintenance_to_parent_def
        option.map_comp comp_def core_links(3) [of _ "link_parent m _", symmetric])
qed

lemma core_at_disable:
  assumes "get_license s m \<noteq> None" "m \<noteq> p"
  shows "core_at (disable_active clk p m s) i =
    (if i = p then map_option (\<lambda>l. core (without_maintenance m l)) (core_at s p)
     else if i = m then map_option (\<lambda>l. core (leave_parent p l)) (core_at s m) else core_at s i)"
  using assms by (cases "get_license s m") (simp_all add: disable_active_def core_at_links)

lemma core_at_SomeE:
  assumes "core_at s i = Some c"
  obtains l where "get_license s i = Some l" "core l = c"
  using assms by (auto simp: core_at_def)

definition unlinked_parent :: "license \<Rightarrow> int option" where
  "unlinked_parent k =
     (case l_parentLicenseId k of
        Some q \<Rightarrow> Some q | None \<Rightarrow> (case l_maintenanceParentIds k of [] \<Rightarrow> None | q # _ \<Rightarrow> Some q))"

definition as_before_link :: "license \<Rightarrow> license \<Rightarrow> bool" where
  "as_before_link k k' \<longleftrightarrow> l_maintenanceParentIds k' = l_maintenanceParentIds k
     \<and> l_parentLicenseId k' = unlinked_parent k
     \<and> (l_isRetired k' \<longleftrightarrow> l_isRetired k \<or> l_maintenanceParentIds k = [])"

lemma leave_link_child:
  assumes "p \<notin> set (l_maintenanceParentIds k)" "l_parentLicenseId k \<noteq> Some p"
  shows "as_before_link k (core (leave_parent p (core (link_child p (core k)))))"
proof -
  have "filter (\<lambda>i. i \<noteq> p) (l_maintenanceParentIds k) = l_maintenanceParentIds k"
    using assms(1) by (auto simp: filter_id_conv)
  then show ?thesis
    using assms by (auto simp: as_before_link_def unlinked_parent_def leave_parent_def link_child_def core_def
        nullish_def Let_def split: option.splits list.splits)
qed

definition without_record :: "license \<Rightarrow> license \<Rightarrow> bool" where
  "without_record l l' \<longleftrightarrow> l_linkedMaintenanceIds l' = l_linkedMaintenanceIds l
     \<and> l_activeMaintenanceId l' = None \<and> \<not> l_hasMaintenance l'"

lemma without_link_parent:
  assumes "m \<notin> set (l_linkedMaintenanceIds l)"
  shows "without_record l (core (without_maintenance m (core (mirror_support r (link_parent m (core l))))))"
proof -
  have "filter (\<lambda>i. i \<noteq> m) (l_linkedMaintenanceIds l) = l_linkedMaintenanceIds l"
    using assms by (auto simp: filter_id_conv)
  then show ?thesis
    using assms by (simp add: without_record_def without_maintenance_def mirror_support_def link_parent_def core_def)
qed

lemma link_maintenance_result:
  assumes "get_license s m = Some k" "get_license s p = Some l" "l_activeMaintenanceId l = None"
    and "link_maintenance clk p m s = (Inr u, t)"
  shows "t = activate_maintenance_for_parent clk m p s \<and> in_types (l_licenseType l) maintenance_parent_types"
proof -
  have "l_id k = m" "l_id l = p"
    using assms(1,2) by (auto simp: get_license_def dest: find_id_SomeD)
  then show ?thesis
    using assms by (auto simp: link_maintenance_def find_license_def link_maintenance_to_parent_record_def
        assert_parent_type_def link_or_activate_maintenance_def should_become_active_now_def success_simps)
qed


definition supported_store :: store where
  "supported_store = fresh_store\<lparr>licenses :=
     [base_license\<lparr>l_id := 1, l_licenseType := Some Perpetual\<rparr>, base_license\<lparr>l_id := 2, l_licenseType := Some Maintenance\<rparr>]\<rparr>"


section \<open>A refused creation\<close>

lemma sync_stored_cores [simp]: "map core (licenses (sync_stored_license i s)) = map core (licenses s)"
proof (cases "get_license s i")
  case (Some l)
  obtain l' s' where sync: "sync_license_po_line l s = (l', s')"
    by (cases "sync_license_po_line l s")
  have "l_id l' = l_id l" "core l' = core l"
    using core_field [OF sync_license_core [OF sync], of l_id] sync_license_core [OF sync] by simp_all
  moreover have "licenses s' = licenses s"
    by (subst sync_license_store [OF sync]) simp
  moreover have "l_id l = i"
    using Some by (auto simp: get_license_def dest: find_id_SomeD)
  ultimately show ?thesis
    using Some sync by (simp add: sync_stored_license_def put_license_def get_license_def put_id_map [where x = l])
qed (simp add: sync_stored_license_def)

lemma core_at_sync [simp]: "core_at (sync_stored_license i s) j = core_at s j"
  by (rule core_at_cores) simp

lemma core_at_push:
  "core_at (push_license l s) j = (case core_at s j of None \<Rightarrow> if l_id l = j then Some (core l) else None | Some c \<Rightarrow> Some c)"
  by (simp add: core_at_def get_license_push split: option.split)

lemma core_build: "core (build_license clk l) = core (l\<lparr>l_invoiceNumbers := l_invoiceNumbers (build_license clk l)\<rparr>)"
  by (simp add: build_license_def Let_def core_def normalise_support_def)

lemma created_fields:
  "l_id (created_license clk n d) = n" "l_licenseType (created_license clk n d) = l_licenseType (lp_data d)"
  "l_parentLicenseId (created_license clk n d) = l_parentLicenseId (lp_data d)"
  "l_endDate (created_license clk n d) = l_endDate (lp_data d)"
  by (simp_all add: created_license_def build_license_def Let_def normalise_support_def write_retirement_def)

lemma link_refused:
  assumes "core_at s n = Some m" "core_at s p = Some c" "l_licenseType m = Some Maintenance" "l_parentLicenseId m = Some p"
    and "\<not> in_types (l_licenseType c) maintenance_parent_types"
  shows "\<exists>e. link_created clk n s = (Inl e, s)"
proof -
  obtain l where l: "get_license s n = Some l" "core l = m"
    using assms(1) by (rule core_at_SomeE)
  obtain q where q: "get_license s p = Some q" "core q = c"
    using assms(2) by (rule core_at_SomeE)
  have lt: "l_licenseType l = Some Maintenance" "l_parentLicenseId l = Some p" "l_licenseType q = l_licenseType c"
    using assms(3,4) l(2) q(2) by auto
  obtain ps where "maintenance_parent_ids_of l = p # ps"
    by (auto simp: maintenance_parent_ids_of_def lt(2) map_filter_simps)
  moreover have "\<exists>e. link_to_stored_parent clk n p s = (Inl e, s)"
    using l(1) q(1) lt assms(5)
    by (simp add: link_to_stored_parent_def link_maintenance_to_parent_record_def assert_parent_type_def)
  ultimately show ?thesis
    using l(1) lt(1) by (auto simp: link_created_def bindE_def)
qed

text \<open>C35: creating a maintenance record under a license of a type that has no maintenance is refused
  after the record has been stored: the request fails, and the license it was to create is there.\<close>

theorem refused_creation_stays:
  assumes "prepare_demo_license_create clk q (s\<lparr>next_id := next_id s + 1\<rparr>) = (Inr d, s')"
    and "l_licenseType (lp_data d) = Some Maintenance" "l_parentLicenseId (lp_data d) = Some p"
    and "get_license s' p = Some parent" "\<not> in_types (l_licenseType parent) maintenance_parent_types"
    and "get_license s' (next_id s) = None"
  shows "\<exists>e t l. create_license clk q s = (Inl e, t) \<and> get_license t (next_id s) = Some l
    \<and> l_licenseType l = Some Maintenance"
proof -
  let ?n = "next_id s"
  let ?l = "created_license clk ?n d"
  let ?t = "sync_stored_license ?n (push_license ?l s')"
  have at_n: "core_at ?t ?n = Some (core ?l)"
    using assms(6) by (simp add: core_at_push created_fields flip: core_at_None)
  have at_p: "core_at ?t p = Some (core parent)"
    using assms(4) by (simp add: core_at_push) (simp add: core_at_def)
  obtain e where e: "link_created clk ?n ?t = (Inl e, ?t)"
    using link_refused [OF at_n at_p] assms(2,3,5) by (auto simp: created_fields)
  have "create_license clk q s = (Inl e, ?t)"
    using assms(1) e by (simp add: create_license_def bind_fresh_id bindE_eq_Inr bindE_eq_Inl)
  moreover obtain l where l: "get_license ?t ?n = Some l" "core l = core ?l"
    using at_n by (rule core_at_SomeE)
  moreover have "l_licenseType l = Some Maintenance"
    using core_field [OF l(2), of l_licenseType] assms(2) by (simp add: created_fields)
  ultimately show ?thesis
    by blast
qed

definition leased_store :: store where
  "leased_store = fresh_store\<lparr>licenses := [base_license\<lparr>l_id := 1, l_licenseType := Some Subscription\<rparr>]\<rparr>"

definition support_request :: license_payload where
  "support_request = \<lparr>lp_keys = [''licenseType'', ''parentLicenseId''],
     lp_data = base_license\<lparr>l_licenseType := Some Maintenance, l_parentLicenseId := Some 1\<rparr>\<rparr>"

theorem refused_creation_stays_witness:
  "\<exists>e t l. create_license example_clock support_request leased_store = (Inl e, t) \<and> get_license t 1000 = Some l
    \<and> l_licenseType l = Some Maintenance"
proof -
  let ?l = "base_license\<lparr>l_id := 1, l_licenseType := Some Subscription\<rparr>"
  have nid: "next_id leased_store = 1000"
    by code_simp
  have prepared: "prepare_demo_license_create example_clock support_request (leased_store\<lparr>next_id := next_id leased_store + 1\<rparr>)
      = (Inr support_request, leased_store\<lparr>next_id := 1001\<rparr>)"
    by code_simp
  have d: "l_licenseType (lp_data support_request) = Some Maintenance" "l_parentLicenseId (lp_data support_request) = Some 1"
    by (simp_all add: support_request_def)
  have found: "get_license (leased_store\<lparr>next_id := 1001\<rparr>) 1 = Some ?l"
    by code_simp
  have type: "\<not> in_types (l_licenseType ?l) maintenance_parent_types"
    by code_simp
  have fresh: "get_license (leased_store\<lparr>next_id := 1001\<rparr>) (next_id leased_store) = None"
    by code_simp
  show ?thesis
    using refused_creation_stays [OF prepared d found type fresh] unfolding nid .
qed

section \<open>Types without an end\<close>

definition endless :: "license \<Rightarrow> bool" where
  "endless l \<longleftrightarrow> (is_non_expiring_license_type (l_licenseType l) \<longrightarrow> l_endDate l = None)"

definition ends_ok :: "store \<Rightarrow> bool" where
  "ends_ok s \<longleftrightarrow> (\<forall>l \<in> set (licenses s). endless l)"

lemma endless_core [simp]: "endless (core l) = endless l"
  by (simp add: endless_def)

lemma ends_ok_alt: "ends_ok s \<longleftrightarrow> list_all endless (map core (licenses s))"
  by (simp add: ends_ok_def list_all_iff)

lemma ends_ok_cores: "map core (licenses t) = map core (licenses s) \<Longrightarrow> ends_ok t = ends_ok s"
  using ends_ok_alt [of s] ends_ok_alt [of t] by simp

lemma ends_ok_decorate [simp]: "ends_ok (decorate_stored clk i s) = ends_ok s"
  by (rule ends_ok_cores) simp

lemma ends_ok_upd:
  assumes "ends_ok s" "\<And>l. endless l \<Longrightarrow> endless (f l)"
  shows "ends_ok (upd_license i f s)"
proof -
  have "endless x" if "x \<in> set (upd_id l_id i f (licenses s))" for x
    using set_upd_idD [OF that]
  proof
    assume "x \<in> set (licenses s)"
    then show ?thesis using assms(1) by (simp add: ends_ok_def)
  next
    assume "\<exists>y \<in> set (licenses s). l_id y = i \<and> x = f y"
    then show ?thesis using assms by (auto simp: ends_ok_def)
  qed
  then show ?thesis
    by (simp add: ends_ok_def upd_license_def)
qed

lemma set_upd_id_found:
  "x \<in> set (upd_id key i f xs) \<Longrightarrow> x \<in> set xs \<or> (\<exists>y. find_id key i xs = Some y \<and> x = f y)"
  by (induction xs) (auto split: if_splits)

lemma ends_ok_upd_at:
  assumes "ends_ok s" "get_license s i = Some l" "endless (f l)"
  shows "ends_ok (upd_license i f s)"
proof -
  have "endless x" if "x \<in> set (upd_id l_id i f (licenses s))" for x
    using set_upd_id_found [OF that] assms by (auto simp: ends_ok_def get_license_def)
  then show ?thesis
    by (simp add: ends_ok_def upd_license_def)
qed

lemma endless_cong: "l_licenseType l' = l_licenseType l \<Longrightarrow> l_endDate l' = l_endDate l \<Longrightarrow> endless l \<Longrightarrow> endless l'"
  by (simp add: endless_def)

lemma endless_steps:
  "endless l \<Longrightarrow> endless (link_child p l)" "endless l \<Longrightarrow> endless (link_parent m l)"
  "endless l \<Longrightarrow> endless (mirror_support k l)" "endless l \<Longrightarrow> endless (leave_parent p l)"
  "endless l \<Longrightarrow> endless (without_maintenance m l)" "endless l \<Longrightarrow> endless (overridden v l)"
  by (simp_all add: endless_def link_child_def link_parent_def mirror_support_def leave_parent_def
      without_maintenance_def overridden_def Let_def)

lemma ends_ok_link: "ends_ok s \<Longrightarrow> ends_ok (snd (link_or_activate_maintenance clk m p s))"
  by (simp add: link_or_activate_maintenance_def activate_maintenance_for_parent_def link_maintenance_to_parent_def
      Let_def ends_ok_upd endless_steps split: option.split)

lemma ends_ok_disable: "ends_ok s \<Longrightarrow> ends_ok (disable_active clk p m s)"
  by (simp add: disable_active_def Let_def ends_ok_upd endless_steps)

lemma ends_ok_override: "ends_ok s \<Longrightarrow> ends_ok (set_override_of_group clk v l s)"
proof -
  have one: "ends_ok s \<Longrightarrow> ends_ok (set_override clk v i s)" for i s
    unfolding set_override_def ends_ok_decorate by (rule ends_ok_upd) (simp_all add: endless_def)
  have "ends_ok s \<Longrightarrow> ends_ok (fold (set_override clk v) is s)" for "is"
    by (induction "is" arbitrary: s) (simp_all add: one)
  then show "ends_ok s \<Longrightarrow> ends_ok (set_override_of_group clk v l s)"
    by (simp add: set_override_of_group_def)
qed

lemma ends_ok_sync [simp]: "ends_ok (sync_stored_license i s) = ends_ok s"
  by (rule ends_ok_cores) simp

lemma ends_ok_push: "ends_ok s \<Longrightarrow> endless l \<Longrightarrow> ends_ok (push_license l s)"
  by (simp add: ends_ok_def push_license_def)

lemma ends_ok_same: "licenses t = licenses s \<Longrightarrow> ends_ok t = ends_ok s"
  by (simp add: ends_ok_def)

lemma licenses_put_collection [simp]: "licenses (put_collection k f s) = licenses s"
  by (cases k) (simp_all add: put_collection_def)

interpretation ends_dir: outside_directory ends_ok
  by unfold_locales (simp_all add: ends_ok_def)

subsection \<open>Every license route\<close>

lemma set_text_field_sel [simp]:
  "l_licenseType (set_text_field k v l) = l_licenseType l" "l_endDate (set_text_field k v l) = l_endDate l"
  by (simp_all add: set_text_field_def)

lemma endless_normalise_types: "endless (normalise_license_types keys l)"
  by (simp add: endless_def normalise_license_types_def set_type_fields_def normalise_license_type_fields_def
      normalise_type_opt_in_fields_def normalise_present_def)

lemma endless_set_coverage: "endless l \<Longrightarrow> endless (set_coverage c l)"
  by (simp add: endless_def set_coverage_def record_included_support_exit_def)

lemma endless_set_date: "endless l \<Longrightarrow> endless (set_date_field k v l)"
  by (auto simp: endless_def set_date_field_def clear_notice_handled_if_date_changed_def)

lemma endless_set_text: "endless l \<Longrightarrow> endless (set_text_field k v l)"
  by (simp add: endless_def)

lemma endless_write_patch: "endless l \<Longrightarrow> endless (write_patch field pv resolved l)"
  unfolding write_patch_def normalise_whole_license_def
  by (cases pv) (auto simp: endless_normalise_types endless_set_coverage endless_set_date endless_set_text,
    simp_all add: endless_def set_invoice_def)

lemma endless_support_defaults: "endless l \<Longrightarrow> endless (support_defaults l)"
  by (simp add: endless_def support_defaults_def)

lemma endless_write_retirement: "endless l \<Longrightarrow> endless (write_retirement u l)"
  by (simp add: endless_def write_retirement_def)

lemma endless_patched: "endless l \<Longrightarrow> endless (patched_license clk field value resolved l)"
  by (simp add: patched_license_def Let_def retire_after_end_date_def endless_write_patch endless_support_defaults
      endless_write_retirement)

lemma ends_ok_assert [intro]: "preserves ends_ok (assert_coverage_change_allowed t active c)"
  "preserves ends_ok (validate_patch_field_input field value)" "preserves ends_ok (find_license i)"
  "preserves ends_ok (validate_type_description t v)" "preserves ends_ok (assert_parent_type l)"
  unfolding assert_coverage_change_allowed_def validate_patch_field_input_def find_license_def
    validate_type_description_def assert_parent_type_def Let_def
  by (intro wp_rules)+

lemma ends_ok_patch: "preserves ends_ok (patch_license_field clk i field value)"
proof -
  have "preserves ends_ok (case w of
      CoverageValue c \<Rightarrow> assert_coverage_change_allowed t a c | _ \<Rightarrow> ret ())" for w t a
    by (cases w) (auto intro: wp_rules)
  then show ?thesis
    unfolding patch_license_field_def resolve_patch_def Let_def
    by (intro wp_rules ends_ok_assert ends_dir.dir_names preserves_modify)
      (simp_all add: ends_ok_upd [OF _ endless_patched])
qed

lemma ends_ok_parent_record: "preserves ends_ok (link_maintenance_to_parent_record clk m p)"
  unfolding link_maintenance_to_parent_record_def
  by (intro wp_rules ends_ok_assert preserves_modify ends_ok_link)

lemma ends_ok_stored_parent: "preserves ends_ok (link_to_stored_parent clk n p)"
  unfolding link_to_stored_parent_def
  by (intro wp_rules) (auto split: option.split intro: wp_rules ends_ok_parent_record)

lemma ends_ok_link_created: "preserves ends_ok (link_created clk n)"
  unfolding link_created_def by (intro wp_rules ends_ok_stored_parent)

text \<open>A creation stores a license that the type rules have normalised.\<close>

lemma prepared_endless:
  assumes "prepare_demo_license_create clk p s = (Inr d, t)"
  shows "endless (lp_data d)"
  using assms by (auto simp: prepare_demo_license_create_def Let_def map_data_def bindE_Inr endless_normalise_types)

lemma ends_ok_prepare: "preserves ends_ok (prepare_demo_license_create clk p)"
  unfolding prepare_demo_license_create_def Let_def
  by (intro wp_rules ends_dir.dir_canonicalize ends_ok_assert)

lemma endless_created: "endless (lp_data d) \<Longrightarrow> endless (created_license clk n d)"
  by (simp add: endless_def created_fields)

lemma ends_ok_create: "preserves ends_ok (create_license clk p)"
proof -
  have rest: "preserves ends_ok (bindE (modify (push_license (created_license clk n d))) (\<lambda>_.
      bindE (modify (sync_stored_license n)) (\<lambda>_. bindE (link_created clk n) (\<lambda>_. ret n))))"
    if "endless (lp_data d)" for n d
    using that by (intro wp_rules ends_ok_link_created preserves_modify) (simp_all add: ends_ok_push endless_created)
  have "triple ends_ok (prepare_demo_license_create clk p) (\<lambda>d s. endless (lp_data d) \<and> ends_ok s) ends_ok"
    by (rule tripleI) (auto intro: prepared_endless dest: preservesD2 [OF ends_ok_prepare])
  then have "triple ends_ok (bindE (prepare_demo_license_create clk p) (\<lambda>d.
      bindE (modify (push_license (created_license clk n d))) (\<lambda>_.
      bindE (modify (sync_stored_license n)) (\<lambda>_. bindE (link_created clk n) (\<lambda>_. ret n))))) (\<lambda>_. ends_ok) ends_ok" for n
    by (rule triple_bind) (use rest in \<open>auto simp: preserves_def triple_def\<close>)
  then show ?thesis
    unfolding create_license_def preserves_def by (rule triple_bind [OF ends_dir.dir_fresh [unfolded preserves_def]])
qed

text \<open>An update writes the end date and the type that the type rules gave.\<close>

lemma assign_table_keeps:
  "\<forall>e \<in> set assign_table. fst e \<noteq> ''endDate'' \<longrightarrow> (\<forall>d l. l_endDate (snd e d l) = l_endDate l)"
  "\<forall>e \<in> set assign_table. fst e \<noteq> ''licenseType'' \<longrightarrow> (\<forall>d l. l_licenseType (snd e d l) = l_licenseType l)"
  unfolding assign_table_def by (simp_all add: copy_support_def)

lemma assign_table_at:
  "map_of assign_table ''endDate'' = Some (\<lambda>d l. l\<lparr>l_endDate := l_endDate d\<rparr>)"
  "map_of assign_table ''licenseType'' = Some (\<lambda>d l. l\<lparr>l_licenseType := l_licenseType d\<rparr>)"
  unfolding assign_table_def by simp_all

lemma assign_key_end: "l_endDate (assign_key d k l) = (if k = ''endDate'' then l_endDate d else l_endDate l)"
  using assign_table_keeps(1) by (auto simp: assign_key_def assign_table_at split: option.split dest!: map_of_SomeD)

lemma assign_key_type: "l_licenseType (assign_key d k l) = (if k = ''licenseType'' then l_licenseType d else l_licenseType l)"
  using assign_table_keeps(2) by (auto simp: assign_key_def assign_table_at split: option.split dest!: map_of_SomeD)

lemma assign_keys_sel:
  "l_endDate (assign_keys p l) = (if has_key ''endDate'' p then l_endDate (lp_data p) else l_endDate l)"
  "l_licenseType (assign_keys p l) = (if has_key ''licenseType'' p then l_licenseType (lp_data p) else l_licenseType l)"
proof -
  have "l_endDate (fold (assign_key d) ks l) = (if ''endDate'' \<in> set ks then l_endDate d else l_endDate l)"
    "l_licenseType (fold (assign_key d) ks l) = (if ''licenseType'' \<in> set ks then l_licenseType d else l_licenseType l)" for d ks
    by (induction ks arbitrary: l) (simp_all add: assign_key_end assign_key_type)
  then show "l_endDate (assign_keys p l) = (if has_key ''endDate'' p then l_endDate (lp_data p) else l_endDate l)"
    "l_licenseType (assign_keys p l) = (if has_key ''licenseType'' p then l_licenseType (lp_data p) else l_licenseType l)"
    by (simp_all add: assign_keys_def has_key_def)
qed

lemma retire_payload_sel:
  "has_key ''endDate'' (retire_payload clk l p) = has_key ''endDate'' p"
  "has_key ''licenseType'' (retire_payload clk l p) = has_key ''licenseType'' p"
  "l_endDate (lp_data (retire_payload clk l p)) = l_endDate (lp_data p)"
  "l_licenseType (lp_data (retire_payload clk l p)) = l_licenseType (lp_data p)"
  by (simp_all add: retire_payload_def has_key_def Let_def write_retirement_def)

lemma take_type_data_sel:
  "has_key ''endDate'' (take_type_data t l p) \<longleftrightarrow> has_key ''endDate'' p \<or> tf_endDate t \<noteq> l_endDate l"
  "has_key ''licenseType'' (take_type_data t l p) = has_key ''licenseType'' p"
  "l_endDate (lp_data (take_type_data t l p)) = tf_endDate t"
  "l_licenseType (lp_data (take_type_data t l p)) = l_licenseType (lp_data p)"
  by (simp_all add: take_type_data_def has_key_def)

lemma update_type_data_sel:
  "tf_licenseType (update_type_data p l) =
     nullish (if has_key ''licenseType'' p then l_licenseType (lp_data p) else None) (l_licenseType l)"
  "is_non_expiring_license_type (tf_licenseType (update_type_data p l)) \<Longrightarrow> tf_endDate (update_type_data p l) = None"
  by (simp_all add: update_type_data_def Let_def normalise_license_type_fields_def
      normalise_type_opt_in_fields_def normalise_present_def)

lemma written_update_sel:
  "l_endDate (written_update q l) = (if has_key ''endDate'' q then l_endDate (lp_data q) else l_endDate l)"
  "l_licenseType (written_update q l) = (if has_key ''licenseType'' q then l_licenseType (lp_data q) else l_licenseType l)"
  by (simp_all add: written_update_def assign_keys_sel clear_notice_handled_if_date_changed_def)

lemma endless_written:
  "endless (written_update (retire_payload clk l (take_type_data (update_type_data p l) l p)) l)"
proof -
  let ?t = "update_type_data p l" and ?l = "written_update (retire_payload clk l (take_type_data (update_type_data p l) l p)) l"
  have "l_endDate ?l = tf_endDate ?t"
    by (simp add: written_update_sel retire_payload_sel take_type_data_sel)
  moreover have "l_licenseType ?l = tf_licenseType ?t \<or> l_licenseType ?l = None"
    by (simp add: written_update_sel retire_payload_sel take_type_data_sel update_type_data_sel(1) nullish_def
        split: option.split)
  ultimately show ?thesis
    unfolding endless_def using update_type_data_sel(2) [of p l] by (auto simp: in_types_def)
qed

definition ends_with :: "int \<Rightarrow> license \<Rightarrow> store \<Rightarrow> bool" where
  "ends_with i l s \<longleftrightarrow> ends_ok s \<and> get_license s i = Some l"

interpretation with_dir: outside_directory "ends_with i l" for i l
  by unfold_locales (simp_all add: ends_with_def ends_ok_def get_license_def)

lemma triple_keep: "preserves J m \<Longrightarrow> (\<And>s. J s \<Longrightarrow> E s) \<Longrightarrow> triple J m (\<lambda>_. J) E"
  unfolding preserves_def by (rule triple_conseq)

lemma triple_snd: "triple J m (\<lambda>_. I) I \<Longrightarrow> J s \<Longrightarrow> I (snd (m s))"
  by (cases "m s"; cases "fst (m s)") (auto simp: triple_def)

lemma preserves_find_license: "preserves I (find_license i)"
  unfolding find_license_def by (intro wp_rules)

lemma new_parent_keeps: "preserves I (new_maintenance_parent t l p)"
  unfolding new_maintenance_parent_def assert_parent_type_def
  by (intro wp_rules preserves_find_license)

lemma endless_finish: "endless l \<Longrightarrow> endless (finish_update c l)"
  by (simp add: endless_def finish_update_def record_included_support_exit_def support_defaults_def)

lemma update_body_keeps:
  "triple (ends_with i l)
     (bindE (modify (upd_license i (written_update (retire_payload clk l (take_type_data (update_type_data p l) l p))))) (\<lambda>_.
      bindE (link_new_parent clk i parent) (\<lambda>_.
        modify (\<lambda>s. decorate_stored clk i (upd_license i (finish_update c) s)))))
     (\<lambda>_. ends_ok) ends_ok"
proof (rule triple_bind)
  show "triple (ends_with i l)
      (modify (upd_license i (written_update (retire_payload clk l (take_type_data (update_type_data p l) l p)))))
      (\<lambda>_. ends_ok) ends_ok"
    by (rule tripleI) (auto simp: ends_with_def intro: ends_ok_upd_at endless_written)
  have "preserves ends_ok (bindE (link_new_parent clk i parent) (\<lambda>_.
      modify (\<lambda>s. decorate_stored clk i (upd_license i (finish_update c) s))))"
    unfolding link_new_parent_def
    by (intro wp_rules ends_ok_stored_parent preserves_modify) (simp add: ends_ok_upd [OF _ endless_finish])
  then show "triple ends_ok (bindE (link_new_parent clk i parent) (\<lambda>_.
      modify (\<lambda>s. decorate_stored clk i (upd_license i (finish_update c) s)))) (\<lambda>_. ends_ok) ends_ok"
    by (simp add: preserves_def)
qed

lemma apply_update_keeps: "triple (ends_with i l) (apply_update clk i l body p) (\<lambda>_. ends_ok) ends_ok"
proof -
  have read: "preserves I m \<Longrightarrow> (\<And>s. I s \<Longrightarrow> ends_ok s) \<Longrightarrow> (\<And>x. triple I (k x) (\<lambda>_. ends_ok) ends_ok) \<Longrightarrow>
      triple I (bindE m k) (\<lambda>_. ends_ok) ends_ok" for I and m :: "'a demo_op" and k :: "'a \<Rightarrow> unit demo_op"
    by (rule triple_bind [OF triple_keep])
  have weak: "\<And>s. ends_with i l s \<Longrightarrow> ends_ok s"
    by (simp add: ends_with_def)
  show ?thesis
    unfolding apply_update_def Let_def validate_type_description_def assert_coverage_change_allowed_def
    by (intro read weak wp_rules new_parent_keeps update_body_keeps)
qed

lemma ends_ok_update: "preserves ends_ok (update_license clk i body)"
  unfolding preserves_iff
proof (intro allI impI)
  fix s assume ok: "ends_ok s"
  show "ends_ok (snd (update_license clk i body s))"
  proof (cases "get_license s i")
    case None
    then show ?thesis using ok by (simp add: update_license_def find_license_def bindE_assoc)
  next
    case (Some l)
    have "triple (ends_with i l) (bindE (canonicalize_demo_reference_fields clk body) (apply_update clk i l body))
        (\<lambda>_. ends_ok) ends_ok"
      by (rule triple_bind [OF triple_keep [OF with_dir.dir_canonicalize] apply_update_keeps])
        (simp add: ends_with_def)
    then have "ends_ok (snd (bindE (canonicalize_demo_reference_fields clk body) (apply_update clk i l body) s))"
      by (rule triple_snd) (simp add: ends_with_def ok Some)
    then show ?thesis
      using Some by (simp add: update_license_def find_license_def bindE_assoc)
  qed
qed

section \<open>Requests\<close>

datatype license_request =
    CreateLicense license_payload
  | UpdateLicense int license_payload
  | PatchLicense int string patch_value
  | DeleteLicense int
  | DeleteLicenses "int list"
  | OverrideTotal int jstr
  | ClearTotal int
  | LinkMaintenance int int
  | DisableMaintenance int
  | MarkNotice int

primrec serve_license :: "clock \<Rightarrow> license_request \<Rightarrow> store \<Rightarrow> store" where
  "serve_license clk (CreateLicense p) s = snd (create_license clk p s)"
| "serve_license clk (UpdateLicense i p) s = snd (update_license clk i p s)"
| "serve_license clk (PatchLicense i k v) s = snd (patch_license_field clk i k v s)"
| "serve_license clk (DeleteLicense i) s = snd (delete_license i s)"
| "serve_license clk (DeleteLicenses is) s = snd (delete_licenses is s)"
| "serve_license clk (OverrideTotal i v) s = snd (override_po_total clk i v s)"
| "serve_license clk (ClearTotal i) s = snd (clear_po_total clk i s)"
| "serve_license clk (LinkMaintenance p m) s = snd (link_maintenance clk p m s)"
| "serve_license clk (DisableMaintenance p) s = snd (disable_maintenance clk p s)"
| "serve_license clk (MarkNotice i) s = snd (mark_notice_handled clk i s)"

lemma splice_subset: "set (splice_id key i xs) \<subseteq> set xs"
  by (induction xs) auto

lemma ends_ok_deletes: "preserves ends_ok (delete_license i)" "preserves ends_ok (delete_licenses is)"
  unfolding delete_license_def delete_licenses_def
  by (intro wp_rules preserves_find_license preserves_modify,
      use splice_subset [of l_id i] in \<open>auto simp: ends_ok_def\<close>)+

lemma ends_ok_override_route: "preserves ends_ok (override_po_total clk i v)"
  unfolding override_po_total_def validate_demo_money_def
  by (intro wp_rules preserves_find_license preserves_modify ends_ok_override)

lemma ends_ok_clear_route: "preserves ends_ok (clear_po_total clk i)"
  unfolding clear_po_total_def
  by (intro wp_rules preserves_find_license preserves_modify ends_ok_override)

lemma ends_ok_link_route: "preserves ends_ok (link_maintenance clk p m)"
  unfolding link_maintenance_def by (intro wp_rules preserves_find_license ends_ok_parent_record)

lemma ends_ok_notice_route: "preserves ends_ok (mark_notice_handled clk i)"
  unfolding mark_notice_handled_def
  by (intro wp_rules preserves_find_license preserves_modify ends_ok_upd) (simp_all add: endless_def)

lemma ends_ok_disable_route: "preserves ends_ok (disable_maintenance clk p)"
  unfolding disable_maintenance_def
  by (intro wp_rules preserves_find_license preserves_modify ends_ok_disable)

lemma serve_license_keeps: "ends_ok s \<Longrightarrow> ends_ok (serve_license clk x s)"
  by (cases x) (simp_all add: preservesD [OF ends_ok_create] preservesD [OF ends_ok_update] preservesD [OF ends_ok_patch]
      preservesD [OF ends_ok_deletes(1)] preservesD [OF ends_ok_deletes(2)] preservesD [OF ends_ok_override_route]
      preservesD [OF ends_ok_clear_route] preservesD [OF ends_ok_link_route] preservesD [OF ends_ok_notice_route]
      preservesD [OF ends_ok_disable_route])

definition serve_licenses :: "(clock \<times> license_request) list \<Rightarrow> store \<Rightarrow> store" where
  "serve_licenses xs s = fold (\<lambda>(clk, x). serve_license clk x) xs s"

lemma serve_licenses_keep: "ends_ok s \<Longrightarrow> ends_ok (serve_licenses xs s)"
  unfolding serve_licenses_def by (induction xs arbitrary: s) (auto simp: serve_license_keeps)


definition ending_requests :: "(clock \<times> license_request) list" where
  "ending_requests =
     [(example_clock, PatchLicense 1 ''licenseType'' (TypeValue (Some Perpetual))),
      (example_clock, PatchLicense 1 ''endDate'' (TextValue (Some ''2031-01-31'')))]"


end
