(* ===== verification/ProcurementRoutes.thy ===== *)
theory ProcurementRoutes
  imports Planned Conversion LicenseRoutes
begin

text \<open>
  The sourcing and pending-order routes of \<^verbatim>\<open>handlers.js\<close>. A body is the list of the keys it has and a
  sourcing line that holds their values and the defaults elsewhere; the responses that rebuild a request
  or an order from the store are functions of the store (\<open>build_sourcing_request_response\<close>,
  \<open>with_pending_order_license_refs\<close>), so the operations return ids.
\<close>

section \<open>Payloads\<close>

record item_payload =
  ip_keys :: "string list"
  ip_data :: sourcing_item

definition has_field :: "string \<Rightarrow> item_payload \<Rightarrow> bool" where
  "has_field k p \<longleftrightarrow> k \<in> set (ip_keys p)"

definition money_of_item :: "(string \<times> (sourcing_item \<Rightarrow> jstr)) list" where
  "money_of_item =
     [(''quantity'', i_quantity), (''quantityPerUnit'', i_quantityPerUnit),
      (''estimatedUnitPrice'', i_estimatedUnitPrice), (''estimatedTotalPrice'', i_estimatedTotalPrice),
      (''maintenanceQuantity'', \<lambda>i. maintenanceQuantity (i_support i)),
      (''maintenanceUnitPrice'', \<lambda>i. maintenanceUnitPrice (i_support i)),
      (''maintenanceCost'', \<lambda>i. maintenanceCost (i_support i))]"

definition item_money :: "item_payload \<Rightarrow> jstr list" where
  "item_money p = map (\<lambda>e. snd e (ip_data p)) (filter (\<lambda>e. has_field (fst e) p) money_of_item)"

text \<open>\<open>canonicalizeDemoReferenceFields\<close> on the body of a line and on a body with a supplier only.\<close>

definition canonicalize_item :: "clock \<Rightarrow> item_payload \<Rightarrow> item_payload demo_op" where
  "canonicalize_item clk p =
     (let i = ip_data p in
      bindE (validate_demo_money (item_money p)) (\<lambda>_.
      bindE (throw_if (has_field ''poLineNumber'' p \<or> has_field ''poLineId'' p)
        ''PO line numbers are generated and cannot be set'') (\<lambda>_.
      bindE (when_key (has_field ''publisherName'' p) (publisher_for clk (i_publisherName i))
        (\<lambda>v i. i\<lparr>i_publisherName := v\<rparr>) i) (\<lambda>i.
      bindE (when_key (has_field ''supplier'' p) (supplier_for clk (i_supplier i))
        (\<lambda>v i. i\<lparr>i_supplier := v\<rparr>) i) (\<lambda>i.
      bindE (when_key (has_field ''costCentre'' p) (cost_centre_for clk (i_costCentre i))
        (\<lambda>v i. i\<lparr>i_costCentre := v\<rparr>) i) (\<lambda>i.
        ret (p\<lparr>ip_data := i\<rparr>)))))))"

definition canonical_supplier :: "clock \<Rightarrow> jstr option \<Rightarrow> jstr demo_op" where
  "canonical_supplier clk given = (case given of None \<Rightarrow> ret None | Some v \<Rightarrow> supplier_for clk v)"

text \<open>The fields a line update copies.\<close>

definition item_table :: "(string \<times> (sourcing_item \<Rightarrow> sourcing_item \<Rightarrow> sourcing_item)) list" where
  "item_table =
     [(''publisherName'', \<lambda>d i. i\<lparr>i_publisherName := i_publisherName d\<rparr>),
      (''softwareDescription'', \<lambda>d i. i\<lparr>i_softwareDescription := i_softwareDescription d\<rparr>),
      (''licenseType'', \<lambda>d i. i\<lparr>i_licenseType := i_licenseType d\<rparr>),
      (''isRenewable'', \<lambda>d i. i\<lparr>i_isRenewable := i_isRenewable d\<rparr>),
      (''typeDescription'', \<lambda>d i. i\<lparr>i_typeDescription := i_typeDescription d\<rparr>),
      (''maintenanceParentLicenseId'', \<lambda>d i. i\<lparr>i_maintenanceParentLicenseId := i_maintenanceParentLicenseId d\<rparr>),
      (''quantity'', \<lambda>d i. i\<lparr>i_quantity := i_quantity d\<rparr>),
      (''estimatedUnitPrice'', \<lambda>d i. i\<lparr>i_estimatedUnitPrice := i_estimatedUnitPrice d\<rparr>),
      (''estimatedTotalPrice'', \<lambda>d i. i\<lparr>i_estimatedTotalPrice := i_estimatedTotalPrice d\<rparr>),
      (''currency'', \<lambda>d i. i\<lparr>i_currency := i_currency d\<rparr>),
      (''startDate'', \<lambda>d i. i\<lparr>i_startDate := i_startDate d\<rparr>),
      (''endDate'', \<lambda>d i. i\<lparr>i_endDate := i_endDate d\<rparr>),
      (''notes'', \<lambda>d i. i\<lparr>i_notes := i_notes d\<rparr>)]"

definition sourcing_table :: "(string \<times> (sourcing_item \<Rightarrow> sourcing_item \<Rightarrow> sourcing_item)) list" where
  "sourcing_table = item_table @ [(''status'', \<lambda>d i. i\<lparr>i_status := i_status d\<rparr>)]"

definition copy_item_support :: "(support \<Rightarrow> support \<Rightarrow> support) \<Rightarrow> sourcing_item \<Rightarrow> sourcing_item \<Rightarrow> sourcing_item" where
  "copy_item_support f d i = i\<lparr>i_support := f (i_support d) (i_support i)\<rparr>"

definition order_item_table :: "(string \<times> (sourcing_item \<Rightarrow> sourcing_item \<Rightarrow> sourcing_item)) list" where
  "order_item_table = item_table @
     [(''supplier'', \<lambda>d i. i\<lparr>i_supplier := i_supplier d\<rparr>),
      (''contactEmail'', \<lambda>d i. i\<lparr>i_contactEmail := i_contactEmail d\<rparr>),
      (''maintenanceCoverage'', copy_item_support (\<lambda>d u. u\<lparr>maintenanceCoverage := maintenanceCoverage d\<rparr>)),
      (''maintenanceStartDate'', copy_item_support (\<lambda>d u. u\<lparr>maintenanceStartDate := maintenanceStartDate d\<rparr>)),
      (''maintenanceEndDate'', copy_item_support (\<lambda>d u. u\<lparr>maintenanceEndDate := maintenanceEndDate d\<rparr>)),
      (''maintenancePricingBasis'', copy_item_support (\<lambda>d u. u\<lparr>maintenancePricingBasis := maintenancePricingBasis d\<rparr>)),
      (''maintenanceQuantity'', copy_item_support (\<lambda>d u. u\<lparr>maintenanceQuantity := maintenanceQuantity d\<rparr>)),
      (''maintenanceUnitPrice'', copy_item_support (\<lambda>d u. u\<lparr>maintenanceUnitPrice := maintenanceUnitPrice d\<rparr>)),
      (''maintenanceCost'', copy_item_support (\<lambda>d u. u\<lparr>maintenanceCost := maintenanceCost d\<rparr>))]"

definition assign_item_keys ::
  "(string \<times> (sourcing_item \<Rightarrow> sourcing_item \<Rightarrow> sourcing_item)) list \<Rightarrow> item_payload \<Rightarrow> sourcing_item \<Rightarrow> sourcing_item" where
  "assign_item_keys table p i =
     fold (\<lambda>e i. if has_field (fst e) p then snd e (ip_data p) i else i) table i"

definition item_opt_in :: "sourcing_item \<Rightarrow> sourcing_item" where
  "item_opt_in = normalise_item_opt_in [''isRenewable'', ''typeDescription'', ''maintenanceParentLicenseId'']"

section \<open>Sourcing requests\<close>

definition find_request :: "int \<Rightarrow> sourcing_request demo_op" where
  "find_request rid =
     bindE (gets (\<lambda>s. get_request s rid)) (\<lambda>found. the_or_throw found ''Sourcing request not found'')"

definition find_item :: "int \<Rightarrow> sourcing_item demo_op" where
  "find_item iid =
     bindE (gets (\<lambda>s. get_item s iid)) (\<lambda>found. the_or_throw found ''Sourcing item not found'')"

record request_body =
  rb_supplier :: "jstr option"
  rb_contactEmail :: jstr
  rb_notes :: jstr
  rb_items :: "(item_payload \<times> int option) list"

definition identity_clash :: "jstr \<Rightarrow> jstr \<Rightarrow> bool" where
  "identity_clash a b \<longleftrightarrow> truthy a \<and> truthy b \<and> \<not> procurement_identities_match a b"

text \<open>The supplier and contact of the request: those given, or those of the first lines that have any.\<close>

definition agree_identity :: "jstr \<times> jstr \<Rightarrow> sourcing_item \<Rightarrow> (jstr \<times> jstr) demo_op" where
  "agree_identity acc i =
     (let supplier = clean_procurement_identity (i_supplier i); contact = clean_procurement_identity (i_contactEmail i)
      in bindE (throw_if (identity_clash (fst acc) supplier)
           ''All lines in a sourcing request must use the same request supplier'') (\<lambda>_.
         bindE (throw_if (identity_clash (snd acc) contact)
           ''All lines in a sourcing request must use the same supplier contact'') (\<lambda>_.
           ret (or_else (fst acc) supplier, or_else (snd acc) contact))))"

primrec agree_identities :: "jstr \<times> jstr \<Rightarrow> sourcing_item list \<Rightarrow> (jstr \<times> jstr) demo_op" where
  "agree_identities acc [] = ret acc"
| "agree_identities acc (i # is) = bindE (agree_identity acc i) (\<lambda>acc. agree_identities acc is)"

definition nth_created :: "'a list \<Rightarrow> int option \<Rightarrow> 'a option" where
  "nth_created xs k =
     (case k of None \<Rightarrow> None | Some n \<Rightarrow> if 0 \<le> n \<and> n < int (length xs) then Some (xs ! nat n) else None)"

text \<open>The request a new line goes to: a line under another of a different supplier opens its own.\<close>

definition target_request :: "sourcing_request \<Rightarrow> sourcing_item \<Rightarrow> sourcing_item option \<Rightarrow> sourcing_request demo_op" where
  "target_request r i parent =
     (let supplier = or_else (clean_procurement_identity (i_supplier i)) (r_supplier r)
      in if parent \<noteq> None \<and> truthy supplier \<and> \<not> procurement_identities_match supplier (r_supplier r)
         then bindE fresh_id (\<lambda>n.
           (let r' = r\<lparr>r_id := n, r_supplier := supplier,
                       r_contactEmail := or_else (clean_procurement_identity (i_contactEmail i)) (r_contactEmail r)\<rparr>
            in bindE (modify (push_request r')) (\<lambda>_. ret r')))
         else bindE (throw_if (parent \<noteq> None \<and> truthy (i_contactEmail i)
                \<and> \<not> procurement_identities_match (i_contactEmail i) (r_contactEmail r))
             ''All lines in a sourcing request must use the same supplier contact'') (\<lambda>_. ret r))"

definition push_built_item :: "clock \<Rightarrow> sourcing_item \<Rightarrow> item_overrides \<Rightarrow> sourcing_item demo_op" where
  "push_built_item clk payload ov s =
     (let (i, s') = build_sourcing_item clk payload ov s in (Inr i, push_item i s'))"

definition in_request :: "int \<Rightarrow> item_overrides" where
  "in_request rid = no_overrides\<lparr>ov_sourcingRequestId := Some rid\<rparr>"

definition create_request_line ::
  "clock \<Rightarrow> sourcing_request \<Rightarrow> sourcing_item list \<Rightarrow> sourcing_item \<times> int option \<Rightarrow> sourcing_item demo_op" where
  "create_request_line clk r created e =
     (let parent = nth_created created (snd e)
      in bindE (target_request r (fst e) parent) (\<lambda>t.
           push_built_item clk ((fst e)\<lparr>i_supplier := r_supplier t, i_contactEmail := r_contactEmail t,
             i_parentSourcingItemId := nullish (map_option i_id parent) (i_parentSourcingItemId (fst e))\<rparr>)
             (in_request (r_id t))))"

primrec create_request_lines ::
  "clock \<Rightarrow> sourcing_request \<Rightarrow> sourcing_item list \<Rightarrow> (sourcing_item \<times> int option) list \<Rightarrow> unit demo_op" where
  "create_request_lines clk r created [] = ret ()"
| "create_request_lines clk r created (e # es) =
     bindE (create_request_line clk r created e) (\<lambda>i. create_request_lines clk r (created @ [i]) es)"

definition canonicalize_line :: "clock \<Rightarrow> item_payload \<times> int option \<Rightarrow> (sourcing_item \<times> int option) demo_op" where
  "canonicalize_line clk e = bindE (canonicalize_item clk (fst e)) (\<lambda>p. ret (ip_data p, snd e))"

definition opened_request :: "clock \<Rightarrow> int \<Rightarrow> jstr \<times> jstr \<Rightarrow> jstr \<Rightarrow> sourcing_request" where
  "opened_request clk n identity notes = \<lparr>r_id = n, r_supplier = fst identity, r_contactEmail = snd identity,
     r_notes = notes, r_status = Sourcing, r_createdAt = now clk, r_updatedAt = now clk\<rparr>"

definition create_sourcing_request :: "clock \<Rightarrow> request_body \<Rightarrow> int demo_op" where
  "create_sourcing_request clk b =
     bindE (throw_if (rb_items b = []) ''At least one sourcing item is required'') (\<lambda>_.
     bindE (canonical_supplier clk (rb_supplier b)) (\<lambda>supplier.
     bindE (forE (canonicalize_line clk) (rb_items b)) (\<lambda>lines.
     bindE (agree_identities (clean_procurement_identity supplier, clean_procurement_identity (rb_contactEmail b))
       (map fst (filter (\<lambda>e. snd e = None) lines))) (\<lambda>identity.
     bindE fresh_id (\<lambda>n.
     (let r = opened_request clk n identity (rb_notes b)
      in bindE (modify (push_request r)) (\<lambda>_.
         bindE (create_request_lines clk r [] lines) (\<lambda>_. ret n))))))))"

text \<open>Adding a line, which may be the next term of existing lines.\<close>

definition take_identity :: "int \<Rightarrow> sourcing_request \<Rightarrow> jstr \<Rightarrow> jstr \<Rightarrow> store \<Rightarrow> store" where
  "take_identity rid r supplier contact =
     (if \<not> truthy (r_supplier r) \<and> truthy supplier
      then synchronize_open_sourcing_request_identity rid (Some supplier) (if truthy contact then Some contact else None)
      else if \<not> truthy (r_contactEmail r) \<and> truthy contact
      then synchronize_open_sourcing_request_identity rid None (Some contact)
      else (\<lambda>s. s))"

definition add_request_line :: "clock \<Rightarrow> int \<Rightarrow> sourcing_item \<Rightarrow> int demo_op" where
  "add_request_line clk rid i =
     bindE (find_request rid) (\<lambda>r.
     bindE (push_built_item clk (i\<lparr>i_supplier := r_supplier r, i_contactEmail := r_contactEmail r\<rparr>)
       ((in_request rid)\<lparr>ov_status := Some Sourcing\<rparr>)) (\<lambda>created. ret (i_id created)))"

definition add_sourcing_request_item :: "clock \<Rightarrow> int \<Rightarrow> item_payload \<Rightarrow> int list \<Rightarrow> int demo_op" where
  "add_sourcing_request_item clk rid body successor_of =
     bindE (find_request rid) (\<lambda>r.
     bindE (throw_if (r_status r = Converted) ''Cannot add items to a converted sourcing request'') (\<lambda>_.
     bindE (canonicalize_item clk body) (\<lambda>p.
     (let supplier = clean_procurement_identity (i_supplier (ip_data p));
          contact = clean_procurement_identity (i_contactEmail (ip_data body))
      in bindE (throw_if (identity_clash (r_supplier r) supplier)
           ''The line supplier conflicts with the sourcing request supplier'') (\<lambda>_.
         bindE (throw_if (identity_clash (r_contactEmail r) contact)
           ''The line contact conflicts with the sourcing request contact'') (\<lambda>_.
         bindE (modify (take_identity rid r supplier contact)) (\<lambda>_.
         bindE (add_request_line clk rid (ip_data p)) (\<lambda>n.
         bindE (if successor_of \<noteq> [] then set_planned_successors clk successor_of (Some n) else ret ()) (\<lambda>_.
           ret n)))))))))"

definition put_successor_links :: "clock \<Rightarrow> int list \<Rightarrow> int \<Rightarrow> unit demo_op" where
  "put_successor_links clk ids n =
     bindE (replace_planned_predecessors clk ids n) (\<lambda>_.
     bindE (gets (\<lambda>s. get_item s n)) (\<lambda>successor.
       case successor of
         None \<Rightarrow> ret ()
       | Some i \<Rightarrow> (case i_sourcingRequestId i of
             None \<Rightarrow> ret () | Some rid \<Rightarrow> bindE (find_request rid) (\<lambda>_. ret ()))))"

definition convert_freeware_request :: "clock \<Rightarrow> int \<Rightarrow> unit demo_op" where
  "convert_freeware_request clk rid =
     bindE (find_request rid) (\<lambda>r.
     bindE (gets (\<lambda>s. filter (\<lambda>i. i_status i = Sourcing) (request_items s rid))) (\<lambda>lines.
     bindE (throw_if (\<exists>i \<in> set lines. i_licenseType i \<noteq> Some Freeware \<or> paid_included_support i)
       ''Convert purchase lines to a pending order before converting this request directly'') (\<lambda>_.
     bindE (convert_freeware_sourcing_items clk lines) (\<lambda>_. ret ()))))"

text \<open>The bodies of the two conversions; \<open>None\<close> is a supplier the body does not have.\<close>

record conversion_body =
  cb_pendingOrderId :: "int option"
  cb_poNumber :: jstr
  cb_supplier :: "jstr option"
  cb_notes :: jstr

definition conversion_target :: "clock \<Rightarrow> conversion_body \<Rightarrow> order_target demo_op" where
  "conversion_target clk b =
     bindE (canonical_supplier clk (cb_supplier b)) (\<lambda>supplier.
       ret \<lparr>t_pendingOrderId = cb_pendingOrderId b, t_poNumber = cb_poNumber b, t_supplier = supplier,
            t_notes = cb_notes b\<rparr>)"

definition convert_request :: "clock \<Rightarrow> int \<Rightarrow> conversion_body \<Rightarrow> int demo_op" where
  "convert_request clk rid b =
     bindE (find_request rid) (\<lambda>r. bindE (conversion_target clk b) (convert_sourcing_request_to_order clk r))"

definition convert_item :: "clock \<Rightarrow> int \<Rightarrow> conversion_body \<Rightarrow> int demo_op" where
  "convert_item clk iid b =
     bindE (find_item iid) (\<lambda>i. bindE (conversion_target clk b) (convert_sourcing_item_to_order clk i))"

definition convert_freeware_line :: "clock \<Rightarrow> int \<Rightarrow> unit demo_op" where
  "convert_freeware_line clk iid =
     bindE (find_item iid) (\<lambda>i. bindE (convert_freeware_sourcing_items clk [i]) (\<lambda>_. ret ()))"

text \<open>\<open>PUT\<close>: \<open>None\<close> is a key the body does not have.\<close>

definition resolve_supplier :: "clock \<Rightarrow> jstr option \<Rightarrow> jstr option demo_op" where
  "resolve_supplier clk given =
     (case given of None \<Rightarrow> ret None | Some v \<Rightarrow> bindE (supplier_for clk v) (\<lambda>n. ret (Some n)))"

definition update_sourcing_request ::
  "clock \<Rightarrow> int \<Rightarrow> jstr option \<Rightarrow> jstr option \<Rightarrow> jstr option \<Rightarrow> unit demo_op" where
  "update_sourcing_request clk rid supplier contact notes =
     bindE (find_request rid) (\<lambda>_.
     bindE (resolve_supplier clk supplier) (\<lambda>name.
     bindE (modify (synchronize_open_sourcing_request_identity rid name contact)) (\<lambda>_.
       modify (upd_request rid (\<lambda>r. r\<lparr>
         r_notes := (case notes of None \<Rightarrow> r_notes r | Some v \<Rightarrow> v), r_updatedAt := now clk\<rparr>)))))"

definition drop_request :: "clock \<Rightarrow> int \<Rightarrow> store \<Rightarrow> store" where
  "drop_request clk rid s =
     (let released = uniq (concat (map sourcing_item_predecessor_ids (request_items s rid)));
          s1 = s\<lparr>sourcingItems := filter (\<lambda>i. i_sourcingRequestId i \<noteq> Some rid) (sourcingItems s),
                 sourcingRequests := filter (\<lambda>r. r_id r \<noteq> rid) (sourcingRequests s)\<rparr>
      in fold (\<lambda>lid. handle_sourcing_item_delete_side_effects clk (Some lid) None []) released s1)"

definition delete_sourcing_request :: "clock \<Rightarrow> int \<Rightarrow> unit demo_op" where
  "delete_sourcing_request clk rid =
     bindE (find_request rid) (\<lambda>_.
     bindE (gets (\<lambda>s. \<exists>i \<in> set (request_items s rid). i_status i = Converted)) (\<lambda>converted.
     bindE (throw_if converted ''Cannot delete a sourcing request after any line has been converted'') (\<lambda>_.
       modify (drop_request clk rid))))"

section \<open>Sourcing lines\<close>

definition get_sourcing_items :: "store \<Rightarrow> sourcing_item list" where
  "get_sourcing_items s =
     filter (\<lambda>i. i_status i = Sourcing \<and>
       (case i_sourcingRequestId i of
          None \<Rightarrow> True
        | Some rid \<Rightarrow> (case get_request s rid of None \<Rightarrow> False | Some r \<Rightarrow> r_status r = Sourcing)))
       (sourcingItems s)"

definition create_sourcing_item :: "clock \<Rightarrow> item_payload \<Rightarrow> int demo_op" where
  "create_sourcing_item clk body =
     bindE (canonicalize_item clk body) (\<lambda>p.
     bindE (push_built_item clk (ip_data p) no_overrides) (\<lambda>i.
     bindE (modify (ensure_stored clk (i_id i))) (\<lambda>_. ret (i_id i))))"

text \<open>The supplier and the contact of an update, where the body has them.\<close>

definition field_of :: "string \<Rightarrow> item_payload \<Rightarrow> jstr \<Rightarrow> jstr option" where
  "field_of k p v = (if has_field k p then Some v else None)"

definition own_identity :: "jstr option \<Rightarrow> jstr option \<Rightarrow> sourcing_item \<Rightarrow> sourcing_item" where
  "own_identity supplier contact i = i\<lparr>
     i_supplier := (case supplier of None \<Rightarrow> i_supplier i | Some v \<Rightarrow> clean_procurement_identity v),
     i_contactEmail := (case contact of None \<Rightarrow> i_contactEmail i | Some v \<Rightarrow> clean_procurement_identity v)\<rparr>"

definition write_item_identity :: "int \<Rightarrow> int option \<Rightarrow> jstr option \<Rightarrow> jstr option \<Rightarrow> store \<Rightarrow> store" where
  "write_item_identity iid rid supplier contact s =
     (case opt_get get_request s rid of
        None \<Rightarrow> upd_item iid (own_identity supplier contact) s
      | Some r \<Rightarrow> synchronize_open_sourcing_request_identity (r_id r) supplier contact s)"

definition touch_item :: "clock \<Rightarrow> int \<Rightarrow> store \<Rightarrow> store" where
  "touch_item clk iid = upd_item iid (\<lambda>i. i\<lparr>i_updatedAt := now clk\<rparr>)"

definition update_sourcing_item :: "clock \<Rightarrow> int \<Rightarrow> item_payload \<Rightarrow> unit demo_op" where
  "update_sourcing_item clk iid body =
     bindE (find_item iid) (\<lambda>i.
     bindE (assert_sourcing_item_editable i) (\<lambda>_.
     bindE (canonicalize_item clk body) (\<lambda>p.
     bindE (modify (upd_item iid (\<lambda>i. item_opt_in (assign_item_keys sourcing_table p i)))) (\<lambda>_.
     bindE (modify (write_item_identity iid (i_sourcingRequestId i)
       (field_of ''supplier'' p (i_supplier (ip_data p)))
       (field_of ''contactEmail'' p (i_contactEmail (ip_data body))))) (\<lambda>_.
       modify (touch_item clk iid))))))"

definition drop_item :: "clock \<Rightarrow> sourcing_item \<Rightarrow> int option \<Rightarrow> store \<Rightarrow> store" where
  "drop_item clk i parent s =
     handle_sourcing_item_delete_side_effects clk (i_renewalForLicenseId i) parent (sourcing_item_predecessor_ids i)
       (s\<lparr>sourcingItems := filter (\<lambda>x. i_id x \<noteq> i_id i) (sourcingItems s)\<rparr>)"

definition delete_sourcing_item :: "clock \<Rightarrow> int \<Rightarrow> unit demo_op" where
  "delete_sourcing_item clk iid =
     bindE (find_item iid) (\<lambda>i.
     bindE (assert_sourcing_item_editable i) (\<lambda>_.
     bindE (require_no_planned_links i) (\<lambda>_.
       modify (drop_item clk i (i_pendingOrderId i)))))"

section \<open>Pending orders\<close>

definition find_order :: "int \<Rightarrow> pending_order demo_op" where
  "find_order oid =
     bindE (gets (\<lambda>s. get_order s oid)) (\<lambda>found. the_or_throw found ''Pending order not found'')"

definition find_order_line :: "int \<Rightarrow> int \<Rightarrow> sourcing_item demo_op" where
  "find_order_line oid iid =
     bindE (gets (\<lambda>s. List.find (\<lambda>i. i_id i = iid \<and> i_pendingOrderId i = Some oid) (sourcingItems s))) (\<lambda>found.
       the_or_throw found ''Pending order item not found'')"

definition convert_payload_of :: "license_payload \<Rightarrow> convert_payload" where
  "convert_payload_of p = \<lparr>cp_keys = lp_keys p, cp_data = lp_data p\<rparr>"

definition convert_order ::
  "(string \<Rightarrow> string \<Rightarrow> int) \<Rightarrow> clock \<Rightarrow> int \<Rightarrow> license_payload \<Rightarrow> unit demo_op" where
  "convert_order collate clk oid body =
     bindE (find_order oid) (\<lambda>x.
     bindE (canonicalize_demo_reference_fields clk body) (\<lambda>p.
     bindE (convert_pending_order_to_licenses collate clk x (convert_payload_of p)) (\<lambda>_. ret ())))"

text \<open>A batch item with its license data as a payload.\<close>

definition canonicalize_batch_item :: "clock \<Rightarrow> batch_item \<Rightarrow> batch_item demo_op" where
  "canonicalize_batch_item clk b =
     bindE (canonicalize_demo_reference_fields clk \<lparr>lp_keys = bi_keys b, lp_data = bi_data b\<rparr>) (\<lambda>p.
       ret (b\<lparr>bi_data := lp_data p\<rparr>))"

definition convert_order_lines ::
  "(string \<Rightarrow> string \<Rightarrow> int) \<Rightarrow> clock \<Rightarrow> int \<Rightarrow> batch_item list \<Rightarrow> unit demo_op" where
  "convert_order_lines collate clk oid body =
     bindE (find_order oid) (\<lambda>x.
     bindE (forE (canonicalize_batch_item clk) body) (\<lambda>items.
     bindE (batch_convert_pending_order_to_licenses collate clk x items) (\<lambda>_. ret ())))"

definition add_order_lines :: "clock \<Rightarrow> int \<Rightarrow> (item_payload \<times> int list) list \<Rightarrow> unit demo_op" where
  "add_order_lines clk oid body =
     bindE (find_order oid) (\<lambda>x.
     bindE (forE (\<lambda>e. bindE (canonicalize_item clk (fst e)) (\<lambda>p. ret (ip_data p, snd e))) body) (\<lambda>lines.
     bindE (add_pending_order_items_bulk clk x lines) (\<lambda>_. ret ())))"

definition write_order_line :: "clock \<Rightarrow> item_payload \<Rightarrow> sourcing_item \<Rightarrow> sourcing_item" where
  "write_order_line clk p i =
     (let i1 = assign_item_keys order_item_table p i;
          i2 = (if i_licenseType i1 = Some Freeware
                then i1\<lparr>i_estimatedUnitPrice := None, i_estimatedTotalPrice := None\<rparr> else i1);
          i3 = i2\<lparr>i_support := apply_included_support_defaults (item_acquisition i2) (i_support i2)\<rparr>
      in (item_opt_in i3)\<lparr>i_updatedAt := now clk\<rparr>)"

definition update_order_line :: "clock \<Rightarrow> int \<Rightarrow> int \<Rightarrow> item_payload \<Rightarrow> unit demo_op" where
  "update_order_line clk oid iid body =
     bindE (find_order oid) (\<lambda>x.
     bindE (ensure_pending_order_editable x ''update items on'') (\<lambda>_.
     bindE (find_order_line oid iid) (\<lambda>_.
     bindE (if has_field ''currency'' body
            then assert_line_currency_fits_pending_order oid (i_currency (ip_data body)) else ret ()) (\<lambda>_.
     bindE (canonicalize_item clk body) (\<lambda>p.
     bindE (modify (upd_item iid (write_order_line clk p))) (\<lambda>_.
       modify (rebuild_pending_order_items oid)))))))"

definition close_if_empty :: "clock \<Rightarrow> int \<Rightarrow> store \<Rightarrow> store" where
  "close_if_empty clk oid s = (if order_items s oid = [] then upd_order oid (close_order clk) s else s)"

definition delete_order_line :: "clock \<Rightarrow> int \<Rightarrow> int \<Rightarrow> unit demo_op" where
  "delete_order_line clk oid iid =
     bindE (find_order oid) (\<lambda>x.
     bindE (ensure_pending_order_editable x ''delete items from'') (\<lambda>_.
     bindE (find_order_line oid iid) (\<lambda>i.
     bindE (modify (drop_item clk i None)) (\<lambda>_.
     bindE (modify (rebuild_pending_order_items oid)) (\<lambda>_.
       modify (close_if_empty clk oid))))))"

definition create_order :: "clock \<Rightarrow> jstr \<Rightarrow> jstr option \<Rightarrow> jstr \<Rightarrow> int demo_op" where
  "create_order clk po supplier notes =
     bindE (canonical_supplier clk supplier) (\<lambda>name. create_pending_order_record clk po name notes)"

text \<open>\<open>PUT\<close>: \<open>None\<close> is a key the body does not have; an order status is one of the four of the enum.\<close>

record order_update =
  ou_poNumber :: "jstr option"
  ou_supplier :: "jstr option"
  ou_notes :: "jstr option"
  ou_status :: "order_status option"
  ou_contactEmail :: "jstr option"
  ou_poTotalOverride :: "jstr option"

definition checked_override :: "int \<Rightarrow> jstr option \<Rightarrow> jstr option demo_op" where
  "checked_override oid given =
     (case given of
        None \<Rightarrow> ret None
      | Some v \<Rightarrow>
          if \<not> truthy v then ret (Some None)
          else bindE (throw_if (\<not> canonical_money (str v)) ''PO total must be a plain decimal string (e.g. '1234.50').'') (\<lambda>_.
            bindE (assert_pending_order_override_currencies oid) (\<lambda>_. ret (Some v))))"

definition given_or :: "'a option \<Rightarrow> 'a \<Rightarrow> 'a" where
  "given_or v x = (case v of None \<Rightarrow> x | Some y \<Rightarrow> y)"

definition write_order :: "order_update \<Rightarrow> jstr option \<Rightarrow> jstr option \<Rightarrow> pending_order \<Rightarrow> pending_order" where
  "write_order u supplier po_total x = x\<lparr>
     o_poNumber := given_or (ou_poNumber u) (o_poNumber x), o_supplier := given_or supplier (o_supplier x),
     o_notes := given_or (ou_notes u) (o_notes x), o_status := given_or (ou_status u) (o_status x),
     o_poTotalOverride := given_or po_total (o_poTotalOverride x)\<rparr>"

definition write_order_contact :: "int \<Rightarrow> jstr \<Rightarrow> store \<Rightarrow> store" where
  "write_order_contact oid v =
     sourcingItems_update (upd_where (\<lambda>i. i_pendingOrderId i = Some oid \<and> i_status i \<noteq> Cancelled)
       (\<lambda>i. i\<lparr>i_contactEmail := clean_procurement_identity v\<rparr>))"

definition update_order :: "clock \<Rightarrow> int \<Rightarrow> order_update \<Rightarrow> unit demo_op" where
  "update_order clk oid u =
     bindE (find_order oid) (\<lambda>x.
     bindE (ensure_pending_order_editable x ''update'') (\<lambda>_.
     bindE (checked_override oid (ou_poTotalOverride u)) (\<lambda>po_total.
     bindE (validate_demo_money [given_or (ou_poTotalOverride u) None]) (\<lambda>_.
     bindE (resolve_supplier clk (ou_supplier u)) (\<lambda>supplier.
     bindE (modify (upd_order oid (write_order u supplier po_total))) (\<lambda>_.
     bindE (modify (case ou_contactEmail u of None \<Rightarrow> (\<lambda>s. s) | Some v \<Rightarrow> write_order_contact oid v)) (\<lambda>_.
     bindE (modify (if ou_contactEmail u \<noteq> None \<or> ou_poNumber u \<noteq> None
       then rebuild_pending_order_items oid else (\<lambda>s. s))) (\<lambda>_.
       modify (touch_order clk oid)))))))))"

definition cancel_order :: "clock \<Rightarrow> int \<Rightarrow> unit demo_op" where
  "cancel_order clk oid =
     bindE (find_order oid) (\<lambda>x. bindE (cancel_pending_order_record clk x) (\<lambda>_. ret ()))"

definition delete_order :: "clock \<Rightarrow> int \<Rightarrow> unit demo_op" where
  "delete_order clk oid = bindE (find_order oid) (delete_pending_order_record clk)"

text \<open>The two lists, by the times the dates \<open>collate\<close> compares: newest first.\<close>

definition list_orders :: "(string \<Rightarrow> string \<Rightarrow> int) \<Rightarrow> store \<Rightarrow> order_view list" where
  "list_orders collate s =
     map (with_pending_order_license_refs s)
       (js_sort (\<lambda>a b. collate (o_createdAt b) (o_createdAt a)) (filter is_pending_order_open (pendingOrders s)))"

definition order_history :: "(string \<Rightarrow> string \<Rightarrow> int) \<Rightarrow> store \<Rightarrow> order_view list" where
  "order_history collate s =
     map (with_pending_order_license_refs s)
       (js_sort (\<lambda>a b. collate (o_updatedAt b) (o_updatedAt a))
         (filter (\<lambda>x. o_status x = OrderConverted \<or> o_status x = OrderCancelled) (pendingOrders s)))"

definition list_requests :: "(string \<Rightarrow> string \<Rightarrow> int) \<Rightarrow> clock \<Rightarrow> store \<Rightarrow> request_view list \<times> store" where
  "list_requests collate clk s =
     (let s1 = backfill_missing_sourcing_requests clk s
      in (map (build_sourcing_request_response s1)
            (js_sort (\<lambda>a b. collate (r_createdAt b) (r_createdAt a))
              (filter (\<lambda>r. r_status r = Sourcing) (sourcingRequests s1))), s1))"

definition request_history :: "(string \<Rightarrow> string \<Rightarrow> int) \<Rightarrow> store \<Rightarrow> request_view list" where
  "request_history collate s =
     map (build_sourcing_request_response s)
       (js_sort (\<lambda>a b. collate (r_updatedAt b) (r_updatedAt a))
         (filter (\<lambda>r. r_status r = Converted \<or> r_status r = Cancelled) (sourcingRequests s)))"

end
