(* ===== verification/OrderLife.thy ===== *)
theory OrderLife
  imports ProcurementRoutes
begin

text \<open>
  The life of a pending order, as an abstract machine, and the proof that every procurement route is a
  path of it. The contract \<open>order_blind\<close> separates the routes from the orders: a predicate that does not
  look past the headings of the orders is kept by every operation that leaves the headings alone.
\<close>

section \<open>Headings\<close>

text \<open>What an order says besides its lines, their total and the time of the last change.\<close>

definition heading :: "pending_order \<Rightarrow> pending_order" where
  "heading x = x\<lparr>o_items := [], o_totalPoValue := None, o_updatedAt := []\<rparr>"

lemma heading_sel [simp]:
  "o_id (heading x) = o_id x" "o_status (heading x) = o_status x" "heading (heading x) = heading x"
  by (simp_all add: heading_def)

lemma heading_id: "heading x = heading y \<Longrightarrow> o_id x = o_id y"
  by (metis heading_sel(1))

definition headings :: "store \<Rightarrow> pending_order list" where
  "headings s = map heading (pendingOrders s)"

text \<open>Operations that leave the headings alone and take ids at most.\<close>

definition keeps_orders :: "store \<Rightarrow> store \<Rightarrow> bool" where
  "keeps_orders s t \<longleftrightarrow> headings t = headings s \<and> next_id s \<le> next_id t"

named_theorems order_frames

lemma keeps_orders_refl [order_frames]: "keeps_orders s s"
  by (simp add: keeps_orders_def)

lemma keeps_orders_trans: "keeps_orders s t \<Longrightarrow> keeps_orders t u \<Longrightarrow> keeps_orders s u"
  by (simp add: keeps_orders_def)

lemma keeps_orders_after: "keeps_orders s t \<Longrightarrow> (\<And>u. keeps_orders u (f u)) \<Longrightarrow> keeps_orders s (f t)"
  by (blast intro: keeps_orders_trans)

lemma keeps_orders_fold [order_frames]: "(\<And>x u. keeps_orders u (f x u)) \<Longrightarrow> keeps_orders s (fold f xs s)"
  by (induction xs arbitrary: s) (auto intro: keeps_orders_refl keeps_orders_trans)

lemma keeps_orders_if [order_frames]:
  "keeps_orders s t \<Longrightarrow> keeps_orders s u \<Longrightarrow> keeps_orders s (if c then t else u)"
  by simp

lemma keeps_orders_option [order_frames]:
  "keeps_orders s t \<Longrightarrow> (\<And>x. keeps_orders s (u x)) \<Longrightarrow> keeps_orders s (case v of None \<Rightarrow> t | Some x \<Rightarrow> u x)"
  by (cases v) simp_all

lemma keeps_orders_same: "pendingOrders t = pendingOrders s \<Longrightarrow> next_id t = next_id s \<Longrightarrow> keeps_orders s t"
  by (simp add: keeps_orders_def headings_def)

lemma keeps_orders_upd [order_frames]:
  "keeps_orders s (upd_license i f s)" "keeps_orders s (upd_item i g s)" "keeps_orders s (upd_request i h s)"
  "keeps_orders s (push_license l s)" "keeps_orders s (push_item x s)" "keeps_orders s (push_request r s)"
  "keeps_orders s (put_license l s)" "keeps_orders s (put_item x s)" "keeps_orders s (put_request r s)"
  "keeps_orders s (licenses_update j s)" "keeps_orders s (sourcingItems_update k s)"
  "keeps_orders s (sourcingRequests_update m s)"
  by (rule keeps_orders_same;
      simp add: upd_license_def upd_item_def upd_request_def push_license_def push_item_def push_request_def
        put_license_def put_item_def put_request_def)+

lemma keeps_orders_order [order_frames]:
  "(\<And>x. heading (f x) = heading x) \<Longrightarrow> keeps_orders s (upd_order i f s)"
proof -
  assume f: "\<And>x. heading (f x) = heading x"
  have "map heading (upd_id o_id i f xs) = map heading xs" for xs
    by (induction xs) (simp_all add: f)
  then show ?thesis
    by (simp add: keeps_orders_def headings_def upd_order_def)
qed

lemma put_order_keeps:
  "get_order s (o_id x) = Some y \<Longrightarrow> heading x = heading y \<Longrightarrow> pendingOrders t = pendingOrders s \<Longrightarrow>
     next_id s \<le> next_id t \<Longrightarrow> keeps_orders s (put_order x t)"
  by (simp add: keeps_orders_def headings_def put_order_def get_order_def put_id_map [where x = y])

section \<open>Store functions of the procurement part\<close>

lemma decorate_keeps [order_frames]: "keeps_orders s (decorate_stored clk i s)"
  by (simp add: keeps_orders_same)

lemma decorate_after [order_frames]: "keeps_orders s t \<Longrightarrow> keeps_orders s (decorate_stored clk i t)"
  by (erule keeps_orders_after) (rule decorate_keeps)

lemma issue_line_same: "pendingOrders (issue_line po n i s) = pendingOrders s" "next_id (issue_line po n i s) = next_id s"
  by (simp_all add: issue_line_def upd_item_def split_beta)

lemma number_line_same: "pendingOrders (number_line po i s) = pendingOrders s" "next_id (number_line po i s) = next_id s"
  by (simp_all add: number_line_def issue_line_same split: option.splits)

lemma fold_same: "(\<And>x u. V (f x u) = V u) \<Longrightarrow> V (fold f xs s) = V s"
  by (induction xs arbitrary: s) simp_all

lemma sync_order_items_same:
  "pendingOrders (sync_order_items x s) = pendingOrders s" "next_id (sync_order_items x s) = next_id s"
  by (simp_all add: sync_order_items_def Let_def fold_same [where V = pendingOrders] fold_same [where V = next_id]
      number_line_same move_line_def issue_line_same upd_item_def)

lemma sync_stored_order_keeps: "keeps_orders s (sync_stored_order oid s)"
proof (cases "get_order s oid")
  case (Some x)
  then have "o_id x = oid"
    by (auto simp: get_order_def dest: find_id_SomeD)
  with Some show ?thesis
    by (simp add: sync_stored_order_def sync_order_po_lines_def Let_def copy_line_numbers_def
        put_order_keeps [where y = x] sync_order_items_same heading_def)
qed (simp add: sync_stored_order_def keeps_orders_refl)

lemma sync_stored_license_keeps [order_frames]: "keeps_orders s (sync_stored_license i s)"
proof (cases "get_license s i")
  case (Some l)
  have "snd (sync_license_po_line l s) = s\<lparr>poLineRegister := poLineRegister (snd (sync_license_po_line l s))\<rparr>"
    by (metis prod.collapse sync_license_store)
  then have "pendingOrders (snd (sync_license_po_line l s)) = pendingOrders s"
    "next_id (snd (sync_license_po_line l s)) = next_id s"
    by (metis store.select_convs store.surjective store.update_convs)+
  with Some show ?thesis
    by (simp add: sync_stored_license_def split_beta put_license_def keeps_orders_same)
qed (simp add: sync_stored_license_def keeps_orders_refl)

lemma rebuild_keeps [order_frames]: "keeps_orders s (rebuild_pending_order_items oid s)"
  unfolding rebuild_pending_order_items_def Let_def
  by (rule keeps_orders_trans [OF sync_stored_order_keeps keeps_orders_order]) (simp add: heading_def)

lemma touch_order_keeps [order_frames]: "keeps_orders s (touch_order clk oid s)"
  unfolding touch_order_def by (rule keeps_orders_order) (simp add: heading_def)

lemma ensure_request_keeps: "keeps_orders s (snd (ensure_sourcing_request_for_item clk i s))"
  by (simp add: ensure_sourcing_request_for_item_def keeps_orders_def headings_def push_request_def)

lemma ensure_stored_keeps [order_frames]: "keeps_orders s (ensure_stored clk i s)"
  by (simp add: ensure_stored_def split_beta keeps_orders_refl
      keeps_orders_trans [OF ensure_request_keeps keeps_orders_upd(8)] split: option.split)

lemma identity_keeps [order_frames]:
  "keeps_orders s (synchronize_open_sourcing_request_identity rid supplier contact s)"
  by (simp add: synchronize_open_sourcing_request_identity_def Let_def keeps_orders_refl
      keeps_orders_trans [OF keeps_orders_upd(9) keeps_orders_upd(11)] split: option.split)

lemma backfill_keeps [order_frames]: "keeps_orders s (backfill_missing_sourcing_requests clk s)"
  unfolding backfill_missing_sourcing_requests_def by (intro order_frames)

lemma build_item_keeps: "keeps_orders s (snd (build_sourcing_item clk i ov s))"
  by (simp add: build_sourcing_item_def keeps_orders_def headings_def split: option.split)

lemma release_keeps [order_frames]: "keeps_orders s (release_predecessor clk lid s)"
  unfolding release_predecessor_def by (intro order_frames)

lemma side_effects_keep [order_frames]:
  "keeps_orders s (handle_sourcing_item_delete_side_effects clk renewal None renewals s)"
  unfolding handle_sourcing_item_delete_side_effects_def drop_empty_order_def by (simp add: order_frames)

lemma link_maintenance_keeps: "keeps_orders s (link_maintenance_to_parent m p s)"
  unfolding link_maintenance_to_parent_def
  by (rule keeps_orders_after [OF keeps_orders_upd(1) keeps_orders_upd(1)])

lemma activation_keeps: "keeps_orders s (activate_maintenance_for_parent clk m p s)"
  by (simp add: activate_maintenance_for_parent_def Let_def link_maintenance_keeps decorate_after
      keeps_orders_trans [OF link_maintenance_keeps keeps_orders_upd(1)] split: option.split)

lemma link_or_activate_keeps: "keeps_orders s (snd (link_or_activate_maintenance clk m p s))"
  by (simp add: link_or_activate_maintenance_def activation_keeps link_maintenance_keeps decorate_after
      keeps_orders_refl split: option.split)

lemma link_if_parent_keeps [order_frames]: "keeps_orders s (link_if_parent clk n p s)"
  unfolding link_if_parent_def by (intro order_frames link_or_activate_keeps)

lemma start_pending_keeps [order_frames]: "keeps_orders s (start_pending clk lid s)"
  unfolding start_pending_def by (intro order_frames)

lemma end_pending_keeps [order_frames]: "keeps_orders s (end_pending clk lid s)"
  unfolding end_pending_def by (intro order_frames)


section \<open>The contract\<close>

locale order_blind =
  fixes I :: "store \<Rightarrow> bool"
  assumes blind: "I s \<Longrightarrow> keeps_orders s t \<Longrightarrow> I t"
    and opened: "I s \<Longrightarrow> o_id x = next_id s \<Longrightarrow> o_status x = OrderPending \<Longrightarrow>
      I (push_order x (s\<lparr>next_id := next_id s + 1\<rparr>))"

sublocale order_blind \<subseteq> outside_directory I
proof
  show "I s \<Longrightarrow> I (put_collection k f s)" for s k f
    by (erule blind, cases k) (simp_all add: keeps_orders_def headings_def put_collection_def)
  show "I s \<Longrightarrow> I (s\<lparr>next_id := next_id s + 1\<rparr>)" for s
    by (erule blind) (simp add: keeps_orders_def headings_def)
qed

named_theorems blind_rules

context order_blind
begin

lemma silent [blind_rules]: "(\<And>s. keeps_orders s (f s)) \<Longrightarrow> preserves I (modify f)"
  by (auto intro: preserves_modify blind)

lemma silent_pair: "(\<And>s. keeps_orders s (snd (m s))) \<Longrightarrow> preserves I m"
  by (auto simp: preserves_iff intro: blind)

declare dir_fresh [blind_rules]

lemma checks [blind_rules]:
  "preserves I (assert_sourcing_item_editable i)" "preserves I (assert_line_currency_fits_pending_order n c)"
  "preserves I (require_no_planned_links i)" "preserves I (assert_pending_order_override_currencies n)"
  "preserves I (ensure_pending_order_editable x a)" "preserves I (assert_predecessor_has_no_successor l)"
  "preserves I (assert_can_initiate_renewal clk d b l)" "preserves I (find_license lid)"
  "preserves I (find_request rid)" "preserves I (find_item iid)" "preserves I (find_order oid)"
  "preserves I (find_order_line oid iid)" "preserves I (require_choices_for_split_coterm pre i l)"
  "preserves I (selected_lines ids)" "preserves I (assert_link_terms i is)" "preserves I (assert_planned_links_acyclic is ch)"
  "preserves I (coterm_lines ids)" "preserves I (coterm_predecessors is)" "preserves I (assert_same_product ls is)"
  "preserves I (bundle_license d clk lid)" "preserves I (validate_demo_money vs)" "preserves I (assert_free lid)"
  "preserves I (assert_follows n l l')"
  unfolding assert_sourcing_item_editable_def assert_line_currency_fits_pending_order_def
    require_no_planned_links_def assert_pending_order_override_currencies_def ensure_pending_order_editable_def
    assert_predecessor_has_no_successor_def assert_can_initiate_renewal_def find_license_def find_request_def
    find_item_def find_order_def find_order_line_def require_choices_for_split_coterm_def selected_lines_def
    assert_link_terms_def assert_planned_links_acyclic_def coterm_lines_def coterm_predecessors_def
    assert_same_product_def bundle_license_def validate_demo_money_def assert_free_def assert_follows_def Let_def
  by (intro wp_rules)+

lemma event_lines_blind [blind_rules]: "preserves I (event_lines is)"
  unfolding event_lines_def Let_def by (intro wp_rules)

text \<open>Opening an order, and the operations made of silent steps and new orders.\<close>

lemma push_new_order_blind [blind_rules]: "preserves I (push_new_order clk po supplier notes)"
  by (simp add: preserves_iff push_new_order_def bind_fresh_id opened build_new_pending_order_def)

lemma push_built_blind [blind_rules]: "preserves I (push_built_item clk i ov)"
  by (rule silent_pair) (simp add: push_built_item_def split_beta keeps_orders_trans [OF build_item_keeps keeps_orders_upd(5)])

lemma build_line_blind [blind_rules]:
  "preserves I (\<lambda>s. let (created, s') = build_sourcing_item clk i ov s in (Inr created, s'))"
  by (rule silent_pair) (simp add: split_beta build_item_keeps)

lemma create_order_blind [blind_rules]: "preserves I (create_pending_order_record clk po supplier notes)"
  unfolding create_pending_order_record_def by (intro wp_rules blind_rules)

lemma resolve_blind [blind_rules]: "preserves I (resolve_target_order clk t notes r)"
  unfolding resolve_target_order_def use_selected_order_def open_new_order_def
  by (intro wp_rules blind_rules order_frames)

lemma planned_blind [blind_rules]: "preserves I (set_planned_successors clk ids n)"
  unfolding set_planned_successors_def set_links_def Let_def
  by (intro wp_rules blind_rules order_frames)

lemma add_line_blind [blind_rules]: "preserves I (add_order_line clk oid p)"
  unfolding add_order_line_def by (intro wp_rules blind_rules order_frames)

lemma freeware_blind [blind_rules]: "preserves I (convert_freeware_sourcing_items clk is)"
  unfolding convert_freeware_sourcing_items_def convert_freeware_item_def close_request_if_settled_def close_request_def
  by (intro wp_rules blind_rules order_frames)

lemma license_blind [blind_rules]:
  "preserves I (build_converted_license clk l a b c d)" "preserves I (create_purchase_license clk pre l)"
  "preserves I (mark_renewed clk n lid)"
  unfolding create_purchase_license_def build_converted_license_def mark_renewed_def mark_predecessor_renewed_def Let_def
  by (intro wp_rules blind_rules order_frames)+

lemma link_successor_keeps: "keeps_orders s (link_successor clk n l old s)"
  unfolding link_successor_def by (intro order_frames)

lemma successor_blind [blind_rules]: "preserves I (create_renewal_successor_from_sourcing_item clk i l)"
  unfolding create_renewal_successor_from_sourcing_item_def Let_def
  by (intro wp_rules blind_rules)
    (auto simp: coterm_successor_def single_successor_def Let_def split: option.split list.split
      intro!: wp_rules blind_rules link_successor_keeps)

lemma link_target_blind [blind_rules]: "preserves I (link_target collate clk lines n)"
  unfolding link_target_def Let_def by (intro wp_rules blind_rules order_frames)

lemma link_rounds_blind: "preserves I (link_rounds collate clk lines remaining)"
proof (induction collate clk lines remaining rule: link_rounds.induct)
  case (1 collate clk lines remaining)
  show ?case
    by (subst link_rounds.simps, unfold Let_def) (intro wp_rules blind_rules 1 refl; assumption)
qed

lemma links_blind [blind_rules]: "preserves I (apply_planned_successor_links collate clk lines)"
  unfolding apply_planned_successor_links_def by (intro wp_rules link_rounds_blind)

lemma lines_converted_keep [order_frames]: "keeps_orders s (mark_lines_converted clk ns s)"
  unfolding mark_lines_converted_def by (intro order_frames)

lemma convert_line_blind [blind_rules]:
  "preserves I (convert_line clk form ks i)" "preserves I (convert_batch_item clk x lines b)"
  unfolding convert_line_def convert_batch_item_def Let_def by (intro wp_rules blind_rules order_frames)+

lemma deferred_blind [blind_rules]: "preserves I (convert_deferred clk lines resolved es)"
  by (induction es arbitrary: resolved) (auto simp: Let_def intro!: wp_rules blind_rules order_frames)

lemma cancel_request_keeps [order_frames]: "keeps_orders s (cancel_request clk rid s)"
  unfolding cancel_request_def cancel_open_lines_def Let_def
  by (rule keeps_orders_trans [OF keeps_orders_trans [OF keeps_orders_upd(3) keeps_orders_upd(11)]
        keeps_orders_fold [OF side_effects_keep]])

lemma cancel_request_blind [blind_rules]: "preserves I (cancel_sourcing_request clk rid)"
  unfolding cancel_sourcing_request_def by (intro wp_rules blind_rules order_frames)

text \<open>Bodies.\<close>

lemma canonicalize_blind [blind_rules]:
  "preserves I (canonicalize_item clk p)" "preserves I (canonical_supplier clk v)"
  "preserves I (resolve_supplier clk w)" "preserves I (canonicalize_line clk e)"
  "preserves I (canonicalize_batch_item clk b)" "preserves I (conversion_target clk c)"
  "preserves I (checked_override oid w)"
  unfolding canonicalize_item_def canonical_supplier_def resolve_supplier_def canonicalize_line_def
    canonicalize_batch_item_def conversion_target_def checked_override_def when_key_def Let_def
  by (intro wp_rules blind_rules dir_names dir_canonicalize)+

lemma agree_blind [blind_rules]: "preserves I (agree_identities acc is)"
  by (induction "is" arbitrary: acc) (auto simp: agree_identity_def Let_def intro!: wp_rules)

lemma target_request_blind: "preserves I (target_request r i parent)"
  unfolding target_request_def by (intro preserves_let preserves_if preserves_bind blind_rules wp_rules order_frames)

lemma request_line_blind: "preserves I (create_request_line clk r created e)"
  unfolding create_request_line_def by (intro preserves_let preserves_bind target_request_blind push_built_blind)

lemma request_lines_blind [blind_rules]: "preserves I (create_request_lines clk r created es)"
  by (induction es arbitrary: created) (auto intro!: wp_rules request_line_blind)

end

section \<open>The machine\<close>

text \<open>
  An id is \<open>Unborn\<close> until it is issued; the id of a stored order is \<open>Live\<close> with the heading of the
  order; an issued id without an order is \<open>Gone\<close>.
\<close>

datatype order_life = Unborn | Live pending_order | Gone

definition life :: "store \<Rightarrow> int \<Rightarrow> order_life" where
  "life s n = (case get_order s n of Some x \<Rightarrow> Live (heading x) | None \<Rightarrow> if n < next_id s then Gone else Unborn)"

text \<open>
  An order is born pending. An open order may change, a pending one may be deleted, and nothing happens
  to a closed one or to an id that is used up.
\<close>

inductive order_step :: "order_life \<Rightarrow> order_life \<Rightarrow> bool" where
  born: "o_status h = OrderPending \<Longrightarrow> order_step Unborn (Live h)"
| taken: "order_step Unborn Gone"
| change: "is_pending_order_open h \<Longrightarrow> o_id h' = o_id h \<Longrightarrow> order_step (Live h) (Live h')"
| deleted: "o_status h = OrderPending \<Longrightarrow> order_step (Live h) Gone"

inductive_cases gone_stepE: "order_step Gone y"
inductive_cases live_stepE: "order_step (Live h) y"

lemma gone_stays: "order_step\<^sup>*\<^sup>* Gone y \<Longrightarrow> y = Gone"
  by (induction rule: rtranclp_induct) (auto elim: gone_stepE)

lemma closed_stays: "order_step\<^sup>*\<^sup>* (Live h) y \<Longrightarrow> \<not> is_pending_order_open h \<Longrightarrow> y = Live h"
  by (induction rule: rtranclp_induct) (auto elim: live_stepE simp: is_pending_order_open_def)

definition orders_ok :: "store \<Rightarrow> bool" where
  "orders_ok s \<longleftrightarrow> distinct (map o_id (pendingOrders s)) \<and> (\<forall>x \<in> set (pendingOrders s). o_id x < next_id s)"

definition evolved :: "store \<Rightarrow> store \<Rightarrow> bool" where
  "evolved s t \<longleftrightarrow> orders_ok t \<and> (\<forall>n. order_step\<^sup>*\<^sup>* (life s n) (life t n))"

lemma evolved_refl: "orders_ok s \<Longrightarrow> evolved s s"
  by (simp add: evolved_def)

lemma evolved_trans: "evolved s t \<Longrightarrow> evolved t u \<Longrightarrow> evolved s u"
  unfolding evolved_def by (meson rtranclp_trans)

lemma evolved_step: "evolved s t \<Longrightarrow> orders_ok u \<Longrightarrow> (\<And>n. life u n = life t n \<or> order_step (life t n) (life u n)) \<Longrightarrow> evolved s u"
  unfolding evolved_def by (metis rtranclp.rtrancl_into_rtrancl)

lemma orders_ok_ids:
  "orders_ok s \<longleftrightarrow> distinct (map o_id (pendingOrders s)) \<and> (\<forall>n \<in> o_id ` set (pendingOrders s). n < next_id s)"
  by (simp add: orders_ok_def)

lemma orders_ok_headings:
  "orders_ok s \<longleftrightarrow> distinct (map o_id (headings s)) \<and> (\<forall>n \<in> o_id ` set (headings s). n < next_id s)"
  by (auto simp: orders_ok_def headings_def comp_def)

lemma life_headings:
  "life s n = (case find_id o_id n (headings s) of Some h \<Rightarrow> Live h | None \<Rightarrow> if n < next_id s then Gone else Unborn)"
proof -
  have "find_id o_id n (map heading xs) = map_option heading (find_id o_id n xs)" for xs
    by (induction xs) simp_all
  then show ?thesis
    by (simp add: life_def headings_def get_order_def split: option.split)
qed

lemma life_keeps:
  "orders_ok s \<Longrightarrow> keeps_orders s t \<Longrightarrow> orders_ok t \<and> (life t n = life s n \<or> order_step (life s n) (life t n))"
  by (auto simp: orders_ok_headings keeps_orders_def life_headings split: option.split intro: order_step.intros)

lemma life_opened:
  assumes "orders_ok s" "o_id x = next_id s" "o_status x = OrderPending"
  defines "t \<equiv> push_order x (s\<lparr>next_id := next_id s + 1\<rparr>)"
  shows "orders_ok t \<and> (life t n = life s n \<or> order_step (life s n) (life t n))"
proof -
  have new: "get_order s (next_id s) = None"
    using assms(1) by (auto simp: orders_ok_def get_order_def find_id_None)
  have "orders_ok t"
    using assms(1,2) by (auto simp: t_def orders_ok_def push_order_def)
  moreover have "life t n = life s n" if "n \<noteq> next_id s"
    using that assms(2) by (auto simp: t_def life_def get_order_def push_order_def find_id_append split: option.split)
  moreover have "life s (next_id s) = Unborn" "life t (next_id s) = Live (heading x)"
    using new assms(2) by (simp_all add: t_def life_def get_order_def push_order_def find_id_append)
  ultimately show ?thesis
    using assms(3) by (cases "n = next_id s") (auto intro: order_step.intros)
qed

lemma evolved_if: "evolved s t \<Longrightarrow> (\<And>n. orders_ok u \<and> (life u n = life t n \<or> order_step (life t n) (life u n))) \<Longrightarrow> evolved s u"
  using evolved_step by blast

lemma evolved_ok: "evolved s t \<Longrightarrow> orders_ok t"
  by (simp add: evolved_def)

interpretation evo: order_blind "evolved s" for s
proof
  show "evolved s t \<Longrightarrow> keeps_orders t u \<Longrightarrow> evolved s u" for t u
    by (frule evolved_ok, erule evolved_if, rule life_keeps)
  show "evolved s t \<Longrightarrow> o_id x = next_id t \<Longrightarrow> o_status x = OrderPending \<Longrightarrow>
      evolved s (push_order x (t\<lparr>next_id := next_id t + 1\<rparr>))" for t x
    by (frule evolved_ok, erule evolved_if, rule life_opened)
qed


section \<open>Routes that write to an order\<close>

text \<open>An open order of the first state may be written at any later time of the same request.\<close>

lemma evolved_write:
  assumes "evolved s t" "get_order s n = Some x" "is_pending_order_open x" "keeps_key o_id f"
  shows "evolved s (upd_order n f t)"
proof -
  have "life (upd_order n f t) m = life t m" if "m \<noteq> n" for m
    using that assms(4) by (simp add: life_def get_order_def upd_order_def find_id_upd_id)
  moreover have "life (upd_order n f t) n = life t n \<or> order_step (life s n) (life (upd_order n f t) n)"
  proof (cases "get_order t n")
    case (Some y)
    then have "get_order (upd_order n f t) n = Some (f y)" "o_id (f y) = n" "o_id x = n"
      using assms(2,4) by (auto simp: get_order_def upd_order_def find_id_upd_id keeps_keyD dest: find_id_SomeD)
    moreover have "is_pending_order_open (heading x)"
      using assms(3) by (simp add: is_pending_order_open_def)
    ultimately show ?thesis
      using assms(2) by (simp add: life_def order_step.change)
  next
    case None
    then have "get_order (upd_order n f t) n = None"
      using assms(4) by (simp add: get_order_def upd_order_def find_id_upd_id)
    with None show ?thesis
      by (simp add: life_def upd_order_def)
  qed
  moreover have "orders_ok (upd_order n f t)"
    using evolved_ok [OF assms(1)] assms(4) by (simp add: orders_ok_ids upd_order_def)
  ultimately show ?thesis
    using assms(1) unfolding evolved_def by (metis r_into_rtranclp)
qed

text \<open>The order a route finds is one of the first state; a check of its status is passed by open orders only.\<close>

lemma found_order:
  "orders_ok s \<Longrightarrow> (\<And>x. get_order s n = Some x \<Longrightarrow> preserves (evolved s) (k x)) \<Longrightarrow>
     evolved s (snd (bindE (find_order n) k s))"
  by (cases "get_order s n") (auto simp: find_order_def bindE_assoc preserves_iff evolved_refl)

lemma preserves_gate: "(\<not> c \<Longrightarrow> preserves I (k ())) \<Longrightarrow> preserves I (bindE (throw_if c msg) k)"
  by (cases c) (simp_all add: preserves_throw)

lemma not_closed: "o_status x \<noteq> OrderConverted \<Longrightarrow> o_status x \<noteq> OrderCancelled \<Longrightarrow> is_pending_order_open x"
  by (cases "o_status x") (simp_all add: is_pending_order_open_def)

lemma editable_gate:
  "(is_pending_order_open x \<Longrightarrow> preserves I (k ())) \<Longrightarrow> preserves I (bindE (ensure_pending_order_editable x a) k)"
  unfolding ensure_pending_order_editable_def by (rule preserves_gate) (simp add: not_closed)

lemma convertible_gate:
  "(is_pending_order_open x \<Longrightarrow> preserves I (k ())) \<Longrightarrow> preserves I (bindE (assert_convertible x) k)"
  unfolding assert_convertible_def bindE_assoc by (intro preserves_gate) (simp add: not_closed)

lemma write_open:
  "get_order s n = Some x \<Longrightarrow> is_pending_order_open x \<Longrightarrow> keeps_key o_id f \<Longrightarrow> preserves (evolved s) (modify (upd_order n f))"
  by (blast intro: preserves_modify evolved_write)

lemma evolved_removed:
  assumes "orders_ok s" "get_order s n = Some x" "o_status x = OrderPending"
  shows "evolved s (s\<lparr>sourcingItems := is, pendingOrders := filter (\<lambda>p. o_id p \<noteq> n) (pendingOrders s)\<rparr>)"
proof (rule evolved_step [OF evolved_refl [OF assms(1)]])
  let ?u = "s\<lparr>sourcingItems := is, pendingOrders := filter (\<lambda>p. o_id p \<noteq> n) (pendingOrders s)\<rparr>"
  show "orders_ok ?u"
    using assms(1) by (auto simp: orders_ok_def distinct_map_filter)
  have "n < next_id s"
    using assms(1,2) by (auto simp: orders_ok_def get_order_def dest: find_id_SomeD)
  then have "life s n = Live (heading x)" "life ?u n = Gone"
    using assms(2) by (simp_all add: life_def get_order_def find_id_filter_id)
  moreover have "life ?u m = life s m" if "m \<noteq> n" for m
    using that by (simp add: life_def get_order_def find_id_filter_id)
  ultimately show "life ?u m = life s m \<or> order_step (life s m) (life ?u m)" for m
    using assms(3) by (cases "m = n") (auto intro: order_step.deleted)
qed

section \<open>Every route is a path of the machine\<close>

lemma editable_item_gate:
  "(i_pendingOrderId i = None \<Longrightarrow> preserves I (k ())) \<Longrightarrow> preserves I (bindE (assert_sourcing_item_editable i) k)"
  unfolding assert_sourcing_item_editable_def bindE_assoc
  by (rule preserves_gate) (auto intro!: preserves_bind wp_rules)

context order_blind
begin

lemma drop_item_keeps: "keeps_orders s (drop_item clk i None s)"
  unfolding drop_item_def by (rule keeps_orders_trans [OF _ side_effects_keep]) (simp add: keeps_orders_same)

lemma drop_request_keeps: "keeps_orders s (drop_request clk rid s)"
  unfolding drop_request_def Let_def
  by (rule keeps_orders_trans [OF _ keeps_orders_fold [OF side_effects_keep]]) (simp add: keeps_orders_same)

lemma take_identity_keeps [order_frames]: "keeps_orders s (take_identity rid r u v s)"
  unfolding take_identity_def by (simp add: order_frames)

lemma convert_item_blind: "preserves I (convert_sourcing_item_to_order clk i t)"
  unfolding convert_sourcing_item_to_order_def attach_line_def close_request_if_converted_def close_request_def
  by (intro wp_rules blind_rules order_frames)

lemma convert_request_blind: "preserves I (convert_sourcing_request_to_order clk r t)"
  unfolding convert_sourcing_request_to_order_def attach_line_def settle_request_def
  by (intro wp_rules blind_rules order_frames)

lemma request_routes:
  "preserves I (create_sourcing_request clk b)" "preserves I (add_sourcing_request_item clk rid p ids)"
  "preserves I (put_successor_links clk ids n)" "preserves I (convert_freeware_request clk rid)"
  "preserves I (convert_request clk rid c)" "preserves I (update_sourcing_request clk rid u v w)"
  "preserves I (delete_sourcing_request clk rid)" "preserves I (convert_freeware_line clk iid)"
  "preserves I (convert_item clk iid c)" "preserves I (create_sourcing_item clk p)"
  unfolding create_sourcing_request_def add_sourcing_request_item_def add_request_line_def put_successor_links_def
    replace_planned_predecessors_def convert_freeware_request_def convert_request_def update_sourcing_request_def
    delete_sourcing_request_def convert_freeware_line_def convert_item_def create_sourcing_item_def Let_def
  by (intro wp_rules blind_rules order_frames drop_request_keeps convert_item_blind convert_request_blind)+

lemma write_identity_keeps [order_frames]: "keeps_orders s (write_item_identity iid rid u v s)"
  unfolding write_item_identity_def by (intro order_frames)

lemma replace_lines_keeps [order_frames]: "keeps_orders s (replace_lines clk lines i s)"
proof -
  have "keeps_orders s (push_item i (s\<lparr>sourcingItems := filter P (sourcingItems s)\<rparr>))" for P
    by (simp add: keeps_orders_same push_item_def)
  then show ?thesis
    unfolding replace_lines_def by (rule keeps_orders_trans [OF _ ensure_stored_keeps])
qed

lemma push_ensured_keeps [order_frames]: "keeps_orders s (push_ensured_line clk i s)"
  by (simp add: push_ensured_line_def split_beta keeps_orders_trans [OF ensure_request_keeps keeps_orders_upd(5)])

lemma ensure_requests_keep [order_frames]: "keeps_orders s (ensure_requests clk lid s)"
  unfolding ensure_requests_def by (rule keeps_orders_fold) (simp add: order_frames)

lemma item_routes:
  "preserves I (update_sourcing_item clk iid p)" "preserves I (merge_coterm_sourcing_items clk ids)"
  unfolding update_sourcing_item_def merge_coterm_sourcing_items_def touch_item_def Let_def
  by (intro wp_rules blind_rules order_frames)+

lemma delete_item_route: "preserves I (delete_sourcing_item clk iid)"
  unfolding delete_sourcing_item_def
  by (intro preserves_bind editable_item_gate blind_rules wp_rules) (simp add: drop_item_keeps)

lemma renewal_routes:
  "preserves I (initiate_renewal clk lid)" "preserves I (cancel_renewal clk lid)"
  "preserves I (initiate_renewal_bundle_record clk lids)"
  unfolding initiate_renewal_def cancel_renewal_def initiate_renewal_bundle_record_def start_bundle_line_def Let_def
  by (intro wp_rules blind_rules order_frames)+

end


text \<open>The routes of the orders. Their predicate is \<open>evolved s\<close> for the store they start from.\<close>

lemma line_routes:
  assumes "orders_ok s"
  shows "evolved s (snd (add_order_lines clk oid ps s))" "evolved s (snd (update_order_line clk oid iid p s))"
  unfolding add_order_lines_def add_pending_order_items_bulk_def update_order_line_def
  by (rule found_order [OF assms], intro wp_rules blind_rules order_frames)+

lemma close_order_key: "keeps_key o_id (close_order clk)"
  by (rule keeps_keyI) (simp add: close_order_def)

lemma delete_line_route: "orders_ok s \<Longrightarrow> evolved s (snd (delete_order_line clk oid iid s))"
  unfolding delete_order_line_def
proof (rule found_order)
  fix x
  assume x: "get_order s oid = Some x"
  show "preserves (evolved s) (bindE (ensure_pending_order_editable x ''delete items from'') (\<lambda>_.
     bindE (find_order_line oid iid) (\<lambda>i.
     bindE (modify (drop_item clk i None)) (\<lambda>_.
     bindE (modify (rebuild_pending_order_items oid)) (\<lambda>_.
       modify (close_if_empty clk oid))))))"
  proof (rule editable_gate)
    assume "is_pending_order_open x"
    note close = write_open [OF x this close_order_key]
    have "preserves (evolved s) (modify (close_if_empty clk oid))"
      using close by (simp add: preserves_iff close_if_empty_def)
    note closing = this
    show "preserves (evolved s) (bindE (find_order_line oid iid) (\<lambda>i.
     bindE (modify (drop_item clk i None)) (\<lambda>_.
     bindE (modify (rebuild_pending_order_items oid)) (\<lambda>_.
       modify (close_if_empty clk oid)))))"
      by (intro preserves_bind evo.checks closing evo.silent [OF evo.drop_item_keeps] evo.silent [OF rebuild_keeps])
  qed
qed

lemma update_route: "orders_ok s \<Longrightarrow> evolved s (snd (update_order clk oid u s))"
  unfolding update_order_def
proof (rule found_order)
  fix x
  assume x: "get_order s oid = Some x"
  have key: "keeps_key o_id (write_order u v w)" for v w
    by (rule keeps_keyI) (simp add: write_order_def)
  have contact: "keeps_orders t ((case ou_contactEmail u of None \<Rightarrow> \<lambda>s. s | Some v \<Rightarrow> write_order_contact oid v) t)" for t
    by (simp add: write_order_contact_def keeps_orders_refl keeps_orders_upd split: option.split)
  have rebuild: "keeps_orders t ((if c then rebuild_pending_order_items oid else (\<lambda>s. s)) t)" for t c
    by (simp add: order_frames)
  show "preserves (evolved s) (bindE (ensure_pending_order_editable x ''update'') (\<lambda>_.
     bindE (checked_override oid (ou_poTotalOverride u)) (\<lambda>po_total.
     bindE (validate_demo_money [given_or (ou_poTotalOverride u) None]) (\<lambda>_.
     bindE (resolve_supplier clk (ou_supplier u)) (\<lambda>supplier.
     bindE (modify (upd_order oid (write_order u supplier po_total))) (\<lambda>_.
     bindE (modify (case ou_contactEmail u of None \<Rightarrow> (\<lambda>s. s) | Some v \<Rightarrow> write_order_contact oid v)) (\<lambda>_.
     bindE (modify (if ou_contactEmail u \<noteq> None \<or> ou_poNumber u \<noteq> None
       then rebuild_pending_order_items oid else (\<lambda>s. s))) (\<lambda>_.
       modify (touch_order clk oid)))))))))"
    by (intro editable_gate preserves_bind evo.checks evo.canonicalize_blind write_open [OF x] key
        evo.silent contact rebuild touch_order_keeps)
qed

lemma cancel_route: "orders_ok s \<Longrightarrow> evolved s (snd (cancel_order clk oid s))"
  unfolding cancel_order_def
proof (rule found_order)
  fix x
  assume x: "get_order s oid = Some x"
  then have n: "o_id x = oid"
    by (auto simp: get_order_def dest: find_id_SomeD)
  have "evolved s (cancel_order_lines clk oid t)" if o: "is_pending_order_open x" and t: "evolved s t" for t
  proof -
    have "evolved s (upd_order oid (close_order clk) t)"
      by (rule evolved_write [OF t x o close_order_key])
    moreover have "keeps_orders (upd_order oid (close_order clk) t) (cancel_order_lines clk oid t)"
      unfolding cancel_order_lines_def Let_def
      by (rule keeps_orders_trans [OF keeps_orders_upd(11) keeps_orders_after [OF keeps_orders_fold]])
        (rule release_keeps rebuild_keeps)+
    ultimately show ?thesis
      by (rule evo.blind)
  qed
  then show "preserves (evolved s) (bindE (cancel_pending_order_record clk x) (\<lambda>_. ret ()))"
    unfolding cancel_pending_order_record_def bindE_assoc n
    by (intro editable_gate preserves_bind preserves_ret preserves_modify)
qed

lemma delete_route: "orders_ok s \<Longrightarrow> evolved s (snd (delete_order clk oid s))"
proof -
  assume s: "orders_ok s"
  show ?thesis
  proof (cases "get_order s oid")
    case (Some x)
    then have n: "o_id x = oid"
      by (auto simp: get_order_def dest: find_id_SomeD)
    show ?thesis
      using Some evolved_removed [OF s Some]
      by (cases "o_status x = OrderPending")
        (simp_all add: delete_order_def find_order_def delete_pending_order_record_def n bindE_assoc evolved_refl s)
  qed (simp add: delete_order_def find_order_def bindE_assoc evolved_refl s)
qed

text \<open>Both conversions end alike.\<close>

lemma finish_preserves:
  assumes "get_order s oid = Some x" "is_pending_order_open x"
  shows "preserves (evolved s) (finish_conversion collate clk oid lines entries)"
proof -
  have "preserves (evolved s) (modify (refresh_order_status oid))"
    unfolding refresh_order_status_def
    by (rule preserves_modify, erule evolved_write [OF _ assms]) (simp add: keeps_keyI)
  then show ?thesis
    unfolding finish_conversion_def
    by (intro preserves_bind evo.links_blind preserves_gets evo.silent [OF rebuild_keeps]
        evo.silent [OF touch_order_keeps])
qed

lemma convert_route: "orders_ok s \<Longrightarrow> evolved s (snd (convert_order collate clk oid p s))"
  unfolding convert_order_def
proof (rule found_order)
  fix x
  assume x: "get_order s oid = Some x"
  then have n: "o_id x = oid"
    by (auto simp: get_order_def dest: find_id_SomeD)
  have "preserves (evolved s) (convert_pending_order_to_licenses collate clk x q)" for q
    unfolding convert_pending_order_to_licenses_def Let_def n
    by (intro convertible_gate wp_rules finish_preserves [OF x] blind_rules evo.lines_converted_keep)
  then show "preserves (evolved s) (bindE (canonicalize_demo_reference_fields clk p) (\<lambda>p.
     bindE (convert_pending_order_to_licenses collate clk x (convert_payload_of p)) (\<lambda>_. ret ())))"
    by (intro preserves_bind preserves_ret evo.dir_canonicalize)
qed

lemma convert_lines_route: "orders_ok s \<Longrightarrow> evolved s (snd (convert_order_lines collate clk oid bs s))"
  unfolding convert_order_lines_def
proof (rule found_order)
  fix x
  assume x: "get_order s oid = Some x"
  then have n: "o_id x = oid"
    by (auto simp: get_order_def dest: find_id_SomeD)
  have "preserves (evolved s) (batch_convert_pending_order_to_licenses collate clk x q)" for q
    unfolding batch_convert_pending_order_to_licenses_def Let_def n
    by (intro convertible_gate wp_rules finish_preserves [OF x] blind_rules)
  then show "preserves (evolved s) (bindE (forE (canonicalize_batch_item clk) bs) (\<lambda>items.
     bindE (batch_convert_pending_order_to_licenses collate clk x items) (\<lambda>_. ret ())))"
    by (intro preserves_bind preserves_ret preserves_forE blind_rules)
qed

section \<open>Serving\<close>

datatype procurement_request =
  ListRequests
| CreateRequest request_body
| AddRequestItem int item_payload "int list"
| PutSuccessorLinks "int list" int
| CancelRequest int
| ConvertFreewareRequest int
| ConvertRequest int conversion_body
| UpdateRequest int "jstr option" "jstr option" "jstr option"
| DeleteRequest int
| MergeLines "int list"
| ConvertFreewareLine int
| ConvertLine int conversion_body
| UpdateLine int item_payload
| DeleteLine int
| CreateLine item_payload
| InitiateRenewal int
| CancelRenewal int
| InitiateBundle "int list"
| ConvertOrder int license_payload
| ConvertOrderLines int "batch_item list"
| AddOrderLines int "(item_payload \<times> int list) list"
| UpdateOrderLine int int item_payload
| DeleteOrderLine int int
| CreateOrder jstr "jstr option" jstr
| UpdateOrder int order_update
| CancelOrder int
| DeleteOrder int

text \<open>The state a request leaves, whether it is served or refused.\<close>

fun serve_procurement ::
  "(string \<Rightarrow> string \<Rightarrow> int) \<Rightarrow> clock \<times> procurement_request \<Rightarrow> store \<Rightarrow> store" where
  "serve_procurement collate (clk, ListRequests) s = snd (list_requests collate clk s)"
| "serve_procurement collate (clk, CreateRequest b) s = snd (create_sourcing_request clk b s)"
| "serve_procurement collate (clk, AddRequestItem rid p ids) s = snd (add_sourcing_request_item clk rid p ids s)"
| "serve_procurement collate (clk, PutSuccessorLinks ids n) s = snd (put_successor_links clk ids n s)"
| "serve_procurement collate (clk, CancelRequest rid) s = snd (cancel_sourcing_request clk rid s)"
| "serve_procurement collate (clk, ConvertFreewareRequest rid) s = snd (convert_freeware_request clk rid s)"
| "serve_procurement collate (clk, ConvertRequest rid b) s = snd (convert_request clk rid b s)"
| "serve_procurement collate (clk, UpdateRequest rid u v w) s = snd (update_sourcing_request clk rid u v w s)"
| "serve_procurement collate (clk, DeleteRequest rid) s = snd (delete_sourcing_request clk rid s)"
| "serve_procurement collate (clk, MergeLines ids) s = snd (merge_coterm_sourcing_items clk ids s)"
| "serve_procurement collate (clk, ConvertFreewareLine n) s = snd (convert_freeware_line clk n s)"
| "serve_procurement collate (clk, ConvertLine n b) s = snd (convert_item clk n b s)"
| "serve_procurement collate (clk, UpdateLine n p) s = snd (update_sourcing_item clk n p s)"
| "serve_procurement collate (clk, DeleteLine n) s = snd (delete_sourcing_item clk n s)"
| "serve_procurement collate (clk, CreateLine p) s = snd (create_sourcing_item clk p s)"
| "serve_procurement collate (clk, InitiateRenewal n) s = snd (initiate_renewal clk n s)"
| "serve_procurement collate (clk, CancelRenewal n) s = snd (cancel_renewal clk n s)"
| "serve_procurement collate (clk, InitiateBundle ns) s = snd (initiate_renewal_bundle_record clk ns s)"
| "serve_procurement collate (clk, ConvertOrder n p) s = snd (convert_order collate clk n p s)"
| "serve_procurement collate (clk, ConvertOrderLines n bs) s = snd (convert_order_lines collate clk n bs s)"
| "serve_procurement collate (clk, AddOrderLines n ps) s = snd (add_order_lines clk n ps s)"
| "serve_procurement collate (clk, UpdateOrderLine n m p) s = snd (update_order_line clk n m p s)"
| "serve_procurement collate (clk, DeleteOrderLine n m) s = snd (delete_order_line clk n m s)"
| "serve_procurement collate (clk, CreateOrder po v w) s = snd (create_order clk po v w s)"
| "serve_procurement collate (clk, UpdateOrder n u) s = snd (update_order clk n u s)"
| "serve_procurement collate (clk, CancelOrder n) s = snd (cancel_order clk n s)"
| "serve_procurement collate (clk, DeleteOrder n) s = snd (delete_order clk n s)"

lemma create_order_route: "preserves (evolved s) (create_order clk po v w)"
  unfolding create_order_def by (intro preserves_bind blind_rules)

lemma list_route: "orders_ok s \<Longrightarrow> evolved s (snd (list_requests collate clk s))"
  by (simp add: list_requests_def Let_def evo.blind [OF evolved_refl backfill_keeps])

lemma serve_evolved: "orders_ok s \<Longrightarrow> evolved s (serve_procurement collate e s)"
  by (cases "(collate, e, s)" rule: serve_procurement.cases)
    (simp_all add: list_route line_routes delete_line_route update_route cancel_route delete_route
      convert_route convert_lines_route preservesD [OF create_order_route] preservesD [OF evo.request_routes(1)]
      preservesD [OF evo.request_routes(2)] preservesD [OF evo.request_routes(3)] preservesD [OF evo.request_routes(4)]
      preservesD [OF evo.request_routes(5)] preservesD [OF evo.request_routes(6)] preservesD [OF evo.request_routes(7)]
      preservesD [OF evo.request_routes(8)] preservesD [OF evo.request_routes(9)] preservesD [OF evo.request_routes(10)]
      preservesD [OF evo.item_routes(1)] preservesD [OF evo.item_routes(2)] preservesD [OF evo.delete_item_route]
      preservesD [OF evo.renewal_routes(1)] preservesD [OF evo.renewal_routes(2)] preservesD [OF evo.renewal_routes(3)]
      preservesD [OF evo.cancel_request_blind] evolved_refl)

lemma serve_all_evolved: "orders_ok s \<Longrightarrow> evolved s (fold (serve_procurement collate) es s)"
proof (induction es rule: rev_induct)
  case (snoc e es)
  then have "evolved s (fold (serve_procurement collate) es s)" by simp
  moreover from this have "evolved (fold (serve_procurement collate) es s) (fold (serve_procurement collate) (es @ [e]) s)"
    by (simp add: serve_evolved evolved_ok)
  ultimately show ?case by (rule evolved_trans)
qed (simp add: evolved_refl)


definition closed_order_store :: store where
  "closed_order_store = fresh_store\<lparr>pendingOrders := [blank_order\<lparr>o_id := 4, o_poNumber := Some ''PO-4'',
     o_status := OrderCancelled\<rparr>]\<rparr>"

definition reopening :: order_update where
  "reopening = \<lparr>ou_poNumber = None, ou_supplier = None, ou_notes = None, ou_status = Some OrderPending,
     ou_contactEmail = None, ou_poTotalOverride = None\<rparr>"

definition order_requests :: "(clock \<times> procurement_request) list" where
  "order_requests = map (Pair example_clock)
     [CreateOrder (Some ''PO-1'') None None, UpdateOrder 4 reopening, CancelOrder 1000, UpdateOrder 1000 reopening,
      DeleteOrder 4, CreateOrder (Some ''PO-2'') None None, DeleteOrder 1001]"


end
