(* ===== verification/PlannedFacts.thy ===== *)
theory PlannedFacts
  imports Planned Frames
begin

text \<open>
  What the planned links guarantee. Links never leave a procurement event and never form a loop; setting
  the predecessors of a line keeps that, and has exactly the effect it states.
\<close>

section \<open>Links\<close>

definition next_link :: "store \<Rightarrow> int \<Rightarrow> int option" where
  "next_link s n = (case get_item s n of None \<Rightarrow> None | Some i \<Rightarrow> i_successorSourcingItemId i)"

definition planned_links :: "store \<Rightarrow> (int \<times> int) set" where
  "planned_links s = {(a, b). next_link s a = Some b}"

text \<open>The event of a line; an id that is no line has none.\<close>

definition event_of :: "store \<Rightarrow> int \<Rightarrow> event_key option" where
  "event_of s n = map_option planned_event_key (get_item s n)"

definition planned_ok :: "store \<Rightarrow> bool" where
  "planned_ok s \<longleftrightarrow> distinct (map i_id (sourcingItems s)) \<and> acyclic (planned_links s)
     \<and> (\<forall>a b. next_link s a = Some b \<longrightarrow> event_of s b \<noteq> None \<longrightarrow> event_of s b = event_of s a)"

text \<open>The state after links have been set.\<close>

lemma set_successor_sel [simp]:
  "i_id (set_successor clk target i) = i_id i"
  "i_sourcingRequestId (set_successor clk target i) = i_sourcingRequestId i"
  "i_pendingOrderId (set_successor clk target i) = i_pendingOrderId i"
  "i_successorSourcingItemId (set_successor clk target i) = target"
  by (simp_all add: set_successor_def)

lemma set_links_items:
  assumes "distinct (map i_id (sourcingItems s))" "distinct ids"
  shows "sourcingItems (set_links clk ids target s) =
    map (\<lambda>i. if i_id i \<in> set ids then set_successor clk target i else i) (sourcingItems s)"
  unfolding set_links_def
  by (rule fold_upd_id [where V = sourcingItems]) (simp_all add: assms keeps_key_def upd_item_def)

lemma get_item_map:
  "(\<And>i. i_id (f i) = i_id i) \<Longrightarrow> find_id i_id n (map f xs) = map_option f (find_id i_id n xs)"
  by (induction xs) simp_all

lemma set_links_get:
  assumes "distinct (map i_id (sourcingItems s))" "distinct ids"
  shows "get_item (set_links clk ids target s) n =
    map_option (\<lambda>i. if n \<in> set ids then set_successor clk target i else i) (get_item s n)"
proof -
  have "find_id i_id n (map (\<lambda>i. if i_id i \<in> set ids then set_successor clk target i else i) xs) =
    map_option (\<lambda>i. if n \<in> set ids then set_successor clk target i else i) (find_id i_id n xs)" for xs
    by (induction xs) auto
  then show ?thesis
    by (simp add: get_item_def set_links_items [OF assms])
qed

lemma set_links_next:
  assumes "distinct (map i_id (sourcingItems s))" "distinct ids"
  shows "next_link (set_links clk ids target s) n =
    (if n \<in> set ids \<and> get_item s n \<noteq> None then target else next_link s n)"
  by (cases "get_item s n") (simp_all add: next_link_def set_links_get [OF assms])

lemma set_links_event:
  assumes "distinct (map i_id (sourcingItems s))" "distinct ids"
  shows "event_of (set_links clk ids target s) n = event_of s n"
proof -
  have "planned_event_key (if c then set_successor clk target i else i) = planned_event_key i" for c i
    by (cases c; cases "i_pendingOrderId i") (simp_all add: planned_event_key_def)
  then show ?thesis
    by (cases "get_item s n") (simp_all add: event_of_def set_links_get [OF assms])
qed

lemma set_links_ids: "map i_id (sourcingItems (set_links clk ids target s)) = map i_id (sourcingItems s)"
  unfolding set_links_def by (induction ids arbitrary: s) (simp_all add: upd_item_def keeps_key_def)

section \<open>The selection\<close>

lemma selected_linesD:
  "selected_lines ns s = (Inr xs, t) \<Longrightarrow> t = s \<and> map i_id xs = ns \<and> (\<forall>i \<in> set xs. get_item s (i_id i) = Some i)"
proof (induction ns arbitrary: xs)
  case (Cons n ns)
  then obtain i ys where "get_item s n = Some i" "selected_lines ns s = (Inr ys, t)" "xs = i # ys"
    by (auto simp: selected_lines_def success_simps)
  moreover from this have "i_id i = n"
    by (auto simp: get_item_def dest: find_id_SomeD)
  ultimately show ?case
    using Cons.IH by simp
qed (simp add: selected_lines_def)

text \<open>The lines of the event of a selection hold every line of that event.\<close>

lemma uniq_one: "length (uniq xs) = 1 \<Longrightarrow> a \<in> set xs \<Longrightarrow> b \<in> set xs \<Longrightarrow> a = b"
  by (metis One_nat_def empty_iff empty_set length_0_conv length_Suc_conv list.simps(15) set_uniq singletonD)

lemma event_lines_reads: "reads (event_lines xs)"
  unfolding event_lines_def Let_def
  by (cases "i_pendingOrderId (hd xs)") (simp_all add: read_rules)

definition event_members :: "store \<Rightarrow> sourcing_item \<Rightarrow> sourcing_item list" where
  "event_members s x = (case i_pendingOrderId x of
     None \<Rightarrow> filter (\<lambda>i. i_sourcingRequestId i = i_sourcingRequestId x) (sourcingItems s)
   | Some oid \<Rightarrow> order_items s oid)"

lemma event_lines_result:
  assumes "event_lines (x # xs) s = (Inr lines, t)"
  shows "\<forall>y \<in> set (x # xs). planned_event_key y = planned_event_key x"
    and "i_sourcingRequestId x \<noteq> None \<or> i_pendingOrderId x \<noteq> None"
    and "lines = event_members s x"
proof -
  let ?no = "\<exists>i \<in> set (x # xs). i_sourcingRequestId i = None \<and> i_pendingOrderId i = None"
  from assms have checks: "length (uniq (map planned_event_key (x # xs))) = 1" "\<not> ?no"
    unfolding event_lines_def bindE_Inr throw_if_Inr by blast+
  from checks(2) show "i_sourcingRequestId x \<noteq> None \<or> i_pendingOrderId x \<noteq> None" by simp
  show "\<forall>y \<in> set (x # xs). planned_event_key y = planned_event_key x"
  proof
    fix y assume "y \<in> set (x # xs)"
    then have "planned_event_key y \<in> set (map planned_event_key (x # xs))"
      "planned_event_key x \<in> set (map planned_event_key (x # xs))" by auto
    then show "planned_event_key y = planned_event_key x" by (rule uniq_one [OF checks(1)])
  qed
  show "lines = event_members s x"
  proof (cases "i_pendingOrderId x")
    case None
    from assms show ?thesis
      unfolding event_lines_def event_members_def Let_def list.sel None option.case bindE_Inr throw_if_Inr gets_apply
      by (elim exE conjE) auto
  next
    case (Some oid)
    from assms show ?thesis
      unfolding event_lines_def event_members_def Let_def list.sel Some option.case bindE_Inr throw_if_Inr gets_apply
      by (elim exE conjE) auto
  qed
qed

lemma event_lines_cover:
  assumes "event_lines (x # xs) s = (Inr lines, t)"
  shows "set lines \<subseteq> set (sourcingItems s)"
    "i \<in> set (sourcingItems s) \<Longrightarrow> planned_event_key i = planned_event_key x \<Longrightarrow> i \<in> set lines"
  using event_lines_result [OF assms]
  by (auto simp: event_members_def planned_event_key_def order_items_def split: option.splits)

text \<open>What a successful call has checked and done.\<close>

lemma set_planned_successorsD:
  assumes "set_planned_successors clk ids target s = (Inr u, t)"
  obtains xs lines where "ids \<noteq> []" "distinct ids" "selected_lines (target_ids ids target) s = (Inr xs, s)"
    "event_lines xs s = (Inr lines, s)" "target \<notin> Some ` set ids"
    "\<not> (\<exists>i \<in> set lines. walk_repeats (next_by_id lines (link_changes ids target)) (map i_id lines) [] (i_id i))"
    "t = set_links clk ids target s"
proof -
  have terms: "reads (case y of None \<Rightarrow> ret () | Some i \<Rightarrow> assert_link_terms i ps)" for y ps
    unfolding assert_link_terms_def by (cases y) (simp_all add: read_rules)
  from assms show thesis
    unfolding set_planned_successors_def assert_planned_links_acyclic_def Let_def bindE_Inr throw_if_Inr modify_apply
  proof (elim exE conjE, goal_cases)
    case (1 x s1 xs s2 y s3 z s4 v s5 lines s6 w s7 q s8 r s9)
    have "s2 = s" using selected_linesD [OF 1(3)] 1(2) by simp
    moreover from this have "s5 = s" using 1(5,7,9) by simp
    moreover from this have "s6 = s" using readsD [OF event_lines_reads 1(10)] by simp
    moreover from this have "s7 = s" using readsD [OF terms 1(11)] by simp
    ultimately show thesis
      using 1 by (intro that [of xs lines]) (auto split: option.splits)
  qed
qed

section \<open>No loops\<close>

lemma event_path:
  assumes "(c, b) \<in> R\<^sup>+" "event b \<noteq> None"
    and "\<And>a b. (a, b) \<in> R \<Longrightarrow> event a \<noteq> None"
    and "\<And>a b. (a, b) \<in> R \<Longrightarrow> event b \<noteq> None \<Longrightarrow> event b = event a"
    and "\<And>a b. (a, b) \<in> R \<Longrightarrow> event a = event c \<Longrightarrow> (a, b) \<in> S"
  shows "event b = event c \<and> (c, b) \<in> S\<^sup>+"
  using assms(1,2)
proof (induction rule: trancl_induct)
  case (base b)
  then show ?case using assms(4,5) by blast
next
  case (step a b)
  then have "event a = event c \<and> (c, a) \<in> S\<^sup>+" using assms(3) by blast
  with step.hyps(2) step.prems show ?case
    using assms(4,5) by (metis trancl.trancl_into_trancl)
qed

text \<open>Changing the links of one event keeps the links acyclic if those of the event are.\<close>

lemma acyclic_relinked:
  assumes same: "\<And>a b. nx' a = Some b \<Longrightarrow> event b \<noteq> None \<Longrightarrow> event b = event a"
    and src: "\<And>a b. nx' a = Some b \<Longrightarrow> event a \<noteq> None"
    and old: "\<And>a b. nx' a = Some b \<Longrightarrow> event a \<noteq> K \<Longrightarrow> nx a = Some b"
    and new: "\<And>a b. nx' a = Some b \<Longrightarrow> event a = K \<Longrightarrow> (a, b) \<in> S"
    and "acyclic {(a, b). nx a = Some b}" "acyclic S"
  shows "acyclic {(a, b). nx' a = Some b}"
proof (unfold acyclic_def, intro allI notI)
  fix c assume c: "(c, c) \<in> {(a, b). nx' a = Some b}\<^sup>+"
  then obtain z where "nx' c = Some z"
    by (auto dest!: tranclD)
  then have ec: "event c \<noteq> None" by (rule src)
  show False
  proof (cases "event c = K")
    case True
    then have "(c, c) \<in> S\<^sup>+"
      using event_path [where event = event and S = S, OF c ec] src same new by simp
    with assms(6) show False by (simp add: acyclic_def)
  next
    case False
    then have "(c, c) \<in> {(a, b). nx a = Some b}\<^sup>+"
      using event_path [where event = event and S = "{(a, b). nx a = Some b}", OF c ec] src same old by simp
    with assms(5) show False by (simp add: acyclic_def)
  qed
qed

lemma by_id_of_items:
  assumes "distinct (map i_id (sourcingItems s))" "set lines \<subseteq> set (sourcingItems s)" "n \<in> i_id ` set lines"
  shows "by_id lines n = get_item s n"
proof -
  obtain i where i: "by_id lines n = Some i"
    using assms(3) by (cases "by_id lines n") (auto simp: by_id_def find_id_None)
  then have "i \<in> set lines" "i_id i = n"
    by (auto simp: by_id_def dest: find_id_SomeD)
  with i assms show ?thesis
    using find_id_distinct [OF assms(1), of i] by (auto simp: get_item_def)
qed

lemma set_planned_successors_ok:
  assumes ok: "planned_ok s" and set: "set_planned_successors clk ids target s = (Inr u, t)"
  shows "planned_ok t"
    and "next_link t n = (if n \<in> set ids then target else next_link s n)"
    and "set ids \<subseteq> i_id ` set (sourcingItems s)"
proof -
  from set obtain xs lines where call: "ids \<noteq> []" "distinct ids"
      "selected_lines (target_ids ids target) s = (Inr xs, s)" "event_lines xs s = (Inr lines, s)"
      "\<not> (\<exists>i \<in> set lines. walk_repeats (next_by_id lines (link_changes ids target)) (map i_id lines) [] (i_id i))"
      "t = set_links clk ids target s"
    by (rule set_planned_successorsD)
  from ok have items: "distinct (map i_id (sourcingItems s))" by (simp add: planned_ok_def)
  have sel: "map i_id xs = target_ids ids target" "\<forall>i \<in> set xs. get_item s (i_id i) = Some i"
    using selected_linesD [OF call(3)] by auto
  then obtain x ys where xs: "xs = x # ys"
    using call(1) by (cases xs; cases ids) (simp_all add: target_ids_def)
  note cover = event_lines_cover [OF call(4) [unfolded xs]]
  let ?K = "Some (planned_event_key x)"
  have K: "event_of s m = ?K" if "m \<in> set (target_ids ids target)" for m
  proof -
    from that sel(1) have "m \<in> i_id ` set xs"
      by (metis set_map)
    with sel(2) obtain i where "i \<in> set xs" "get_item s m = Some i"
      by blast
    then show ?thesis
      using event_lines_result(1) [OF call(4) [unfolded xs]] by (auto simp: event_of_def xs)
  qed
  have mem: "set ids \<subseteq> set (target_ids ids target)" "target = Some m \<Longrightarrow> m \<in> set (target_ids ids target)" for m
    by (auto simp: target_ids_def)
  have there: "get_item s m \<noteq> None" if "m \<in> set ids" for m
    using K [of m] mem(1) that by (auto simp: event_of_def)
  show link: "next_link t n = (if n \<in> set ids then target else next_link s n)" for n
    using there by (simp add: call(6) set_links_next [OF items call(2)])
  show "set ids \<subseteq> i_id ` set (sourcingItems s)"
    using there by (auto simp: get_item_def find_id_None)
  have event: "event_of t m = event_of s m" for m
    by (simp add: call(6) set_links_event [OF items call(2)])
  have same: "event_of s b = event_of s a" if "next_link t a = Some b" "event_of s b \<noteq> None" for a b
    using that ok K mem by (auto simp: link planned_ok_def subset_iff split: if_splits)
  have src: "event_of s a \<noteq> None" if "next_link t a = Some b" for a b
    using that event [of a] by (cases "get_item s a") (auto simp: event_of_def next_link_def split: option.splits)
  let ?nx = "next_by_id lines (link_changes ids target)" and ?keys = "map i_id lines"
  have inside: "(a, b) \<in> next_rel ?nx (set ?keys)" if ab: "next_link t a = Some b" "event_of s a = ?K" for a b
  proof -
    obtain i where i: "get_item s a = Some i" "planned_event_key i = planned_event_key x"
      using ab(2) by (auto simp: event_of_def)
    then have key: "a \<in> set ?keys"
      using cover(2) [of i] by (auto simp: get_item_def dest: find_id_SomeD)
    then have "?nx a = (if a \<in> set ids then target else next_link s a)"
      using by_id_of_items [OF items cover(1), of a]
      by (simp add: next_by_id_def link_changes_def next_link_def)
    with key ab(1) show ?thesis by (simp add: next_rel_def link)
  qed
  have outside: "next_link s a = Some b" if "next_link t a = Some b" "event_of s a \<noteq> ?K" for a b
    using that K mem(1) by (auto simp: link split: if_splits)
  have "acyclic (next_rel ?nx (set ?keys))"
    using call(5) walks_acyclic [of ?keys ?nx] by simp
  then have "acyclic (planned_links t)"
    using acyclic_relinked [of "next_link t" "event_of s", OF same src outside inside] ok
    by (simp add: planned_links_def planned_ok_def)
  moreover have "distinct (map i_id (sourcingItems t))"
    using items by (simp add: call(6) set_links_ids)
  ultimately show "planned_ok t"
    using same by (auto simp: planned_ok_def event)
qed

lemma selected_lines_reads: "reads (selected_lines ns)"
  unfolding selected_lines_def by (intro read_rules)

lemma set_planned_successors_refused: "set_planned_successors clk ids target s = (Inl e, t) \<Longrightarrow> t = s"
proof -
  have terms: "reads (assert_link_terms i ps)" for i ps
    unfolding assert_link_terms_def by (intro read_rules)
  have "atomic (set_planned_successors clk ids target)"
    unfolding set_planned_successors_def assert_planned_links_acyclic_def Let_def
    by (intro atomic_read_bind read_rules selected_lines_reads event_lines_reads terms) (simp add: atomic_def)
  then show "set_planned_successors clk ids target s = (Inl e, t) \<Longrightarrow> t = s"
    by (rule atomicD)
qed

lemma current_predecessors_link:
  assumes "distinct (map i_id (sourcingItems s))"
  shows "m \<in> set (current_predecessors s n) \<longleftrightarrow> next_link s m = Some n"
proof
  assume "m \<in> set (current_predecessors s n)"
  then obtain i where "i \<in> set (sourcingItems s)" "i_id i = m" "i_successorSourcingItemId i = Some n"
    by (auto simp: current_predecessors_def)
  then show "next_link s m = Some n"
    using find_id_distinct [OF assms, of i] by (simp add: next_link_def get_item_def)
next
  assume "next_link s m = Some n"
  then show "m \<in> set (current_predecessors s n)"
    by (auto simp: next_link_def get_item_def current_predecessors_def dest!: find_id_SomeD split: option.splits)
qed

lemma relink:
  assumes "planned_ok s" "(if ids \<noteq> [] then set_planned_successors clk ids target else ret ()) s = (r, t)"
  shows "planned_ok t \<and> (r = Inr () \<longrightarrow> (\<forall>m. next_link t m = (if m \<in> set ids then target else next_link s m)))"
proof (cases "ids = []")
  case False
  with assms(2) have call: "set_planned_successors clk ids target s = (r, t)" by simp
  show ?thesis
  proof (cases r)
    case (Inl e)
    with call show ?thesis
      using set_planned_successors_refused [of clk ids target s e t] assms(1) by simp
  next
    case (Inr u)
    with call show ?thesis
      using set_planned_successors_ok [OF assms(1), of clk ids target u t] by simp
  qed
qed (use assms in simp)

text \<open>C3: Replacing the planned predecessors of a line keeps the links of the store free of loops and inside
  their procurement events, whether the request succeeds or fails half-way; when it succeeds, exactly the
  chosen lines lead to the line, and no other link has changed.\<close>

theorem planned_links_stay_acyclic:
  assumes "planned_ok s"
  shows "case replace_planned_predecessors clk ids n s of (r, t) \<Rightarrow> planned_ok t \<and>
    (r = Inr () \<longrightarrow> (\<forall>m. next_link t m =
       (if m \<in> set ids then Some n else if next_link s m = Some n then None else next_link s m)))"
proof (cases "get_item s n = None \<or> \<not> distinct ids")
  case True
  with assms show ?thesis
    by (cases "get_item s n") (auto simp: replace_planned_predecessors_def)
next
  case False
  then obtain i where i: "get_item s n = Some i" and ids: "distinct ids" by auto
  define removed where "removed = ascending (filter (\<lambda>i. i \<notin> set ids) (current_predecessors s n))"
  have removed: "m \<in> set removed \<longleftrightarrow> m \<notin> set ids \<and> next_link s m = Some n" for m
    using assms current_predecessors_link [of s m n] by (auto simp: removed_def ascending_def planned_ok_def)
  obtain r u where 1: "(if removed \<noteq> [] then set_planned_successors clk removed None else ret ()) s = (r, u)"
    by fastforce
  obtain r' t where 2: "(if ids \<noteq> [] then set_planned_successors clk ids (Some n) else ret ()) u = (r', t)"
    by fastforce
  note first = relink [OF assms 1] and second = relink [OF _ 2]
  have call: "replace_planned_predecessors clk ids n s
      = bindE (if removed \<noteq> [] then set_planned_successors clk removed None else ret ())
          (\<lambda>_. if ids \<noteq> [] then set_planned_successors clk ids (Some n) else ret ()) s"
    using i ids by (simp add: replace_planned_predecessors_def removed_def bindE_throw_if_apply)
  show ?thesis
  proof (cases r)
    case (Inl e)
    then have "replace_planned_predecessors clk ids n s = (Inl e, u)"
      unfolding call bindE_def 1 by simp
    with first show ?thesis by simp
  next
    case (Inr v)
    then have "replace_planned_predecessors clk ids n s = (r', t)"
      unfolding call bindE_def 1 using 2 by simp
    with first second Inr removed show ?thesis by auto
  qed
qed

definition term_line :: "int \<Rightarrow> string \<Rightarrow> sourcing_item" where
  "term_line n start = blank_item\<lparr>i_id := n, i_sourcingRequestId := Some 9, i_publisherName := Some ''Acme'',
     i_licenseType := Some Subscription, i_startDate := Some start\<rparr>"

definition three_terms :: store where
  "three_terms = fresh_store\<lparr>sourcingItems :=
     [term_line 1 ''2026-01-01'', term_line 2 ''2027-01-01'', term_line 3 ''2028-01-01'']\<rparr>"

lemma three_terms_ok: "planned_ok three_terms"
proof -
  have "next_link three_terms n = None" for n
    by (simp add: next_link_def get_item_def three_terms_def term_line_def blank_item_def)
  then have "planned_links three_terms = {}" "\<forall>n. next_link three_terms n = None"
    by (simp_all add: planned_links_def)
  moreover have "distinct (map i_id (sourcingItems three_terms))" by code_simp
  ultimately show ?thesis by (simp add: planned_ok_def acyclic_def)
qed

theorem planned_links_stay_acyclic_witness:
  "planned_ok three_terms \<and> (case replace_planned_predecessors (clock.make 0 ''t'') [1] 2 three_terms of (r, t) \<Rightarrow>
     r = Inr () \<and> next_link t 1 = Some 2 \<and> planned_ok t
     \<and> fst (replace_planned_predecessors (clock.make 0 ''t'') [2] 1 t) = Inl (Error ''Successor links cannot form a cycle''))"
proof -
  let ?t = "snd (replace_planned_predecessors (clock.make 0 ''t'') [1] 2 three_terms)"
  have "fst (replace_planned_predecessors (clock.make 0 ''t'') [1] 2 three_terms) = Inr ()" by code_simp
  moreover have "fst (replace_planned_predecessors (clock.make 0 ''t'') [2] 1 ?t)
      = Inl (Error ''Successor links cannot form a cycle'')" by code_simp
  ultimately show ?thesis
    using three_terms_ok planned_links_stay_acyclic [OF three_terms_ok, where clk = "clock.make 0 ''t''" and ids = "[1]" and n = 2]
    by (simp add: split_beta)
qed

end
