(* ===== verification/DailyJobs.thy ===== *)
theory DailyJobs
  imports LicenseFacts
begin

text \<open>
  What the daily jobs leave behind. Retirement retires exactly the licenses that are due. After the
  hand-over every parent that some maintenance record covers today has an active record that does. Both
  have nothing left to do afterwards.
\<close>

section \<open>Retirement\<close>

definition retired_if_due :: "clock \<Rightarrow> license \<Rightarrow> license" where
  "retired_if_due clk l =
     (if retirement_due clk l then l\<lparr>l_isRetired := True, l_retirementScheduled := False\<rparr> else l)"

lemma retirement_due_core [simp]: "retirement_due clk (core l) = retirement_due clk l"
  by (simp add: retirement_due_def)

lemma retired_if_due_keeps [simp]: "l_id (retired_if_due clk l) = l_id l" "\<not> retirement_due clk (retired_if_due clk l)"
  by (simp_all add: retired_if_due_def retirement_due_def)

lemma core_retired: "core (retired_if_due clk l) = retired_if_due clk (core l)"
  by (simp add: retired_if_due_def) (simp add: core_def)

lemma upd_id_none: "(\<And>x. find_id key i xs = Some x \<Longrightarrow> f x = x) \<Longrightarrow> upd_id key i f xs = xs"
  by (induction xs) (auto split: if_splits)

lemma map_core_upd:
  "find_id l_id i xs = Some l \<Longrightarrow> core (f l) = g (core l) \<Longrightarrow> map core (upd_id l_id i f xs) = upd_id l_id i g (map core xs)"
  by (induction xs) (auto split: if_splits)

lemma retire_if_due_cores:
  "map core (licenses (snd (retire_if_due clk i acc))) = upd_id l_id i (retired_if_due clk) (map core (licenses (snd acc)))"
proof (cases "get_license (snd acc) i")
  case None
  then have "find_id l_id i (map core (licenses (snd acc))) = None"
    by (simp add: get_license_def flip: find_id_core)
  with None show ?thesis
    by (simp add: retire_if_due_def upd_id_absent)
next
  case (Some l)
  then have l: "find_id l_id i (licenses (snd acc)) = Some l" by (simp add: get_license_def)
  show ?thesis
  proof (cases "retirement_due clk l")
    case False
    have "retired_if_due clk x = x" if "find_id l_id i (map core (licenses (snd acc))) = Some x" for x
      using that l False unfolding find_id_core [symmetric] by (auto simp: retired_if_due_def)
    then have "upd_id l_id i (retired_if_due clk) (map core (licenses (snd acc))) = map core (licenses (snd acc))"
      by (rule upd_id_none)
    with Some False show ?thesis by (simp add: retire_if_due_def)
  next
    case True
    have "core (l\<lparr>l_isRetired := True, l_retirementScheduled := False\<rparr>) = retired_if_due clk (core l)"
      using True unfolding core_retired [symmetric] by (simp add: retired_if_due_def)
    from map_core_upd [where f = "\<lambda>l. l\<lparr>l_isRetired := True, l_retirementScheduled := False\<rparr>"
        and g = "retired_if_due clk", OF l this] Some True show ?thesis
      by (simp add: retire_if_due_def retire_license_def upd_license_def)
  qed
qed

lemma retire_cores:
  assumes "distinct (map l_id (licenses s))" "distinct is"
  shows "map core (licenses (snd (fold (retire_if_due clk) is (n, s))))
    = map (\<lambda>l. if l_id l \<in> set is then retired_if_due clk l else l) (map core (licenses s))"
proof -
  have "(map core \<circ> licenses \<circ> snd) (fold (retire_if_due clk) is (n, s))
    = map (\<lambda>l. if l_id l \<in> set is then retired_if_due clk l else l) ((map core \<circ> licenses \<circ> snd) (n, s))"
    by (rule fold_upd_id) (simp_all add: retire_if_due_cores assms keeps_key_def comp_def)
  then show ?thesis by simp
qed

text \<open>The count, license by license.\<close>

lemma retire_if_due_count:
  "fst (retire_if_due clk i acc)
    = fst acc + (if \<exists>l. get_license (snd acc) i = Some l \<and> retirement_due clk l then 1 else 0)"
  by (simp add: retire_if_due_def split: option.split)

lemma retire_count:
  assumes "distinct (map l_id (licenses s))" "distinct is"
  shows "fst (fold (retire_if_due clk) is (n, s))
    = n + int (length (filter (\<lambda>i. \<exists>l. get_license s i = Some l \<and> retirement_due clk l) is))"
  using assms(2)
proof (induction "is" rule: rev_induct)
  case (snoc i "is")
  let ?acc = "fold (retire_if_due clk) is (n, s)"
  have "core_at (snd ?acc) i = core_at s i"
  proof -
    have "find_id l_id i (map (\<lambda>l. if l_id l \<in> set is then retired_if_due clk l else l) xs) = find_id l_id i xs" for xs
      using snoc.prems by (induction xs) auto
    note same = this
    have "distinct is" using snoc.prems by simp
    show ?thesis
      unfolding core_at_def get_license_def find_id_core retire_cores [OF assms(1) \<open>distinct is\<close>] same ..
  qed
  moreover have "(\<exists>l. get_license u i = Some l \<and> retirement_due clk l)
      \<longleftrightarrow> (\<exists>c. core_at u i = Some c \<and> retirement_due clk c)" for u
    by (auto simp: core_at_def)
  ultimately have "(\<exists>l. get_license (snd ?acc) i = Some l \<and> retirement_due clk l)
      \<longleftrightarrow> (\<exists>l. get_license s i = Some l \<and> retirement_due clk l)" by simp
  with snoc show ?case
    by (simp add: retire_if_due_count)
qed simp


text \<open>A pass with nothing due changes nothing.\<close>

lemma retire_nothing:
  "(\<And>i l. i \<in> set is \<Longrightarrow> get_license s i = Some l \<Longrightarrow> \<not> retirement_due clk l) \<Longrightarrow>
     fold (retire_if_due clk) is (n, s) = (n, s)"
  by (induction "is") (auto simp: retire_if_due_def split: option.split)

lemma retire_due_result:
  assumes "distinct (map l_id (licenses s))"
  shows "map core (licenses (snd (retire_due_licenses clk s))) = map core (map (retired_if_due clk) (licenses s))"
    and "fst (retire_due_licenses clk s) = int (length (filter (retirement_due clk) (licenses s)))"
proof -
  let ?is = "map l_id (licenses s)"
  show "map core (licenses (snd (retire_due_licenses clk s))) = map core (map (retired_if_due clk) (licenses s))"
    unfolding retire_due_licenses_def retire_cores [OF assms assms]
    by (simp add: core_retired)
  have get: "get_license s (l_id l) = Some l" if "l \<in> set (licenses s)" for l
    using that by (simp add: get_license_def find_id_distinct [OF assms])
  have "length (filter (\<lambda>i. \<exists>l. get_license s i = Some l \<and> retirement_due clk l) ?is)
      = length (filter (\<lambda>l. \<exists>k. get_license s (l_id l) = Some k \<and> retirement_due clk k) (licenses s))"
    by (simp add: filter_map comp_def)
  also have "\<dots> = length (filter (retirement_due clk) (licenses s))"
    using get by (simp cong: filter_cong)
  finally show "fst (retire_due_licenses clk s) = int (length (filter (retirement_due clk) (licenses s)))"
    unfolding retire_due_licenses_def retire_count [OF assms assms] by simp
qed

section \<open>Hand-over\<close>

text \<open>What the hand-over does not change of a license.\<close>

definition terms_of ::
  "license \<Rightarrow> int \<times> license_type option \<times> bool option \<times> bool \<times> bool \<times> lifecycle option \<times> jstr \<times> jstr \<times> int set" where
  "terms_of l = (l_id l, l_licenseType l, l_isRenewable l, l_isRetired l, l_retirementScheduled l,
     l_lifecycleStatus l, l_startDate l, l_endDate l, set (maintenance_parent_ids_of l))"

lemma terms_of_core [simp]: "terms_of (core l) = terms_of l"
  by (simp add: terms_of_def maintenance_parent_ids_of_def)

lemma terms_ofD:
  "terms_of l = terms_of k \<Longrightarrow> l_id l = l_id k \<and> l_isRetired l = l_isRetired k \<and> l_licenseType l = l_licenseType k
     \<and> set (maintenance_parent_ids_of l) = set (maintenance_parent_ids_of k)
     \<and> covers_today clk l = covers_today clk k \<and> retirement_due clk l = retirement_due clk k"
  by (simp add: terms_of_def covers_today_def retirement_due_def)

lemma terms_mirror: "terms_of (mirror_support m l) = terms_of l" "terms_of (link_parent n l) = terms_of l"
  by (simp_all add: terms_of_def mirror_support_def link_parent_def maintenance_parent_ids_of_def)

lemma terms_link_child: "p \<in> set (maintenance_parent_ids_of l) \<Longrightarrow> terms_of (link_child p l) = terms_of l"
  by (auto simp: terms_of_def link_child_def maintenance_parent_ids_of_def map_filter_def nullish_def split: option.splits)

lemma map_upd_found: "find_id key i xs = Some k \<Longrightarrow> h (f k) = h k \<Longrightarrow> map h (upd_id key i f xs) = map h xs"
  by (induction xs) (auto split: if_splits)

lemma map_upd_same: "(\<And>x. h (f x) = h x) \<Longrightarrow> map h (upd_id key i f xs) = map h xs"
  by (induction xs) simp_all

definition same_terms :: "store \<Rightarrow> store \<Rightarrow> bool" where
  "same_terms s t \<longleftrightarrow> map terms_of (licenses t) = map terms_of (licenses s)"

lemma same_terms_decorate: "same_terms s t \<Longrightarrow> same_terms s (decorate_stored clk i t)"
  unfolding same_terms_def
  using map_core_field [OF decorate_stored_cores, of terms_of] by simp

lemma same_terms_upd: "same_terms s t \<Longrightarrow> (\<And>l. terms_of (f l) = terms_of l) \<Longrightarrow> same_terms s (upd_license i f t)"
  by (simp add: same_terms_def upd_license_def map_upd_same)

lemma same_terms_link:
  "get_license s m = Some k \<Longrightarrow> p \<in> set (maintenance_parent_ids_of k) \<Longrightarrow> same_terms s (link_maintenance_to_parent m p s)"
  unfolding link_maintenance_to_parent_def
  by (rule same_terms_upd)
    (simp_all add: same_terms_def upd_license_def get_license_def map_upd_found [where k = k] terms_link_child terms_mirror)

lemma same_terms_activate:
  "get_license s m = Some k \<Longrightarrow> p \<in> set (maintenance_parent_ids_of k) \<Longrightarrow>
     same_terms s (activate_maintenance_for_parent clk m p s)"
  unfolding activate_maintenance_for_parent_def Let_def
  by (cases "get_license (link_maintenance_to_parent m p s) m")
    (simp_all add: same_terms_link same_terms_decorate same_terms_upd terms_mirror)

lemma same_terms_get: "same_terms s t \<Longrightarrow> map_option terms_of (get_license t i) = map_option terms_of (get_license s i)"
proof -
  have "map_option terms_of (find_id l_id i xs) = find_id fst i (map terms_of xs)" for xs
    by (induction xs) (auto simp: terms_of_def)
  then show "same_terms s t \<Longrightarrow> ?thesis"
    by (simp add: same_terms_def get_license_def)
qed

text \<open>The active record of a license.\<close>

definition active_of :: "store \<Rightarrow> int \<Rightarrow> int option option" where
  "active_of s i = map_option l_activeMaintenanceId (get_license s i)"

lemma active_decorate [simp]: "active_of (decorate_stored clk j s) i = active_of s i"
proof -
  have "active_of s i = map_option l_activeMaintenanceId (map_option core (get_license s i))" for s
    by (simp add: active_of_def option.map_comp comp_def)
  then show ?thesis by (simp add: decorate_stored_get)
qed

lemma active_link [simp]: "active_of (link_maintenance_to_parent m p s) i = active_of s i"
  by (simp add: active_of_def link_maintenance_to_parent_def get_license_upd option.map_comp comp_def)
    (simp add: link_child_def link_parent_def)

lemma active_mirror: "active_of (upd_license p (mirror_support r) s) i =
    (if i = p then map_option (\<lambda>_. Some (l_id r)) (get_license s p) else active_of s i)"
  by (simp add: active_of_def get_license_upd option.map_comp comp_def) (simp add: mirror_support_def)

lemma active_activate:
  assumes "get_license s m = Some k"
  shows "active_of (activate_maintenance_for_parent clk m p s) i =
    (if i = p then map_option (\<lambda>_. Some m) (get_license s p) else active_of s i)"
proof -
  let ?s1 = "link_maintenance_to_parent m p s"
  have "get_license ?s1 m \<noteq> None"
    using assms by (cases "m = p") (simp_all add: link_maintenance_to_parent_def get_license_upd)
  then obtain r where r: "get_license ?s1 m = Some r" by blast
  then have "l_id r = m"
    by (auto simp: get_license_def dest: find_id_SomeD)
  note r = r this
  have "get_license ?s1 p = None \<longleftrightarrow> get_license s p = None"
    by (simp add: link_maintenance_to_parent_def get_license_upd)
  moreover have "active_of (activate_maintenance_for_parent clk m p s) i
      = (if i = p then map_option (\<lambda>_. Some m) (get_license ?s1 p) else active_of s i)"
    using r by (simp add: activate_maintenance_for_parent_def Let_def active_mirror)
  ultimately show ?thesis
    by (cases "get_license s p"; cases "get_license ?s1 p") simp_all
qed

text \<open>A parent is settled if it needs no hand-over.\<close>

definition settled :: "clock \<Rightarrow> store \<Rightarrow> int \<Rightarrow> bool" where
  "settled clk s p \<longleftrightarrow> (\<forall>l. get_license s p = Some l \<longrightarrow> l_isRetired l
     \<or> (\<exists>a r. l_activeMaintenanceId l = Some a \<and> get_license s a = Some r \<and> covers_today clk r))"

lemma same_terms_some: "same_terms s t \<Longrightarrow> get_license t i = Some l \<Longrightarrow> \<exists>k. get_license s i = Some k \<and> terms_of k = terms_of l"
  using same_terms_get [of s t i] by (cases "get_license s i") simp_all

lemma same_terms_sym: "same_terms s t \<Longrightarrow> same_terms t s"
  by (simp add: same_terms_def)

lemma same_terms_trans: "same_terms s t \<Longrightarrow> same_terms t u \<Longrightarrow> same_terms s u"
  by (simp add: same_terms_def)

lemma settled_keeps:
  assumes "same_terms s t" "active_of t p = active_of s p" "settled clk s p"
  shows "settled clk t p"
  unfolding settled_def
proof (intro allI impI)
  fix l assume l: "get_license t p = Some l"
  with same_terms_some [OF assms(1)] obtain k where k: "get_license s p = Some k" "terms_of k = terms_of l" by blast
  with l assms(2) have "l_activeMaintenanceId k = l_activeMaintenanceId l" by (simp add: active_of_def)
  moreover have "\<exists>r'. get_license t a = Some r' \<and> covers_today clk r'"
    if r: "get_license s a = Some r" "covers_today clk r" for a r
  proof -
    obtain r' where "get_license t a = Some r'" "terms_of r' = terms_of r"
      using same_terms_some [OF same_terms_sym [OF assms(1)] r(1)] by blast
    with r(2) terms_ofD [of r' r clk] show ?thesis by blast
  qed
  moreover have "l_isRetired k = l_isRetired l"
    using terms_ofD [OF k(2)] by blast
  ultimately show "l_isRetired l \<or> (\<exists>a r. l_activeMaintenanceId l = Some a \<and> get_license t a = Some r \<and> covers_today clk r)"
    using assms(3) k(1) unfolding settled_def by auto
qed

text \<open>One hand-over settles its parent and unsettles none.\<close>

definition candidate :: "clock \<Rightarrow> store \<Rightarrow> int \<Rightarrow> license \<Rightarrow> bool" where
  "candidate clk s p c \<longleftrightarrow> c \<in> set (licenses s) \<and> l_licenseType c = Some Maintenance \<and> covers_today clk c
     \<and> p \<in> set (maintenance_parent_ids_of c)"

lemma hand_over_step:
  assumes "distinct (map l_id (licenses s))" "same_terms s u" "candidate clk s p c"
  shows "same_terms s (snd (hand_over clk (p, c) (n, u)))"
    and "settled clk (snd (hand_over clk (p, c) (n, u))) p"
    and "settled clk u q \<Longrightarrow> settled clk (snd (hand_over clk (p, c) (n, u))) q"
proof -
  let ?v = "snd (hand_over clk (p, c) (n, u))"
  have "get_license s (l_id c) = Some c"
    using assms(1,3) by (simp add: candidate_def get_license_def find_id_distinct)
  then obtain k where k: "get_license u (l_id c) = Some k" "terms_of k = terms_of c"
    using same_terms_some [OF same_terms_sym [OF assms(2)]] by metis
  then have mk: "p \<in> set (maintenance_parent_ids_of k)" "covers_today clk k"
    using terms_ofD [OF k(2), of clk] assms(3) by (auto simp: candidate_def)
  show same: "same_terms s ?v"
    using same_terms_trans [OF assms(2) same_terms_activate [OF k(1) mk(1)]] assms(2) by (simp add: hand_over_def)
  let ?w = "activate_maintenance_for_parent clk (l_id c) p u"
  note act = same_terms_activate [OF k(1) mk(1), of clk] and active = active_activate [OF k(1), of clk p]
  have here: "settled clk ?w p"
    unfolding settled_def
  proof (intro allI impI)
    fix l assume l: "get_license ?w p = Some l"
    then have "get_license u p \<noteq> None"
      using same_terms_some [OF act l] by auto
    then have "l_activeMaintenanceId l = Some (l_id c)"
      using l active [of p] by (auto simp: active_of_def)
    moreover obtain r where "get_license ?w (l_id c) = Some r" "terms_of r = terms_of k"
      using same_terms_some [OF same_terms_sym [OF act] k(1)] by blast
    ultimately show "l_isRetired l
        \<or> (\<exists>a r. l_activeMaintenanceId l = Some a \<and> get_license ?w a = Some r \<and> covers_today clk r)"
      using mk(2) terms_ofD [of r k clk] by auto
  qed
  show "settled clk ?v p"
  proof (cases "needs_hand_over clk u p c")
    case False
    then show ?thesis
      using k mk by (auto simp: hand_over_def needs_hand_over_def settled_def opt_get_def split: option.splits)
  qed (use here in \<open>simp add: hand_over_def\<close>)
  show "settled clk ?v q" if "settled clk u q"
    using that here active [of q] settled_keeps [OF act, of q clk] by (cases "q = p") (simp_all add: hand_over_def)
qed

text \<open>The pass over the best candidates.\<close>

lemma hand_over_all:
  assumes "distinct (map l_id (licenses s))" "\<forall>e \<in> set es. candidate clk s (fst e) (snd e)"
  shows "same_terms s (snd (fold (hand_over clk) es (n, s)))
    \<and> (\<forall>e \<in> set es. settled clk (snd (fold (hand_over clk) es (n, s))) (fst e))"
  using assms(2)
proof (induction es rule: rev_induct)
  case (snoc e es)
  obtain m v where v: "fold (hand_over clk) es (n, s) = (m, v)" by fastforce
  with snoc have "same_terms s v" "\<forall>e \<in> set es. settled clk v (fst e)" "candidate clk s (fst e) (snd e)" by auto
  note step = hand_over_step [OF assms(1) this(1,3), where n = m, unfolded prod.collapse] and old = this(2)
  have "settled clk (snd (hand_over clk e (m, v))) (fst x)" if "x \<in> set es" for x
    using step(3) old that by blast
  with step(1,2) v show ?case by simp
qed (simp add: same_terms_def)

lemma hand_over_nothing:
  assumes "\<forall>e \<in> set es. settled clk s (fst e)" "\<forall>e \<in> set es. candidate clk s (fst e) (snd e)"
  shows "fold (hand_over clk) es (n, s) = (n, s)"
  using assms
proof (induction es)
  case (Cons e es)
  then have "\<not> needs_hand_over clk s (fst e) (snd e)"
    by (auto simp: needs_hand_over_def settled_def opt_get_def split: option.split)
  with Cons show ?case by (simp add: hand_over_def)
qed simp

lemma better_candidate_sets:
  "set (better_candidate c p es) \<subseteq> insert (p, c) (set es)"
  "fst ` set (better_candidate c p es) = insert p (fst ` set es)"
  by (induction es) auto

lemma better_candidates:
  "set (fold (better_candidate c) ps es) \<subseteq> {(p, c) |p. p \<in> set ps} \<union> set es"
  "fst ` set (fold (better_candidate c) ps es) = set ps \<union> fst ` set es"
proof (induction ps arbitrary: es)
  case (Cons p ps)
  { case 1 then show ?case using Cons.IH(1) [of "better_candidate c p es"] better_candidate_sets(1) [of c p es] by auto }
  { case 2 then show ?case using Cons.IH(2) [of "better_candidate c p es"] better_candidate_sets(2) [of c p es] by auto }
qed auto

lemma all_candidates:
  "set (fold (\<lambda>c. fold (better_candidate c) (maintenance_parent_ids_of c)) cs es)
     \<subseteq> {(p, c) |p c. c \<in> set cs \<and> p \<in> set (maintenance_parent_ids_of c)} \<union> set es"
  "fst ` set (fold (\<lambda>c. fold (better_candidate c) (maintenance_parent_ids_of c)) cs es)
     = (\<Union>c \<in> set cs. set (maintenance_parent_ids_of c)) \<union> fst ` set es"
proof (induction cs arbitrary: es)
  case (Cons c cs)
  { case 1
    let ?es = "fold (better_candidate c) (maintenance_parent_ids_of c) es"
    show ?case unfolding fold.simps comp_def
    proof (rule order_trans [OF Cons.IH(1)], rule Un_least)
      show "set ?es \<subseteq> {(p, ca) |p ca. ca \<in> set (c # cs) \<and> p \<in> set (maintenance_parent_ids_of ca)} \<union> set es"
        by (rule order_trans [OF better_candidates(1)]) auto
    qed auto }
  { case 2 then show ?case
      using Cons.IH(2) [of "fold (better_candidate c) (maintenance_parent_ids_of c) es"]
        better_candidates(2) [of c "maintenance_parent_ids_of c" es] by auto }
qed auto

lemma best_candidates:
  "e \<in> set (best_by_parent clk s) \<Longrightarrow> candidate clk s (fst e) (snd e)"
  "candidate clk s p c \<Longrightarrow> p \<in> fst ` set (best_by_parent clk s)"
  using all_candidates(1) [of "filter (\<lambda>l. l_licenseType l = Some Maintenance \<and> covers_today clk l) (licenses s)" "[]"]
    all_candidates(2) [of "filter (\<lambda>l. l_licenseType l = Some Maintenance \<and> covers_today clk l) (licenses s)" "[]"]
  by (fastforce simp: best_by_parent_def candidate_def)+

section \<open>Properties\<close>

lemma same_terms_member: "same_terms s t \<Longrightarrow> c \<in> set (licenses t) \<Longrightarrow> \<exists>k \<in> set (licenses s). terms_of k = terms_of c"
  unfolding same_terms_def by (metis (no_types, lifting) image_iff list.set_map)

lemma retire_ids: "distinct (map l_id (licenses s)) \<Longrightarrow>
    map l_id (licenses (snd (retire_due_licenses clk s))) = map l_id (licenses s)"
  using map_core_field [OF retire_due_result(1), of s l_id clk] by (simp add: comp_def)

lemma retire_leaves_none:
  assumes "distinct (map l_id (licenses s))" "l \<in> set (licenses (snd (retire_due_licenses clk s)))"
  shows "\<not> retirement_due clk l"
proof -
  have "core l \<in> set (map core (licenses (snd (retire_due_licenses clk s))))"
    using assms(2) by simp
  then have "core l \<in> set (map core (map (retired_if_due clk) (licenses s)))"
    unfolding retire_due_result(1) [OF assms(1)] .
  then obtain k where "core l = core (retired_if_due clk k)" by auto
  then show ?thesis by (metis retired_if_due_keeps(2) retirement_due_core)
qed

lemma daily_jobs_result:
  fixes clk :: clock
  assumes "distinct (map l_id (licenses s))"
  defines "u \<equiv> snd (retire_due_licenses clk s)"
  defines "t \<equiv> snd (hand_over_due_maintenance clk u)"
  shows "snd (run_daily_license_jobs clk s) = t" and "distinct (map l_id (licenses t))"
    and "l \<in> set (licenses t) \<Longrightarrow> \<not> retirement_due clk l"
    and "candidate clk t p c \<Longrightarrow> settled clk t p"
proof -
  have ids: "distinct (map l_id (licenses u))"
    using assms(1) retire_ids [OF assms(1)] by (simp add: u_def)
  have "\<forall>e \<in> set (best_by_parent clk u). candidate clk u (fst e) (snd e)"
    using best_candidates(1) by blast
  from hand_over_all [OF ids this, of 0]
  have same: "same_terms u t" and best: "\<And>e. e \<in> set (best_by_parent clk u) \<Longrightarrow> settled clk t (fst e)"
    by (simp_all add: t_def hand_over_due_maintenance_def)
  show "snd (run_daily_license_jobs clk s) = t"
    by (simp add: run_daily_license_jobs_def t_def u_def split_beta)
  have "map l_id (licenses t) = map fst (map terms_of (licenses t))" "map l_id (licenses u) = map fst (map terms_of (licenses u))"
    by (simp_all add: terms_of_def comp_def)
  with same ids show "distinct (map l_id (licenses t))"
    unfolding same_terms_def by metis
  show "\<not> retirement_due clk l" if l: "l \<in> set (licenses t)"
  proof -
    obtain k where "k \<in> set (licenses u)" "terms_of k = terms_of l"
      using same_terms_member [OF same l] by blast
    then show ?thesis
      using retire_leaves_none [OF assms(1), of k clk] terms_ofD [of k l clk] by (simp add: u_def)
  qed
  show "settled clk t p" if c: "candidate clk t p c"
  proof -
    obtain k where "k \<in> set (licenses u)" "terms_of k = terms_of c"
      using same_terms_member [OF same, of c] c by (auto simp: candidate_def)
    then have "candidate clk u p k"
      using c terms_ofD [of k c clk] by (simp add: candidate_def)
    then obtain e where "e \<in> set (best_by_parent clk u)" "fst e = p"
      using best_candidates(2) by (metis imageE)
    then show ?thesis using best by blast
  qed
qed

text \<open>C36: The retirement job retires exactly the licenses that are due and leaves every other license as it
  was, up to derived fields; the number it reports is the number of licenses that were due.\<close>

theorem retirement_exact:
  assumes "distinct (map l_id (licenses s))"
  shows "case retire_due_licenses clk s of (n, t) \<Rightarrow>
    n = int (length (filter (retirement_due clk) (licenses s)))
    \<and> map core (licenses t) = map (\<lambda>l. core (if retirement_due clk l
        then l\<lparr>l_isRetired := True, l_retirementScheduled := False\<rparr> else l)) (licenses s)"
  using retire_due_result [OF assms, of clk] by (simp add: split_beta retired_if_due_def comp_def)

text \<open>C2: After the daily jobs no license is due for retirement, and every stored, unretired parent of a
  maintenance record that covers today has an active record that covers today; running the jobs again
  on the same day reports no work and changes nothing.\<close>

theorem daily_jobs_settle:
  assumes "distinct (map l_id (licenses s))"
  shows "let t = snd (run_daily_license_jobs clk s) in
    (\<forall>l \<in> set (licenses t). \<not> retirement_due clk l)
    \<and> (\<forall>c \<in> set (licenses t). l_licenseType c = Some Maintenance \<and> covers_today clk c \<longrightarrow>
        (\<forall>p \<in> set (maintenance_parent_ids_of c). \<forall>l. get_license t p = Some l \<and> \<not> l_isRetired l \<longrightarrow>
          (\<exists>a r. l_activeMaintenanceId l = Some a \<and> get_license t a = Some r \<and> covers_today clk r)))
    \<and> run_daily_license_jobs clk t = ((0, 0), t)"
proof -
  let ?t = "snd (run_daily_license_jobs clk s)"
  note result = daily_jobs_result [OF assms, where clk = clk, folded daily_jobs_result(1) [OF assms, where clk = clk]]
  have "retire_due_licenses clk ?t = (0, ?t)"
    unfolding retire_due_licenses_def
    by (rule retire_nothing) (use result(3) find_id_SomeD in \<open>fastforce simp: get_license_def\<close>)
  moreover have "hand_over_due_maintenance clk ?t = (0, ?t)"
    unfolding hand_over_due_maintenance_def
    by (rule hand_over_nothing) (use best_candidates(1) result(4) in blast)+
  ultimately have "run_daily_license_jobs clk ?t = ((0, 0), ?t)"
    by (simp add: run_daily_license_jobs_def)
  moreover have "\<exists>a r. l_activeMaintenanceId l = Some a \<and> get_license ?t a = Some r \<and> covers_today clk r"
    if "c \<in> set (licenses ?t)" "l_licenseType c = Some Maintenance" "covers_today clk c"
      "p \<in> set (maintenance_parent_ids_of c)" "get_license ?t p = Some l" "\<not> l_isRetired l" for c p l
    using that result(4) [of p c] by (auto simp: candidate_def settled_def)
  ultimately show ?thesis
    using result(3) by (simp add: Let_def)
qed

definition due_store :: store where
  "due_store = fresh_store\<lparr>licenses :=
     [base_license\<lparr>l_id := 1, l_licenseType := Some Perpetual\<rparr>,
      base_license\<lparr>l_id := 2, l_licenseType := Some Maintenance, l_parentLicenseId := Some 1\<rparr>,
      base_license\<lparr>l_id := 3, l_licenseType := Some Subscription, l_retirementScheduled := True,
        l_endDate := Some ''2020-01-01''\<rparr>]\<rparr>"

definition a_day :: clock where
  "a_day = \<lparr>today = 20000, now = ''t''\<rparr>"

lemma due_store_facts:
  "distinct (map l_id (licenses due_store))"
  "map (retirement_due a_day) (licenses due_store) = [False, False, True]"
  by code_simp+

theorem retirement_exact_witness:
  "fst (retire_due_licenses a_day due_store) = 1
   \<and> map l_isRetired (licenses (snd (retire_due_licenses a_day due_store))) = [False, False, True]"
proof -
  have due: "filter (retirement_due a_day) (licenses due_store) = [licenses due_store ! 2]" by code_simp
  have "map l_isRetired (map core (licenses (snd (retire_due_licenses a_day due_store))))
    = map l_isRetired (map (\<lambda>l. core (if retirement_due a_day l
        then l\<lparr>l_isRetired := True, l_retirementScheduled := False\<rparr> else l)) (licenses due_store))"
    using retirement_exact [OF due_store_facts(1), of a_day] by (simp only: split_beta)
  also have "\<dots> = [False, False, True]" by code_simp
  finally show ?thesis
    using retirement_exact [OF due_store_facts(1), of a_day] by (simp add: split_beta due comp_def)
qed

theorem daily_jobs_settle_witness:
  "let t = snd (run_daily_license_jobs a_day due_store) in
     run_daily_license_jobs a_day due_store = ((1, 1), t)
     \<and> map l_activeMaintenanceId (licenses t) = [Some 2, None, None]
     \<and> run_daily_license_jobs a_day t = ((0, 0), t)"
proof -
  have "fst (run_daily_license_jobs a_day due_store) = (1, 1)" by code_simp
  moreover have "map l_activeMaintenanceId (licenses (snd (run_daily_license_jobs a_day due_store))) = [Some 2, None, None]"
    by code_simp
  ultimately show ?thesis
    using daily_jobs_settle [OF due_store_facts(1), of a_day] by (simp add: Let_def prod_eq_iff)
qed

end
