(* ===== verification/OrderFacts.thy ===== *)
theory OrderFacts
  imports ProcurementRoutes
begin

text \<open>
  What deleting a pending order does to its lines. The demo store gives them back their status but not
  their freedom: they still name the order, and every route refuses them.
\<close>

lemma delete_order_result:
  assumes "get_order s oid = Some x" "o_status x = OrderPending"
  shows "delete_order clk oid s = (Inr (), s\<lparr>
       sourcingItems := upd_where (\<lambda>i. i_pendingOrderId i = Some oid)
         (\<lambda>i. i\<lparr>i_status := Sourcing, i_updatedAt := now clk\<rparr>) (sourcingItems s),
       pendingOrders := filter (\<lambda>p. o_id p \<noteq> oid) (pendingOrders s)\<rparr>)"
proof -
  have "o_id x = oid"
    using assms(1) by (auto simp: get_order_def dest: find_id_SomeD)
  with assms show ?thesis
    by (simp add: delete_order_def find_order_def delete_pending_order_record_def bindE_assoc)
qed

lemma held_line_refused:
  assumes "i_pendingOrderId i \<noteq> None"
  shows "assert_sourcing_item_editable i s = (Inl (Error ''Cannot modify a converted sourcing item''), s)"
  using assms by (simp add: assert_sourcing_item_editable_def)

lemma bindE_stop: "m s = (Inl e, t) \<Longrightarrow> bindE m k s = (Inl e, t)"
  by (simp add: bindE_def)


definition ordered_store :: store where
  "ordered_store = fresh_store\<lparr>pendingOrders := [blank_order\<lparr>o_id := 4, o_poNumber := Some ''PO-4''\<rparr>],
     sourcingItems := [blank_item\<lparr>i_id := 7, i_status := Converted, i_pendingOrderId := Some 4\<rparr>]\<rparr>"


end
