(* ===== verification/ReportValues.thy ===== *)
theory ReportValues
  imports LicenseRecords JsArray
begin

text \<open>
  \<^verbatim>\<open>src/frontend/src/utils/reportHelpers.js\<close>, first half: which licenses a report shows, and what each
  is worth in it. Money is read with \<open>parsePrice\<close> and computed with doubles, a term counts calendar
  days. A date is modelled by its calendar day, \<open>None\<close> is an invalid date; the date fields hold
  \<open>YYYY-MM-DD\<close> texts, any other text is an invalid date here. The moment of the report is an
  argument: its local calendar day and its milliseconds since 1970.
\<close>

record moment =
  local_day :: int
  at_ms :: int

section \<open>Money\<close>

definition parse_price :: "jstr \<Rightarrow> jsnum option" where
  "parse_price v =
     (case v of
        None \<Rightarrow> None
      | Some t \<Rightarrow> if t = [] then None
                  else (let n = js_Number (comma_to_point t) in if n = NaN then None else Some n))"

definition round_money :: "jsnum \<Rightarrow> jsnum" where
  "round_money v = js_div (js_round (js_mul (js_add v number_epsilon) (Fin 100))) (Fin 100)"

definition positive_price :: "jstr \<Rightarrow> bool" where
  "positive_price v \<longleftrightarrow> (case parse_price v of None \<Rightarrow> False | Some n \<Rightarrow> js_less (Fin 0) n)"

section \<open>Ranges of days\<close>

definition MS_PER_DAY :: int where
  "MS_PER_DAY = 24 * 60 * 60 * 1000"

definition date_shape :: "string \<Rightarrow> bool" where
  "date_shape s \<longleftrightarrow>
     (case split_on (CHR ''-'') s of
        [ys, ms, ds] \<Rightarrow> length ys = 4 \<and> length ms = 2 \<and> length ds = 2 \<and> list_all is_digit (ys @ ms @ ds)
      | _ \<Rightarrow> False)"

text \<open>A text of the shape \<open>YYYY-MM-DD\<close> is read as \<open>new Date(year, month - 1, day)\<close>, which carries over.\<close>

definition parse_report_date :: "string \<Rightarrow> local_date" where
  "parse_report_date s = (if date_shape s then parse_iso_date s else None)"

record day_range =
  from_day :: local_date
  to_day :: local_date

datatype date_range = AllDates | ThisYear | Last12 | Between jstr jstr

definition resolve_report_date_range :: "moment \<Rightarrow> date_range \<Rightarrow> day_range option" where
  "resolve_report_date_range mom r =
     (case civil_of_day (local_day mom) of (y, m, d) \<Rightarrow>
       (case r of
          AllDates \<Rightarrow> None
        | ThisYear \<Rightarrow>
            Some \<lparr>from_day = Some (make_day y 0 1), to_day = parse_report_date (show_int y @ ''-12-31'')\<rparr>
        | Last12 \<Rightarrow> Some \<lparr>from_day = Some (make_day y (m - 12) d), to_day = Some (local_day mom)\<rparr>
        | Between a b \<Rightarrow>
            if truthy a \<and> truthy b
            then Some \<lparr>from_day = parse_report_date (str a), to_day = parse_report_date (str b)\<rparr>
            else None))"

definition get_term_bounds :: "jstr \<Rightarrow> jstr \<Rightarrow> (int \<times> int) option" where
  "get_term_bounds a b =
     (if \<not> truthy a \<or> \<not> truthy b then None
      else case (parse_report_date (str a), parse_report_date (str b)) of
        (Some x, Some y) \<Rightarrow> if y < x then None else Some (x, y)
      | _ \<Rightarrow> None)"

definition inclusive_day_count :: "int \<times> int \<Rightarrow> int" where
  "inclusive_day_count t = snd t - fst t + 1"

text \<open>The overlap of a term with a range; \<open>None\<close> is \<open>NaN\<close>, which an end that is no date gives.\<close>

definition overlap_day_count :: "int \<times> int \<Rightarrow> day_range \<Rightarrow> int option" where
  "overlap_day_count t r =
     (case (from_day r, to_day r) of
        (Some a, Some b) \<Rightarrow> Some (max (min (snd t) b - max (fst t) a + 1) 0)
      | _ \<Rightarrow> None)"

definition date_of :: "jstr \<Rightarrow> local_date" where
  "date_of v = (if truthy v then parse_report_date (str v) else None)"

definition license_overlaps_report_range :: "license \<Rightarrow> day_range \<Rightarrow> bool" where
  "license_overlaps_report_range l r =
     (case (date_of (l_startDate l), date_of (l_endDate l)) of
        (Some x, Some y) \<Rightarrow> (case overlap_day_count (x, y) r of None \<Rightarrow> False | Some n \<Rightarrow> 0 < n)
      | (Some x, None) \<Rightarrow> (case to_day r of None \<Rightarrow> False | Some b \<Rightarrow> x \<le> b)
      | (None, Some y) \<Rightarrow> (case from_day r of None \<Rightarrow> False | Some a \<Rightarrow> a \<le> y)
      | (None, None) \<Rightarrow> True)"

section \<open>The licenses of a report\<close>

definition filter_licenses :: "moment \<Rightarrow> bool \<Rightarrow> date_range \<Rightarrow> string list \<Rightarrow> license list \<Rightarrow> license list" where
  "filter_licenses mom include_retired r cost_centres ls =
     (let shown = (if include_retired then ls
                   else filter (\<lambda>l. \<not> l_isRetired l \<and> l_lifecycleStatus l \<noteq> Some Legacy) ls);
          of_centre = (if cost_centres = [] then shown
                       else filter (\<lambda>l. str (l_costCentre l) \<in> set cost_centres) shown)
      in case resolve_report_date_range mom r of
           None \<Rightarrow> of_centre
         | Some rg \<Rightarrow> filter (\<lambda>l. license_overlaps_report_range l rg) of_centre)"

section \<open>The value of a license\<close>

datatype value_source = IncludedSupport | Excluded | FromLine | Missing

record cost =
  amount :: jsnum
  source :: value_source

definition cost_of :: "jsnum \<Rightarrow> value_source \<Rightarrow> cost" where
  "cost_of a s = \<lparr>amount = a, source = s\<rparr>"

definition get_license_line_value :: "license \<Rightarrow> cost" where
  "get_license_line_value l =
     (if l_licenseType l = Some Freeware then
        (if maintenanceCoverage (l_support l) = Some Included then
           (case parse_price (maintenanceCost (l_support l)) of
              Some c \<Rightarrow> if js_less (Fin 0) c then cost_of c IncludedSupport else cost_of (Fin 0) Excluded
            | None \<Rightarrow> cost_of (Fin 0) Excluded)
         else cost_of (Fin 0) Excluded)
      else case (parse_price (l_quantity l), parse_price (l_unitPrice l)) of
        (Some q, Some p) \<Rightarrow> cost_of (js_mul q p) FromLine
      | _ \<Rightarrow> cost_of (Fin 0) Missing)"

definition get_maintenance_record_value :: "license \<Rightarrow> jsnum option" where
  "get_maintenance_record_value l =
     (case parse_price (maintenanceCost (l_support l)) of
        Some c \<Rightarrow> Some c
      | None \<Rightarrow>
          (case (parse_price (l_quantity l), parse_price (l_unitPrice l)) of
             (Some q, Some p) \<Rightarrow> Some (js_mul q p) | _ \<Rightarrow> None))"

definition RECURRING_TYPES :: "license_type list" where
  "RECURRING_TYPES = [Subscription, Saas, Maintenance]"

definition INCLUDED_SUPPORT_PARENT_TYPES :: "license_type list" where
  "INCLUDED_SUPPORT_PARENT_TYPES = [Freeware, Perpetual, Oem]"

definition has_included_support :: "license \<Rightarrow> bool" where
  "has_included_support l \<longleftrightarrow>
     in_types (l_licenseType l) INCLUDED_SUPPORT_PARENT_TYPES
     \<and> maintenanceCoverage (l_support l) = Some Included"

definition report_recurring :: "license \<Rightarrow> bool" where
  "report_recurring l \<longleftrightarrow>
     in_types (l_licenseType l) RECURRING_TYPES
     \<or> (is_renewal_opt_in_license_type (l_licenseType l)
        \<and> is_renewable_license (l_licenseType l) (l_isRenewable l))
     \<or> (has_included_support l \<and> positive_price (maintenanceCost (l_support l)))"

definition get_recurring_term_bounds :: "license \<Rightarrow> (int \<times> int) option" where
  "get_recurring_term_bounds l =
     (if has_included_support l
      then get_term_bounds (maintenanceStartDate (l_support l)) (maintenanceEndDate (l_support l))
      else get_term_bounds (l_startDate l) (l_endDate l))"

text \<open>\<open>amount * 365 / days\<close>, for the terms longer than a year.\<close>

definition annualize_amount :: "jsnum \<Rightarrow> (int \<times> int) option \<Rightarrow> jsnum" where
  "annualize_amount a t =
     (case t of
        None \<Rightarrow> a
      | Some b \<Rightarrow>
          (let days = inclusive_day_count b
           in if days > MAX_ONE_YEAR_TERM_DAYS then js_div (js_mul a (Fin 365)) (Fin (of_int days)) else a))"

definition get_recurring_license_value :: "license \<Rightarrow> cost" where
  "get_recurring_license_value l =
     (if has_included_support l then
        (case parse_price (maintenanceCost (l_support l)) of
           Some c \<Rightarrow> cost_of c IncludedSupport | None \<Rightarrow> cost_of (Fin 0) Missing)
      else get_license_line_value l)"

definition get_annualized_recurring_license_value :: "license \<Rightarrow> cost" where
  "get_annualized_recurring_license_value l =
     (let c = get_recurring_license_value l
      in if source c = Missing then c
         else c\<lparr>amount := round_money (annualize_amount (amount c) (get_recurring_term_bounds l))\<rparr>)"

text \<open>
  The share of an amount that falls on a range of days: \<open>amount * overlapDays / termDays\<close>. An overlap
  that is \<open>NaN\<close> passes the test for an empty overlap and makes the amount \<open>NaN\<close>.
\<close>

definition allocate_cost :: "cost \<Rightarrow> int \<times> int \<Rightarrow> day_range \<Rightarrow> cost" where
  "allocate_cost c t r =
     (let term_days = inclusive_day_count t
      in case overlap_day_count t r of
           None \<Rightarrow> if term_days \<le> 0 then c\<lparr>amount := Fin 0\<rparr> else c\<lparr>amount := round_money NaN\<rparr>
         | Some n \<Rightarrow>
             if term_days \<le> 0 \<or> n \<le> 0 then c\<lparr>amount := Fin 0\<rparr>
             else c\<lparr>amount := round_money (js_div (js_mul (amount c) (Fin (of_int n))) (Fin (of_int term_days)))\<rparr>)"

definition get_allocated_recurring_license_value :: "license \<Rightarrow> day_range option \<Rightarrow> cost" where
  "get_allocated_recurring_license_value l r =
     (let c = get_recurring_license_value l
      in case (r, get_recurring_term_bounds l) of
           (Some rg, Some t) \<Rightarrow> if source c = Missing then c else allocate_cost c t rg
         | _ \<Rightarrow> c)"

definition get_allocated_line_value :: "license \<Rightarrow> day_range \<Rightarrow> cost" where
  "get_allocated_line_value l r =
     (let c = get_license_line_value l
      in if source c = Missing then c
         else case get_recurring_term_bounds l of None \<Rightarrow> c | Some t \<Rightarrow> allocate_cost c t r)"

definition get_report_license_value :: "license \<Rightarrow> day_range option \<Rightarrow> cost" where
  "get_report_license_value l r =
     (if r \<noteq> None \<and> report_recurring l then get_allocated_recurring_license_value l r
      else get_license_line_value l)"

text \<open>\<open>new Date(text) <= new Date()\<close>: a date text is midnight in UTC.\<close>

definition is_current_maintenance_coverage :: "moment \<Rightarrow> license \<Rightarrow> bool" where
  "is_current_maintenance_coverage mom l \<longleftrightarrow>
     (let starts = maintenanceStartDate (l_support l); ends = maintenanceEndDate (l_support l)
      in (\<not> truthy starts
          \<or> (case parse_day (str starts) of None \<Rightarrow> False | Some z \<Rightarrow> z * MS_PER_DAY \<le> at_ms mom))
       \<and> (\<not> truthy ends
          \<or> (case parse_day (str ends) of None \<Rightarrow> False | Some z \<Rightarrow> at_ms mom \<le> z * MS_PER_DAY)))"

text \<open>Every stored license has a derived status, so the last case of the source does not arise.\<close>

definition is_forecast_active :: "license \<Rightarrow> bool" where
  "is_forecast_active l \<longleftrightarrow>
     \<not> l_isRetired l
     \<and> l_lifecycleStatus l \<noteq> Some Renewed \<and> l_lifecycleStatus l \<noteq> Some Legacy
     \<and> l_renewedToId l = None
     \<and> l_expirationStatus l \<in> {StActive, StPerpetual, StExpiring}"

end
