(* ===== verification/Reports.thy ===== *)
theory Reports
  imports ReportValues Stats
begin

text \<open>
  \<^verbatim>\<open>src/frontend/src/utils/reportHelpers.js\<close>, second half: the tables of the reports page, and the
  report routes of \<^verbatim>\<open>handlers.js\<close>. A \<open>Map\<close>, and an object used as one, is a list of pairs in the
  order of insertion (currency codes are letters, which JavaScript keeps in that order). A loop over
  licenses is a fold of the step that its body is.
\<close>

section \<open>Maps\<close>

text \<open>\<open>if (!m.has(k)) m.set(k, d); m.set(k, f(m.get(k)))\<close>\<close>

primrec alter :: "'k \<Rightarrow> ('v \<Rightarrow> 'v) \<Rightarrow> 'v \<Rightarrow> ('k \<times> 'v) list \<Rightarrow> ('k \<times> 'v) list" where
  "alter k f d [] = [(k, f d)]"
| "alter k f d (e # es) = (if fst e = k then (k, f (snd e)) # es else e # alter k f d es)"

type_synonym amounts = "(string \<times> jsnum) list"

definition amount_at :: "amounts \<Rightarrow> string \<Rightarrow> jsnum" where
  "amount_at m k = (case map_of m k of None \<Rightarrow> Fin 0 | Some x \<Rightarrow> x)"

definition add_currency_amount :: "string \<Rightarrow> jsnum \<Rightarrow> amounts \<Rightarrow> amounts" where
  "add_currency_amount k x = alter k (\<lambda>a. round_money (js_add a x)) (Fin 0)"

definition add_report_amount :: "string \<Rightarrow> jsnum \<Rightarrow> amounts \<Rightarrow> amounts" where
  "add_report_amount k x m = (if is_finite x then add_currency_amount k x m else m)"

definition report_currency :: "license \<Rightarrow> string" where
  "report_currency l = str (or_else (l_currency l) (Some ''USD''))"

definition report_publisher :: "license \<Rightarrow> string" where
  "report_publisher l = str (or_else (l_publisherName l) (Some ''Unknown''))"

text \<open>The sign of a comparator's result; \<open>NaN\<close> counts as no difference.\<close>

fun js_sign :: "jsnum \<Rightarrow> int" where
  "js_sign NaN = 0"
| "js_sign PosInf = 1"
| "js_sign NegInf = - 1"
| "js_sign (Fin x) = (if 0 < x then 1 else if x < 0 then - 1 else 0)"

text \<open>\<open>(a, b) => b.x - a.x\<close>\<close>

definition by_amount_desc :: "('a \<Rightarrow> jsnum) \<Rightarrow> 'a \<Rightarrow> 'a \<Rightarrow> int" where
  "by_amount_desc f a b = js_sign (js_sub (f b) (f a))"

section \<open>Lifecycle figures\<close>

record lifecycle_budget =
  lb_active :: amounts
  lb_expiring :: amounts
  lb_expired :: amounts

definition budget_step :: "day_range option \<Rightarrow> license \<Rightarrow> lifecycle_budget \<Rightarrow> lifecycle_budget" where
  "budget_step r l b =
     (let c = get_report_license_value l r; add = add_to (report_currency l) (amount c)
      in if source c = Missing then b
         else case l_expirationStatus l of
             StPerpetual \<Rightarrow> b\<lparr>lb_active := add (lb_active b)\<rparr>
           | StActive \<Rightarrow> b\<lparr>lb_active := add (lb_active b)\<rparr>
           | StExpiring \<Rightarrow> b\<lparr>lb_expiring := add (lb_expiring b)\<rparr>
           | StExpired \<Rightarrow> b\<lparr>lb_expired := add (lb_expired b)\<rparr>
           | _ \<Rightarrow> b)"

definition get_lifecycle_budget :: "day_range option \<Rightarrow> license list \<Rightarrow> lifecycle_budget" where
  "get_lifecycle_budget r ls =
     fold (budget_step r) ls \<lparr>lb_active = [], lb_expiring = [], lb_expired = []\<rparr>"

record lifecycle_counts =
  lc_active :: int
  lc_upcoming :: int
  lc_expiring :: int
  lc_expired :: int

definition count_lifecycle :: "license \<Rightarrow> lifecycle_counts \<Rightarrow> lifecycle_counts" where
  "count_lifecycle l c =
     (let st = l_expirationStatus l
      in if st = StActive \<or> st = StPerpetual then c\<lparr>lc_active := lc_active c + 1\<rparr>
         else if st = StUpcoming then c\<lparr>lc_upcoming := lc_upcoming c + 1\<rparr>
         else if st = StExpiring then c\<lparr>lc_expiring := lc_expiring c + 1\<rparr>
         else if st = StExpired then c\<lparr>lc_expired := lc_expired c + 1\<rparr>
         else c)"

definition get_lifecycle_counts :: "license list \<Rightarrow> lifecycle_counts" where
  "get_lifecycle_counts ls =
     fold count_lifecycle ls \<lparr>lc_active = 0, lc_upcoming = 0, lc_expiring = 0, lc_expired = 0\<rparr>"

section \<open>Spend by license and by purchase order\<close>

record po_group =
  pg_currency :: string
  pg_lineTotal :: jsnum
  pg_hasPricedLine :: bool
  pg_override :: "jsnum option"

record spend_loop =
  sl_licenseSpend :: amounts
  sl_poSpend :: amounts
  sl_groups :: "(string \<times> po_group) list"
  sl_unpriced :: int
  sl_unkeyed :: int

record spend_comparison =
  licenseSpendByCurrency :: amounts
  poSpendByCurrency :: amounts
  spendDifferenceByCurrency :: amounts
  poCount :: int
  overriddenPoCount :: int
  unkeyedCount :: int
  unpricedCount :: int

definition without_spend :: "license \<Rightarrow> bool" where
  "without_spend l \<longleftrightarrow>
     l_licenseType l = Some Freeware \<and> maintenanceCoverage (l_support l) \<noteq> Some Included"

definition report_po_number :: "license \<Rightarrow> string" where
  "report_po_number l = trim (str (l_poNumber l))"

definition report_line_cost :: "day_range option \<Rightarrow> license \<Rightarrow> cost" where
  "report_line_cost r l =
     (case r of
        Some rg \<Rightarrow> if report_recurring l then get_allocated_line_value l rg else get_license_line_value l
      | None \<Rightarrow> get_license_line_value l)"

text \<open>The override of a group is the first one of its licenses.\<close>

definition first_override :: "jsnum option \<Rightarrow> license \<Rightarrow> jsnum option" where
  "first_override v l = nullish v (parse_price (l_poTotalOverride l))"

definition group_license :: "cost \<Rightarrow> license \<Rightarrow> po_group \<Rightarrow> po_group" where
  "group_license c l g =
     (let priced = (if source c = Missing then g
                    else g\<lparr>pg_lineTotal := round_money (js_add (pg_lineTotal g) (amount c)),
                           pg_hasPricedLine := True\<rparr>)
      in priced\<lparr>pg_override := first_override (pg_override g) l\<rparr>)"

definition spend_step :: "day_range option \<Rightarrow> license \<Rightarrow> spend_loop \<Rightarrow> spend_loop" where
  "spend_step r l a =
     (if without_spend l then a
      else
        let currency = report_currency l; po = report_po_number l; c = report_line_cost r l;
            has_price = (source c \<noteq> Missing);
            counted = (if has_price
                       then a\<lparr>sl_licenseSpend := add_currency_amount currency (amount c) (sl_licenseSpend a)\<rparr>
                       else a\<lparr>sl_unpriced := sl_unpriced a + 1\<rparr>)
        in if po = [] then
             counted\<lparr>sl_unkeyed := sl_unkeyed a + 1,
                     sl_poSpend := (if has_price then add_currency_amount currency (amount c) (sl_poSpend a)
                                    else sl_poSpend a)\<rparr>
           else
             counted\<lparr>sl_groups :=
               alter (po @ ''::'' @ currency) (group_license c l)
                 \<lparr>pg_currency = currency, pg_lineTotal = Fin 0, pg_hasPricedLine = False, pg_override = None\<rparr>
                 (sl_groups a)\<rparr>)"

definition add_group_spend :: "po_group \<Rightarrow> amounts \<Rightarrow> amounts" where
  "add_group_spend g m =
     (case pg_override g of
        Some v \<Rightarrow> add_currency_amount (pg_currency g) v m
      | None \<Rightarrow> if pg_hasPricedLine g then add_currency_amount (pg_currency g) (pg_lineTotal g) m else m)"

definition get_spend_comparison :: "day_range option \<Rightarrow> license list \<Rightarrow> spend_comparison" where
  "get_spend_comparison r ls =
     (let a = fold (spend_step r) ls
                \<lparr>sl_licenseSpend = [], sl_poSpend = [], sl_groups = [], sl_unpriced = 0, sl_unkeyed = 0\<rparr>;
          groups = map snd (sl_groups a);
          lines = sl_licenseSpend a;
          pos = fold add_group_spend groups (sl_poSpend a)
      in \<lparr>licenseSpendByCurrency = lines, poSpendByCurrency = pos,
          spendDifferenceByCurrency =
            map (\<lambda>k. (k, round_money (js_sub (amount_at pos k) (amount_at lines k))))
              (uniq (map fst lines @ map fst pos)),
          poCount = int (length groups),
          overriddenPoCount = int (length (filter (\<lambda>g. pg_override g \<noteq> None) groups)),
          unkeyedCount = sl_unkeyed a, unpricedCount = sl_unpriced a\<rparr>)"

section \<open>Recurring cost\<close>

record recurring_record =
  rr_id :: int
  rr_publisher :: string
  rr_softwareDescription :: string
  rr_supplier :: string
  rr_budgetOwnerEmail :: string
  rr_costCentre :: string
  rr_licenseType :: "license_type option"
  rr_currency :: string
  rr_annualCost :: jsnum
  rr_costSource :: value_source

definition recurring_row :: "license \<Rightarrow> recurring_record" where
  "recurring_row l =
     (let c = get_annualized_recurring_license_value l in
      \<lparr>rr_id = l_id l, rr_publisher = report_publisher l,
       rr_softwareDescription = str (l_softwareDescription l), rr_supplier = str (l_supplier l),
       rr_budgetOwnerEmail = str (l_budgetOwnerEmail l), rr_costCentre = str (l_costCentre l),
       rr_licenseType = l_licenseType l, rr_currency = report_currency l,
       rr_annualCost = amount c, rr_costSource = source c\<rparr>)"

definition get_recurring_records :: "moment \<Rightarrow> license list \<Rightarrow> recurring_record list" where
  "get_recurring_records mom ls =
     map recurring_row
       (filter (\<lambda>l. is_forecast_active l \<and> report_recurring l
                    \<and> \<not> (has_included_support l \<and> \<not> is_current_maintenance_coverage mom l)) ls)"

record cost_overview = spend_comparison +
  recurringAnnualCostByCurrency :: amounts
  lifecycleBudgetByStatus :: lifecycle_budget
  recurringCount :: int
  isPeriodAllocated :: bool

definition annual_cost_step :: "day_range option \<Rightarrow> license \<Rightarrow> amounts \<Rightarrow> amounts" where
  "annual_cost_step r l m =
     (if \<not> is_forecast_active l \<or> \<not> report_recurring l then m
      else
        let c = (if r \<noteq> None then get_allocated_recurring_license_value l r
                 else get_annualized_recurring_license_value l)
        in if source c = Missing then m else add_to (report_currency l) (amount c) m)"

definition get_cost_overview :: "moment \<Rightarrow> date_range \<Rightarrow> license list \<Rightarrow> cost_overview" where
  "get_cost_overview mom d ls =
     (let r = resolve_report_date_range mom d
      in spend_comparison.extend (get_spend_comparison r ls)
           (cost_overview.fields (fold (annual_cost_step r) ls []) (get_lifecycle_budget r ls)
              (int (length (get_recurring_records mom ls))) (r \<noteq> None)))"

section \<open>The purchase-order tracker\<close>

record po_tracker =
  pt_poNumber :: jstr
  pt_currency :: string
  pt_publishers :: "string list"
  pt_lineCount :: int
  pt_pricedLineCount :: int
  pt_lineValue :: jsnum
  pt_override :: "jsnum option"

datatype po_row_status = Unkeyed | Overridden | Reconciled | Differs

record po_row = po_tracker +
  pr_publisher :: string
  pr_poValue :: jsnum
  pr_difference :: jsnum
  pr_status :: po_row_status

record po_report =
  po_rows :: "po_row list"
  po_totalsByCurrency :: amounts
  po_lineTotalsByCurrency :: amounts
  po_keyedCount :: int
  po_unkeyedCount :: int
  po_overriddenCount :: int

definition track_license :: "cost \<Rightarrow> license \<Rightarrow> po_tracker \<Rightarrow> po_tracker" where
  "track_license c l g =
     (let publisher = trim (str (l_publisherName l))
      in g\<lparr>pt_lineCount := pt_lineCount g + 1,
           pt_publishers := (if publisher \<noteq> [] \<and> publisher \<notin> set (pt_publishers g)
                             then pt_publishers g @ [publisher] else pt_publishers g),
           pt_pricedLineCount := (if source c \<noteq> Missing then pt_pricedLineCount g + 1 else pt_pricedLineCount g),
           pt_lineValue := (if source c \<noteq> Missing then round_money (js_add (pt_lineValue g) (amount c))
                            else pt_lineValue g),
           pt_override := first_override (pt_override g) l\<rparr>)"

definition tracker_key :: "license \<Rightarrow> string" where
  "tracker_key l =
     (if report_po_number l = [] then ''__unkeyed__'' else report_po_number l) @ ''::'' @ report_currency l"

definition new_tracker :: "license \<Rightarrow> po_tracker" where
  "new_tracker l =
     \<lparr>pt_poNumber = (if report_po_number l = [] then None else Some (report_po_number l)),
      pt_currency = report_currency l, pt_publishers = [], pt_lineCount = 0, pt_pricedLineCount = 0,
      pt_lineValue = Fin 0, pt_override = None\<rparr>"

definition track_step ::
  "day_range option \<Rightarrow> license \<Rightarrow> (string \<times> po_tracker) list \<Rightarrow> (string \<times> po_tracker) list" where
  "track_step r l m =
     (if without_spend l then m
      else alter (tracker_key l) (track_license (report_line_cost r l) l) (new_tracker l) m)"

definition po_row_of :: "po_tracker \<Rightarrow> po_row" where
  "po_row_of g =
     (let po_value = (case pt_override g of Some v \<Rightarrow> v | None \<Rightarrow> pt_lineValue g);
          difference = round_money (js_sub po_value (pt_lineValue g))
      in po_tracker.extend g (po_row.fields
           (case pt_publishers g of [] \<Rightarrow> ''Unknown publisher'' | [p] \<Rightarrow> p | _ \<Rightarrow> ''Multiple publishers'')
           po_value difference
           (if pt_poNumber g = None then Unkeyed
            else if pt_override g \<noteq> None \<and> \<not> js_eq difference (Fin 0) then Overridden
            else if js_eq difference (Fin 0) then Reconciled else Differs)))"

definition compare_po_rows :: "(string \<Rightarrow> string \<Rightarrow> int) \<Rightarrow> po_row \<Rightarrow> po_row \<Rightarrow> int" where
  "compare_po_rows collate =
     then_by (by_amount_desc pr_poValue) (\<lambda>a b. collate (str (pt_poNumber a)) (str (pt_poNumber b)))"

definition get_purchase_order_report ::
  "(string \<Rightarrow> string \<Rightarrow> int) \<Rightarrow> moment \<Rightarrow> date_range \<Rightarrow> license list \<Rightarrow> po_report" where
  "get_purchase_order_report collate mom d ls =
     (let r = resolve_report_date_range mom d;
          rows = js_sort (compare_po_rows collate) (map (po_row_of \<circ> snd) (fold (track_step r) ls []))
      in \<lparr>po_rows = rows,
          po_totalsByCurrency = fold (\<lambda>row. add_report_amount (pt_currency row) (pr_poValue row)) rows [],
          po_lineTotalsByCurrency = fold (\<lambda>row. add_report_amount (pt_currency row) (pt_lineValue row)) rows [],
          po_keyedCount = int (length (filter (\<lambda>row. pt_poNumber row \<noteq> None) rows)),
          po_unkeyedCount = sum_list (map pt_lineCount (filter (\<lambda>row. pt_poNumber row = None) rows)),
          po_overriddenCount = int (length (filter (\<lambda>row. pt_override row \<noteq> None) rows))\<rparr>)"

end
