(* ===== verification/ReportTables.thy ===== *)
theory ReportTables
  imports Reports
begin

text \<open>
  The remaining tables of \<^verbatim>\<open>src/frontend/src/utils/reportHelpers.js\<close> (perpetual licenses with their
  support, forecast, publishers, vendors, portfolio, renewal calendar) and the detailed report of
  \<^verbatim>\<open>handlers.js\<close> that puts them together, with its CSV export.
\<close>

section \<open>Perpetual licenses and their support\<close>

record maintenance_entry =
  me_id :: int
  me_amount :: "jsnum option"
  me_currency :: string
  me_publisher :: string
  me_description :: string
  me_poNumber :: string

definition maintenance_entry_of :: "license \<Rightarrow> maintenance_entry" where
  "maintenance_entry_of l =
     \<lparr>me_id = l_id l,
      me_amount = (case parse_price (maintenanceCost (l_support l)) of
                     Some c \<Rightarrow> Some c | None \<Rightarrow> get_maintenance_record_value l),
      me_currency = report_currency l, me_publisher = report_publisher l,
      me_description = str (l_softwareDescription l), me_poNumber = str (l_poNumber l)\<rparr>"

definition entry_parents :: "license \<Rightarrow> int list" where
  "entry_parents l =
     uniq (l_maintenanceParentIds l @ (case l_parentLicenseId l of None \<Rightarrow> [] | Some p \<Rightarrow> [p]))"

definition maintenance_by_parent :: "license list \<Rightarrow> (int \<times> maintenance_entry list) list" where
  "maintenance_by_parent ls =
     fold (\<lambda>l m. if l_licenseType l \<noteq> Some Maintenance then m
                 else fold (\<lambda>p. alter p (\<lambda>es. es @ [maintenance_entry_of l]) []) (entry_parents l) m) ls []"

definition maintenance_by_id :: "license list \<Rightarrow> (int \<times> maintenance_entry) list" where
  "maintenance_by_id ls =
     fold (\<lambda>l m. if l_licenseType l \<noteq> Some Maintenance then m
                 else alter (l_id l) (\<lambda>_. maintenance_entry_of l) (maintenance_entry_of l) m) ls []"

text \<open>\<open>Array.from(new Map(es.map((e) => [e.id, e])).values())\<close>\<close>

definition unique_entries :: "maintenance_entry list \<Rightarrow> maintenance_entry list" where
  "unique_entries es = map snd (fold (\<lambda>e. alter (me_id e) (\<lambda>_. e) e) es [])"

definition linked_entries :: "license list \<Rightarrow> license \<Rightarrow> maintenance_entry list" where
  "linked_entries ls l =
     unique_entries
       ((case map_of (maintenance_by_parent ls) (l_id l) of None \<Rightarrow> [] | Some es \<Rightarrow> es)
        @ List.map_filter (map_of (maintenance_by_id ls)) (l_linkedMaintenanceIds l))"

datatype maintenance_source = NotTracked | IncludedPriced | IncludedMissing | SeparatePriced | SeparateMissing

record perpetual_row =
  pm_id :: int
  pm_publisher :: string
  pm_description :: string
  pm_poNumber :: string
  pm_currency :: string
  pm_purchaseValue :: jsnum
  pm_purchaseSource :: value_source
  pm_maintenanceByCurrency :: amounts
  pm_maintenanceValue :: "jsnum option"
  pm_maintenanceCurrency :: jstr
  pm_maintenanceSource :: maintenance_source
  pm_linkedMaintenanceCount :: int
  pm_maintenanceRecords :: "maintenance_entry list"
  pm_totalValue :: "jsnum option"

definition add_entry_amount :: "maintenance_entry \<Rightarrow> amounts \<Rightarrow> amounts" where
  "add_entry_amount e m =
     (case me_amount e of None \<Rightarrow> m | Some a \<Rightarrow> add_report_amount (me_currency e) a m)"

definition row_maintenance :: "license \<Rightarrow> maintenance_entry list \<Rightarrow> amounts \<times> maintenance_source" where
  "row_maintenance l linked =
     (let coverage = (case maintenanceCoverage (l_support l) of None \<Rightarrow> UnknownCoverage | Some c \<Rightarrow> c)
      in if coverage = Included then
           (case parse_price (maintenanceCost (l_support l)) of
              Some a \<Rightarrow> (add_report_amount (report_currency l) a [], IncludedPriced)
            | None \<Rightarrow> ([], IncludedMissing))
         else if coverage = SeparatelyTracked \<or> linked \<noteq> [] then
           (fold add_entry_amount linked [], if linked \<noteq> [] then SeparatePriced else SeparateMissing)
         else ([], NotTracked))"

definition perpetual_row_of :: "license list \<Rightarrow> license \<Rightarrow> perpetual_row" where
  "perpetual_row_of ls l =
     (let currency = report_currency l; purchase = get_license_line_value l; linked = linked_entries ls l;
          (by_currency, src) = row_maintenance l linked
      in \<lparr>pm_id = l_id l, pm_publisher = report_publisher l, pm_description = str (l_softwareDescription l),
          pm_poNumber = str (l_poNumber l), pm_currency = currency,
          pm_purchaseValue = amount purchase, pm_purchaseSource = source purchase,
          pm_maintenanceByCurrency = by_currency,
          pm_maintenanceValue = (case by_currency of [e] \<Rightarrow> Some (snd e) | _ \<Rightarrow> None),
          pm_maintenanceCurrency = (case by_currency of [e] \<Rightarrow> Some (fst e) | _ \<Rightarrow> None),
          pm_maintenanceSource = src, pm_linkedMaintenanceCount = int (length linked),
          pm_maintenanceRecords = linked,
          pm_totalValue =
            (if list_all (\<lambda>e. fst e = currency) by_currency
             then Some (round_money (js_add (amount purchase) (amount_at by_currency currency)))
             else None)\<rparr>)"

record perpetual_totals =
  tt_purchase :: amounts
  tt_maintenance :: amounts
  tt_total :: amounts
  tt_counted :: "(int \<times> string) list"

record perpetual_report =
  pm_rows :: "perpetual_row list"
  pm_purchaseByCurrency :: amounts
  pm_allMaintenanceByCurrency :: amounts
  pm_totalByCurrency :: amounts
  pm_includedCount :: int
  pm_separatelyTrackedCount :: int

text \<open>The records that are not counted yet; each is counted as it is met.\<close>

primrec take_uncounted ::
  "string \<Rightarrow> maintenance_entry list \<Rightarrow> (int \<times> string) list \<Rightarrow>
     maintenance_entry list \<times> (int \<times> string) list" where
  "take_uncounted k [] counted = ([], counted)"
| "take_uncounted k (e # es) counted =
     (if (me_id e, k) \<in> set counted then take_uncounted k es counted
      else (let (rest, counted') = take_uncounted k es ((me_id e, k) # counted) in (e # rest, counted')))"

definition add_maintenance_total :: "string \<Rightarrow> jsnum \<Rightarrow> perpetual_totals \<Rightarrow> perpetual_totals" where
  "add_maintenance_total k x t =
     t\<lparr>tt_maintenance := add_report_amount k x (tt_maintenance t),
       tt_total := add_report_amount k x (tt_total t)\<rparr>"

definition entry_total_step ::
  "maintenance_entry list \<Rightarrow> string \<times> jsnum \<Rightarrow> perpetual_totals \<Rightarrow> perpetual_totals" where
  "entry_total_step records e t =
     (let k = fst e; same = filter (\<lambda>r. me_currency r = k) records
      in if same = [] then add_maintenance_total k (snd e) t
         else
           let (fresh, counted) = take_uncounted k same (tt_counted t); t' = t\<lparr>tt_counted := counted\<rparr>
           in if fresh = [] then t'
              else add_maintenance_total k
                     (foldl (\<lambda>sum r. js_add sum (case me_amount r of None \<Rightarrow> Fin 0 | Some a \<Rightarrow> a)) (Fin 0) fresh) t')"

definition row_total_step :: "perpetual_row \<Rightarrow> perpetual_totals \<Rightarrow> perpetual_totals" where
  "row_total_step row t =
     fold (entry_total_step (pm_maintenanceRecords row)) (pm_maintenanceByCurrency row)
       (t\<lparr>tt_purchase := add_report_amount (pm_currency row) (pm_purchaseValue row) (tt_purchase t),
          tt_total := add_report_amount (pm_currency row) (pm_purchaseValue row) (tt_total t)\<rparr>)"

definition get_perpetual_maintenance_report :: "license list \<Rightarrow> perpetual_report" where
  "get_perpetual_maintenance_report ls =
     (let rows = map (perpetual_row_of ls) (filter (\<lambda>l. l_licenseType l = Some Perpetual) ls);
          t = fold row_total_step rows
                \<lparr>tt_purchase = [], tt_maintenance = [], tt_total = [], tt_counted = []\<rparr>
      in \<lparr>pm_rows = rows, pm_purchaseByCurrency = tt_purchase t,
          pm_allMaintenanceByCurrency = tt_maintenance t, pm_totalByCurrency = tt_total t,
          pm_includedCount =
            int (length (filter (\<lambda>r. pm_maintenanceSource r \<in> {IncludedPriced, IncludedMissing}) rows)),
          pm_separatelyTrackedCount =
            int (length (filter (\<lambda>r. pm_maintenanceSource r = SeparatePriced) rows))\<rparr>)"

section \<open>The budget forecast\<close>

record forecast_row =
  fr_year :: int
  fr_baseline :: jsnum
  fr_growthAmount :: jsnum
  fr_projectedBudget :: jsnum

record budget_forecast =
  bf_forecastRows :: "forecast_row list"
  bf_recurringRecords :: "recurring_record list"
  bf_baselineByCurrency :: amounts
  bf_singleCurrency :: jstr

definition js_max :: "jsnum \<Rightarrow> jsnum \<Rightarrow> jsnum" where
  "js_max a b = (if a = NaN \<or> b = NaN then NaN else if js_less a b then b else a)"

text \<open>
  \<open>Array.from(\{length: n\})\<close>: the fraction is dropped, and a length from 2 to the power 32 on throws.
\<close>

definition array_length :: "jsnum \<Rightarrow> js_error + int" where
  "array_length n =
     (case n of
        Fin x \<Rightarrow> if 2 ^ 32 \<le> \<lfloor>x\<rfloor> then Inl (Error ''Invalid array length'') else Inr (max 0 \<lfloor>x\<rfloor>)
      | PosInf \<Rightarrow> Inl (Error ''Invalid array length'')
      | _ \<Rightarrow> Inr 0)"

definition baseline_by_currency :: "recurring_record list \<Rightarrow> amounts" where
  "baseline_by_currency rs =
     fold (\<lambda>r m. if rr_costSource r = Missing then m else add_to (rr_currency r) (rr_annualCost r) m) rs []"

definition forecast_row_at ::
  "(jsnum \<Rightarrow> jsnum \<Rightarrow> jsnum) \<Rightarrow> int \<Rightarrow> jsnum \<Rightarrow> jsnum \<Rightarrow> int \<Rightarrow> forecast_row" where
  "forecast_row_at js_pow year baseline growth_rate index =
     (let projected = round_money (js_mul baseline (js_pow (js_add (Fin 1) growth_rate) (Fin (of_int index))))
      in \<lparr>fr_year = year + index + 1, fr_baseline = round_money baseline,
          fr_growthAmount = round_money (js_sub projected baseline), fr_projectedBudget = projected\<rparr>)"

text \<open>\<open>Math.pow\<close> is approximated by the runtime: it is the argument \<open>js_pow\<close>.\<close>

definition get_budget_forecast ::
  "(jsnum \<Rightarrow> jsnum \<Rightarrow> jsnum) \<Rightarrow> moment \<Rightarrow> jsnum \<Rightarrow> jsnum \<Rightarrow> license list \<Rightarrow> js_error + budget_forecast" where
  "get_budget_forecast js_pow mom years annual_growth_pct ls =
     (let records = get_recurring_records mom ls;
          baselines = baseline_by_currency records;
          active = filter (\<lambda>e. js_less (Fin 0) (snd e)) baselines;
          growth_rate = js_div (js_max (or_zero annual_growth_pct) (Fin 0)) (Fin 100);
          year = fst (civil_of_day (local_day mom));
          years' = js_max (if years = NaN \<or> years = Fin 0 then Fin 1 else years) (Fin 1);
          forecast = (\<lambda>rows single. \<lparr>bf_forecastRows = rows,
            bf_recurringRecords = js_sort (by_amount_desc rr_annualCost) records,
            bf_baselineByCurrency = baselines, bf_singleCurrency = single\<rparr>)
      in case active of
           [(currency, baseline)] \<Rightarrow>
             (case array_length years' of
                Inl e \<Rightarrow> Inl e
              | Inr n \<Rightarrow> Inr (forecast (map (forecast_row_at js_pow year baseline growth_rate) [0..n - 1])
                           (Some currency)))
         | _ \<Rightarrow> Inr (forecast [] None))"

section \<open>Publishers and vendors\<close>

record spend_entry =
  se_totalSpendByCurrency :: amounts
  se_totalSpend :: jsnum
  se_licenseCount :: int

record publisher_entry = spend_entry +
  pe_publisher :: string

record vendor_entry = spend_entry +
  ve_publisher :: string
  ve_supplier :: string
  ve_hasUnpricedLicenses :: bool

definition add_spend :: "license \<Rightarrow> cost \<Rightarrow> 'a spend_entry_scheme \<Rightarrow> 'a spend_entry_scheme" where
  "add_spend l c e =
     (let counted = e\<lparr>se_licenseCount := se_licenseCount e + 1\<rparr>
      in if source c = Missing then counted
         else counted\<lparr>se_totalSpendByCurrency :=
                        add_to (report_currency l) (amount c) (se_totalSpendByCurrency e),
                      se_totalSpend := js_add (se_totalSpend e) (amount c)\<rparr>)"

definition publisher_step ::
  "day_range option \<Rightarrow> license \<Rightarrow> (string \<times> publisher_entry) list \<Rightarrow> (string \<times> publisher_entry) list" where
  "publisher_step r l =
     alter (report_publisher l) (add_spend l (get_report_license_value l r))
       \<lparr>se_totalSpendByCurrency = [], se_totalSpend = Fin 0, se_licenseCount = 0,
        pe_publisher = report_publisher l\<rparr>"

definition get_spend_by_publisher :: "moment \<Rightarrow> date_range \<Rightarrow> license list \<Rightarrow> publisher_entry list" where
  "get_spend_by_publisher mom d ls =
     js_sort (by_amount_desc se_totalSpend)
       (map snd (fold (publisher_step (resolve_report_date_range mom d)) ls []))"

definition vendor_step ::
  "day_range option \<Rightarrow> license \<Rightarrow> (string \<times> vendor_entry) list \<Rightarrow> (string \<times> vendor_entry) list" where
  "vendor_step r l =
     (let publisher = report_publisher l; supplier = str (l_supplier l); c = get_report_license_value l r
      in alter (publisher @ ''||'' @ supplier)
           (\<lambda>e. (add_spend l c e)\<lparr>ve_hasUnpricedLicenses := ve_hasUnpricedLicenses e \<or> source c = Missing\<rparr>)
           \<lparr>se_totalSpendByCurrency = [], se_totalSpend = Fin 0, se_licenseCount = 0,
            ve_publisher = publisher, ve_supplier = supplier, ve_hasUnpricedLicenses = False\<rparr>)"

definition get_vendor_table :: "moment \<Rightarrow> date_range \<Rightarrow> license list \<Rightarrow> vendor_entry list" where
  "get_vendor_table mom d ls = map snd (fold (vendor_step (resolve_report_date_range mom d)) ls [])"

end
