(* ===== verification/ReportRoutes.thy ===== *)
theory ReportRoutes
  imports ReportTables
begin

text \<open>
  The portfolio breakdown and the renewal calendar of \<^verbatim>\<open>src/frontend/src/utils/reportHelpers.js\<close>, and
  the detailed report of \<^verbatim>\<open>handlers.js\<close> that puts all tables together, with its CSV export. The query
  of a report is a record of its parameters; \<open>None\<close> is a parameter that is not there. Its month of the
  fiscal year is an integer, the other numbers are read from text.
\<close>

section \<open>The portfolio breakdown\<close>

definition type_label :: "license_type option \<Rightarrow> string" where
  "type_label t =
     (case t of
        None \<Rightarrow> ''unknown''
      | Some Freeware \<Rightarrow> ''Freeware / Open Source''
      | Some Maintenance \<Rightarrow> ''Maintenance''
      | Some Oem \<Rightarrow> ''OEM''
      | Some OtherType \<Rightarrow> ''Other''
      | Some Perpetual \<Rightarrow> ''Perpetual''
      | Some Saas \<Rightarrow> ''SaaS''
      | Some Service \<Rightarrow> ''Service''
      | Some Subscription \<Rightarrow> ''Subscription'')"

definition license_metrics :: "(string \<times> string) list" where
  "license_metrics = [
     (''per_user'', ''Per User''), (''per_device'', ''Per Device''), (''per_cpu'', ''Per CPU''),
     (''per_core'', ''Per Core''), (''site'', ''Site License''), (''concurrent'', ''Concurrent Users''),
     (''enterprise'', ''Enterprise-wide''), (''other'', ''Other / Unknown'')]"

definition metric_label :: "jstr \<Rightarrow> string" where
  "metric_label v =
     (let k = str (or_else v (Some ''unknown'')) in case map_of license_metrics k of Some t \<Rightarrow> t | None \<Rightarrow> k)"

definition count_labels :: "(license \<Rightarrow> string) \<Rightarrow> license list \<Rightarrow> (string \<times> int) list" where
  "count_labels label ls =
     js_sort (\<lambda>a b. snd b - snd a) (fold (\<lambda>l. alter (label l) (\<lambda>n. n + 1) 0) ls [])"

definition get_portfolio_breakdown :: "license list \<Rightarrow> (string \<times> int) list \<times> (string \<times> int) list" where
  "get_portfolio_breakdown ls =
     (count_labels (\<lambda>l. type_label (l_licenseType l)) ls, count_labels (\<lambda>l. metric_label (l_licenseMetric l)) ls)"

section \<open>The renewal calendar\<close>

text \<open>The remainder takes the sign of the dividend.\<close>

definition js_rem :: "int \<Rightarrow> int \<Rightarrow> int" where
  "js_rem a b = (if a < 0 then - ((- a) mod b) else a mod b)"

record quarter =
  q_label :: string
  q_from :: int
  q_to :: int
  q_count :: int
  q_estimatedValueByCurrency :: amounts
  q_estimatedValue :: jsnum

definition fiscal_offset :: "moment \<Rightarrow> int \<Rightarrow> int" where
  "fiscal_offset mom start_month =
     js_rem (fst (snd (civil_of_day (local_day mom))) - (start_month - 1) + 12) 12"

definition quarter_start :: "moment \<Rightarrow> int \<Rightarrow> int \<times> int" where
  "quarter_start mom start_month =
     (case civil_of_day (local_day mom) of (y, m, _) \<Rightarrow>
        let month = js_rem (start_month - 1 + fiscal_offset mom start_month div 3 * 3) 12
        in (if m < month then y - 1 else y, month))"

definition quarter_at :: "moment \<Rightarrow> int \<Rightarrow> int \<Rightarrow> quarter" where
  "quarter_at mom start_month i =
     (case quarter_start mom start_month of (y0, m0) \<Rightarrow>
        let raw = m0 + i * 3; m = js_rem raw 12; y = y0 + raw div 12;
            q = js_rem (fiscal_offset mom start_month div 3 + i) 4 + 1
        in \<lparr>q_label = ''Q'' @ show_int q @ '' '' @ show_int y, q_from = make_day y m 1,
            q_to = make_day y (m + 3) 0, q_count = 0, q_estimatedValueByCurrency = [],
            q_estimatedValue = Fin 0\<rparr>)"

definition quarter_skeleton :: "moment \<Rightarrow> int \<Rightarrow> quarter list" where
  "quarter_skeleton mom start_month = map (quarter_at mom start_month) [0, 1, 2, 3]"

definition calendar_eligible :: "license \<Rightarrow> bool" where
  "calendar_eligible l \<longleftrightarrow>
     truthy (l_endDate l) \<and> (l_expirationStatus l = StActive \<or> l_expirationStatus l = StExpiring)"

definition within_quarter :: "license \<Rightarrow> quarter \<Rightarrow> bool" where
  "within_quarter l q \<longleftrightarrow>
     (case parse_report_date (str (l_endDate l)) of None \<Rightarrow> False | Some z \<Rightarrow> q_from q \<le> z \<and> z \<le> q_to q)"

definition count_renewal :: "license \<Rightarrow> quarter \<Rightarrow> quarter" where
  "count_renewal l q =
     (let counted = q\<lparr>q_count := q_count q + 1\<rparr>; c = get_annualized_recurring_license_value l
      in if source c = Missing then counted
         else counted\<lparr>q_estimatedValueByCurrency :=
                        add_to (report_currency l) (amount c) (q_estimatedValueByCurrency q),
                      q_estimatedValue := js_add (q_estimatedValue q) (amount c)\<rparr>)"

text \<open>The first quarter that holds the end date counts the license.\<close>

primrec place_renewal :: "license \<Rightarrow> quarter list \<Rightarrow> quarter list" where
  "place_renewal l [] = []"
| "place_renewal l (q # qs) =
     (if within_quarter l q then count_renewal l q # qs else q # place_renewal l qs)"

definition get_renewal_calendar :: "moment \<Rightarrow> int \<Rightarrow> license list \<Rightarrow> quarter list" where
  "get_renewal_calendar mom start_month ls =
     fold place_renewal (filter calendar_eligible ls) (quarter_skeleton mom start_month)"

section \<open>The detailed report\<close>

record report_query =
  rq_date_range :: jstr
  rq_date_from :: jstr
  rq_date_to :: jstr
  rq_include_retired :: jstr
  rq_cost_centres :: "string list"
  rq_forecast_years :: jstr
  rq_annual_uplift_pct :: jstr
  rq_fiscal_year_start_month :: "int option"

record report_counts = lifecycle_counts +
  rc_records :: int
  rc_unpriced :: int
  rc_poOverridesNotInAnnual :: int

record detailed_report =
  dr_availableCostCentres :: "string list"
  dr_counts :: report_counts
  dr_costOverview :: cost_overview
  dr_budgetForecast :: budget_forecast
  dr_publisherData :: "publisher_entry list"
  dr_vendorData :: "vendor_entry list"
  dr_portfolioData :: "(string \<times> int) list \<times> (string \<times> int) list"
  dr_renewalData :: "quarter list"
  dr_perpetualMaintenanceData :: perpetual_report
  dr_purchaseOrderData :: po_report

text \<open>A range of another name is no range.\<close>

definition effective_range :: "report_query \<Rightarrow> date_range" where
  "effective_range q =
     (let name = str (or_else (rq_date_range q) (Some ''all''))
      in if name = ''custom'' then Between (rq_date_from q) (rq_date_to q)
         else if name = ''thisYear'' then ThisYear
         else if name = ''last12'' then Last12
         else AllDates)"

text \<open>
  \<open>row.licenseId\<close>: the records of \<open>getRecurringRecords\<close> have an \<open>id\<close> and no property of that name, so
  the value is \<open>undefined\<close>.
\<close>

definition record_license_id :: "recurring_record \<Rightarrow> int option" where
  "record_license_id r = None"

definition baseline_ids :: "budget_forecast \<Rightarrow> int option list" where
  "baseline_ids f = map record_license_id (bf_recurringRecords f)"

definition po_overrides_outside_forecast :: "budget_forecast \<Rightarrow> license list \<Rightarrow> int" where
  "po_overrides_outside_forecast f filtered =
     count_po_overrides_not_in_annual (filter (\<lambda>l. Some (l_id l) \<in> set (baseline_ids f)) filtered) filtered"

definition query_number :: "jstr \<Rightarrow> string \<Rightarrow> jsnum" where
  "query_number v fallback = js_Number (str (or_else v (Some fallback)))"

definition build_demo_detailed_report ::
  "(string \<Rightarrow> string \<Rightarrow> int) \<Rightarrow> (jsnum \<Rightarrow> jsnum \<Rightarrow> jsnum) \<Rightarrow> moment \<Rightarrow> report_query \<Rightarrow> store \<Rightarrow>
     js_error + detailed_report" where
  "build_demo_detailed_report collate js_pow mom q s =
     (let d = effective_range q;
          filtered = filter_licenses mom (rq_include_retired q = Some ''true'') d (rq_cost_centres q) (licenses s);
          overview = get_cost_overview mom d filtered;
          month = (case rq_fiscal_year_start_month q of Some n \<Rightarrow> n | None \<Rightarrow> 1)
      in case get_budget_forecast js_pow mom (query_number (rq_forecast_years q) ''5'')
                (query_number (rq_annual_uplift_pct q) ''0'') filtered of
           Inl e \<Rightarrow> Inl e
         | Inr forecast \<Rightarrow> Inr
             \<lparr>dr_availableCostCentres =
                js_sort code_unit_compare
                  (uniq (map (str \<circ> l_costCentre) (filter (\<lambda>l. truthy (l_costCentre l)) (licenses s)))),
              dr_counts = lifecycle_counts.extend (get_lifecycle_counts filtered)
                (report_counts.fields (int (length filtered)) (unpricedCount overview)
                  (po_overrides_outside_forecast forecast filtered)),
              dr_costOverview = overview, dr_budgetForecast = forecast,
              dr_publisherData = get_spend_by_publisher mom d filtered,
              dr_vendorData = get_vendor_table mom d filtered,
              dr_portfolioData = get_portfolio_breakdown filtered,
              dr_renewalData = get_renewal_calendar mom month filtered,
              dr_perpetualMaintenanceData = get_perpetual_maintenance_report filtered,
              dr_purchaseOrderData = get_purchase_order_report collate mom d filtered\<rparr>)"

section \<open>The CSV export\<close>

text \<open>\<open>/^[=+\-@\t\r]/\<close>, the first characters a spreadsheet would take for a formula.\<close>

definition formula_start :: "char \<Rightarrow> bool" where
  "formula_start c \<longleftrightarrow> c \<in> {CHR ''='', CHR ''+'', CHR ''-'', CHR ''@'', CHR 0x09, CHR 0x0D}"

fun double_quotes :: "string \<Rightarrow> string" where
  "double_quotes [] = []"
| "double_quotes (c # r) =
     (if c = CHR 0x22 then CHR 0x22 # CHR 0x22 # double_quotes r else c # double_quotes r)"

definition safe_text :: "string \<Rightarrow> string" where
  "safe_text t = (case trim t of c # _ \<Rightarrow> if formula_start c then CHR 0x27 # t else t | [] \<Rightarrow> t)"

definition demo_csv_cell :: "jstr \<Rightarrow> string" where
  "demo_csv_cell v = CHR 0x22 # double_quotes (safe_text (str v)) @ [CHR 0x22]"

definition csv_headers :: "string list" where
  "csv_headers = [''Report Type'', ''Row Type'', ''Record ID'', ''Publisher'', ''Supplier'', ''Currency'',
     ''Amount'', ''Difference'', ''Count'', ''Status'', ''Event Date'']"

definition value_source_text :: "value_source \<Rightarrow> string" where
  "value_source_text s =
     (case s of IncludedSupport \<Rightarrow> ''included_support'' | Excluded \<Rightarrow> ''excluded'' | FromLine \<Rightarrow> ''line''
      | Missing \<Rightarrow> ''missing'')"

definition po_status_text :: "po_row_status \<Rightarrow> string" where
  "po_status_text s =
     (case s of Unkeyed \<Rightarrow> ''unkeyed'' | Overridden \<Rightarrow> ''override'' | Reconciled \<Rightarrow> ''reconciled''
      | Differs \<Rightarrow> ''difference'')"

definition summary_rows :: "string \<Rightarrow> amounts \<Rightarrow> jstr list list" where
  "summary_rows name m =
     map (\<lambda>e. [Some ''summary'', Some name, Some [], Some [], Some [], Some (fst e), Some (js_String (snd e))]) m"

definition forecast_csv_row :: "recurring_record \<Rightarrow> jstr list" where
  "forecast_csv_row r =
     [Some ''budget_forecast'', Some ''recurring_record'', map_option show_int (record_license_id r),
      Some (rr_publisher r), Some (rr_supplier r), Some (rr_currency r), Some (js_String (rr_annualCost r)),
      Some [], Some ''1'', Some (value_source_text (rr_costSource r))]"

definition publisher_csv_rows :: "publisher_entry \<Rightarrow> jstr list list" where
  "publisher_csv_rows p =
     map (\<lambda>e. [Some ''publisher'', Some ''publisher_currency'', Some [], Some (pe_publisher p), Some [],
               Some (fst e), Some (js_String (snd e)), Some [], Some (show_int (se_licenseCount p))])
       (se_totalSpendByCurrency p)"

definition vendor_csv_rows :: "vendor_entry \<Rightarrow> jstr list list" where
  "vendor_csv_rows v =
     map (\<lambda>e. [Some ''vendor'', Some ''vendor_currency'', Some [], Some (ve_publisher v), Some (ve_supplier v),
               Some (fst e), Some (js_String (snd e)), Some [], Some (show_int (se_licenseCount v))])
       (se_totalSpendByCurrency v)"

definition po_csv_row :: "po_row \<Rightarrow> jstr list" where
  "po_csv_row r =
     [Some ''purchase_order'', Some ''procurement_identity'', Some [], Some (pr_publisher r), Some [],
      Some (pt_currency r), Some (js_String (pr_poValue r)), Some (js_String (pr_difference r)),
      Some (show_int (pt_lineCount r)), Some (po_status_text (pr_status r))]"

text \<open>
  The figures that are numbers have no entries to list, and neither have the quarters of the renewal
  calendar, which carry no \<open>events\<close>.
\<close>

definition csv_rows :: "detailed_report \<Rightarrow> jstr list list" where
  "csv_rows r =
     (let v = dr_costOverview r
      in summary_rows ''licenseSpendByCurrency'' (licenseSpendByCurrency v)
         @ summary_rows ''poSpendByCurrency'' (poSpendByCurrency v)
         @ summary_rows ''spendDifferenceByCurrency'' (spendDifferenceByCurrency v)
         @ summary_rows ''recurringAnnualCostByCurrency'' (recurringAnnualCostByCurrency v)
         @ map forecast_csv_row (bf_recurringRecords (dr_budgetForecast r))
         @ concat (map publisher_csv_rows (dr_publisherData r))
         @ concat (map vendor_csv_rows (dr_vendorData r))
         @ map po_csv_row (po_rows (dr_purchaseOrderData r)))"

definition crlf :: string where
  "crlf = [CHR 0x0D, CHR 0x0A]"

definition csv_text :: "detailed_report \<Rightarrow> string" where
  "csv_text r =
     join crlf (map (join '','') (csv_headers # map (map demo_csv_cell) (csv_rows r))) @ crlf"

definition build_demo_report_csv ::
  "(string \<Rightarrow> string \<Rightarrow> int) \<Rightarrow> (jsnum \<Rightarrow> jsnum \<Rightarrow> jsnum) \<Rightarrow> moment \<Rightarrow> report_query \<Rightarrow> store \<Rightarrow>
     js_error + string" where
  "build_demo_report_csv collate js_pow mom q s = map_sum id csv_text (build_demo_detailed_report collate js_pow mom q s)"

end
