(* ===== verification/ReportFacts.thy ===== *)
theory ReportFacts
  imports ReportRoutes
begin

text \<open>
  What the reports promise: the purchase-order tracker counts every line once, the renewal calendar
  covers the coming four quarters without a gap and counts every renewal in them once, a term is shared
  out over ranges without loss, and a spreadsheet reads the export back with no formula in it. The last
  section shows three places where the figures go wrong.
\<close>

section \<open>The purchase-order tracker\<close>

text \<open>What a step adds to the entries of a map whose keys satisfy \<open>P\<close>.\<close>

definition sum_over :: "('k \<Rightarrow> bool) \<Rightarrow> ('v \<Rightarrow> int) \<Rightarrow> ('k \<times> 'v) list \<Rightarrow> int" where
  "sum_over P h m = sum_list (map (h \<circ> snd) (filter (P \<circ> fst) m))"

lemma sum_over_alter:
  assumes "\<And>v. h (f v) = h v + 1" "h d = 0"
  shows "sum_over P h (alter k f d m) = sum_over P h m + (if P k then 1 else 0)"
  unfolding sum_over_def by (induction m) (auto simp: assms)

lemma alter_entries: "e \<in> set (alter k f d m) \<Longrightarrow> e \<in> set m \<or> e = (k, f d) \<or> (\<exists>v. (k, v) \<in> set m \<and> e = (k, f v))"
  by (induction m) (auto split: if_splits)

lemma track_license_fixed [simp]:
  "pt_poNumber (track_license c l g) = pt_poNumber g"
  "pt_lineCount (track_license c l g) = pt_lineCount g + 1"
  by (simp_all add: track_license_def Let_def)

lemma new_tracker_fixed [simp]:
  "pt_lineCount (new_tracker l) = 0"
  "pt_poNumber (new_tracker l) = None \<longleftrightarrow> report_po_number l = []"
  by (simp_all add: new_tracker_def)

lemma po_row_fixed [simp]:
  "pt_lineCount (po_row_of g) = pt_lineCount g" "pt_poNumber (po_row_of g) = pt_poNumber g"
  by (simp_all add: po_row_of_def Let_def po_tracker.defs po_row.defs)

definition with_spend :: "license list \<Rightarrow> license list" where
  "with_spend ls = filter (\<lambda>l. \<not> without_spend l) ls"

lemma track_counts:
  "sum_over P pt_lineCount (fold (track_step r) ls m) =
     sum_over P pt_lineCount m + int (length (filter (P \<circ> tracker_key) (with_spend ls)))"
proof (induction ls arbitrary: m)
  case (Cons l ls)
  have "sum_over P pt_lineCount (track_step r l m) = sum_over P pt_lineCount m
      + (if \<not> without_spend l \<and> P (tracker_key l) then 1 else 0)"
    by (simp add: track_step_def sum_over_alter)
  with Cons show ?case by (simp add: with_spend_def)
qed (simp add: with_spend_def)

text \<open>The key of the lines without a PO number, and the PO numbers that cannot be taken for it.\<close>

definition unkeyed_mark :: string where
  "unkeyed_mark = ''__unkeyed__''"

definition takes_mark :: "license \<Rightarrow> bool" where
  "takes_mark l \<longleftrightarrow> take 11 (report_po_number l) = unkeyed_mark"

lemma key_mark: "take 11 (tracker_key l) = unkeyed_mark \<longleftrightarrow> report_po_number l = [] \<or> takes_mark l"
proof (cases "report_po_number l = []")
  case True
  then show ?thesis by (simp add: tracker_key_def unkeyed_mark_def)
next
  case False
  let ?p = "report_po_number l"
  have key: "tracker_key l = ?p @ CHR '':'' # CHR '':'' # report_currency l"
    using False by (simp add: tracker_key_def)
  show ?thesis
  proof (cases "length ?p < 11")
    case True
    then have "CHR '':'' \<in> set (take 11 (tracker_key l))"
      unfolding key by (simp add: take_Cons')
    moreover have "CHR '':'' \<notin> set unkeyed_mark" by (simp add: unkeyed_mark_def)
    moreover have "take 11 ?p \<noteq> unkeyed_mark" using True by (auto simp: unkeyed_mark_def)
    ultimately show ?thesis using False by (auto simp: takes_mark_def)
  qed (use False in \<open>simp add: key takes_mark_def\<close>)
qed

definition marks_agree :: "(string \<times> po_tracker) list \<Rightarrow> bool" where
  "marks_agree m \<longleftrightarrow> (\<forall>(k, g) \<in> set m. pt_poNumber g = None \<longleftrightarrow> take 11 k = unkeyed_mark)"

lemma track_marks:
  "marks_agree m \<Longrightarrow> \<forall>l \<in> set (with_spend ls). \<not> takes_mark l \<Longrightarrow> marks_agree (fold (track_step r) ls m)"
proof (induction ls arbitrary: m)
  case (Cons l ls)
  have "marks_agree (track_step r l m)"
  proof (cases "without_spend l")
    case False
    with Cons.prems(2) have "\<not> takes_mark l" by (simp add: with_spend_def)
    with Cons.prems(1) False show ?thesis
      unfolding marks_agree_def track_step_def by (auto dest!: alter_entries simp: key_mark)
  qed (use Cons.prems in \<open>simp add: track_step_def\<close>)
  with Cons show ?case by (simp add: with_spend_def)
qed simp

lemma sum_over_marks:
  assumes "marks_agree m"
  shows "sum_over (\<lambda>k. take 11 k = unkeyed_mark) pt_lineCount m =
    sum_list (map pt_lineCount (filter (\<lambda>g. pt_poNumber g = None) (map snd m)))"
proof -
  have "filter ((\<lambda>k. take 11 k = unkeyed_mark) \<circ> fst) m = filter ((\<lambda>g. pt_poNumber g = None) \<circ> snd) m"
    using assms by (intro filter_cong) (auto simp: marks_agree_def)
  then show ?thesis by (simp add: sum_over_def filter_map o_def)
qed

lemma sum_list_js_sort: "sum_list (map f (js_sort c xs)) = sum_list (map f xs)" for f :: "'a \<Rightarrow> int"
  by (metis mset_js_sort mset_map sum_mset_sum_list)

lemma sum_filter_js_sort:
  "sum_list (map f (filter p (js_sort c xs))) = sum_list (map f (filter p xs))" for f :: "'a \<Rightarrow> int"
  by (metis mset_filter_js_sort mset_map sum_mset_sum_list)

text \<open>C12: The purchase-order tracker loses no line: the line counts of its rows add up to the number of
  licenses with spend, and its unkeyed count is the number of those without a PO number, as long as no
  PO number imitates the key of the unkeyed rows.\<close>
theorem po_report_counts_lines:
  assumes "\<forall>l \<in> set (with_spend ls). \<not> takes_mark l"
  shows "sum_list (map pt_lineCount (po_rows (get_purchase_order_report collate mom d ls)))
      = int (length (with_spend ls))
    \<and> po_unkeyedCount (get_purchase_order_report collate mom d ls)
      = int (length (filter (\<lambda>l. report_po_number l = []) (with_spend ls)))"
proof -
  let ?m = "fold (track_step (resolve_report_date_range mom d)) ls []"
  have all: "sum_list (map (pt_lineCount \<circ> snd) ?m) = int (length (with_spend ls))"
    using track_counts [of "\<lambda>_. True" _ ls "[]"] by (simp add: sum_over_def o_def)
  have marks: "marks_agree ?m" by (rule track_marks) (simp_all add: marks_agree_def assms)
  have "sum_list (map pt_lineCount (filter (\<lambda>g. pt_poNumber g = None) (map snd ?m)))
      = int (length (filter ((\<lambda>k. take 11 k = unkeyed_mark) \<circ> tracker_key) (with_spend ls)))"
    unfolding sum_over_marks [OF marks, symmetric] track_counts by (simp add: sum_over_def)
  also have "filter ((\<lambda>k. take 11 k = unkeyed_mark) \<circ> tracker_key) (with_spend ls)
      = filter (\<lambda>l. report_po_number l = []) (with_spend ls)"
    using assms by (intro filter_cong) (auto simp: key_mark)
  finally show ?thesis
    using all
    by (simp add: get_purchase_order_report_def Let_def sum_list_js_sort sum_filter_js_sort o_def filter_map)
qed

theorem po_report_counts_lines_witness:
  "let ls = [base_license\<lparr>l_id := 1, l_poNumber := Some ''PO-1''\<rparr>, base_license\<lparr>l_id := 2\<rparr>,
             base_license\<lparr>l_id := 3, l_licenseType := Some Freeware\<rparr>];
       rep = get_purchase_order_report code_unit_compare \<lparr>local_day = 20000, at_ms = 0\<rparr> AllDates ls
   in sum_list (map pt_lineCount (po_rows rep)) = 2 \<and> po_unkeyedCount rep = 1"
proof -
  let ?ls = "[base_license\<lparr>l_id := 1, l_poNumber := Some ''PO-1''\<rparr>, base_license\<lparr>l_id := 2\<rparr>,
    base_license\<lparr>l_id := 3, l_licenseType := Some Freeware\<rparr>]"
  have ok: "\<forall>l \<in> set (with_spend ?ls). \<not> takes_mark l" by code_simp
  have "length (with_spend ?ls) = 2"
    "length (filter (\<lambda>l. report_po_number l = []) (with_spend ?ls)) = 1" by code_simp+
  then show ?thesis
    unfolding Let_def
    using po_report_counts_lines [OF ok, of code_unit_compare "\<lparr>local_day = 20000, at_ms = 0\<rparr>" AllDates]
    by simp
qed

section \<open>The renewal calendar\<close>

lemma js_rem_mod [simp]: "0 \<le> a \<Longrightarrow> js_rem a b = a mod b"
  by (simp add: js_rem_def)

text \<open>The first day of a month counted from the year 0, and the order of these days.\<close>

definition month_first :: "int \<Rightarrow> int" where
  "month_first n = make_day 0 n 1"

lemma make_day_month: "make_day y m d = month_first (12 * y + m) + (d - 1)"
  by (simp add: month_first_def make_day_def Let_def add.commute)

lemma valid_first: "0 \<le> m \<Longrightarrow> m \<le> 11 \<Longrightarrow> valid_civil y m 1"
  using month_cases [of m] by (auto simp: valid_civil_def days_in_month_def month_start_def)

lemma month_first_valid: "month_first n = make_day (n div 12) (n mod 12) 1" "valid_civil (n div 12) (n mod 12) 1"
  by (simp_all add: make_day_month valid_first)

lemma month_first_less: "n < n' \<Longrightarrow> month_first n < month_first n'"
proof -
  assume less: "n < n'"
  have "n div 12 < n' div 12 \<or> (n div 12 = n' div 12 \<and> n mod 12 < n' mod 12)"
    using less by presburger
  then show ?thesis
    unfolding month_first_valid(1) by (intro make_day_less month_first_valid(2)) auto
qed

lemma month_first_le: "n \<le> n' \<Longrightarrow> month_first n \<le> month_first n'"
  using month_first_less [of n n'] by fastforce

text \<open>A day lies in its month.\<close>

lemma day_in_month:
  assumes "civil_of_day z = (y, m, d)"
  shows "month_first (12 * y + m) \<le> z \<and> z < month_first (12 * y + m + 1)"
proof -
  have v: "valid_civil y m d" and z: "make_day y m d = z" using civil_of_day_valid [OF assms] by simp_all
  then have "1 \<le> d" "0 \<le> m" "m \<le> 11" "d \<le> days_in_month y m" by (simp_all add: valid_civil_def)
  moreover have "z = month_first (12 * y + m) + (d - 1)" using z by (simp add: make_day_month)
  moreover have "make_day y m (days_in_month y m + 1) = make_day y (m + 1) 1"
  proof (cases "m = 11")
    case True
    then show ?thesis
      using year_length [of y] by (simp add: make_day_def Let_def days_in_month_def month_start_def)
  next
    case False
    with \<open>0 \<le> m\<close> \<open>m \<le> 11\<close> show ?thesis by (simp add: make_day_in_range days_in_month_def)
  qed
  ultimately show ?thesis by (simp add: make_day_month add.assoc)
qed

definition calendar_base :: "moment \<Rightarrow> int \<Rightarrow> int" where
  "calendar_base mom sm = (case quarter_start mom sm of (y, m) \<Rightarrow> 12 * y + m)"

lemma quarter_start_month:
  assumes "1 \<le> sm" "sm \<le> 12" "civil_of_day (local_day mom) = (y, m, d)" "quarter_start mom sm = (y0, m0)"
  shows "0 \<le> m0 \<and> m0 \<le> 11 \<and> 12 * y0 + m0 \<le> 12 * y + m \<and> 12 * y + m \<le> 12 * y0 + m0 + 2"
proof -
  have m: "0 \<le> m" "m \<le> 11" using valid_civil_ranges civil_of_day_valid [OF assms(3)] by auto
  define off where "off = (m - (sm - 1) + 12) mod 12"
  have fo: "fiscal_offset mom sm = off" using m assms(1-3) by (simp add: fiscal_offset_def off_def)
  have off: "0 \<le> off" "off < 12" by (simp_all add: off_def)
  define m' where "m' = (sm - 1 + off div 3 * 3) mod 12"
  have start: "quarter_start mom sm = (if m < m' then y - 1 else y, m')"
    using off assms(1) by (simp add: quarter_start_def assms(3) fo m'_def Let_def)
  have m': "0 \<le> m'" "m' \<le> 11" by (simp_all add: m'_def)
  have "(m - m') mod 12 = (m - (sm - 1 + off div 3 * 3)) mod 12" by (simp add: m'_def mod_diff_right_eq)
  also have "m - (sm - 1 + off div 3 * 3) = (m - (sm - 1)) - off div 3 * 3" by simp
  also have "((m - (sm - 1)) - off div 3 * 3) mod 12 = (off - off div 3 * 3) mod 12"
  proof -
    have "off mod 12 = (m - (sm - 1)) mod 12" unfolding off_def mod_mod_trivial by (rule mod_add_self2)
    then show ?thesis by (metis mod_diff_left_eq)
  qed
  also have "off - off div 3 * 3 = off mod 3" by (simp add: minus_div_mult_eq_mod)
  also have "off mod 3 mod 12 = off mod 3" by (simp add: mod_pos_pos_trivial pos_mod_bound [THEN less_trans])
  finally have gap: "(m - m') mod 12 = off mod 3" .
  have "0 \<le> off mod 3" "off mod 3 \<le> 2" by simp_all
  moreover have "(m - m') mod 12 = (if m < m' then m - m' + 12 else m - m')"
    using m m' by (auto simp: mod_pos_pos_trivial intro: int_mod_pos_eq [where q = "- 1"])
  ultimately show ?thesis
    using assms(4) start m m' gap by (auto split: if_splits)
qed

lemma quarter_days:
  assumes "1 \<le> sm" "sm \<le> 12" "0 \<le> i"
  shows "q_from (quarter_at mom sm i) = month_first (calendar_base mom sm + 3 * i)"
    and "q_to (quarter_at mom sm i) = month_first (calendar_base mom sm + 3 * i + 3) - 1"
    and "q_count (quarter_at mom sm i) = 0"
proof -
  obtain y m d where c: "civil_of_day (local_day mom) = (y, m, d)" by (metis prod_cases3)
  obtain y0 m0 where q: "quarter_start mom sm = (y0, m0)" by fastforce
  have raw: "0 \<le> m0 + i * 3" using quarter_start_month [OF assms(1,2) c q] assms(3) by simp
  have "12 * (y0 + (m0 + i * 3) div 12) + (m0 + i * 3) mod 12 = 12 * y0 + m0 + 3 * i"
    using mult_div_mod_eq [of 12 "m0 + i * 3"] by (simp only: distrib_left mult.commute [of i])
  then show "q_from (quarter_at mom sm i) = month_first (calendar_base mom sm + 3 * i)"
    "q_to (quarter_at mom sm i) = month_first (calendar_base mom sm + 3 * i + 3) - 1"
    "q_count (quarter_at mom sm i) = 0"
    using raw
    by (simp_all add: quarter_at_def calendar_base_def q Let_def make_day_month add.assoc [symmetric]
        del: distrib_left_numeral)
qed

text \<open>Counting a renewal leaves the days of a quarter alone.\<close>

lemma count_renewal_fixed [simp]:
  "q_from (count_renewal l q) = q_from q" "q_to (count_renewal l q) = q_to q"
  "q_count (count_renewal l q) = q_count q + 1"
  by (simp_all add: count_renewal_def Let_def)

definition spans :: "quarter list \<Rightarrow> (int \<times> int) list" where
  "spans qs = map (\<lambda>q. (q_from q, q_to q)) qs"

lemma place_renewal_spans: "spans (place_renewal l qs) = spans qs"
  by (induction qs) (simp_all add: spans_def)

lemma place_renewals_spans: "spans (fold place_renewal ls qs) = spans qs"
  by (induction ls arbitrary: qs) (simp_all add: place_renewal_spans)

definition renewal_day :: "license \<Rightarrow> local_date" where
  "renewal_day l = parse_report_date (str (l_endDate l))"

definition ends_in_spans :: "(int \<times> int) list \<Rightarrow> license \<Rightarrow> bool" where
  "ends_in_spans ss l \<longleftrightarrow>
     (case renewal_day l of None \<Rightarrow> False | Some z \<Rightarrow> \<exists>(a, b) \<in> set ss. a \<le> z \<and> z \<le> b)"

lemma place_renewal_count:
  "sum_list (map q_count (place_renewal l qs)) =
     sum_list (map q_count qs) + (if ends_in_spans (spans qs) l then 1 else 0)"
  by (induction qs)
    (auto simp: ends_in_spans_def spans_def within_quarter_def renewal_day_def split: option.splits)

lemma place_renewals_count:
  "sum_list (map q_count (fold place_renewal ls qs)) =
     sum_list (map q_count qs) + int (length (filter (ends_in_spans (spans qs)) ls))"
  by (induction ls arbitrary: qs) (simp_all add: place_renewal_count place_renewal_spans)

lemma skeleton_spans:
  fixes mom :: moment
  assumes "1 \<le> sm" "sm \<le> 12"
  defines "n \<equiv> calendar_base mom sm"
  shows "spans (quarter_skeleton mom sm) =
    [(month_first n, month_first (n + 3) - 1), (month_first (n + 3), month_first (n + 6) - 1),
     (month_first (n + 6), month_first (n + 9) - 1), (month_first (n + 9), month_first (n + 12) - 1)]"
  using quarter_days(1,2) [OF assms(1,2)] by (simp add: spans_def quarter_skeleton_def n_def add.commute)

lemma skeleton_count:
  assumes "1 \<le> sm" "sm \<le> 12"
  shows "sum_list (map q_count (quarter_skeleton mom sm)) = 0"
  using quarter_days(3) [OF assms] by (simp add: quarter_skeleton_def)

text \<open>The licenses that end within a year of a day.\<close>

definition ends_between :: "int \<Rightarrow> int \<Rightarrow> license \<Rightarrow> bool" where
  "ends_between a b l \<longleftrightarrow> (case renewal_day l of None \<Rightarrow> False | Some z \<Rightarrow> a \<le> z \<and> z \<le> b)"

lemma ends_in_year:
  assumes "1 \<le> sm" "sm \<le> 12"
  shows "ends_in_spans (spans (quarter_skeleton mom sm)) =
    ends_between (month_first (calendar_base mom sm)) (month_first (calendar_base mom sm + 12) - 1)"
proof -
  let ?n = "calendar_base mom sm"
  have "month_first ?n < month_first (?n + 3)" "month_first (?n + 3) < month_first (?n + 6)"
    "month_first (?n + 6) < month_first (?n + 9)" "month_first (?n + 9) < month_first (?n + 12)"
    by (rule month_first_less, simp)+
  then show ?thesis
    unfolding skeleton_spans [OF assms] by (intro ext) (auto simp: ends_in_spans_def ends_between_def split: option.splits)
qed



section \<open>Sharing a term out over ranges\<close>

text \<open>C38: The days of a term are shared out without loss: the overlaps with two ranges that follow each other
  add up to the overlap with both together, an overlap is between no day and the whole term, a range that
  covers the term gets all its days, and a dated license is in a report exactly if the overlap is not empty.\<close>
theorem term_days_shared_out:
  assumes "a \<le> b + 1" "b \<le> c" "fst t \<le> snd t"
  defines "overlap \<equiv> \<lambda>x y. overlap_day_count t \<lparr>from_day = Some x, to_day = Some y\<rparr>"
  shows "\<exists>m n. overlap a b = Some m \<and> overlap (b + 1) c = Some n \<and> overlap a c = Some (m + n)
    \<and> 0 \<le> m \<and> 0 \<le> n \<and> m + n \<le> inclusive_day_count t
    \<and> (a \<le> fst t \<and> snd t \<le> c \<longrightarrow> m + n = inclusive_day_count t)
    \<and> (\<forall>l. date_of (l_startDate l) = Some (fst t) \<and> date_of (l_endDate l) = Some (snd t) \<longrightarrow>
         license_overlaps_report_range l \<lparr>from_day = Some a, to_day = Some c\<rparr> = (0 < m + n))"
  using assms(1-3)
  by (simp add: overlap_def overlap_day_count_def inclusive_day_count_def license_overlaps_report_range_def
      max_def min_def)

theorem term_days_shared_out_witness:
  "\<exists>m n. overlap_day_count (20000, 20099) \<lparr>from_day = Some 19900, to_day = Some 20049\<rparr> = Some m
    \<and> overlap_day_count (20000, 20099) \<lparr>from_day = Some 20050, to_day = Some 20500\<rparr> = Some n
    \<and> m + n = 100"
proof -
  have "(19900::int) \<le> 20049 + 1" "(20049::int) \<le> 20500" "fst (20000::int, 20099::int) \<le> snd (20000::int, 20099::int)"
    by simp_all
  from term_days_shared_out [OF this] show ?thesis by (auto simp: inclusive_day_count_def)
qed

section \<open>The export\<close>

text \<open>
  A reader of the export, after RFC 4180: a cell in quotes, two quotes for one inside it; cells separated
  by commas, a record ended by a line end.
\<close>

fun read_quoted :: "string \<Rightarrow> (string \<times> string) option" where
  "read_quoted [] = None"
| "read_quoted (c # r) =
     (if c \<noteq> CHR 0x22 then map_option (\<lambda>(t, u). (c # t, u)) (read_quoted r)
      else case r of
          [] \<Rightarrow> Some ([], [])
        | d # r' \<Rightarrow> if d = CHR 0x22 then map_option (\<lambda>(t, u). (CHR 0x22 # t, u)) (read_quoted r')
                    else Some ([], r))"

definition read_cell :: "string \<Rightarrow> (string \<times> string) option" where
  "read_cell s = (case s of c # r \<Rightarrow> if c = CHR 0x22 then read_quoted r else None | [] \<Rightarrow> None)"

fun read_record :: "nat \<Rightarrow> string \<Rightarrow> (string list \<times> string) option" where
  "read_record 0 s = None"
| "read_record (Suc n) s =
     (case read_cell s of
        None \<Rightarrow> None
      | Some (t, u) \<Rightarrow>
          (case u of
             c # r \<Rightarrow> if c = CHR '','' then map_option (\<lambda>(ts, v). (t # ts, v)) (read_record n r) else Some ([t], u)
           | [] \<Rightarrow> Some ([t], [])))"

lemma read_double_quotes:
  "(u = [] \<or> hd u \<noteq> CHR 0x22) \<Longrightarrow> read_quoted (double_quotes t @ CHR 0x22 # u) = Some (t, u)"
proof (induction t)
  case Nil
  then show ?case by (cases u) simp_all
qed simp

lemma read_csv_cell: "(u = [] \<or> hd u \<noteq> CHR 0x22) \<Longrightarrow> read_cell (demo_csv_cell v @ u) = Some (safe_text (str v), u)"
  by (simp add: read_cell_def demo_csv_cell_def read_double_quotes)

lemma read_csv_record:
  assumes "vs \<noteq> []" "u = [] \<or> (hd u \<noteq> CHR 0x22 \<and> hd u \<noteq> CHR '','')"
  shows "read_record (length vs) (join '','' (map demo_csv_cell vs) @ u) = Some (map (safe_text \<circ> str) vs, u)"
  using assms(1)
proof (induction vs)
  case (Cons v vs)
  show ?case
  proof (cases vs)
    case Nil
    then show ?thesis using assms(2) read_csv_cell [of "[]" v] by (cases u) (auto simp: read_csv_cell)
  next
    case (Cons w ws)
    have "read_cell (demo_csv_cell v @ '','' @ x) = Some (safe_text (str v), '','' @ x)" for x
      by (rule read_csv_cell) simp
    with Cons Cons.IH show ?thesis by simp
  qed
qed simp

lemma trim_apostrophe: "trim (CHR 0x27 # t) = CHR 0x27 # rev (dropWhile is_ws (rev t))"
proof -
  have "\<not> is_ws (CHR 0x27)" by code_simp
  then show ?thesis by (simp add: trim_def dropWhile_append)
qed

definition reads_as_formula :: "string \<Rightarrow> bool" where
  "reads_as_formula t \<longleftrightarrow> (case trim t of c # _ \<Rightarrow> formula_start c | [] \<Rightarrow> False)"

lemma safe_text_no_formula: "\<not> reads_as_formula (safe_text t)"
proof (cases "reads_as_formula t")
  case True
  then have "safe_text t = CHR 0x27 # t"
    by (auto simp: safe_text_def reads_as_formula_def split: list.splits)
  then show ?thesis by (simp add: reads_as_formula_def trim_apostrophe formula_start_def)
next
  case False
  then have "safe_text t = t" by (auto simp: safe_text_def reads_as_formula_def split: list.splits)
  with False show ?thesis by simp
qed

lemma safe_text_same: "\<not> reads_as_formula t \<Longrightarrow> safe_text t = t"
  by (auto simp: safe_text_def reads_as_formula_def split: list.splits)


definition quoted_publisher :: string where
  "quoted_publisher = ''=1+1,'' @ [CHR 0x22, CHR 0x0A]"

definition publisher_report :: detailed_report where
  "publisher_report =
     \<lparr>dr_availableCostCentres = [],
      dr_counts = \<lparr>lc_active = 0, lc_upcoming = 0, lc_expiring = 0, lc_expired = 0, rc_records = 0,
        rc_unpriced = 0, rc_poOverridesNotInAnnual = 0\<rparr>,
      dr_costOverview = get_cost_overview \<lparr>local_day = 20474, at_ms = 0\<rparr> AllDates [],
      dr_budgetForecast = \<lparr>bf_forecastRows = [], bf_recurringRecords = [], bf_baselineByCurrency = [],
        bf_singleCurrency = None\<rparr>,
      dr_publisherData = [\<lparr>se_totalSpendByCurrency = [(''EUR'', Fin 0)], se_totalSpend = Fin 0,
        se_licenseCount = 1, pe_publisher = quoted_publisher\<rparr>],
      dr_vendorData = [], dr_portfolioData = ([], []), dr_renewalData = [],
      dr_perpetualMaintenanceData = get_perpetual_maintenance_report [],
      dr_purchaseOrderData = get_purchase_order_report code_unit_compare \<lparr>local_day = 20474, at_ms = 0\<rparr> AllDates []\<rparr>"

definition publisher_row :: "jstr list" where
  "publisher_row = [Some ''publisher'', Some ''publisher_currency'', Some [], Some quoted_publisher, Some [],
     Some ''EUR'', Some ''0'', Some [], Some ''1'']"

lemma publisher_row: "publisher_row \<in> set (csv_rows publisher_report)"
proof -
  have "show_int 1 = ''1''" by code_simp
  then show ?thesis
    by (simp add: csv_rows_def Let_def publisher_report_def publisher_csv_rows_def publisher_row_def)
qed

lemma quoted_publisher_formula: "reads_as_formula quoted_publisher" "\<not> reads_as_formula ''EUR''"
  by code_simp+


section \<open>Where the figures go wrong\<close>

definition covered_parent :: license where
  "covered_parent = base_license\<lparr>l_id := 1, l_licenseType := Some Perpetual,
     l_support := no_support\<lparr>maintenanceCoverage := Some Included, maintenanceCost := Some ''100''\<rparr>,
     l_linkedMaintenanceIds := [2]\<rparr>"

definition linked_record :: license where
  "linked_record = base_license\<lparr>l_id := 2, l_licenseType := Some Maintenance,
     l_support := no_support\<lparr>maintenanceCost := Some ''50''\<rparr>, l_maintenanceParentIds := [1]\<rparr>"

lemma example_prices:
  "parse_price (Some ''100'') = Some (Fin 100)" "parse_price (Some ''50'') = Some (Fin 50)"
  "parse_price (Some []) = None" "js_add (Fin 0) (Fin 50) = Fin 50"
  "round_money (js_add (Fin 0) (Fin 100)) = Fin 100" "round_money (js_add (Fin 0) (Fin 50)) = Fin 50"
  "round_money (Fin 50) = Fin 50"
  by code_simp+

text \<open>Included support drops out of the totals when the license also has a linked maintenance record.\<close>

lemma included_support_left_out:
  "map pm_maintenanceByCurrency (pm_rows (get_perpetual_maintenance_report [covered_parent, linked_record]))
      = [[(''EUR'', Fin 100)]]
    \<and> pm_allMaintenanceByCurrency (get_perpetual_maintenance_report [covered_parent, linked_record])
      = [(''EUR'', Fin 50)]"
  by (simp add: get_perpetual_maintenance_report_def Let_def covered_parent_def linked_record_def base_license_def
      no_support_def perpetual_row_of_def linked_entries_def unique_entries_def maintenance_by_parent_def
      maintenance_by_id_def maintenance_entry_of_def entry_parents_def map_filter_def row_maintenance_def
      report_currency_def get_license_line_value_def row_total_step_def entry_total_step_def
      add_maintenance_total_def add_report_amount_def add_currency_amount_def is_finite_def cost_of_def
      example_prices amount_at_def del: js_add.simps)

text \<open>On the last day of its term included support no longer counts as current.\<close>

lemma last_day_not_covered:
  assumes "parse_day e = Some z" "e \<noteq> []" "z * MS_PER_DAY < at_ms mom"
  shows "\<not> is_current_maintenance_coverage mom
    (l\<lparr>l_support := (l_support l)\<lparr>maintenanceEndDate := Some e\<rparr>\<rparr>)"
  using assms by (simp add: is_current_maintenance_coverage_def Let_def)

lemma last_day_not_covered_example:
  "\<not> is_current_maintenance_coverage \<lparr>local_day = 20474, at_ms = 20474 * MS_PER_DAY + 1\<rparr>
     (l\<lparr>l_support := (l_support l)\<lparr>maintenanceEndDate := Some ''2026-01-21''\<rparr>\<rparr>)"
proof -
  have "parse_day ''2026-01-21'' = Some 20474" by code_simp
  then show ?thesis by (rule last_day_not_covered) (simp_all add: MS_PER_DAY_def)
qed

text \<open>The report never finds an override outside its forecast, whatever it holds.\<close>

lemma no_baseline_ids: "Some i \<notin> set (baseline_ids f)"
  by (simp add: baseline_ids_def record_license_id_def image_iff)

lemma report_counts_no_overrides:
  assumes "build_demo_detailed_report collate js_pow mom q s = Inr r"
  shows "rc_poOverridesNotInAnnual (dr_counts r) = 0"
  using assms
  by (auto simp: build_demo_detailed_report_def Let_def po_overrides_outside_forecast_def no_baseline_ids
      count_po_overrides_not_in_annual_def map_filter_def lifecycle_counts.defs report_counts.defs
      split: sum.splits)

end
