(* ===== verification/Session.thy ===== *)
theory Session
  imports Reports LicenseRoutes
begin

text \<open>
  The life of a demo session (\<^verbatim>\<open>store.js\<close>, \<open>resetStore\<close> and \<open>seedStore\<close>; the session routes of
  \<^verbatim>\<open>handlers.js\<close>) and the routes beside the licenses: the departments of a viewer, the settings that are
  checked, the listings of names, contacts and licenses. The demo data that \<open>buildSeedData\<close> returns is an
  argument, and so is the runtime's parser of web addresses.
\<close>

section \<open>Starting and ending a session\<close>

record seed_data =
  sd_licenses :: "license list"
  sd_contracts :: "contract list"
  sd_contractDocuments :: "contract_document list"
  sd_sourcingItems :: "sourcing_item list"
  sd_sourcingRequests :: "sourcing_request list"
  sd_pendingOrders :: "pending_order list"

definition reset_store :: "store \<Rightarrow> store" where
  "reset_store s = s\<lparr>licenses := [], contracts := [], contractDocuments := [], sourcingItems := [],
     sourcingRequests := [], pendingOrders := [], poLineRegister := [], organizations := [],
     costCentres := [], userDepartments := [], globalSettings := default_settings, seeded := False,
     next_id := 1000\<rparr>"

definition organization_values :: "store \<Rightarrow> (jstr \<times> ref_role) list" where
  "organization_values s =
     concat (map (\<lambda>l. [(l_publisherName l, PublisherRole), (l_supplier l, SupplierRole)]) (licenses s))
     @ map (\<lambda>c. (c_publisherName c, PublisherRole)) (contracts s)
     @ map (\<lambda>r. (r_supplier r, SupplierRole)) (sourcingRequests s)
     @ concat (map (\<lambda>i. [(i_publisherName i, PublisherRole), (i_supplier i, SupplierRole)]) (sourcingItems s))
     @ map (\<lambda>x. (o_supplier x, SupplierRole)) (pendingOrders s)"

definition seed_reference :: "clock \<Rightarrow> int \<Rightarrow> string \<Rightarrow> reference" where
  "seed_reference clk n name = \<lparr>ref_id = n, ref_name = name, ref_normalizedName = to_lower (trim name),
     ref_isPublisher = False, ref_isSupplier = False, ref_isActive = True, ref_aliases = [],
     ref_createdAt = now clk, ref_updatedAt = now clk\<rparr>"

text \<open>The key of a name in the maps of \<open>seedStore\<close>, and one turn of their loops.\<close>

definition seed_key :: "string \<Rightarrow> string" where
  "seed_key name = to_lower (trim name)"

definition seed_step ::
  "clock \<Rightarrow> int \<Rightarrow> jstr \<times> (reference \<Rightarrow> reference) \<Rightarrow> (string \<times> reference) list \<Rightarrow> (string \<times> reference) list" where
  "seed_step clk base v m =
     (if \<not> truthy (fst v) then m
      else alter (seed_key (str (fst v))) (snd v) (seed_reference clk (base + int (length m)) (str (fst v))) m)"

definition seed_organizations :: "clock \<Rightarrow> store \<Rightarrow> reference list" where
  "seed_organizations clk s =
     map snd (fold (seed_step clk 500) (map (\<lambda>v. (fst v, grant_role (snd v))) (organization_values s)) [])"

definition seed_cost_centres :: "clock \<Rightarrow> store \<Rightarrow> reference list" where
  "seed_cost_centres clk s =
     map snd (fold (seed_step clk 700) (map (\<lambda>l. (l_costCentre l, id)) (licenses s)) [])"

definition load_seed :: "seed_data \<Rightarrow> store \<Rightarrow> store" where
  "load_seed d s = s\<lparr>licenses := sd_licenses d, contracts := sd_contracts d,
     contractDocuments := sd_contractDocuments d, sourcingItems := sd_sourcingItems d,
     sourcingRequests := sd_sourcingRequests d, pendingOrders := sd_pendingOrders d, poLineRegister := []\<rparr>"

definition seed_store :: "clock \<Rightarrow> seed_data \<Rightarrow> store \<Rightarrow> store" where
  "seed_store clk d s =
     (let s1 = sync_all_po_lines (load_seed d s);
          s2 = s1\<lparr>organizations := seed_organizations clk s1, costCentres := seed_cost_centres clk s1\<rparr>;
          s3 = s2\<lparr>userDepartments := [(2, map ref_name (take 1 (costCentres s2)))],
                  globalSettings := default_settings\<rparr>
      in (snd (run_daily_license_jobs clk s3))\<lparr>seeded := True\<rparr>)"

definition em_dash :: string where
  "em_dash = [char_of (226::nat), char_of (128::nat), char_of (148::nat)]"

text \<open>The routes answer with an error text instead of throwing when the credentials are not there.\<close>

definition login :: "clock \<Rightarrow> seed_data \<Rightarrow> jstr \<Rightarrow> jstr \<Rightarrow> store \<Rightarrow> jstr \<times> store" where
  "login clk d username password s =
     (if \<not> truthy username \<or> \<not> truthy password
      then (Some (''Enter any username and password '' @ em_dash @ '' try demo / demo.''), s)
      else (None, seed_store clk d s))"

definition logout :: "store \<Rightarrow> store" where
  "logout s = reset_store s"

definition session_active :: "store \<Rightarrow> bool" where
  "session_active s = seeded s"

section \<open>Departments\<close>

text \<open>The two users of the demo: the administrator is user 1, the viewer user 2.\<close>

definition demo_user_ids :: "int list" where
  "demo_user_ids = [1, 2]"

definition departments_of :: "store \<Rightarrow> int \<Rightarrow> string list" where
  "departments_of s user = (case map_of (userDepartments s) user of None \<Rightarrow> [] | Some ds \<Rightarrow> ds)"

definition get_departments :: "int \<Rightarrow> string list demo_op" where
  "get_departments user =
     bindE (throw_if (user \<notin> set demo_user_ids) ''User not found'') (\<lambda>_. gets (\<lambda>s. departments_of s user))"

definition resolve_department :: "string list \<Rightarrow> string \<Rightarrow> string demo_op" where
  "resolve_department current name =
     bindE (gets (\<lambda>s. find_demo_reference CostCentre s (Some name))) (\<lambda>found.
     bindE (the_or_throw found (''Unknown department: '' @ name)) (\<lambda>r.
     bindE (throw_if (\<not> ref_isActive r \<and> ref_normalizedName r \<notin> set current) (ref_name r @ '' is inactive'')) (\<lambda>_.
       ret (ref_name r))))"

definition put_departments :: "int \<Rightarrow> string list \<Rightarrow> string list demo_op" where
  "put_departments user requested =
     bindE (throw_if (user \<notin> set demo_user_ids) ''User not found'') (\<lambda>_.
     bindE (gets (\<lambda>s. map name_key (departments_of s user))) (\<lambda>current.
     bindE (forE (resolve_department current) requested) (\<lambda>names.
     (let departments = uniq names
      in bindE (modify (userDepartments_update (alter user (\<lambda>_. departments) departments))) (\<lambda>_.
           ret departments)))))"

section \<open>Listings\<close>

fun contains :: "string \<Rightarrow> string \<Rightarrow> bool" where
  "contains p [] = (p = [])"
| "contains p (c # s) = (take (length p) (c # s) = p \<or> contains p s)"

text \<open>\<open>query.get("active")\<close> is compared with the text of the flag.\<close>

definition reference_listed :: "ref_kind \<Rightarrow> jstr \<Rightarrow> jstr \<Rightarrow> jstr \<Rightarrow> reference \<Rightarrow> bool" where
  "reference_listed k search active role r \<longleftrightarrow>
     (let q = demo_reference_normalized search
      in (q = [] \<or> contains q (name_key (ref_name r)) \<or> list_ex (\<lambda>a. contains q (name_key (a_name a))) (ref_aliases r))
       \<and> (active = None \<or> active = Some (if ref_isActive r then ''true'' else ''false''))
       \<and> (k \<noteq> Organization \<or> \<not> truthy role
          \<or> (if role = Some ''publisher'' then ref_isPublisher r else ref_isSupplier r)))"

definition list_references ::
  "(string \<Rightarrow> string \<Rightarrow> int) \<Rightarrow> ref_kind \<Rightarrow> jstr \<Rightarrow> jstr \<Rightarrow> jstr \<Rightarrow> store \<Rightarrow> (reference \<times> reference_usage) list" where
  "list_references collate k search active role s =
     map (\<lambda>r. (r, demo_reference_usage k r s))
       (js_sort (\<lambda>a b. collate (ref_name a) (ref_name b))
         (filter (reference_listed k search active role) (reference_collection k s)))"

definition contact_values :: "store \<Rightarrow> string list" where
  "contact_values s =
     map (\<lambda>v. trim v)
       (concat (map (\<lambda>l. str (l_budgetOwnerEmail l) # l_secondaryContacts l) (licenses s))
        @ concat (map (\<lambda>i. str (i_budgetOwnerEmail i)
                       # (case i_secondaryContacts i of None \<Rightarrow> [] | Some vs \<Rightarrow> vs)) (sourcingItems s)))"

definition contact_step :: "string \<Rightarrow> string \<Rightarrow> (string \<times> string) list \<Rightarrow> (string \<times> string) list" where
  "contact_step search email m =
     (let key = to_lower email
      in if key \<noteq> [] \<and> contains search key then alter key id email m else m)"

definition search_contacts :: "(string \<Rightarrow> string \<Rightarrow> int) \<Rightarrow> jstr \<Rightarrow> store \<Rightarrow> string list" where
  "search_contacts collate search s =
     map snd (take 25 (js_sort (\<lambda>a b. collate (fst a) (fst b))
       (fold (contact_step (to_lower (trim (str search)))) (contact_values s) [])))"

text \<open>\<open>GET /api/licenses\<close>: the licenses with their completeness, of one maintenance parent if asked.\<close>

definition listed_licenses :: "bool \<Rightarrow> int option \<Rightarrow> store \<Rightarrow> (license \<times> int option) list" where
  "listed_licenses include_retired parent s =
     (let shown = (if include_retired then licenses s else filter (\<lambda>l. \<not> l_isRetired l) (licenses s));
          ls = (case parent of None \<Rightarrow> shown | Some p \<Rightarrow> filter (\<lambda>l. has_maintenance_parent l p) shown)
      in map (with_computed_completeness s) ls)"

section \<open>Settings\<close>

record web_address =
  protocol :: string
  host :: string
  search_part :: string
  hash_part :: string

definition drop_slashes :: "string \<Rightarrow> string" where
  "drop_slashes s = rev (dropWhile (\<lambda>c. c = CHR ''/'') (rev s))"

definition address_ok :: "web_address option \<Rightarrow> bool" where
  "address_ok a \<longleftrightarrow>
     (case a of
        None \<Rightarrow> False
      | Some u \<Rightarrow> protocol u \<in> {''http:'', ''https:''} \<and> host u \<noteq> [] \<and> search_part u = [] \<and> hash_part u = [])"

definition normalize_demo_public_base_url :: "(string \<Rightarrow> web_address option) \<Rightarrow> string \<Rightarrow> string demo_op" where
  "normalize_demo_public_base_url parse_url v =
     (let text = drop_slashes (trim v)
      in if text = [] then ret []
         else bindE (throw_if (\<not> address_ok (parse_url text))
                ''Public URL must be an http(s) address such as https://licenses.example.com.'') (\<lambda>_.
              bindE (throw_if (list_ex (\<lambda>c. c \<in> {CHR 0x0D, CHR 0x0A, CHR '' '', CHR ''<'', CHR ''>'', CHR 0x22}) text)
                ''Public URL contains invalid characters.'') (\<lambda>_. ret text)))"

definition currency_code :: "string \<Rightarrow> bool" where
  "currency_code c \<longleftrightarrow> length c = 3 \<and> list_all (\<lambda>x. 65 \<le> code x \<and> code x \<le> 90) c"

text \<open>A blank amount drops the currency, an amount must be a finite number that is not negative.\<close>

definition check_threshold :: "string \<times> jstr \<Rightarrow> (string \<times> string) option demo_op" where
  "check_threshold e =
     (let currency = to_upper (trim (fst e)); text = trim (str (snd e)); n = js_Number text
      in bindE (throw_if (\<not> currency_code currency) (''Unsupported currency code: '' @ quoted (fst e) @ ''.'')) (\<lambda>_.
         if text = [] then ret None
         else bindE (throw_if (\<not> is_finite n) (''Threshold for '' @ currency @ '' must be a number.'')) (\<lambda>_.
              bindE (throw_if (js_less n (Fin 0)) (''Threshold for '' @ currency @ '' must be zero or more.'')) (\<lambda>_.
                ret (Some (currency, text))))))"

definition normalize_demo_high_value_thresholds :: "(string \<times> jstr) list \<Rightarrow> (string \<times> string) list demo_op" where
  "normalize_demo_high_value_thresholds es =
     bindE (forE check_threshold es) (\<lambda>found.
       ret (fold (\<lambda>e. alter (fst e) (\<lambda>_. snd e) (snd e)) (List.map_filter id found) []))"

text \<open>
  \<open>PUT /api/settings/global\<close>, of which the model keeps the settings that rules read: the body's keys, the
  address to check, the thresholds to check (a body without them has no such key), the other values.
\<close>

definition put_global_settings ::
  "(string \<Rightarrow> web_address option) \<Rightarrow> string list \<Rightarrow> jstr \<Rightarrow> (string \<times> jstr) list option \<Rightarrow> global_settings \<Rightarrow>
     unit demo_op" where
  "put_global_settings parse_url keys address thresholds d =
     bindE (case address of None \<Rightarrow> ret [] | Some a \<Rightarrow> normalize_demo_public_base_url parse_url a) (\<lambda>_.
     bindE (case thresholds of
              None \<Rightarrow> ret None
            | Some es \<Rightarrow> bindE (normalize_demo_high_value_thresholds es) (\<lambda>n. ret (Some n))) (\<lambda>checked.
       modify (globalSettings_update (\<lambda>g.
         \<lparr>mandatory_fields = (if ''mandatory_fields'' \<in> set keys then mandatory_fields d else mandatory_fields g),
          notification_days = (if ''notification_days'' \<in> set keys then notification_days d else notification_days g),
          notice_notification_days =
            (if ''notice_notification_days'' \<in> set keys then notice_notification_days d
             else notice_notification_days g),
          renewal_action_days =
            (if ''renewal_action_days'' \<in> set keys then renewal_action_days d else renewal_action_days g),
          high_value_thresholds =
            (case checked of Some n \<Rightarrow> map (\<lambda>e. (fst e, Some (snd e))) n | None \<Rightarrow> high_value_thresholds g)\<rparr>))))"

end
