(* ===== verification/SessionFacts.thy ===== *)
theory SessionFacts
  imports Session DailyJobs OrderLife
begin

text \<open>
  What a new session starts with. The names of the demo data become reference names, each once; the
  daily jobs have run, so nothing is due.
\<close>

section \<open>The names of the data survive the numbering of the lines\<close>

definition license_names :: "license \<Rightarrow> jstr \<times> jstr \<times> jstr" where
  "license_names l = (l_publisherName l, l_supplier l, l_costCentre l)"

definition item_names :: "sourcing_item \<Rightarrow> jstr \<times> jstr" where
  "item_names i = (i_publisherName i, i_supplier i)"

definition same_names :: "store \<Rightarrow> store \<Rightarrow> bool" where
  "same_names s t \<longleftrightarrow> map license_names (licenses t) = map license_names (licenses s)
     \<and> map item_names (sourcingItems t) = map item_names (sourcingItems s)
     \<and> map o_supplier (pendingOrders t) = map o_supplier (pendingOrders s)
     \<and> contracts t = contracts s \<and> sourcingRequests t = sourcingRequests s"

lemma same_names_refl [simp]: "same_names s s"
  by (simp add: same_names_def)

lemma same_names_trans: "same_names s t \<Longrightarrow> same_names t u \<Longrightarrow> same_names s u"
  by (simp add: same_names_def)

lemma same_names_fold: "(\<And>x s. same_names s (f x s)) \<Longrightarrow> same_names s (fold f xs s)"
  by (induction xs arbitrary: s) (auto intro: same_names_trans)

lemma same_names_register: "same_names s t \<Longrightarrow> same_names s (t\<lparr>poLineRegister := reg\<rparr>)"
  by (simp add: same_names_def)

lemma same_names_item: "same_names s t \<Longrightarrow> same_names s (upd_item n (assign_item row) t)"
  by (simp add: same_names_def upd_item_def map_upd_same item_names_def assign_item_def)

lemma same_names_issue: "same_names s (issue_line po r n s)"
  by (simp add: issue_line_def split_beta same_names_item same_names_register)

lemma same_names_items: "same_names s (sync_order_items x s)"
proof -
  have moves: "same_names u (fold (move_line po b) ls u)" for u po b ls
    by (rule same_names_fold) (simp add: move_line_def same_names_issue)
  have numbers: "same_names u (fold (\<lambda>i. number_line po (i_id i)) ls u)" for u po ls
    by (rule same_names_fold) (simp add: number_line_def same_names_issue split: option.split)
  have drops: "same_names u (fold (\<lambda>i. upd_item (i_id i) (assign_item None)) ls u)" for u ls
    by (rule same_names_fold) (simp add: same_names_item)
  show ?thesis
    unfolding sync_order_items_def Let_def by (auto intro: drops same_names_trans [OF moves numbers])
qed

lemma same_names_order: "same_names s (sync_stored_order n s)"
proof (cases "get_order s n")
  case (Some x)
  let ?t = "sync_order_items x s"
  have names: "same_names s ?t" by (rule same_names_items)
  have "find_id o_id (o_id x) (pendingOrders ?t) = Some x"
    using Some by (auto simp: sync_order_items_same get_order_def dest: find_id_SomeD)
  then have "map o_supplier (put_id o_id (copy_line_numbers ?t x) (pendingOrders ?t)) = map o_supplier (pendingOrders ?t)"
    by (intro put_id_map) (simp_all add: copy_line_numbers_def)
  with names Some show ?thesis
    by (simp add: sync_stored_order_def sync_order_po_lines_def Let_def same_names_def put_order_def)
qed (simp add: sync_stored_order_def)

lemma same_names_license: "same_names s (sync_stored_license n s)"
proof (cases "get_license s n")
  case (Some l)
  obtain l' s' where sync: "sync_license_po_line l s = (l', s')" by fastforce
  have core: "core l' = core l" by (rule sync_license_core [OF sync])
  have s': "s' = s\<lparr>poLineRegister := poLineRegister s'\<rparr>" by (rule sync_license_store [OF sync])
  have names: "license_names l' = license_names l"
    by (rule core_field [OF core]) (simp add: license_names_def core_def)
  have "l_id l' = l_id l" by (rule core_field [OF core]) simp
  moreover have "l_id l = n" using Some by (auto simp: get_license_def dest: find_id_SomeD)
  ultimately have "find_id l_id (l_id l') (licenses s) = Some l" using Some by (simp add: get_license_def)
  then have "map license_names (put_id l_id l' (licenses s)) = map license_names (licenses s)"
    by (rule put_id_map) (rule names)
  moreover have "licenses s' = licenses s" "sourcingItems s' = sourcingItems s" "pendingOrders s' = pendingOrders s"
    "contracts s' = contracts s" "sourcingRequests s' = sourcingRequests s" by (subst s', simp)+
  ultimately show ?thesis
    using Some sync by (simp add: sync_stored_license_def same_names_def put_license_def)
qed (simp add: sync_stored_license_def)

lemma same_names_sync: "same_names s (sync_all_po_lines s)"
  unfolding sync_all_po_lines_def Let_def
  by (rule same_names_trans; rule same_names_fold) (simp_all add: same_names_order same_names_license)

lemma organization_values_cong:
  assumes "same_names s t"
  shows "organization_values t = organization_values s"
proof -
  have "organization_values u = concat (map (\<lambda>(p, q, c). [(p, PublisherRole), (q, SupplierRole)]) (map license_names (licenses u)))
      @ map (\<lambda>c. (c_publisherName c, PublisherRole)) (contracts u)
      @ map (\<lambda>r. (r_supplier r, SupplierRole)) (sourcingRequests u)
      @ concat (map (\<lambda>(p, q). [(p, PublisherRole), (q, SupplierRole)]) (map item_names (sourcingItems u)))
      @ map (\<lambda>v. (v, SupplierRole)) (map o_supplier (pendingOrders u))" for u
    by (simp add: organization_values_def license_names_def item_names_def comp_def)
  then show ?thesis using assms unfolding same_names_def by metis
qed

section \<open>Reference names of the data\<close>

definition has_role :: "ref_role \<Rightarrow> reference \<Rightarrow> bool" where
  "has_role role r = (case role of PublisherRole \<Rightarrow> ref_isPublisher r | SupplierRole \<Rightarrow> ref_isSupplier r)"

lemma grant_role_facts [simp]:
  "ref_id (grant_role role r) = ref_id r" "ref_normalizedName (grant_role role r) = ref_normalizedName r"
  "has_role role (grant_role role r)" "has_role q r \<Longrightarrow> has_role q (grant_role role r)"
  by (cases role; cases q; simp add: grant_role_def has_role_def)+

lemma alter_new: "k \<notin> fst ` set m \<Longrightarrow> alter k f d m = m @ [(k, f d)]"
  by (induction m) auto

lemma alter_old:
  assumes "k \<in> fst ` set m" "\<And>v. h (f v) = h v"
  shows "map fst (alter k f d m) = map fst m \<and> map (h \<circ> snd) (alter k f d m) = map (h \<circ> snd) m"
  using assms(1) by (induction m) (auto simp: assms(2))

lemma alter_value: "\<exists>v. (k, f v) \<in> set (alter k f d m)"
  by (induction m) auto

lemma alter_keeps: "(j, v) \<in> set m \<Longrightarrow> (j, v) \<in> set (alter k f d m) \<or> j = k \<and> (k, f v) \<in> set (alter k f d m)"
  by (induction m) auto

text \<open>The references made so far have ids in sequence, and each is found under its key once.\<close>

definition seed_map_ok :: "int \<Rightarrow> (string \<times> reference) list \<Rightarrow> bool" where
  "seed_map_ok base m \<longleftrightarrow> distinct (map fst m) \<and> map (ref_normalizedName \<circ> snd) m = map fst m
     \<and> map (ref_id \<circ> snd) m = map (\<lambda>i. base + int i) [0..<length m]"

lemma seed_step_ok:
  assumes "seed_map_ok base m" "\<And>r. ref_id (f r) = ref_id r" "\<And>r. ref_normalizedName (f r) = ref_normalizedName r"
  shows "seed_map_ok base (seed_step clk base (v, f) m)"
proof (cases "truthy v \<and> seed_key (str v) \<in> fst ` set m")
  case True
  let ?a = "alter (seed_key (str v)) f (seed_reference clk (base + int (length m)) (str v)) m"
  have "map fst ?a = map fst m" "map (ref_normalizedName \<circ> snd) ?a = map (ref_normalizedName \<circ> snd) m"
    "map (ref_id \<circ> snd) ?a = map (ref_id \<circ> snd) m"
    using True alter_old [of _ m ref_normalizedName f] alter_old [of _ m ref_id f] assms(2,3) by blast+
  moreover from this(1) have "length ?a = length m" by (metis length_map)
  ultimately show ?thesis using assms(1) True by (simp add: seed_map_ok_def seed_step_def)
next
  case False
  then show ?thesis
    using assms by (auto simp: seed_map_ok_def seed_step_def alter_new seed_reference_def seed_key_def)
qed

lemma seed_step_has:
  assumes "truthy v"
  shows "\<exists>r. (seed_key (str v), f r) \<in> set (seed_step clk base (v, f) m)"
  using assms by (simp add: seed_step_def alter_value)

lemma seed_step_keeps:
  assumes "(k, r) \<in> set m" "P r" "\<And>r. P r \<Longrightarrow> P (f r)"
  shows "\<exists>r. (k, r) \<in> set (seed_step clk base (v, f) m) \<and> P r"
  using assms alter_keeps [OF assms(1)] unfolding seed_step_def by (fastforce split: if_splits)

definition plain_update :: "(reference \<Rightarrow> reference) \<Rightarrow> bool" where
  "plain_update f \<longleftrightarrow> (\<forall>r. ref_id (f r) = ref_id r \<and> ref_normalizedName (f r) = ref_normalizedName r
     \<and> (\<forall>q. has_role q r \<longrightarrow> has_role q (f r)))"

lemma seed_fold_ok:
  "seed_map_ok base m \<Longrightarrow> \<forall>e \<in> set vs. plain_update (snd e) \<Longrightarrow> seed_map_ok base (fold (seed_step clk base) vs m)"
proof (induction vs arbitrary: m)
  case (Cons e vs)
  then have "seed_map_ok base (seed_step clk base (fst e, snd e) m)"
    by (intro seed_step_ok) (simp_all add: plain_update_def)
  with Cons show ?case by simp
qed simp

lemma seed_fold_keeps:
  "(k, r) \<in> set m \<Longrightarrow> P r \<Longrightarrow> \<forall>e \<in> set vs. \<forall>r. P r \<longrightarrow> P (snd e r) \<Longrightarrow>
     \<exists>r. (k, r) \<in> set (fold (seed_step clk base) vs m) \<and> P r"
proof (induction vs arbitrary: m r)
  case (Cons e vs)
  obtain q where "(k, q) \<in> set (seed_step clk base (fst e, snd e) m)" "P q"
    using seed_step_keeps [of k r m P "snd e" clk base "fst e"] Cons.prems by auto
  with Cons.IH [of q "seed_step clk base e m"] Cons.prems(3) show ?case by simp
qed auto

lemma seed_fold_has:
  assumes "(v, f) \<in> set vs" "truthy v" "\<And>r. P (f r)" "\<forall>e \<in> set vs. \<forall>r. P r \<longrightarrow> P (snd e r)"
  shows "\<exists>r. (seed_key (str v), r) \<in> set (fold (seed_step clk base) vs m) \<and> P r"
proof -
  obtain xs ys where vs: "vs = xs @ (v, f) # ys" using assms(1) by (meson split_list)
  obtain r where "(seed_key (str v), f r) \<in> set (seed_step clk base (v, f) (fold (seed_step clk base) xs m))"
    using seed_step_has [OF assms(2)] by blast
  from seed_fold_keeps [OF this, of P ys clk base] assms(3,4) show ?thesis by (simp add: vs)
qed

lemma seed_map_refs:
  assumes "seed_map_ok base m"
  shows "distinct (map ref_id (map snd m))" "distinct (map ref_normalizedName (map snd m))"
    and "(k, r) \<in> set m \<Longrightarrow> ref_normalizedName r = k"
proof -
  have "distinct (map (ref_id \<circ> snd) m)"
    using assms by (simp add: seed_map_ok_def distinct_map inj_on_def)
  then show "distinct (map ref_id (map snd m))" by simp
  have "map (ref_normalizedName \<circ> snd) m = map fst m" "distinct (map fst m)"
    using assms unfolding seed_map_ok_def by blast+
  then have "distinct (map (ref_normalizedName \<circ> snd) m)" by (simp only:)
  then show "distinct (map ref_normalizedName (map snd m))" by simp
  have "\<forall>e \<in> set m. ref_normalizedName (snd e) = fst e" using assms by (simp add: seed_map_ok_def)
  then show "(k, r) \<in> set m \<Longrightarrow> ref_normalizedName r = k" by fastforce
qed

lemma seed_organizations_ok:
  "distinct (map ref_id (seed_organizations clk s)) \<and> distinct (map ref_normalizedName (seed_organizations clk s))
    \<and> (\<forall>(v, role) \<in> set (organization_values s). truthy v \<longrightarrow>
        (\<exists>r \<in> set (seed_organizations clk s). ref_normalizedName r = seed_key (str v) \<and> has_role role r))"
proof -
  let ?vs = "map (\<lambda>v. (fst v, grant_role (snd v))) (organization_values s)"
  let ?m = "fold (seed_step clk 500) ?vs []"
  have ok: "seed_map_ok 500 ?m"
    by (rule seed_fold_ok) (auto simp: seed_map_ok_def plain_update_def)
  have "\<exists>r \<in> set (seed_organizations clk s). ref_normalizedName r = seed_key (str v) \<and> has_role role r"
    if "(v, role) \<in> set (organization_values s)" "truthy v" for v role
  proof -
    have "(v, grant_role role) \<in> set ?vs" using that(1) by force
    from seed_fold_has [OF this that(2), of "has_role role" clk 500 "[]"]
    obtain r where "(seed_key (str v), r) \<in> set ?m" "has_role role r" by auto
    then show ?thesis
      using seed_map_refs(3) [OF ok] by (force simp: seed_organizations_def)
  qed
  then show ?thesis
    using seed_map_refs(1,2) [OF ok] by (auto simp: seed_organizations_def)
qed

section \<open>A new session\<close>

lemma daily_jobs_organizations: "organizations (snd (run_daily_license_jobs clk s)) = organizations s"
proof -
  have decorate: "organizations (decorate_stored clk i u) = organizations u" for i u
    by (cases "get_license u i") (simp_all add: decorate_stored_none decorate_stored_unfold)
  have retire: "organizations (snd (retire_if_due clk i acc)) = organizations (snd acc)" for i acc
    by (simp add: retire_if_due_def retire_license_def decorate split: option.split)
  have activate: "organizations (activate_maintenance_for_parent clk m p u) = organizations u" for m p u
    by (simp add: activate_maintenance_for_parent_def link_maintenance_to_parent_def Let_def decorate split: option.split)
  have hand: "organizations (snd (hand_over clk e acc)) = organizations (snd acc)" for e acc
    by (simp add: hand_over_def activate)
  show ?thesis
    unfolding run_daily_license_jobs_def retire_due_licenses_def hand_over_due_maintenance_def
    by (simp add: split_beta fold_same [where V = "organizations \<circ> snd", simplified, OF retire]
        fold_same [where V = "organizations \<circ> snd", simplified, OF hand])
qed

lemma sync_all_ids:
  assumes "lines_ok s" "ids_ok s"
  shows "distinct (map l_id (licenses (sync_all_po_lines s)))"
proof -
  let ?u = "fold sync_stored_order (map o_id (pendingOrders s)) s"
  have "numbering {} s" using assms ids_ok_distinct by (simp add: numbering_def)
  from fold_sync_orders [OF this, of "map o_id (pendingOrders s)"]
  have u: "lines_ok ?u" "map l_id (licenses ?u) = map l_id (licenses s)" by (simp_all add: numbering_def)
  have d: "distinct (map l_id (licenses ?u))" using u(2) ids_ok_distinct(1) [OF assms(2)] by simp
  show ?thesis
    using fold_sync_licenses [OF u(1) d, of "{}" "map l_id (licenses ?u)"] d
    by (simp add: sync_all_po_lines_def Let_def)
qed


definition example_seed :: seed_data where
  "example_seed = \<lparr>sd_licenses = [base_license\<lparr>l_id := 1, l_publisherName := Some ''Acme '', l_supplier := Some ''ACME''\<rparr>],
     sd_contracts = [], sd_contractDocuments = [], sd_sourcingItems = [], sd_sourcingRequests = [], sd_pendingOrders = []\<rparr>"

lemma example_seed_ok: "lines_ok (load_seed example_seed fresh_store)" "ids_ok (load_seed example_seed fresh_store)"
  by (simp_all add: example_seed_def load_seed_def fresh_store_def base_license_def lines_ok_def pol.ok_def
      license_ref_ok_def ref_ok_def ids_ok_def ids_below_def)


end
