(* ===== verification/LicenseBatch.thy ===== *)
theory LicenseBatch
  imports LicenseRoutes
begin

text \<open>
  \<open>POST /api/licenses/batch\<close> of \<^verbatim>\<open>handlers.js\<close>: licenses are made one after the other, linked as they
  are made, and stored together at the end. Until then they are in no collection of the store: the
  links are written on the store with the pending licenses appended, and what the code looks up in
  \<open>store.licenses\<close> is looked up without them.
\<close>

record batch_license =
  bl_parentLineIndex :: "int option"
  bl_license :: license_payload

definition with_pending :: "license list \<Rightarrow> store \<Rightarrow> store" where
  "with_pending ps s = s\<lparr>licenses := licenses s @ ps\<rparr>"

text \<open>The licenses that are not stored yet, and the store without them.\<close>

definition split_pending :: "nat \<Rightarrow> store \<Rightarrow> license list \<times> store" where
  "split_pending n w = (drop n (licenses w), w\<lparr>licenses := take n (licenses w)\<rparr>)"

text \<open>
  \<open>decorateLicense\<close> on a license of such a store, of which the first \<open>n\<close> licenses are stored: what it
  looks up, it looks up among these.
\<close>

definition decorate_pending :: "clock \<Rightarrow> nat \<Rightarrow> int \<Rightarrow> store \<Rightarrow> store" where
  "decorate_pending clk n i w =
     (case get_license w i of
        None \<Rightarrow> w
      | Some l \<Rightarrow> (let (l', s') = decorate_license clk l (snd (split_pending n w))
                   in put_license l' (s'\<lparr>licenses := licenses w\<rparr>)))"

definition mirror_pending :: "int \<Rightarrow> int \<Rightarrow> store \<Rightarrow> store" where
  "mirror_pending m p w = (case get_license w m of None \<Rightarrow> w | Some r \<Rightarrow> upd_license p (mirror_support r) w)"

text \<open>
  \<open>linkOrActivateMaintenance\<close> on a record \<open>m\<close> and a parent \<open>p\<close> of which neither need be stored; \<open>s\<close> is the
  store without the pending licenses.
\<close>

definition link_or_activate_pending :: "clock \<Rightarrow> license \<Rightarrow> license \<Rightarrow> store \<Rightarrow> store \<Rightarrow> store" where
  "link_or_activate_pending clk m p s w =
     (let n = length (licenses s);
          w1 = link_maintenance_to_parent (l_id m) (l_id p) w;
          w2 = (if should_become_active_now clk s m p then mirror_pending (l_id m) (l_id p) w1 else w1)
      in decorate_pending clk n (l_id p) (decorate_pending clk n (l_id m) w2))"

definition link_pending_record :: "clock \<Rightarrow> license list \<Rightarrow> license \<Rightarrow> license list demo_op" where
  "link_pending_record clk ps p =
     bindE (throw_if (l_licenseType (last ps) \<noteq> Some Maintenance)
       ''Only maintenance licenses can be linked to maintenance parents'') (\<lambda>_.
     bindE (assert_parent_type p) (\<lambda>_ s.
       (let (ps', s') = split_pending (length (licenses s))
              (link_or_activate_pending clk (last ps) p s (with_pending ps s))
        in (Inr ps', s'))))"

text \<open>
  The pending licenses end with the one that is being made; its parents are looked up among those
  before it, then in the store.
\<close>

definition batch_parent :: "license list \<Rightarrow> store \<Rightarrow> int \<Rightarrow> license option" where
  "batch_parent ps s i =
     (case find_id l_id i (butlast ps) of Some p \<Rightarrow> Some p | None \<Rightarrow> get_license s i)"

definition link_batch_parent :: "clock \<Rightarrow> int \<Rightarrow> license list \<Rightarrow> license list demo_op" where
  "link_batch_parent clk i ps =
     bindE (gets (\<lambda>s. batch_parent ps s i)) (\<lambda>found.
       case found of None \<Rightarrow> ret ps | Some p \<Rightarrow> link_pending_record clk ps p)"

primrec link_batch_parents :: "clock \<Rightarrow> int list \<Rightarrow> license list \<Rightarrow> license list demo_op" where
  "link_batch_parents clk [] ps = ret ps"
| "link_batch_parents clk (i # is) ps = bindE (link_batch_parent clk i ps) (link_batch_parents clk is)"

text \<open>Unlike the creation of one license, the batch does not pass through \<open>normalizeRetirementUpdate\<close>.\<close>

definition batch_created :: "clock \<Rightarrow> int \<Rightarrow> int option \<Rightarrow> license_payload \<Rightarrow> license" where
  "batch_created clk n parent d =
     build_license clk ((lp_data d)\<lparr>
       l_parentLicenseId := nullish parent (l_parentLicenseId (lp_data d)),
       l_id := n, l_licenseRef := Some (license_ref n), l_createdAt := now clk, l_updatedAt := now clk\<rparr>)"

definition create_batch_item :: "clock \<Rightarrow> batch_license \<Rightarrow> license list \<Rightarrow> license list demo_op" where
  "create_batch_item clk b ps =
     bindE (throw_if (case bl_parentLineIndex b of None \<Rightarrow> False | Some i \<Rightarrow> i < 0 \<or> int (length ps) \<le> i)
       ''parentLineIndex must refer to an earlier item in the same batch.'') (\<lambda>_.
     bindE fresh_id (\<lambda>n.
     bindE (prepare_demo_license_create clk (bl_license b)) (\<lambda>d.
     (let parent = map_option (\<lambda>i. l_id (ps ! nat i)) (bl_parentLineIndex b);
          l = batch_created clk n parent d
      in if l_licenseType l = Some Maintenance
         then link_batch_parents clk (maintenance_parent_ids_of l) (ps @ [l])
         else ret (ps @ [l])))))"

primrec create_batch_items :: "clock \<Rightarrow> batch_license list \<Rightarrow> license list \<Rightarrow> license list demo_op" where
  "create_batch_items clk [] ps = ret ps"
| "create_batch_items clk (b # bs) ps = bindE (create_batch_item clk b ps) (create_batch_items clk bs)"

definition create_license_batch :: "clock \<Rightarrow> batch_license list \<Rightarrow> int list demo_op" where
  "create_license_batch clk bs =
     bindE (create_batch_items clk bs []) (\<lambda>ps.
     bindE (modify (with_pending ps)) (\<lambda>_.
     bindE (modify (fold sync_stored_license (map l_id ps))) (\<lambda>_. ret (map l_id ps))))"

end
