(* ===== verification/BatchFacts.thy ===== *)
theory BatchFacts
  imports LicenseBatch LicenseFacts DailyJobs
begin

text \<open>
  A batch of licenses is stored as a whole or not at all, and its parents are the licenses the payload
  points at; but the links a failing batch has written stay.
\<close>

section \<open>What linking keeps\<close>

text \<open>
  A license may be linked: it keeps its id and its first parent, and an active record of the batch is only
  replaced by another one. The ids of the batch are those from \<open>M\<close> on.
\<close>

definition kin :: "int \<Rightarrow> license \<Rightarrow> license \<Rightarrow> bool" where
  "kin M a b \<longleftrightarrow> l_id b = l_id a
     \<and> (\<forall>p. l_parentLicenseId a = Some p \<longrightarrow> l_parentLicenseId b = Some p)
     \<and> ((\<exists>n \<ge> M. l_activeMaintenanceId a = Some n) \<longrightarrow> (\<exists>n \<ge> M. l_activeMaintenanceId b = Some n))"

definition kindred :: "int \<Rightarrow> license list \<Rightarrow> license list \<Rightarrow> bool" where
  "kindred M = list_all2 (kin M)"

lemma kin_refl [simp]: "kin M a a"
  by (simp add: kin_def)

lemma kindred_refl [simp]: "kindred M xs xs"
  by (simp add: kindred_def list.rel_refl)

lemma kindred_trans [trans]: "kindred M xs ys \<Longrightarrow> kindred M ys zs \<Longrightarrow> kindred M xs zs"
  unfolding kindred_def by (rule list_all2_trans [where ?P1.0 = "kin M" and ?P2.0 = "kin M"]) (auto simp: kin_def)

lemma kindred_ids: "kindred M xs ys \<Longrightarrow> map l_id ys = map l_id xs"
  unfolding kindred_def by (induction rule: list_all2_induct) (simp_all add: kin_def)

lemma kindred_length: "kindred M xs ys \<Longrightarrow> length ys = length xs"
  unfolding kindred_def by (simp add: list_all2_lengthD)

lemma kindred_nth: "kindred M xs ys \<Longrightarrow> j < length xs \<Longrightarrow> kin M (xs ! j) (ys ! j)"
  unfolding kindred_def by (simp add: list_all2_nthD)

lemma kin_core: "core a = core b \<Longrightarrow> kin M a b"
  using core_field [of a b l_id] core_field [of a b l_parentLicenseId] core_field [of a b l_activeMaintenanceId]
  by (simp add: kin_def)

lemma kindred_cores: "map core xs = map core ys \<Longrightarrow> kindred M xs ys"
  unfolding kindred_def list_all2_conv_all_nth
  by (metis kin_core length_map nth_map)

lemma kindred_upd: "(\<And>l. kin M l (f l)) \<Longrightarrow> kindred M xs (upd_id l_id i f xs)"
  unfolding kindred_def by (induction xs) (simp_all add: list.rel_refl)

lemma kindred_split: "kindred M xs ys \<Longrightarrow> kindred M (take n xs) (take n ys)" "kindred M xs ys \<Longrightarrow> kindred M (drop n xs) (drop n ys)"
  unfolding kindred_def by simp_all

lemma kin_steps: "kin M l (link_child p l)" "kin M l (link_parent m l)" "M \<le> l_id r \<Longrightarrow> kin M l (mirror_support r l)"
  by (auto simp: kin_def link_child_def link_parent_def mirror_support_def split: option.splits)

lemma decorate_pending_cores: "map core (licenses (decorate_pending clk n i w)) = map core (licenses w)"
proof (cases "get_license w i")
  case (Some l)
  then have "l_id l = i" by (auto simp: get_license_def dest: find_id_SomeD)
  with Some show ?thesis
    by (simp add: decorate_pending_def split_beta put_license_def decorate_license_id get_license_def
        put_id_map [where x = l] decorate_core)
qed (simp add: decorate_pending_def)

lemma kindred_link:
  "kindred M (licenses w) (licenses (link_maintenance_to_parent m p w))"
  unfolding link_maintenance_to_parent_def
  by (simp add: upd_license_def) (meson kindred_trans kindred_upd kin_steps)

lemma kindred_mirror: "M \<le> m \<Longrightarrow> kindred M (licenses w) (licenses (mirror_pending m p w))"
  by (auto simp: mirror_pending_def upd_license_def get_license_def intro!: kindred_upd kin_steps dest: find_id_SomeD
      split: option.split)

lemma kindred_link_or_activate:
  assumes "M \<le> l_id m"
  shows "kindred M (licenses w) (licenses (link_or_activate_pending clk m p s w))"
proof -
  let ?w1 = "link_maintenance_to_parent (l_id m) (l_id p) w"
  let ?w2 = "if should_become_active_now clk s m p then mirror_pending (l_id m) (l_id p) ?w1 else ?w1"
  have "kindred M (licenses w) (licenses ?w1)" by (rule kindred_link)
  also have "kindred M \<dots> (licenses ?w2)" using kindred_mirror [OF assms] by simp
  also have "kindred M \<dots> (licenses (link_or_activate_pending clk m p s w))"
    by (rule kindred_cores) (simp add: link_or_activate_pending_def Let_def decorate_pending_cores)
  finally show ?thesis .
qed

lemma put_keeps_next_id: "next_id (decorate_pending clk n i w) = next_id w"
  by (simp add: decorate_pending_def split_beta put_license_def split_pending_def split: option.split)

lemma link_keeps_next_id: "next_id (link_or_activate_pending clk m p s w) = next_id w"
  by (simp add: link_or_activate_pending_def Let_def put_keeps_next_id mirror_pending_def
      link_maintenance_to_parent_def upd_license_def split: option.split)

section \<open>The states of a batch\<close>

definition during :: "int \<Rightarrow> store \<Rightarrow> license list \<Rightarrow> store \<Rightarrow> bool" where
  "during M s ps t \<longleftrightarrow> kindred M (licenses s) (licenses t) \<and> sorted_wrt (<) (map l_id ps)
     \<and> (\<forall>p \<in> set ps. M \<le> l_id p \<and> l_id p < next_id t) \<and> M \<le> next_id t"

interpretation batch_dir: outside_directory "during M s ps" for M s ps
  by unfold_locales (auto simp: during_def put_collection_def split: ref_kind.split)

lemma during_none: "during M s ps t \<Longrightarrow> during M s [] t"
  by (simp add: during_def)

lemma during_kindred: "kindred M ps qs \<Longrightarrow> during M s ps t \<Longrightarrow> during M s qs t"
proof -
  assume k: "kindred M ps qs"
  have "l_id ` set qs = l_id ` set ps"
    using kindred_ids [OF k] by (metis list.set_map)
  moreover have "(\<forall>p \<in> set qs. P (l_id p)) \<longleftrightarrow> (\<forall>i \<in> l_id ` set qs. P i)" for P and qs :: "license list"
    by simp
  ultimately show "during M s ps t \<Longrightarrow> during M s qs t"
    unfolding during_def kindred_ids [OF k] by (metis (no_types, lifting) image_iff)
qed

text \<open>The pending licenses after a step are those before it, linked.\<close>

definition linking :: "int \<Rightarrow> store \<Rightarrow> license list \<Rightarrow> license list \<Rightarrow> store \<Rightarrow> bool" where
  "linking M s ps qs t \<longleftrightarrow> kindred M ps qs \<and> during M s qs t"

lemma link_pending:
  assumes "ps \<noteq> []"
  shows "triple (during M s ps) (link_pending_record clk ps p) (linking M s ps) (during M s [])"
proof (rule tripleI)
  fix t x t'
  assume d: "during M s ps t" and "link_pending_record clk ps p t = (Inr x, t')"
  then have r: "split_pending (length (licenses t)) (link_or_activate_pending clk (last ps) p t (with_pending ps t)) = (x, t')"
    by (auto simp: link_pending_record_def assert_parent_type_def bindE_throw_if_apply split_beta split: if_splits)
  have "M \<le> l_id (last ps)" using d assms by (simp add: during_def)
  from kindred_link_or_activate [OF this, of "with_pending ps t" clk p t]
  have k: "kindred M (licenses t @ ps) (licenses (link_or_activate_pending clk (last ps) p t (with_pending ps t)))"
    by (simp add: with_pending_def)
  have "kindred M ps x" using kindred_split(2) [OF k, of "length (licenses t)"] r by (simp add: split_pending_def)
  moreover have "kindred M (licenses t) (licenses t')"
    using kindred_split(1) [OF k, of "length (licenses t)"] r by (auto simp: split_pending_def)
  moreover have "next_id t' = next_id t"
    using r link_keeps_next_id [of clk "last ps" p t "with_pending ps t"] by (auto simp: split_pending_def with_pending_def)
  ultimately have "kindred M ps x" "during M s ps t'"
    using d kindred_trans unfolding during_def by auto
  then show "linking M s ps x t'" unfolding linking_def using during_kindred by blast
next
  fix t e t'
  assume d: "during M s ps t" and "link_pending_record clk ps p t = (Inl e, t')"
  then have "t' = t"
    by (simp add: link_pending_record_def assert_parent_type_def bindE_throw_if_apply split_beta split: if_splits)
  with d during_none show "during M s [] t'" by blast
qed

lemma linking_trans: "kindred M ps qs \<Longrightarrow> linking M s qs rs t \<Longrightarrow> linking M s ps rs t"
  unfolding linking_def using kindred_trans by blast

lemma triple_linking:
  assumes "\<And>qs. kindred M ps qs \<Longrightarrow> triple (during M s qs) (k qs) (linking M s qs) E"
  shows "triple (linking M s ps qs) (k qs) (linking M s ps) E"
proof (rule tripleI)
  fix t x t' assume l: "linking M s ps qs t" and k: "k qs t = (Inr x, t')"
  then have q: "kindred M ps qs" "during M s qs t" by (simp_all add: linking_def)
  from triple_Inr [OF assms [OF q(1)] q(2) k] show "linking M s ps x t'" by (rule linking_trans [OF q(1)])
next
  fix t e t' assume l: "linking M s ps qs t" and k: "k qs t = (Inl e, t')"
  then have q: "kindred M ps qs" "during M s qs t" by (simp_all add: linking_def)
  show "E t'" by (rule triple_Inl [OF assms [OF q(1)] q(2) k])
qed

lemma linking_ret: "triple (during M s ps) (ret ps) (linking M s ps) E"
  by (simp add: triple_def linking_def)

lemma link_parent_of_batch:
  assumes "ps \<noteq> []"
  shows "triple (during M s ps) (link_batch_parent clk i ps) (linking M s ps) (during M s [])"
  unfolding link_batch_parent_def
proof (rule triple_bind [where R = "\<lambda>_. during M s ps"])
  show "triple (during M s ps) (case found of None \<Rightarrow> ret ps | Some p \<Rightarrow> link_pending_record clk ps p)
      (linking M s ps) (during M s [])" for found
    by (cases found) (simp_all add: linking_ret link_pending [OF assms])
qed (simp add: triple_def)

lemma link_parents_of_batch:
  "ps \<noteq> [] \<Longrightarrow> triple (during M s ps) (link_batch_parents clk is ps) (linking M s ps) (during M s [])"
proof (induction "is" arbitrary: ps)
  case (Cons i "is")
  have "triple (linking M s ps qs) (link_batch_parents clk is qs) (linking M s ps) (during M s [])" for qs
  proof (rule triple_linking)
    fix qs assume "kindred M ps qs"
    then have "qs \<noteq> []" using Cons.prems kindred_length by fastforce
    then show "triple (during M s qs) (link_batch_parents clk is qs) (linking M s qs) (during M s [])" by (rule Cons.IH)
  qed
  then show ?case
    unfolding link_batch_parents.simps by (rule triple_bind [OF link_parent_of_batch [OF Cons.prems]])
qed (simp add: linking_ret)

text \<open>The parents the payload points at.\<close>

definition placed_at :: "int option \<Rightarrow> nat \<Rightarrow> license list \<Rightarrow> bool" where
  "placed_at index j ls \<longleftrightarrow>
     (\<forall>i. index = Some i \<longrightarrow> 0 \<le> i \<and> nat i < j \<and> l_parentLicenseId (ls ! j) = Some (l_id (ls ! nat i)))"

definition placed :: "batch_license list \<Rightarrow> license list \<Rightarrow> bool" where
  "placed bs ls \<longleftrightarrow> length ls = length bs \<and> (\<forall>j < length bs. placed_at (bl_parentLineIndex (bs ! j)) j ls)"

lemma placed_kindred:
  assumes "placed bs ps" "kindred M ps qs"
  shows "placed bs qs"
proof -
  have len: "length ps = length bs" "length qs = length bs"
    using assms(1) kindred_length [OF assms(2)] by (simp_all add: placed_def)
  have k: "kin M (ps ! j) (qs ! j)" if "j < length bs" for j
    using kindred_nth [OF assms(2)] that len by simp
  have "placed_at (bl_parentLineIndex (bs ! j)) j qs" if j: "j < length bs" for j
    unfolding placed_at_def
  proof (intro allI impI)
    fix i assume i: "bl_parentLineIndex (bs ! j) = Some i"
    then have at: "0 \<le> i" "nat i < j" "l_parentLicenseId (ps ! j) = Some (l_id (ps ! nat i))"
      using assms(1) j by (auto simp: placed_def placed_at_def)
    have "l_id (qs ! nat i) = l_id (ps ! nat i)" using k [of "nat i"] at(2) j by (simp add: kin_def)
    then show "0 \<le> i \<and> nat i < j \<and> l_parentLicenseId (qs ! j) = Some (l_id (qs ! nat i))"
      using at k [OF j] by (simp add: kin_def)
  qed
  then show ?thesis by (simp add: placed_def len)
qed

lemma placed_snoc:
  assumes "placed bs ps" "placed_at (bl_parentLineIndex b) (length ps) (ps @ [l])"
  shows "placed (bs @ [b]) (ps @ [l])"
  unfolding placed_def
proof (intro conjI allI impI)
  fix j assume j: "j < length (bs @ [b])"
  show "placed_at (bl_parentLineIndex ((bs @ [b]) ! j)) j (ps @ [l])"
  proof (cases "j < length bs")
    case True
    then have "placed_at (bl_parentLineIndex (bs ! j)) j ps" "j < length ps" using assms(1) by (simp_all add: placed_def)
    then show ?thesis using True by (fastforce simp: placed_at_def nth_append)
  next
    case False
    then have "j = length bs" "j = length ps" using j assms(1) by (auto simp: placed_def)
    then show ?thesis using assms(2) by simp
  qed
qed (use assms in \<open>simp add: placed_def\<close>)

section \<open>The items of a batch\<close>

definition numbered :: "int \<Rightarrow> store \<Rightarrow> license list \<Rightarrow> int \<Rightarrow> store \<Rightarrow> bool" where
  "numbered M s ps n t \<longleftrightarrow> during M s ps t \<and> M \<le> n \<and> (\<forall>p \<in> set ps. l_id p < n) \<and> n < next_id t"

interpretation numbered_dir: outside_directory "numbered M s ps n" for M s ps n
proof
  show "numbered M s ps n t \<Longrightarrow> numbered M s ps n (put_collection k f t)" for t k f
    using batch_dir.put [of M s ps t k f] by (cases k) (simp_all add: numbered_def put_collection_def)
  show "numbered M s ps n t \<Longrightarrow> numbered M s ps n (t\<lparr>next_id := next_id t + 1\<rparr>)" for t
    using batch_dir.tick [of M s ps t] by (simp add: numbered_def)
qed

lemma prepare_keeps: "preserves (numbered M s ps n) (prepare_demo_license_create clk p)"
  unfolding prepare_demo_license_create_def validate_type_description_def Let_def
  by (intro wp_rules numbered_dir.dir_canonicalize)

lemma batch_created_fields:
  "l_id (batch_created clk n parent d) = n"
  "l_parentLicenseId (batch_created clk n parent d) = nullish parent (l_parentLicenseId (lp_data d))"
  "l_licenseType (batch_created clk n parent d) = l_licenseType (lp_data d)"
  "l_maintenanceParentIds (batch_created clk n parent d) = l_maintenanceParentIds (lp_data d)"
  by (simp_all add: batch_created_def build_license_def Let_def normalise_support_def)

lemma numbered_snoc: "numbered M s ps n t \<Longrightarrow> l_id l = n \<Longrightarrow> during M s (ps @ [l]) t"
  by (auto simp: numbered_def during_def sorted_wrt_append)

lemma item_of_batch:
  assumes "placed bs ps"
  shows "triple (during M s ps) (create_batch_item clk b ps) (\<lambda>qs t. during M s qs t \<and> placed (bs @ [b]) qs) (during M s [])"
proof -
  let ?ok = "case bl_parentLineIndex b of None \<Rightarrow> True | Some i \<Rightarrow> 0 \<le> i \<and> nat i < length ps"
  let ?parent = "map_option (\<lambda>i. l_id (ps ! nat i)) (bl_parentLineIndex b)"
  have made: "triple (numbered M s ps n)
      (if l_licenseType (batch_created clk n ?parent d) = Some Maintenance
       then link_batch_parents clk (maintenance_parent_ids_of (batch_created clk n ?parent d)) (ps @ [batch_created clk n ?parent d])
       else ret (ps @ [batch_created clk n ?parent d]))
      (\<lambda>qs t. during M s qs t \<and> placed (bs @ [b]) qs) (during M s [])" if ?ok for n d
  proof -
    let ?qs = "ps @ [batch_created clk n ?parent d]"
    have "placed_at (bl_parentLineIndex b) (length ps) ?qs"
      using that by (auto simp: placed_at_def batch_created_fields nth_append nullish_def split: option.splits)
    then have p: "placed (bs @ [b]) ?qs" by (rule placed_snoc [OF assms])
    have pre: "numbered M s ps n t \<Longrightarrow> during M s ?qs t" for t
      by (rule numbered_snoc) (simp_all add: batch_created_fields)
    have post: "linking M s ?qs qs t \<Longrightarrow> during M s qs t \<and> placed (bs @ [b]) qs" for qs t
      using placed_kindred [OF p] by (auto simp: linking_def)
    show ?thesis
      using triple_conseq [OF link_parents_of_batch pre post] triple_conseq [OF linking_ret pre post, where E = "during M s []"]
      by simp
  qed
  have index: "(case bl_parentLineIndex b of None \<Rightarrow> False | Some i \<Rightarrow> i < 0 \<or> int (length ps) \<le> i) \<longleftrightarrow> \<not> ?ok"
    by (auto split: option.split)
  have prepare: "triple (numbered M s ps n) (prepare_demo_license_create clk p) (\<lambda>_. numbered M s ps n) (during M s [])" for n p
    by (rule triple_conseq [OF prepare_keeps [unfolded preserves_def]]) (auto simp: numbered_def intro: during_none)
  have fresh: "triple (during M s ps) fresh_id (\<lambda>n. numbered M s ps n) (during M s [])"
    by (auto simp: triple_def fresh_id_def numbered_def during_def)
  show ?thesis
  proof (cases ?ok)
    case True
    show ?thesis
      unfolding create_batch_item_def index Let_def
      using True by (simp only: not_True_eq_False throw_if_simps bindE_ret)
        (intro triple_bind [OF fresh] triple_bind [OF prepare] made, assumption)
  next
    case False
    then show ?thesis
      unfolding create_batch_item_def index by (simp add: triple_def during_none)
  qed
qed

lemma items_of_batch:
  "placed ds ps \<Longrightarrow> triple (during M s ps) (create_batch_items clk bs ps)
     (\<lambda>qs t. during M s qs t \<and> placed (ds @ bs) qs) (during M s [])"
proof (induction bs arbitrary: ds ps)
  case (Cons b bs)
  have "triple (\<lambda>t. during M s qs t \<and> placed (ds @ [b]) qs) (create_batch_items clk bs qs)
      (\<lambda>qs t. during M s qs t \<and> placed (ds @ b # bs) qs) (during M s [])" for qs
  proof (cases "placed (ds @ [b]) qs")
    case True
    from Cons.IH [OF this] show ?thesis by (simp add: triple_def)
  qed (simp add: triple_def)
  then show ?case
    unfolding create_batch_items.simps by (rule triple_bind [OF item_of_batch [OF Cons.prems]])
qed (simp add: triple_def)

section \<open>The whole batch\<close>

lemma sync_stored_next [simp]: "next_id (sync_stored_license i s) = next_id s"
proof (cases "get_license s i")
  case (Some l)
  obtain l' s' where sync: "sync_license_po_line l s = (l', s')"
    by (cases "sync_license_po_line l s")
  have "next_id s' = next_id s"
    by (subst sync_license_store [OF sync]) simp
  with Some sync show ?thesis by (simp add: sync_stored_license_def put_license_def)
qed (simp add: sync_stored_license_def)

lemma sync_all_kindred: "kindred M (licenses s) (licenses (fold sync_stored_license is s))"
  by (induction "is" arbitrary: s) (simp, metis fold_simps(2) kindred_cores kindred_trans sync_stored_cores)

lemma sync_all_next: "next_id (fold sync_stored_license is s) = next_id s"
  by (induction "is" arbitrary: s) simp_all

text \<open>C15: \<open>POST /api/licenses/batch\<close> stores the whole batch or none of it. If it fails, the store has the
  licenses it had; if it succeeds, one license for each item is appended, with new ascending ids, and the
  license of an item that names an earlier line of the batch has the license of that line as its parent.\<close>
theorem batch_all_or_none:
  "case create_license_batch clk bs s of
     (Inl e, t) \<Rightarrow> map l_id (licenses t) = map l_id (licenses s)
   | (Inr ns, t) \<Rightarrow> map l_id (licenses t) = map l_id (licenses s) @ ns
       \<and> sorted_wrt (<) ns \<and> list_all (\<lambda>n. next_id s \<le> n \<and> n < next_id t) ns
       \<and> placed bs (drop (length (licenses s)) (licenses t))"
proof -
  let ?M = "next_id s"
  have start: "during ?M s [] s" by (simp add: during_def)
  note items = items_of_batch [of "[]" "[]" ?M s clk bs, simplified]
  show ?thesis
  proof (cases "create_batch_items clk bs [] s")
    case (Pair r t)
    show ?thesis
    proof (cases r)
      case (Inl e)
      have "during ?M s [] t"
        using triple_Inl [OF items start] Pair Inl by (simp add: placed_def)
      then show ?thesis
        using Pair Inl kindred_ids by (auto simp: create_license_batch_def bindE_def during_def)
    next
      case (Inr ps)
      let ?u = "fold sync_stored_license (map l_id ps) (with_pending ps t)"
      have d: "during ?M s ps t" "placed bs ps"
        using triple_Inr [OF items start] Pair Inr by (simp_all add: placed_def)
      have out: "create_license_batch clk bs s = (Inr (map l_id ps), ?u)"
        using Pair Inr by (simp add: create_license_batch_def bindE_def)
      have "kindred ?M (licenses s) (licenses t)" using d(1) by (simp add: during_def)
      note stored = kindred_ids [OF this] kindred_length [OF this]
      have k: "kindred ?M (licenses t @ ps) (licenses ?u)"
        using sync_all_kindred [of ?M "with_pending ps t"] by (simp add: with_pending_def)
      have "kindred ?M ps (drop (length (licenses s)) (licenses ?u))"
        using kindred_split(2) [OF k, of "length (licenses s)"] stored(2) by simp
      moreover have "next_id ?u = next_id t" by (simp add: sync_all_next with_pending_def)
      ultimately show ?thesis
        using out d stored kindred_ids [OF k] placed_kindred [OF d(2)]
        by (auto simp: during_def list_all_iff)
    qed
  qed
qed

section \<open>What a failing batch leaves behind\<close>

lemma active_decorate_pending: "active_of (decorate_pending clk n j w) i = active_of w i"
proof -
  have "map_option core (get_license (decorate_pending clk n j w) i) = map_option core (get_license w i)"
    by (simp add: get_license_def find_id_core decorate_pending_cores)
  moreover have "active_of u i = map_option l_activeMaintenanceId (map_option core (get_license u i))" for u
    by (simp add: active_of_def option.map_comp comp_def)
  ultimately show ?thesis by simp
qed

lemma active_mirror_pending:
  assumes "get_license w m \<noteq> None" "get_license w p \<noteq> None"
  shows "active_of (mirror_pending m p w) p = Some (Some m)"
  using assms by (auto simp: mirror_pending_def active_mirror get_license_def dest: find_id_SomeD)

lemma get_license_link: "get_license (link_maintenance_to_parent m p w) i = None \<longleftrightarrow> get_license w i = None"
  by (simp add: link_maintenance_to_parent_def get_license_upd)

lemma active_link_or_activate:
  assumes "get_license w (l_id m) \<noteq> None" "get_license w (l_id p) \<noteq> None" "should_become_active_now clk s m p"
  shows "active_of (link_or_activate_pending clk m p s w) (l_id p) = Some (Some (l_id m))"
  using assms
  by (simp add: link_or_activate_pending_def Let_def active_decorate_pending active_mirror_pending get_license_link)

lemma find_id_take: "find_id key i (take n xs) = Some x \<Longrightarrow> find_id key i xs = Some x"
  by (induction xs arbitrary: n) (auto simp: take_Cons split: nat.splits)

lemma find_id_ids: "find_id key i xs = None \<longleftrightarrow> i \<notin> set (map key xs)"
  by (induction xs) auto

lemma kindred_find: "kindred M xs ys \<Longrightarrow> find_id l_id i xs = Some x \<Longrightarrow> \<exists>y. find_id l_id i ys = Some y \<and> kin M x y"
  unfolding kindred_def by (induction rule: list_all2_induct) (auto simp: kin_def split: if_splits)

text \<open>The first item of a batch makes itself the active record of a stored parent.\<close>

lemma first_item_links:
  assumes "bl_parentLineIndex b = None"
    and "prepare_demo_license_create clk (bl_license b) (s\<lparr>next_id := next_id s + 1\<rparr>) = (Inr d, s')"
    and "l_licenseType (lp_data d) = Some Maintenance" "l_parentLicenseId (lp_data d) = Some p" "l_maintenanceParentIds (lp_data d) = []"
    and "get_license s' p = Some parent" "in_types (l_licenseType parent) maintenance_parent_types"
    and "l_activeMaintenanceId parent = None"
  shows "\<exists>qs t. create_batch_item clk b [] s = (Inr qs, t) \<and> qs \<noteq> [] \<and> active_of t p = Some (Some (next_id s))"
proof -
  let ?l = "batch_created clk (next_id s) None d"
  let ?w = "link_or_activate_pending clk ?l parent s' (with_pending [?l] s')"
  let ?n = "length (licenses s')"
  have id: "l_id parent = p" using assms(6) by (auto simp: get_license_def dest: find_id_SomeD)
  have found: "get_license (with_pending [?l] s') i \<noteq> None" if "i = p \<or> i = next_id s" for i
    using that assms(6) by (auto simp: get_license_def with_pending_def find_id_ids batch_created_fields dest: find_id_SomeD)
  have active: "active_of ?w p = Some (Some (next_id s))"
    using active_link_or_activate [of "with_pending [?l] s'" ?l parent clk s'] found assms(8)
    by (simp add: id batch_created_fields should_become_active_now_def)
  have "l_id ?l = next_id s" by (simp add: batch_created_fields)
  then have k: "kindred (next_id s) (licenses s' @ [?l]) (licenses ?w)"
    using kindred_link_or_activate [of "next_id s" ?l "with_pending [?l] s'" clk parent s'] by (simp add: with_pending_def)
  have "map l_id (take ?n (licenses ?w)) = map l_id (licenses s')"
    using kindred_ids [OF kindred_split(1) [OF k, of ?n]] by simp
  then have "find_id l_id p (take ?n (licenses ?w)) \<noteq> None"
    using assms(6) by (metis find_id_ids get_license_def option.distinct(1))
  then obtain y where y: "find_id l_id p (take ?n (licenses ?w)) = Some y" by blast
  then have stored: "active_of (snd (split_pending ?n ?w)) p = Some (Some (next_id s))"
    using active y find_id_take [OF y] by (simp add: active_of_def get_license_def split_pending_def)
  have "maintenance_parent_ids_of ?l = [p]"
    using assms(4,5) by (simp add: maintenance_parent_ids_of_def batch_created_fields map_filter_simps uniq_def)
  then have "create_batch_item clk b [] s = (Inr (fst (split_pending ?n ?w)), snd (split_pending ?n ?w))"
    using assms(1,3,6,7)
    by (simp add: create_batch_item_def fresh_id_def assms(2) batch_created_fields link_batch_parent_def
        batch_parent_def link_pending_record_def assert_parent_type_def split_beta Let_def bindE_def)
  moreover have "fst (split_pending ?n ?w) \<noteq> []"
    using kindred_length [OF k] by (simp add: split_pending_def)
  ultimately show ?thesis using stored by blast
qed

text \<open>C39: a batch is not undone when it fails. If its first item is a maintenance record for a stored license
  that has none, and a later item is refused, the license keeps an active maintenance record that
  no license of the store is.\<close>
theorem failing_batch_leaves_link:
  assumes "\<forall>l \<in> set (licenses s). l_id l < next_id s" "bl_parentLineIndex b = None"
    and "prepare_demo_license_create clk (bl_license b) (s\<lparr>next_id := next_id s + 1\<rparr>) = (Inr d, s')"
    and "l_licenseType (lp_data d) = Some Maintenance" "l_parentLicenseId (lp_data d) = Some p" "l_maintenanceParentIds (lp_data d) = []"
    and "get_license s' p = Some parent" "in_types (l_licenseType parent) maintenance_parent_types"
    and "l_activeMaintenanceId parent = None"
    and "create_license_batch clk (b # bs) s = (Inl e, t)"
  shows "\<exists>l n. get_license t p = Some l \<and> l_activeMaintenanceId l = Some n \<and> get_license t n = None"
proof -
  let ?M = "next_id s"
  obtain qs u where item: "create_batch_item clk b [] s = (Inr qs, u)" and active: "active_of u p = Some (Some ?M)"
    using first_item_links [OF assms(2-9)] by blast
  have "during ?M s [] s" by (simp add: during_def)
  from triple_Inr [OF item_of_batch this item, of "[]"]
  have first: "during ?M s qs u" "placed [b] qs" by (simp_all add: placed_def)
  then have "during ?M u qs u" by (simp add: during_def)
  moreover have "create_batch_items clk bs qs u = (Inl e, t)"
    using assms(10) item by (auto simp: create_license_batch_def bindE_def split: prod.splits sum.splits)
  ultimately have "during ?M u [] t"
    using triple_Inl [OF items_of_batch [OF first(2)]] by blast
  then have k: "kindred ?M (licenses u) (licenses t)" by (simp add: during_def)
  obtain l where l: "find_id l_id p (licenses u) = Some l" "l_activeMaintenanceId l = Some ?M"
    using active by (auto simp: active_of_def get_license_def)
  obtain l' where l': "find_id l_id p (licenses t) = Some l'" "kin ?M l l'"
    using kindred_find [OF k l(1)] by blast
  then obtain n where n: "?M \<le> n" "l_activeMaintenanceId l' = Some n"
    using l(2) by (auto simp: kin_def)
  have "map l_id (licenses t) = map l_id (licenses s)"
    using kindred_ids [OF k] kindred_ids [of ?M "licenses s" "licenses u"] first(1) by (simp add: during_def)
  then have "n \<notin> set (map l_id (licenses t))"
    using assms(1) n(1) by auto
  then show ?thesis
    using l'(1) n(2) by (auto simp: get_license_def find_id_ids)
qed

definition owned_store :: store where
  "owned_store = fresh_store\<lparr>licenses := [base_license\<lparr>l_id := 1, l_licenseType := Some Perpetual\<rparr>]\<rparr>"

definition support_batch :: "batch_license list" where
  "support_batch = [\<lparr>bl_parentLineIndex = None, bl_license = support_request\<rparr>,
     \<lparr>bl_parentLineIndex = Some 1, bl_license = support_request\<rparr>]"

text \<open>The second item names itself as the earlier line of its parent.\<close>

theorem failing_batch_leaves_link_witness:
  "\<exists>e t l n. create_license_batch example_clock support_batch owned_store = (Inl e, t)
    \<and> get_license t 1 = Some l \<and> l_activeMaintenanceId l = Some n \<and> get_license t n = None"
proof -
  let ?l = "base_license\<lparr>l_id := 1, l_licenseType := Some Perpetual\<rparr>"
  let ?b = "\<lparr>bl_parentLineIndex = None, bl_license = support_request\<rparr>"
  let ?bs = "[\<lparr>bl_parentLineIndex = Some 1, bl_license = support_request\<rparr>]"
  have below: "\<forall>l \<in> set (licenses owned_store). l_id l < next_id owned_store"
    by (simp add: owned_store_def fresh_store_def base_license_def)
  have prepared: "prepare_demo_license_create example_clock (bl_license ?b) (owned_store\<lparr>next_id := next_id owned_store + 1\<rparr>)
      = (Inr support_request, owned_store\<lparr>next_id := 1001\<rparr>)"
    by code_simp
  have d: "l_licenseType (lp_data support_request) = Some Maintenance" "l_parentLicenseId (lp_data support_request) = Some 1"
    "l_maintenanceParentIds (lp_data support_request) = []" "bl_parentLineIndex ?b = None"
    by (simp_all add: support_request_def base_license_def)
  have found: "get_license (owned_store\<lparr>next_id := 1001\<rparr>) 1 = Some ?l" "in_types (l_licenseType ?l) maintenance_parent_types"
    "l_activeMaintenanceId ?l = None"
    by code_simp+
  obtain qs u where item: "create_batch_item example_clock ?b [] owned_store = (Inr qs, u)"
    using first_item_links [OF d(4) prepared d(1-3) found] by blast
  have "length qs = 1"
    using triple_Inr [OF item_of_batch _ item, of "[]" "next_id owned_store" owned_store]
    by (simp add: placed_def during_def)
  then have "create_license_batch example_clock (?b # ?bs) owned_store
      = (Inl (Error ''parentLineIndex must refer to an earlier item in the same batch.''), u)"
    using item by (simp add: create_license_batch_def create_batch_item_def bindE_def)
  from failing_batch_leaves_link [OF below d(4) prepared d(1-3) found this] this show ?thesis
    by (simp add: support_batch_def)
qed

end
