(* ===== verification/Trail.thy ===== *)
theory Trail
  imports Sourcing
begin

text \<open>
  The procurement trail of a license (\<^verbatim>\<open>store.js\<close>, \<open>buildLicenseProcurementTrail\<close>): the request, the line
  and the order it came from. A license that names no line is matched with the lines of its order by
  publisher and description. The views leave the documents out, which the model does not have.
\<close>

section \<open>Views\<close>

record trail_request =
  tq_id :: int
  tq_status :: procurement_status
  tq_supplier :: jstr
  tq_contactEmail :: jstr
  tq_notes :: jstr
  tq_createdAt :: string
  tq_updatedAt :: string

record trail_item =
  ti_id :: int
  ti_status :: procurement_status
  ti_publisherName :: jstr
  ti_softwareDescription :: jstr
  ti_licenseType :: "license_type option"
  ti_maintenanceParentLicenseId :: "int option"
  ti_support :: support
  ti_parentSourcingItemId :: "int option"
  ti_quantity :: jstr
  ti_estimatedUnitPrice :: jstr
  ti_estimatedTotalPrice :: jstr
  ti_currency :: jstr
  ti_renewalForLicenseId :: "int option"
  ti_cotermPredecessorIds :: "int list option"

record trail_order =
  to_id :: int
  to_poNumber :: jstr
  to_status :: order_status
  to_supplier :: jstr
  to_notes :: jstr
  to_createdAt :: string
  to_updatedAt :: string

definition build_trail_sourcing_request :: "sourcing_request \<Rightarrow> trail_request" where
  "build_trail_sourcing_request r = \<lparr>tq_id = r_id r, tq_status = r_status r, tq_supplier = r_supplier r,
     tq_contactEmail = r_contactEmail r, tq_notes = r_notes r, tq_createdAt = r_createdAt r,
     tq_updatedAt = r_updatedAt r\<rparr>"

definition build_trail_sourcing_item :: "sourcing_item \<Rightarrow> trail_item" where
  "build_trail_sourcing_item i = \<lparr>ti_id = i_id i, ti_status = i_status i, ti_publisherName = i_publisherName i,
     ti_softwareDescription = i_softwareDescription i, ti_licenseType = i_licenseType i,
     ti_maintenanceParentLicenseId = i_maintenanceParentLicenseId i, ti_support = i_support i,
     ti_parentSourcingItemId = i_parentSourcingItemId i, ti_quantity = i_quantity i,
     ti_estimatedUnitPrice = i_estimatedUnitPrice i, ti_estimatedTotalPrice = i_estimatedTotalPrice i,
     ti_currency = i_currency i, ti_renewalForLicenseId = i_renewalForLicenseId i,
     ti_cotermPredecessorIds = i_cotermPredecessorIds i\<rparr>"

definition build_trail_pending_order :: "pending_order \<Rightarrow> trail_order" where
  "build_trail_pending_order x = \<lparr>to_id = o_id x, to_poNumber = o_poNumber x, to_status = o_status x,
     to_supplier = o_supplier x, to_notes = o_notes x, to_createdAt = o_createdAt x, to_updatedAt = o_updatedAt x\<rparr>"

section \<open>Finding the source\<close>

datatype match_type = MatchNone | MatchExact | Matched | Ambiguous | PoOnly

definition find_legacy_source_item :: "store \<Rightarrow> license \<Rightarrow> pending_order option \<Rightarrow> sourcing_item option \<times> match_type" where
  "find_legacy_source_item s l order =
     (case order of
        None \<Rightarrow> (None, MatchNone)
      | Some x \<Rightarrow>
          (case filter (\<lambda>i. normalized (i_publisherName i) = normalized (l_publisherName l)
                         \<and> normalized (i_softwareDescription i) = normalized (l_softwareDescription l))
                  (order_items s (o_id x)) of
             [i] \<Rightarrow> (Some i, Matched)
           | [] \<Rightarrow> (None, PoOnly)
           | _ \<Rightarrow> (None, Ambiguous)))"

text \<open>The request of the order, where all its lines that have one share it.\<close>

definition request_of_order :: "store \<Rightarrow> pending_order \<Rightarrow> sourcing_request option" where
  "request_of_order s x =
     (let ids = List.map_filter i_sourcingRequestId (order_items s (o_id x))
      in case uniq ids of [n] \<Rightarrow> get_request s n | _ \<Rightarrow> None)"

record procurement_trail =
  tr_licenseId :: int
  tr_licenseRef :: jstr
  tr_sourcingRequest :: "trail_request option"
  tr_sourcingItem :: "trail_item option"
  tr_pendingOrder :: "trail_order option"
  tr_pendingOrderId :: "int option"
  tr_sourceSourcingItemId :: "int option"
  tr_sourceMatchType :: match_type
  tr_requestDate :: jstr
  tr_purchaseDate :: jstr
  tr_renewedFromId :: "int option"
  tr_predecessorId :: "int option"
  tr_cotermFromIds :: "int list option"

definition build_license_procurement_trail :: "store \<Rightarrow> license \<Rightarrow> procurement_trail" where
  "build_license_procurement_trail s l =
     (let order = opt_get get_order s (l_pendingOrderId l);
          (item, matched) =
            (case opt_get get_item s (l_sourceSourcingItemId l) of
               Some i \<Rightarrow> (Some i, MatchExact)
             | None \<Rightarrow> find_legacy_source_item s l order);
          request = (case item of None \<Rightarrow> None | Some i \<Rightarrow> opt_get get_request s (i_sourcingRequestId i));
          request' = (if request = None
                      then (case order of None \<Rightarrow> None | Some x \<Rightarrow> request_of_order s x) else request)
      in \<lparr>tr_licenseId = l_id l, tr_licenseRef = l_licenseRef l,
          tr_sourcingRequest = map_option build_trail_sourcing_request request',
          tr_sourcingItem = map_option build_trail_sourcing_item item,
          tr_pendingOrder = map_option build_trail_pending_order order,
          tr_pendingOrderId = l_pendingOrderId l,
          tr_sourceSourcingItemId = nullish (map_option i_id item) (l_sourceSourcingItemId l),
          tr_sourceMatchType = matched, tr_requestDate = l_requestDate l, tr_purchaseDate = l_purchaseDate l,
          tr_renewedFromId = l_renewedFromId l, tr_predecessorId = l_predecessorId l,
          tr_cotermFromIds = l_cotermFromIds l\<rparr>)"

end
