(* ===== verification/Spec2Isabelle.thy ===== *)
theory Spec2Isabelle
  imports TermRelationship Workbench Conversion ProcurementIdentity LineAmount ReferenceData Contracts LicenseFacts OrderLife PlannedFacts DailyJobs OrderFacts ReportFacts SessionFacts BatchFacts Trail
begin

text \<open>
  LicenseTrack keeps software licenses from the first request to retirement. Lines are requested
  (sourcing), ordered (pending orders), converted into license records, renewed and retired. The
  browser application under \<^verbatim>\<open>src/frontend/src\<close> talks to a REST backend; the demo build replaces that
  backend by \<^verbatim>\<open>src/frontend/src/demo\<close>, a complete backend in JavaScript: \<^verbatim>\<open>store.js\<close> holds the data and
  the business rules, \<^verbatim>\<open>handlers.js\<close> the routes that call them, \<^verbatim>\<open>poLines.js\<close>, \<^verbatim>\<open>supportDefaults.js\<close>,
  \<^verbatim>\<open>time.js\<close> and \<^verbatim>\<open>fixtures.js\<close> the rules they share, and the modules of \<^verbatim>\<open>src/frontend/src/utils\<close> those
  they share with the pages. This development models that backend, the shared rule modules and the
  reports, and proves what they promise.

  \<^bold>\<open>How the parts interact.\<close> A route finds objects in the store, checks what the rules ask, calls an
  operation of the store and answers with a view. Every write to a license goes through
  \<open>decorateLicense\<close>, which derives status fields; every write to an order rebuilds the summaries of its
  lines and numbers them in the register of PO lines. Converting an order makes licenses, sets the
  links between terms and hands maintenance to its parents; the daily jobs retire what has ended and
  make the due maintenance active. The dashboard, the workbench and the reports only read.

  \<^bold>\<open>Theories and code.\<close>

  \<^item> \<^verbatim>\<open>Prelude\<close>: operations that may throw (state and error monad, a throw keeps the writes made before
    it), triples, arrays of objects with an id, the locales \<open>collection\<close> and \<open>normaliser\<close>.
  \<^item> \<^verbatim>\<open>JsString\<close>, \<^verbatim>\<open>JsNumber\<close>, \<^verbatim>\<open>JsArray\<close>: what the code uses of JavaScript strings, numbers (IEEE doubles
    with every rounding) and arrays (stable sort, sets), with the locales of comparators.
  \<^item> \<^verbatim>\<open>DemoTime\<close>: \<^verbatim>\<open>demo/time.js\<close>. \<^verbatim>\<open>LicenseTypes\<close>: \<^verbatim>\<open>utils/licenseTypeRules.js\<close>. \<^verbatim>\<open>Quantity\<close> and
    \<^verbatim>\<open>LineAmount\<close>: \<^verbatim>\<open>utils/quantity.js\<close>, \<^verbatim>\<open>utils/lineAmount.js\<close>. \<^verbatim>\<open>ProcurementIdentity\<close>:
    \<^verbatim>\<open>utils/procurementIdentity.js\<close>. \<^verbatim>\<open>TermRelationship\<close>: \<^verbatim>\<open>utils/termRelationship.js\<close>.
    \<^verbatim>\<open>SupportDefaults\<close>: \<^verbatim>\<open>demo/supportDefaults.js\<close>.
  \<^item> \<^verbatim>\<open>Store\<close>: one record per kind of object and one for the module-level \<open>store\<close> of \<^verbatim>\<open>store.js\<close>. The
    fields are the source's with a prefix (\<open>l_\<close> license, \<open>i_\<close> sourcing line, \<open>r_\<close> request, \<open>o_\<close> order,
    \<open>c_\<close> contract, \<open>d_\<close> document, \<open>ref_\<close> reference name). \<open>find(x => x.id === n)\<close> is \<open>find_id\<close>, a
    mutation through the object found is \<open>upd_id\<close> or \<open>put_id\<close>, \<open>push\<close> appends, \<open>_nextId\<close> is \<open>next_id\<close>.
  \<^item> \<^verbatim>\<open>PoLines\<close>: \<^verbatim>\<open>demo/poLines.js\<close>. \<^verbatim>\<open>LicenseRecords\<close>: the license rules of \<^verbatim>\<open>fixtures.js\<close> and
    \<^verbatim>\<open>store.js\<close>. \<^verbatim>\<open>Frames\<close>: what these rules leave alone.
  \<^item> \<^verbatim>\<open>Stats\<close>, \<^verbatim>\<open>Workbench\<close>: statistics, notifications and the renewal workbench of \<^verbatim>\<open>store.js\<close>.
  \<^item> \<^verbatim>\<open>Sourcing\<close>, \<^verbatim>\<open>Orders\<close>, \<^verbatim>\<open>Renewal\<close>, \<^verbatim>\<open>Planned\<close>, \<^verbatim>\<open>Maintenance\<close>, \<^verbatim>\<open>Conversion\<close>: the sections of
    \<^verbatim>\<open>store.js\<close> of these names, one definition per function, called as the functions call each other.
  \<^item> \<^verbatim>\<open>Trail\<close>: the procurement trail of \<^verbatim>\<open>store.js\<close>, the view of where a license came from.
  \<^item> \<^verbatim>\<open>ReferenceData\<close>, \<^verbatim>\<open>Contracts\<close>, \<^verbatim>\<open>LicenseRoutes\<close>, \<^verbatim>\<open>LicenseBatch\<close>, \<^verbatim>\<open>ProcurementRoutes\<close>: the routes of
    \<^verbatim>\<open>handlers.js\<close>, one operation per route; a datatype of requests and a function that serves them
    where a property is about any sequence of requests.
  \<^item> \<^verbatim>\<open>ReportValues\<close>, \<^verbatim>\<open>Reports\<close>, \<^verbatim>\<open>ReportTables\<close>, \<^verbatim>\<open>ReportRoutes\<close>: \<^verbatim>\<open>utils/reportHelpers.js\<close> and the
    report routes of \<^verbatim>\<open>handlers.js\<close>.
  \<^item> \<^verbatim>\<open>Session\<close>: \<open>resetStore\<close> and \<open>seedStore\<close> of \<^verbatim>\<open>store.js\<close>; the routes of sessions, departments, settings
    and listings.
  \<^item> \<^verbatim>\<open>OrderLife\<close>, \<^verbatim>\<open>OrderFacts\<close>, \<^verbatim>\<open>PlannedFacts\<close>, \<^verbatim>\<open>DailyJobs\<close>, \<^verbatim>\<open>LicenseFacts\<close>, \<^verbatim>\<open>BatchFacts\<close>,
    \<^verbatim>\<open>SessionFacts\<close>, \<^verbatim>\<open>ReportFacts\<close>: the properties that need a library of lemmas of their own. They model no code.

  \<^bold>\<open>What is proved.\<close>

  \<^item> Invariants under any sequence of requests: documents stay attached to contracts and folders,
    reference names and aliases stay unique, license types without an end never get one, PO line
    numbers are issued once. A session starts with nothing due and every name once. Replacing planned
    predecessors keeps the links free of loops on success and on failure. The walks that look for loops
    end and decide reachability.
  \<^item> Refinement: an order is born pending, changes while it is open and then stays closed or goes; every
    route of sourcing, renewal and orders is a path of this machine (\<open>order_life\<close>).
  \<^item> Liveness: after the daily jobs nothing is due, and a second run changes nothing.
  \<^item> Functional behaviour: renaming and merging redirect lookups and copies, overrides reach their
    group, disabling undoes linking, retirement is exact, statistics partition the licenses,
    notifications and workbench rows are exact and sorted, the reports count every line once.
  \<^item> Round trips and bounds: dates, terms, quantities, amounts and CSV cells read back; the ranges in
    which the double arithmetic is exact are stated.
  \<^item> Safety and errors: a batch of licenses is stored whole or not at all; the error properties show
    where a refused request leaves something behind because the code writes before it checks.

  The contracts between the components are locales: \<open>collection\<close> (an array of objects and its update),
  \<open>normaliser\<close> (canonical forms), \<open>js_comparator\<close>, \<open>js_order\<close>, \<open>text_order\<close> (what a sort needs of its
  comparator), \<open>line_register\<close> (what the numbering of lines needs of an allocator),
  \<open>outside_directory\<close> and \<open>order_blind\<close> (predicates that the directory of names, and the orders, do not
  touch). Each is interpreted on the model's own definitions.

  \<^bold>\<open>Bounds and fuel.\<close> No definition that models code runs on fuel: loops are structural, or recurse on a measure: the ids
  not seen yet (\<open>walk_repeats\<close>, \<open>leads_to_from\<close>, \<open>chain_depth\<close>), the lines not linked yet
  (\<open>link_rounds\<close>), the digits left. Integers of the code are ids, counts and days, far below
  \<open>2 ^ 53\<close>, and are \<open>int\<close>; money and quantities are doubles (\<open>jsnum\<close>) wherever the code computes with
  them.

  \<^bold>\<open>Modelling decisions.\<close> The clock is an argument: the local calendar day and the text of
  \<open>new Date().toISOString()\<close>, in the reports also the milliseconds. A date is its calendar day, and a
  text that is not a valid \<open>YYYY-MM-DD\<close> is an invalid date. Text is ASCII where the code normalises or
  compares it, so \<open>NFKC\<close> changes nothing. The order of \<open>localeCompare\<close> and \<open>Math.pow\<close>, which the
  language leaves to the runtime, are arguments, and so are the seed data and the parser of web
  addresses. A request body is the list of the keys it has and a record
  that holds their values and the defaults elsewhere. \<open>null\<close> and \<open>undefined\<close> are one value, the code
  tells them apart nowhere that is modelled. Objects are addressed by id where the code holds
  references; the invariant \<open>ids_ok\<close> makes the two agree. Fields that nothing computes with (custom
  fields, creator, document bytes) are left out.

  \<^bold>\<open>Not modelled.\<close> The pages, components and hooks of React, the router and the clients of the REST
  interface: they are rendering and network calls. Texts, styles, generated code and seed data. The
  Python backend, another program that the demo mirrors; where the two differ and the difference is a
  defect of the demo, the manifest lists it. Of \<^verbatim>\<open>handlers.js\<close> the routes that answer with a constant or
  echo the display settings of the user, and the download of documents, which builds a browser
  response. Documents of sourcing requests and orders, for which the demo only has stubs. Display helpers
  that call \<open>Intl\<close>, and the form models of single dialogs.
\<close>

end
